(* ===== verification/Prelude.thy ===== *)
theory Prelude
  imports Main "HOL-Library.Word" "HOL-Library.Signed_Division"
begin

text \<open>
  Shared vocabulary of the development: the C integer types as words, byte arrays as functions
  from an index, the mask predicate the register invariants are stated with, and the generic word
  lemmas the components use.

  Conventions. \<open>uint8_t\<close>, \<open>uint16_t\<close>, \<open>uint32_t\<close> and \<open>uint64_t\<close> are the types \<open>u8\<close>, \<open>u16\<close>,
  \<open>u32\<close>, \<open>u64\<close>; their arithmetic wraps as C's does. \<open>(int32_t)x\<close> is \<^term>\<open>sint x\<close>. A C
  array is a function from its index; what the code keeps inside the array's bounds is stated by
  the components' bounds theorems, not by the type.
\<close>

unbundle bit_operations_syntax

type_synonym u8 = "8 word"
type_synonym u16 = "16 word"
type_synonym u32 = "32 word"
type_synonym u64 = "64 word"

type_synonym bytes = "u32 \<Rightarrow> u8"

named_theorems mask_intros "introduction rules for register fields that stay inside a mask"
named_theorems frame_simps "fields an operation leaves alone"
named_theorems inv_intros "preservation lemmas of the machine invariant"

section \<open>Bounds of unsigned values\<close>

lemma unat_u8_less: "unat (w::u8) < 256"
  using unsigned_less [of w] by simp

lemma unat_u16_less: "unat (w::u16) < 65536"
  using unsigned_less [of w] by simp

lemma unat_u32_less: "unat (w::u32) < 4294967296"
  using unsigned_less [of w] by simp

lemma unat_u64_less: "unat (w::u64) < 18446744073709551616"
  using unsigned_less [of w] by simp

lemma unat_eq_imp_of_nat: "unat w = n \<Longrightarrow> w = of_nat n" for w :: "'a::len word"
  by (auto simp: ucast_id)

lemma unat_of_nat_u32: "n < 2 ^ 32 \<Longrightarrow> unat (of_nat n :: u32) = n"
  by (simp add: unat_of_nat)

lemma uint_u32_less: "uint (w::u32) < 4294967296"
  using unsigned_less [of w] by simp

lemma sint_u32: "sint (w::u32) = (if uint w < 2 ^ 31 then uint w else uint w - 2 ^ 32)"
proof -
  have "sint w = (uint w + 2 ^ 31) mod 2 ^ 32 - 2 ^ 31"
    by (simp add: sint_uint signed_take_bit_eq_take_bit_shift take_bit_eq_mod)
  moreover have "0 \<le> uint w" "uint w < 2 ^ 32" using uint_u32_less [of w] by simp_all
  moreover have "(uint w + 2 ^ 31) mod 2 ^ 32 = (uint w - 2 ^ 31) mod 2 ^ 32"
    by (simp add: mod_eq_dvd_iff)
  ultimately show ?thesis by (cases "uint w < 2 ^ 31") (simp_all add: mod_pos_pos_trivial)
qed

lemma uint_of_int_u32: "0 \<le> n \<Longrightarrow> n < 2 ^ 32 \<Longrightarrow> uint (of_int n :: u32) = n"
  by (simp add: unsigned_of_int take_bit_int_eq_self)

lemma uint_of_int_u64: "0 \<le> n \<Longrightarrow> n < 2 ^ 64 \<Longrightarrow> uint (of_int n :: u64) = n"
  by (simp add: unsigned_of_int take_bit_int_eq_self)

lemma uint_ucast_u64: "uint (ucast w :: u64) = uint w" for w :: u32
  using uint_u32_less [of w] by (simp add: unsigned_ucast_eq take_bit_int_eq_self)

section \<open>Masks\<close>

text \<open>A register value has only bits of the mask.\<close>

definition within :: "'a::len word \<Rightarrow> 'a word \<Rightarrow> bool" where
  "within v m \<longleftrightarrow> v AND NOT m = 0"

lemma within_bits: "within v m \<longleftrightarrow> (\<forall>n. bit v n \<longrightarrow> bit m n)"
proof
  assume v: "within v m"
  show "\<forall>n. bit v n \<longrightarrow> bit m n"
  proof (intro allI impI)
    fix n assume b: "bit v n"
    have "\<not> bit (v AND NOT m) n" using v by (simp add: within_def)
    with b show "bit m n" by (auto simp: bit_simps dest: bit_imp_le_length)
  qed
next
  assume "\<forall>n. bit v n \<longrightarrow> bit m n"
  then show "within v m"
    unfolding within_def by (intro bit_eqI) (auto simp: bit_simps)
qed

lemma within_zero [simp, mask_intros]: "within 0 m"
  by (simp add: within_def)

lemma within_refl [simp]: "within m m"
  by (simp add: within_bits)

lemma within_and_right [mask_intros]: "within (v AND m) m"
  by (simp add: within_bits bit_simps)

lemma within_and [mask_intros]: "within v m \<Longrightarrow> within (v AND w) m"
  by (auto simp: within_bits bit_simps)

lemma within_and2: "within w m \<Longrightarrow> within (v AND w) m"
  by (auto simp: within_bits bit_simps)

lemma within_or [mask_intros]: "within v m \<Longrightarrow> within w m \<Longrightarrow> within (v OR w) m"
  by (auto simp: within_bits bit_simps)

lemma within_if [mask_intros]:
  "(b \<Longrightarrow> within v m) \<Longrightarrow> (\<not> b \<Longrightarrow> within w m) \<Longrightarrow> within (if b then v else w) m"
  by simp

lemma within_trans: "within v m \<Longrightarrow> within m k \<Longrightarrow> within v k"
  by (simp add: within_bits)

lemma within_bitD: "within v m \<Longrightarrow> bit v n \<Longrightarrow> bit m n"
  by (simp add: within_bits)

lemma unat_and_not_3: "unat (w AND NOT 3) = 4 * (unat w div 4)" for w :: u32
proof -
  have "w AND NOT (mask 2) = push_bit 2 (drop_bit 2 w)"
    by (rule bit_eqI) (auto simp: bit_simps not_less simp flip: add_2_eq_Suc)
  moreover have "(3::u32) = mask 2" by (simp add: mask_eq_exp_minus_1)
  ultimately show ?thesis
    using unat_u32_less [of w]
    by (simp add: push_bit_eq_mult unat_drop_bit_eq drop_bit_eq_div unat_word_ariths)
qed

lemma bit_disjoint: "v AND w = 0 \<longleftrightarrow> (\<forall>n. bit v n \<longrightarrow> \<not> bit w n)" for v w :: u32
proof
  assume a: "v AND w = 0"
  have "\<not> bit (v AND w) n" for n by (simp add: a)
  then show "\<forall>n. bit v n \<longrightarrow> \<not> bit w n" by (auto simp: bit_simps)
next
  assume "\<forall>n. bit v n \<longrightarrow> \<not> bit w n"
  then show "v AND w = 0" by (intro bit_eqI) (auto simp: bit_simps)
qed

lemma and_7_le: "ucast (v AND 7 :: u32) \<le> (7::u8)"
proof -
  have "ucast (v AND 7) = (ucast v AND 7 :: u8)" by (simp add: unsigned_and_eq)
  then show ?thesis by (simp add: word_and_le1)
qed

lemma bit_test: "(drop_bit n w AND 1 \<noteq> 0) = bit w n" for w :: u32
  by (simp add: bit_iff_odd_drop_bit and_one_eq odd_iff_mod_2_eq_one)

section \<open>Bytes in little-endian order\<close>

text \<open>
  \<open>bytes_read\<close> and \<open>bytes_write\<close> of \<open>tools/rv32emu_core.c\<close>: the pointer \<open>p\<close> is the
  array and the offset of its first byte. The read loop runs from the highest byte down and
  shifts, the write loop from the lowest byte up.
\<close>

definition bytes_read :: "bytes \<Rightarrow> u32 \<Rightarrow> nat \<Rightarrow> u32" where
  "bytes_read p at width =
     fold (\<lambda>i value. push_bit 8 value OR ucast (p (at + of_nat i))) (rev [0..<width]) 0"

definition bytes_write :: "bytes \<Rightarrow> u32 \<Rightarrow> nat \<Rightarrow> u32 \<Rightarrow> bytes" where
  "bytes_write p at width value =
     fold (\<lambda>i p. p(at + of_nat i := ucast (drop_bit (8 * i) value))) [0..<width] p"

lemma bytes_read_Suc:
  "bytes_read p at (Suc n) = push_bit 8 (bytes_read p (at + 1) n) OR ucast (p at)"
  by (simp add: bytes_read_def upt_conv_Cons rev_map fold_map o_def algebra_simps
      flip: map_Suc_upt del: upt_Suc)

lemma bytes_read_0 [simp]: "bytes_read p at 0 = 0"
  by (simp add: bytes_read_def)

lemma bytes_write_outside:
  "(\<And>i. i < width \<Longrightarrow> a \<noteq> at + of_nat i) \<Longrightarrow> bytes_write p at width value a = p a"
  unfolding bytes_write_def by (induction width) auto

lemma bytes_write_inside:
  assumes "i < width" "width \<le> 4"
  shows "bytes_write p at width value (at + of_nat i) = ucast (drop_bit (8 * i) value)"
  using assms
proof (induction width)
  case 0
  then show ?case by simp
next
  case (Suc w)
  have ne: "i \<noteq> w \<Longrightarrow> (of_nat i :: u32) \<noteq> of_nat w"
    using Suc.prems by (simp add: of_nat_eq_iff word_of_nat_eq_iff take_bit_eq_mod unsigned_of_nat)
  show ?case
    using Suc ne by (cases "i = w") (auto simp: bytes_write_def)
qed

lemma bytes_write_beyond:
  assumes "unat at + w \<le> unat n" "n \<le> a"
  shows "bytes_write p at w v a = p a"
proof (rule bytes_write_outside)
  fix i assume "i < w"
  then have "unat (at + of_nat i) < unat n"
    using assms unat_u32_less [of n] by (simp add: unat_word_ariths unat_of_nat)
  then show "a \<noteq> at + of_nat i" using assms(2) by (auto simp: word_le_nat_alt)
qed

end
