(* ===== verification/Simd4.thy ===== *)
theory Simd4
  imports Prelude
begin

text \<open>
  The four-lane SIMD4 engine, \<open>tools/rv32_simd4.c\<close> with the layout and register numbers of
  \<open>tools/rv32_simd4.h\<close>: CPU access to its command, program and data windows, and one tick of
  execution. A refused access is \<^const>\<open>None\<close>; a tick is a total function.
\<close>

section \<open>Constants and state\<close>

abbreviation (input) SIMD_BASE :: u32 where "SIMD_BASE \<equiv> 0x11004000"
abbreviation (input) SIMD_PROGRAM :: u32 where "SIMD_PROGRAM \<equiv> 0x11005000"
abbreviation (input) SIMD_DATA :: u32 where "SIMD_DATA \<equiv> 0x11006000"
abbreviation (input) SIMD_COMMAND :: u32 where "SIMD_COMMAND \<equiv> 0x00"
abbreviation (input) SIMD_STATUS :: u32 where "SIMD_STATUS \<equiv> 0x04"
abbreviation (input) SIMD_ENTRY :: u32 where "SIMD_ENTRY \<equiv> 0x08"
abbreviation (input) SIMD_CYCLES :: u32 where "SIMD_CYCLES \<equiv> 0x0c"
abbreviation (input) SIMD_STALLS :: u32 where "SIMD_STALLS \<equiv> 0x10"
abbreviation (input) SIMD_TRANSFERS :: u32 where "SIMD_TRANSFERS \<equiv> 0x14"
abbreviation (input) SIMD_INSTRUCTIONS :: u32 where "SIMD_INSTRUCTIONS \<equiv> 0x18"
abbreviation (input) SIMD_BUSY :: u32 where "SIMD_BUSY \<equiv> 0x01"
abbreviation (input) SIMD_DONE :: u32 where "SIMD_DONE \<equiv> 0x02"
abbreviation (input) SIMD_FAULT :: u32 where "SIMD_FAULT \<equiv> 0x04"
abbreviation (input) SIMD_START :: u32 where "SIMD_START \<equiv> 0x01"
abbreviation (input) SIMD_RESET :: u32 where "SIMD_RESET \<equiv> 0x02"

text \<open>The opcodes, in the order of the source's enumeration.\<close>

abbreviation (input) S4_HLT :: u32 where "S4_HLT \<equiv> 0"
abbreviation (input) S4_LDI :: u32 where "S4_LDI \<equiv> 1"
abbreviation (input) S4_LANE :: u32 where "S4_LANE \<equiv> 2"
abbreviation (input) S4_ADD :: u32 where "S4_ADD \<equiv> 3"
abbreviation (input) S4_ADDI :: u32 where "S4_ADDI \<equiv> 4"
abbreviation (input) S4_LOAD :: u32 where "S4_LOAD \<equiv> 5"
abbreviation (input) S4_STORE :: u32 where "S4_STORE \<equiv> 6"
abbreviation (input) S4_SETLOOP :: u32 where "S4_SETLOOP \<equiv> 7"
abbreviation (input) S4_LOOP :: u32 where "S4_LOOP \<equiv> 8"
abbreviation (input) S4_MUL :: u32 where "S4_MUL \<equiv> 9"
abbreviation (input) S4_MAC :: u32 where "S4_MAC \<equiv> 10"
abbreviation (input) S4_MACU :: u32 where "S4_MACU \<equiv> 11"
abbreviation (input) S4_CLRA :: u32 where "S4_CLRA \<equiv> 12"
abbreviation (input) S4_RDA :: u32 where "S4_RDA \<equiv> 13"

datatype simd_phase = SIMD_IDLE | SIMD_FETCH | SIMD_EXECUTE | SIMD_MEMORY

record simd_execution =
  simd_r :: "u32 \<Rightarrow> u32 \<Rightarrow> u16"
  simd_loop :: u16
  simd_acc :: "u32 \<Rightarrow> u32"
  simd_instruction :: u32
  simd_cycles :: u32
  simd_stalls :: u32
  simd_transfers :: u32
  simd_instructions :: u32
  simd_entry :: u8
  simd_pc :: u8
  simd_lane :: u8
  simd_state :: simd_phase
  simd_done :: bool
  simd_fault :: bool
  simd_command_tick :: bool

record simd_device =
  simd_program :: "u8 \<Rightarrow> u32"
  simd_data :: "u8 \<Rightarrow> u16"
  execution :: simd_execution

text \<open>\<open>(simd_execution){ .command_tick = true }\<close>: every other field is zero.\<close>

definition simd_execution_zero :: simd_execution where
  "simd_execution_zero =
     \<lparr>simd_r = (\<lambda>_ _. 0), simd_loop = 0, simd_acc = (\<lambda>_. 0), simd_instruction = 0, simd_cycles = 0,
      simd_stalls = 0, simd_transfers = 0, simd_instructions = 0, simd_entry = 0, simd_pc = 0,
      simd_lane = 0, simd_state = SIMD_IDLE, simd_done = False, simd_fault = False,
      simd_command_tick = False\<rparr>"

definition simd_reset :: "simd_device \<Rightarrow> simd_device" where
  "simd_reset s = s\<lparr>execution := simd_execution_zero\<lparr>simd_command_tick := True\<rparr>\<rparr>"

section \<open>CPU access\<close>

text \<open>
  The result is the device and \<open>*value\<close> after an accepted access; a write leaves \<open>*value\<close>
  as it was. The window offsets divided by four are below 256, so they index the arrays as bytes.
\<close>

definition simd_access :: "simd_device \<Rightarrow> u32 \<Rightarrow> nat \<Rightarrow> bool \<Rightarrow> u32 \<Rightarrow> (simd_device \<times> u32) option" where
  "simd_access s address width write value =
    (let e = execution s in
     if width \<noteq> 4 \<or> address AND 3 \<noteq> 0 then None
     else if address \<ge> SIMD_PROGRAM \<and> address - SIMD_PROGRAM < 1024 then
       (if simd_state e \<noteq> SIMD_IDLE then None
        else let index = ucast ((address - SIMD_PROGRAM) div 4) in
          if write then Some (s\<lparr>simd_program := (simd_program s)(index := value)\<rparr>, value)
          else Some (s, simd_program s index))
     else if address \<ge> SIMD_DATA \<and> address - SIMD_DATA < 1024 then
       (if simd_state e \<noteq> SIMD_IDLE then None
        else let index = ucast ((address - SIMD_DATA) div 4) in
          if write then Some (s\<lparr>simd_data := (simd_data s)(index := ucast value)\<rparr>, value)
          else Some (s, ucast (simd_data s index)))
     else if address < SIMD_BASE \<or> address - SIMD_BASE \<ge> 32 then None
     else let off = address - SIMD_BASE in
       if off = SIMD_COMMAND then
         (if \<not> write \<or> (value \<noteq> SIMD_START \<and> value \<noteq> SIMD_RESET) \<or>
             (value = SIMD_START \<and> simd_state e \<noteq> SIMD_IDLE) then None
          else if value = SIMD_RESET then Some (simd_reset s, value)
          else let s' = simd_reset s in
            Some (s'\<lparr>execution := (execution s')\<lparr>simd_entry := simd_entry e, simd_pc := simd_entry e,
                                                  simd_state := SIMD_FETCH\<rparr>\<rparr>, value))
       else if off = SIMD_ENTRY then
         (if write then
            (if simd_state e \<noteq> SIMD_IDLE \<or> value > 255 then None
             else Some (s\<lparr>execution := e\<lparr>simd_entry := ucast value\<rparr>\<rparr>, value))
          else Some (s, ucast (simd_entry e)))
       else if write then None
       else if off = SIMD_STATUS then
         Some (s, (if simd_state e \<noteq> SIMD_IDLE then SIMD_BUSY else 0) OR
                  (if simd_done e then SIMD_DONE else 0) OR (if simd_fault e then SIMD_FAULT else 0))
       else if off = SIMD_CYCLES then Some (s, simd_cycles e)
       else if off = SIMD_STALLS then Some (s, simd_stalls e)
       else if off = SIMD_TRANSFERS then Some (s, simd_transfers e)
       else if off = SIMD_INSTRUCTIONS then Some (s, simd_instructions e)
       else None)"

section \<open>One tick\<close>

definition signed16 :: "u16 \<Rightarrow> int" where
  "signed16 x = int (unat x) - (if x AND 0x8000 \<noteq> 0 then 65536 else 0)"

text \<open>What an instruction other than LOAD and STORE does to one lane.\<close>

definition simd_lane_op :: "u32 \<Rightarrow> u32 \<Rightarrow> u32 \<Rightarrow> u32 \<Rightarrow> u16 \<Rightarrow> u32 \<Rightarrow> simd_execution \<Rightarrow> simd_execution" where
  "simd_lane_op op rd ra rb imm lane e =
    (let r = simd_r e lane;
         set_r = (\<lambda>v. e\<lparr>simd_r := (simd_r e)(lane := r(rd := v))\<rparr>);
         acc = simd_acc e lane;
         set_acc = (\<lambda>v. e\<lparr>simd_acc := (simd_acc e)(lane := v)\<rparr>)
     in if op = S4_LDI then set_r imm
        else if op = S4_LANE then set_r (ucast lane)
        else if op = S4_ADD then set_r (r ra + r rb)
        else if op = S4_ADDI then set_r (r ra + imm)
        else if op = S4_MUL then set_r (ucast ((ucast (r ra) :: u32) * ucast (r rb)))
        else if op = S4_MAC then set_acc (acc + of_int (signed16 (r ra) * signed16 (r rb)))
        else if op = S4_MACU then set_acc (acc + ucast (r ra) * ucast (r rb))
        else if op = S4_CLRA then set_acc 0
        else if op = S4_RDA then
          (let shift = unat (imm AND 31);
               value = drop_bit shift acc;
               value' = if shift \<noteq> 0 \<and> acc AND 0x80000000 \<noteq> 0
                        then value OR push_bit (32 - shift) 0xffffffff else value
           in set_r (ucast value'))
        else e)"

text \<open>The end of \<open>simd_tick\<close>, common to a finished transfer and an executed instruction.\<close>

definition simd_finish_instruction :: "u32 \<Rightarrow> simd_execution \<Rightarrow> simd_execution" where
  "simd_finish_instruction op e =
    (let e = e\<lparr>simd_instructions := simd_instructions e + 1,
               simd_state := if op = S4_HLT then SIMD_IDLE else SIMD_FETCH\<rparr>
     in if op = S4_HLT then e\<lparr>simd_done := True\<rparr> else e)"

definition simd_memory_tick :: "u32 \<Rightarrow> u32 \<Rightarrow> u32 \<Rightarrow> u16 \<Rightarrow> bool \<Rightarrow> simd_device \<Rightarrow> simd_device" where
  "simd_memory_tick op rd ra imm hold s =
    (let e = execution s in
     if hold then s\<lparr>execution := e\<lparr>simd_stalls := simd_stalls e + 1\<rparr>\<rparr>
     else
       let lane = ucast (simd_lane e);
           r = simd_r e lane;
           address = ucast (r ra + imm);
           s = (if op = S4_STORE then s\<lparr>simd_data := (simd_data s)(address := r rd)\<rparr>
                else s\<lparr>execution := e\<lparr>simd_r := (simd_r e)(lane := r(rd := simd_data s address))\<rparr>\<rparr>);
           e = execution s;
           e = e\<lparr>simd_transfers := simd_transfers e + 1, simd_lane := simd_lane e + 1\<rparr>
       in if simd_lane e < 4 then s\<lparr>execution := e\<rparr>
          else s\<lparr>execution := simd_finish_instruction op (e\<lparr>simd_lane := 0\<rparr>)\<rparr>)"

definition simd_execute_tick :: "u32 \<Rightarrow> u32 \<Rightarrow> u32 \<Rightarrow> u32 \<Rightarrow> u16 \<Rightarrow> simd_device \<Rightarrow> simd_device" where
  "simd_execute_tick op rd ra rb imm s =
    (let e = execution s in
     if op = S4_LOAD \<or> op = S4_STORE then
       s\<lparr>execution := e\<lparr>simd_lane := 0, simd_state := SIMD_MEMORY\<rparr>\<rparr>
     else if op > S4_RDA \<or> (op = S4_SETLOOP \<and> imm = 0) \<or> (op = S4_LOOP \<and> simd_loop e = 0) then
       s\<lparr>execution := e\<lparr>simd_state := SIMD_IDLE, simd_done := True, simd_fault := True\<rparr>\<rparr>
     else
       let e = (if op = S4_SETLOOP then e\<lparr>simd_loop := imm\<rparr> else e);
           e = (if op = S4_LOOP then
                  let e = e\<lparr>simd_loop := simd_loop e - 1\<rparr>
                  in if simd_loop e \<noteq> 0 then e\<lparr>simd_pc := ucast imm\<rparr> else e
                else e)
       in s\<lparr>execution := simd_finish_instruction op (fold (simd_lane_op op rd ra rb imm) [0, 1, 2, 3] e)\<rparr>)"

definition simd_tick :: "simd_device \<Rightarrow> bool \<Rightarrow> simd_device" where
  "simd_tick s hold =
    (let e = execution s in
     if simd_command_tick e then s\<lparr>execution := e\<lparr>simd_command_tick := False\<rparr>\<rparr>
     else if simd_state e = SIMD_IDLE then s
     else
       let e = e\<lparr>simd_cycles := simd_cycles e + 1\<rparr> in
       if simd_state e = SIMD_FETCH then
         s\<lparr>execution := e\<lparr>simd_instruction := simd_program s (simd_pc e), simd_pc := simd_pc e + 1,
                            simd_state := SIMD_EXECUTE\<rparr>\<rparr>
       else
         let s = s\<lparr>execution := e\<rparr>;
             word = simd_instruction e;
             op = drop_bit 24 word;
             rd = drop_bit 22 word AND 3;
             ra = drop_bit 20 word AND 3;
             rb = drop_bit 18 word AND 3;
             imm = ucast word
         in if simd_state e = SIMD_MEMORY then simd_memory_tick op rd ra imm hold s
            else simd_execute_tick op rd ra rb imm s)"

section \<open>Arithmetic of the lanes\<close>

lemma top_bit_u32: "w AND 0x80000000 \<noteq> 0 \<longleftrightarrow> bit w 31" for w :: u32
  by (simp add: bit_iff_and_push_bit_not_eq_0)

lemma top_bit_u16: "w AND 0x8000 \<noteq> 0 \<longleftrightarrow> bit w 15" for w :: u16
  by (simp add: bit_iff_and_push_bit_not_eq_0)

lemma signed16_eq_sint: "signed16 x = sint x"
proof -
  have "take_bit 16 (uint x) = uint x"
    using unsigned_less [of x] by (simp add: take_bit_int_eq_self_iff)
  then show ?thesis
    by (simp add: signed16_def top_bit_u16 sint_uint signed_take_bit_eq_take_bit_minus bit_unsigned_iff)
qed

text \<open>RDA's logical shift with the sign bits put back is an arithmetic shift.\<close>

lemma rda_arithmetic_shift:
  assumes "shift < 32"
  shows "(if shift \<noteq> 0 \<and> acc AND 0x80000000 \<noteq> 0
          then drop_bit shift acc OR push_bit (32 - shift) 0xffffffff else drop_bit shift acc)
         = signed_drop_bit shift (acc :: u32)"
proof -
  have ones: "(0xffffffff :: u32) = - 1" by simp
  show ?thesis
    unfolding ones top_bit_u32 using assms
    by (intro bit_eqI) (auto simp: bit_simps dest: bit_imp_le_length)
qed

section \<open>Invariant\<close>

text \<open>
  The transfer lane stays below four and is zero outside a transfer, so \<open>r[lane]\<close> and
  \<open>acc[lane]\<close> are never indexed past their arrays.
\<close>

definition simd_inv :: "simd_device \<Rightarrow> bool" where
  "simd_inv s \<longleftrightarrow> simd_lane (execution s) < 4 \<and>
     (simd_state (execution s) \<noteq> SIMD_MEMORY \<longrightarrow> simd_lane (execution s) = 0)"

lemma simd_inv_reset [simp]: "simd_inv (simd_reset s)"
  by (simp add: simd_inv_def simd_reset_def simd_execution_zero_def)

lemma simd_lane_op_frame [simp]:
  "simd_lane (simd_lane_op op rd ra rb imm lane e) = simd_lane e"
  "simd_state (simd_lane_op op rd ra rb imm lane e) = simd_state e"
  "simd_instruction (simd_lane_op op rd ra rb imm lane e) = simd_instruction e"
  "simd_command_tick (simd_lane_op op rd ra rb imm lane e) = simd_command_tick e"
  by (simp_all add: simd_lane_op_def Let_def)

lemma simd_finish_frame [simp]:
  "simd_lane (simd_finish_instruction op e) = simd_lane e"
  "simd_r (simd_finish_instruction op e) = simd_r e"
  "simd_acc (simd_finish_instruction op e) = simd_acc e"
  "simd_state (simd_finish_instruction op e) = (if op = S4_HLT then SIMD_IDLE else SIMD_FETCH)"
  by (simp_all add: simd_finish_instruction_def Let_def)

lemma less_4_Suc: "l < 4 \<Longrightarrow> l + 1 < (5 :: u8)"
  by (simp add: word_less_nat_alt unat_word_ariths)

lemma simd_memory_tick_inv:
  "simd_lane (execution s) < 4 \<Longrightarrow> simd_state (execution s) = SIMD_MEMORY \<Longrightarrow>
   simd_inv (simd_memory_tick op rd ra imm hold s)"
  by (simp add: simd_inv_def simd_memory_tick_def Let_def)

lemma simd_execute_tick_inv:
  "simd_lane (execution s) = 0 \<Longrightarrow> simd_inv (simd_execute_tick op rd ra rb imm s)"
  by (simp add: simd_inv_def simd_execute_tick_def Let_def)

lemma simd_tick_inv: "simd_inv s \<Longrightarrow> simd_inv (simd_tick s hold)"
  by (cases "simd_state (execution s)")
    (auto simp: simd_tick_def Let_def intro!: simd_memory_tick_inv simd_execute_tick_inv,
     auto simp: simd_inv_def)

lemma simd_access_inv: "simd_inv s \<Longrightarrow> simd_access s a w wr v = Some (s', v') \<Longrightarrow> simd_inv s'"
  unfolding simd_access_def Let_def
  by (auto simp: simd_inv_def simd_reset_def simd_execution_zero_def split: if_splits)

section \<open>Ownership of the windows\<close>

lemma simd_tick_program [simp]: "simd_program (simd_tick s hold) = simd_program s"
  by (simp add: simd_tick_def simd_memory_tick_def simd_execute_tick_def Let_def)

lemma simd_busy_refuses:
  assumes "simd_state (execution s) \<noteq> SIMD_IDLE" "simd_access s a w True v = Some (s', v')"
  shows "v = SIMD_RESET \<and> s' = simd_reset s"
  using assms unfolding simd_access_def Let_def by (auto split: if_splits)

section \<open>A transfer instruction\<close>

text \<open>
  The tick that decodes a LOAD or STORE and the four transfers after it, without memory stalls.
  \<open>simd_address\<close> is the data word lane \<open>l\<close> reaches.
\<close>

definition simd_address :: "simd_execution \<Rightarrow> u32 \<Rightarrow> u8" where
  "simd_address e l =
     ucast (simd_r e l (drop_bit 20 (simd_instruction e) AND 3) + ucast (simd_instruction e))"

definition simd_rd :: "simd_execution \<Rightarrow> u32" where
  "simd_rd e = drop_bit 22 (simd_instruction e) AND 3"

abbreviation simd_ticks :: "nat \<Rightarrow> simd_device \<Rightarrow> simd_device" where
  "simd_ticks n s \<equiv> ((\<lambda>s. simd_tick s False) ^^ n) s"

lemmas simd_tick_defs = simd_tick_def simd_memory_tick_def simd_execute_tick_def
  simd_finish_instruction_def Let_def

lemma simd_ticks_5: "simd_ticks 5 s = simd_tick (simd_tick (simd_tick (simd_tick (simd_tick s False) False) False) False) False"
  by (simp add: eval_nat_numeral)

lemma simd_store_transfers:
  assumes "\<not> simd_command_tick (execution s)" "simd_state (execution s) = SIMD_EXECUTE"
    "drop_bit 24 (simd_instruction (execution s)) = S4_STORE"
  shows "simd_ticks 5 s =
    s\<lparr>simd_data := fold (\<lambda>l d. d(simd_address (execution s) l := simd_r (execution s) l (simd_rd (execution s))))
                     [0, 1, 2, 3] (simd_data s),
      execution := (execution s)\<lparr>simd_cycles := simd_cycles (execution s) + 5,
        simd_transfers := simd_transfers (execution s) + 4,
        simd_instructions := simd_instructions (execution s) + 1,
        simd_lane := 0, simd_state := SIMD_FETCH\<rparr>\<rparr>"
  using assms unfolding simd_ticks_5
  by (simp add: simd_tick_defs simd_address_def simd_rd_def)

lemma simd_load_transfers:
  assumes "\<not> simd_command_tick (execution s)" "simd_state (execution s) = SIMD_EXECUTE"
    "drop_bit 24 (simd_instruction (execution s)) = S4_LOAD"
  shows "simd_ticks 5 s =
    s\<lparr>execution := (execution s)\<lparr>
        simd_r := fold (\<lambda>l r. r(l := (r l)(simd_rd (execution s) := simd_data s (simd_address (execution s) l))))
                    [0, 1, 2, 3] (simd_r (execution s)),
        simd_cycles := simd_cycles (execution s) + 5,
        simd_transfers := simd_transfers (execution s) + 4,
        simd_instructions := simd_instructions (execution s) + 1,
        simd_lane := 0, simd_state := SIMD_FETCH\<rparr>\<rparr>"
  using assms unfolding simd_ticks_5
  by (simp add: simd_tick_defs simd_address_def simd_rd_def)

section \<open>Properties\<close>

text \<open>
  C6: a STORE instruction of the SIMD engine takes five ticks without memory stalls: it moves the
  destination register of lanes 0 to 3, in that order, to the data word each lane addresses, counts
  one instruction, four transfers and five cycles, and changes nothing else.
\<close>

theorem simd_store_instruction:
  assumes "\<not> simd_command_tick (execution s)" "simd_state (execution s) = SIMD_EXECUTE"
    "drop_bit 24 (simd_instruction (execution s)) = S4_STORE"
  shows "simd_ticks 5 s =
    s\<lparr>simd_data := fold (\<lambda>l d. d(simd_address (execution s) l := simd_r (execution s) l (simd_rd (execution s))))
                     [0, 1, 2, 3] (simd_data s),
      execution := (execution s)\<lparr>simd_cycles := simd_cycles (execution s) + 5,
        simd_transfers := simd_transfers (execution s) + 4,
        simd_instructions := simd_instructions (execution s) + 1,
        simd_lane := 0, simd_state := SIMD_FETCH\<rparr>\<rparr>"
  using assms by (rule simd_store_transfers)

definition simd_store_example :: simd_device where
  "simd_store_example = \<lparr>simd_program = \<lambda>_. 0, simd_data = \<lambda>_. 0,
     execution = simd_execution_zero\<lparr>simd_state := SIMD_EXECUTE, simd_instruction := push_bit 24 S4_STORE,
       simd_r := \<lambda>l _. ucast l\<rparr>\<rparr>"

theorem simd_store_instruction_witness:
  "simd_data (simd_ticks 5 simd_store_example) 2 = 2"
  using simd_store_instruction [of simd_store_example]
  by (simp add: simd_store_example_def simd_execution_zero_def simd_address_def simd_rd_def)

end
