(* ===== verification/Gpu.thy ===== *)
theory Gpu
  imports Prelude
begin

text \<open>
  The G1 engine, \<open>tools/rv32_gpu.c\<close> with \<open>tools/rv32_gpu.h\<close> and the public contract
  \<open>programs/rv32/gpu.h\<close>: CPU access, the lock on a RAM blit source, and one tick of the engine
  (set-up and validation, scan, transfer, advance). The source's \<open>int32_t\<close> cursor fields are
  integers; a conversion from a parameter word is \<^term>\<open>sint\<close>. The bounds lemmas below keep
  them far from overflow.
\<close>

section \<open>Constants and state\<close>

abbreviation (input) GPU_BASE :: u32 where "GPU_BASE \<equiv> 0x11007000"
abbreviation (input) GPU_COMMAND :: u32 where "GPU_COMMAND \<equiv> 0x00"
abbreviation (input) GPU_STATUS :: u32 where "GPU_STATUS \<equiv> 0x04"
abbreviation (input) GPU_ERROR :: u32 where "GPU_ERROR \<equiv> 0x08"
abbreviation (input) GPU_CYCLES :: u32 where "GPU_CYCLES \<equiv> 0x0c"
abbreviation (input) GPU_STALLS :: u32 where "GPU_STALLS \<equiv> 0x10"
abbreviation (input) GPU_READS :: u32 where "GPU_READS \<equiv> 0x14"
abbreviation (input) GPU_WRITES :: u32 where "GPU_WRITES \<equiv> 0x18"
abbreviation (input) GPU_PARAMS :: u32 where "GPU_PARAMS \<equiv> 0x40"
abbreviation (input) GPU_START :: u32 where "GPU_START \<equiv> 1"
abbreviation (input) GPU_RESET :: u32 where "GPU_RESET \<equiv> 2"
abbreviation (input) GPU_IDLE :: u32 where "GPU_IDLE \<equiv> 0"
abbreviation (input) GPU_INVALID :: u32 where "GPU_INVALID \<equiv> 1"
abbreviation (input) GPU_INTERNAL :: u32 where "GPU_INTERNAL \<equiv> 2"
abbreviation (input) GPU_BUSY :: u32 where "GPU_BUSY \<equiv> 1"
abbreviation (input) GPU_DONE :: u32 where "GPU_DONE \<equiv> 2"
abbreviation (input) GPU_FAULT :: u32 where "GPU_FAULT \<equiv> 4"
abbreviation (input) GPU_FILL :: u32 where "GPU_FILL \<equiv> 1"
abbreviation (input) GPU_BLIT :: u32 where "GPU_BLIT \<equiv> 2"
abbreviation (input) GPU_LINE :: u32 where "GPU_LINE \<equiv> 3"
abbreviation (input) GPU_TRIANGLE :: u32 where "GPU_TRIANGLE \<equiv> 4"

text \<open>Indices of the parameter words, in the order of the source's enumeration.\<close>

abbreviation (input) GP_OP :: u32 where "GP_OP \<equiv> 0"
abbreviation (input) GP_COLOR :: u32 where "GP_COLOR \<equiv> 1"
abbreviation (input) GP_X0 :: u32 where "GP_X0 \<equiv> 2"
abbreviation (input) GP_Y0 :: u32 where "GP_Y0 \<equiv> 3"
abbreviation (input) GP_X1 :: u32 where "GP_X1 \<equiv> 4"
abbreviation (input) GP_Y1 :: u32 where "GP_Y1 \<equiv> 5"
abbreviation (input) GP_X2 :: u32 where "GP_X2 \<equiv> 6"
abbreviation (input) GP_Y2 :: u32 where "GP_Y2 \<equiv> 7"
abbreviation (input) GP_W :: u32 where "GP_W \<equiv> 8"
abbreviation (input) GP_H :: u32 where "GP_H \<equiv> 9"
abbreviation (input) GP_SRC :: u32 where "GP_SRC \<equiv> 10"
abbreviation (input) GP_STRIDE :: u32 where "GP_STRIDE \<equiv> 11"
abbreviation (input) GP_SW :: u32 where "GP_SW \<equiv> 12"
abbreviation (input) GP_SH :: u32 where "GP_SH \<equiv> 13"
abbreviation (input) GP_SX :: u32 where "GP_SX \<equiv> 14"
abbreviation (input) GP_SY :: u32 where "GP_SY \<equiv> 15"

datatype gpu_phase = GPH_IDLE | GPH_SETUP | GPH_SCAN | GPH_READ | GPH_WRITE | GPH_ADVANCE

record gpu_device =
  gpu_p :: "u32 \<Rightarrow> u32"
  gpu_status :: u32
  gpu_error :: u32
  gpu_cycles :: u32
  gpu_stalls :: u32
  gpu_reads :: u32
  gpu_writes :: u32
  gpu_x :: int
  gpu_y :: int
  gpu_lo :: int
  gpu_top :: int
  gpu_hi :: int
  gpu_bottom :: int
  gpu_step :: int
  gpu_dx :: int
  gpu_dy :: int
  gpu_sy :: int
  gpu_err :: int
  gpu_ax :: int
  gpu_ay :: int
  gpu_bx :: int
  gpu_by :: int
  gpu_cx :: int
  gpu_cy :: int
  gpu_phase :: gpu_phase
  gpu_pixel :: u8
  gpu_fb_written :: bool
  gpu_fb_written_at :: u32
  gpu_command_tick :: bool

definition gpu_busy :: "gpu_device \<Rightarrow> bool" where
  "gpu_busy g \<longleftrightarrow> gpu_status g = GPU_BUSY"

text \<open>\<open>memset(g, 0, sizeof *g)\<close>.\<close>

definition gpu_device_zero :: gpu_device where
  "gpu_device_zero =
     \<lparr>gpu_p = (\<lambda>_. 0), gpu_status = 0, gpu_error = 0, gpu_cycles = 0, gpu_stalls = 0, gpu_reads = 0,
      gpu_writes = 0, gpu_x = 0, gpu_y = 0, gpu_lo = 0, gpu_top = 0, gpu_hi = 0, gpu_bottom = 0,
      gpu_step = 0, gpu_dx = 0, gpu_dy = 0, gpu_sy = 0, gpu_err = 0, gpu_ax = 0, gpu_ay = 0, gpu_bx = 0,
      gpu_by = 0, gpu_cx = 0, gpu_cy = 0, gpu_phase = GPH_IDLE, gpu_pixel = 0, gpu_fb_written = False,
      gpu_fb_written_at = 0, gpu_command_tick = False\<rparr>"

definition gpu_device_reset :: "gpu_device \<Rightarrow> gpu_device" where
  "gpu_device_reset g = gpu_device_zero"

definition gpu_coord :: "u32 \<Rightarrow> bool" where
  "gpu_coord a \<longleftrightarrow> sint a \<ge> - 1024 \<and> sint a \<le> 1023"

definition source_end :: "(u32 \<Rightarrow> u32) \<Rightarrow> u64" where
  "source_end p = ucast (p GP_SRC) + (if p GP_SH \<noteq> 0 then ucast (p GP_SH - 1) else 0) * ucast (p GP_STRIDE)
     + ucast (p GP_SW)"

section \<open>CPU access\<close>

definition gpu_access :: "gpu_device \<Rightarrow> u32 \<Rightarrow> nat \<Rightarrow> bool \<Rightarrow> u32 \<Rightarrow> (gpu_device \<times> u32) option" where
  "gpu_access g off width write v =
    (if width \<noteq> 4 \<or> off AND 3 \<noteq> 0 then None
     else if off \<ge> GPU_PARAMS \<and> off < 128 then
       (let index = (off - GPU_PARAMS) div 4 in
        if write then
          (if gpu_busy g then None else Some (g\<lparr>gpu_p := (gpu_p g)(index := v)\<rparr>, v))
        else Some (g, gpu_p g index))
     else if write then
       (if off \<noteq> GPU_COMMAND then None
        else if v = GPU_RESET then Some ((gpu_device_reset g)\<lparr>gpu_command_tick := True\<rparr>, v)
        else if v \<noteq> GPU_START \<or> gpu_busy g then None
        else Some (g\<lparr>gpu_status := GPU_BUSY, gpu_phase := GPH_SETUP, gpu_error := 0, gpu_cycles := 0,
                     gpu_stalls := 0, gpu_reads := 0, gpu_writes := 0, gpu_command_tick := True\<rparr>, v))
     else if off = GPU_STATUS then Some (g, gpu_status g)
     else if off = GPU_ERROR then Some (g, gpu_error g)
     else if off = GPU_CYCLES then Some (g, gpu_cycles g)
     else if off = GPU_STALLS then Some (g, gpu_stalls g)
     else if off = GPU_READS then Some (g, gpu_reads g)
     else if off = GPU_WRITES then Some (g, gpu_writes g)
     else None)"

definition gpu_source_locked :: "gpu_device \<Rightarrow> u32 \<Rightarrow> nat \<Rightarrow> bool" where
  "gpu_source_locked g addr width =
    (let p = gpu_p g; end = source_end p in
     gpu_busy g \<and> p GP_OP = GPU_BLIT \<and> p GP_SRC \<ge> 0x80000000 \<and> p GP_SH \<noteq> 0 \<and> end \<le> 0xffffffff \<and>
     (ucast addr :: u64) + of_nat width > ucast (p GP_SRC) \<and> ucast addr < end)"

section \<open>The engine\<close>

definition gpu_edge :: "int \<Rightarrow> int \<Rightarrow> int \<Rightarrow> int \<Rightarrow> int \<Rightarrow> int \<Rightarrow> int" where
  "gpu_edge ax ay bx by x y =
     (bx - ax) * (2 * y + 1 - 2 * ay) - (by - ay) * (2 * x + 1 - 2 * ax)"

definition gpu_inside :: "int \<Rightarrow> int \<Rightarrow> int \<Rightarrow> int \<Rightarrow> int \<Rightarrow> int \<Rightarrow> bool" where
  "gpu_inside ax ay bx by x y =
    (let e = gpu_edge ax ay bx by x y in e > 0 \<or> (e = 0 \<and> (by < ay \<or> (by = ay \<and> bx > ax))))"

text \<open>The validation of SETUP.\<close>

definition gpu_valid :: "(u32 \<Rightarrow> u32) \<Rightarrow> u32 \<Rightarrow> u32 \<Rightarrow> u32 \<Rightarrow> bool" where
  "gpu_valid p ram_size window_start window_end =
    (let op = p GP_OP;
         valid = (op \<ge> GPU_FILL \<and> op \<le> GPU_TRIANGLE \<and> p GP_COLOR \<le> 255 \<and> gpu_coord (p GP_X0) \<and> gpu_coord (p GP_Y0));
         valid = (if op = GPU_LINE \<or> op = GPU_TRIANGLE then valid \<and> gpu_coord (p GP_X1) \<and> gpu_coord (p GP_Y1) else valid);
         valid = (if op = GPU_TRIANGLE then valid \<and> gpu_coord (p GP_X2) \<and> gpu_coord (p GP_Y2) else valid);
         valid = (if op = GPU_FILL \<or> op = GPU_BLIT then valid \<and> p GP_W \<le> 2048 \<and> p GP_H \<le> 2048 else valid)
     in if op = GPU_BLIT then
          (let end = source_end p;
               source = (if p GP_SRC = 0x12000000 then p GP_SW = 320 \<and> p GP_SH = 240 \<and> p GP_STRIDE = 320
                         else p GP_SRC \<ge> 0x80000000 \<and> end \<le> 0x80000000 + ucast ram_size \<and>
                              p GP_SRC \<ge> window_start \<and> end \<le> ucast window_end)
           in valid \<and> gpu_coord (p GP_SX) \<and> gpu_coord (p GP_SY) \<and> p GP_SW > 0 \<and> p GP_SW \<le> 2048 \<and>
              p GP_SH > 0 \<and> p GP_SH \<le> 2048 \<and> p GP_STRIDE \<ge> p GP_SW \<and> p GP_STRIDE \<le> 65535 \<and> source)
        else valid)"

definition gpu_finish :: "gpu_device \<Rightarrow> gpu_device" where
  "gpu_finish g = g\<lparr>gpu_status := GPU_DONE, gpu_phase := GPH_IDLE\<rparr>"

definition gpu_setup_line :: "gpu_device \<Rightarrow> gpu_device" where
  "gpu_setup_line g =
    (let g = (if gpu_ax g > gpu_bx g \<or> (gpu_ax g = gpu_bx g \<and> gpu_ay g > gpu_by g)
              then g\<lparr>gpu_ax := gpu_bx g, gpu_bx := gpu_ax g, gpu_ay := gpu_by g, gpu_by := gpu_ay g\<rparr> else g);
         dx = gpu_bx g - gpu_ax g;
         dy = gpu_by g - gpu_ay g;
         sy = (if dy < 0 then - 1 else 1);
         dy = (if dy < 0 then - dy else dy)
     in g\<lparr>gpu_x := gpu_ax g, gpu_y := gpu_ay g, gpu_dx := dx, gpu_dy := dy, gpu_sy := sy, gpu_err := dx - dy,
          gpu_phase := GPH_SCAN\<rparr>)"

text \<open>The scan rectangle of FILL, BLIT and TRIANGLE; an empty one, or a triangle without area, is done.\<close>

definition gpu_clip_rect :: "gpu_device \<Rightarrow> gpu_device" where
  "gpu_clip_rect g =
    (let p = gpu_p g; op = p GP_OP;
         g = (if op = GPU_FILL \<or> op = GPU_BLIT then
                g\<lparr>gpu_lo := max 0 (gpu_ax g), gpu_top := max 0 (gpu_ay g),
                  gpu_hi := min 320 (gpu_ax g + sint (p GP_W)), gpu_bottom := min 240 (gpu_ay g + sint (p GP_H))\<rparr>
              else g);
         g = g\<lparr>gpu_step := 1\<rparr>
     in if op = GPU_BLIT then
          (let sx = sint (p GP_SX); sy = sint (p GP_SY);
               g = g\<lparr>gpu_lo := max (gpu_lo g) (gpu_ax g - sx), gpu_top := max (gpu_top g) (gpu_ay g - sy),
                     gpu_hi := min (gpu_hi g) (gpu_ax g + sint (p GP_SW) - sx),
                     gpu_bottom := min (gpu_bottom g) (gpu_ay g + sint (p GP_SH) - sy)\<rparr>
           in if p GP_SRC = 0x12000000 \<and> gpu_ay g * 320 + gpu_ax g > sy * 320 + sx
              then g\<lparr>gpu_step := - 1\<rparr> else g)
        else g)"

definition gpu_area :: "gpu_device \<Rightarrow> int" where
  "gpu_area g = (gpu_bx g - gpu_ax g) * (gpu_cy g - gpu_ay g) - (gpu_by g - gpu_ay g) * (gpu_cx g - gpu_ax g)"

definition gpu_clip_triangle :: "gpu_device \<Rightarrow> gpu_device" where
  "gpu_clip_triangle g =
    (let g = (if gpu_area g < 0 then g\<lparr>gpu_bx := gpu_cx g, gpu_cx := gpu_bx g,
                                        gpu_by := gpu_cy g, gpu_cy := gpu_by g\<rparr> else g)
     in g\<lparr>gpu_lo := max 0 (min (gpu_ax g) (min (gpu_bx g) (gpu_cx g))),
          gpu_top := max 0 (min (gpu_ay g) (min (gpu_by g) (gpu_cy g))),
          gpu_hi := min 320 (max (gpu_ax g) (max (gpu_bx g) (gpu_cx g))),
          gpu_bottom := min 240 (max (gpu_ay g) (max (gpu_by g) (gpu_cy g)))\<rparr>)"

definition gpu_start_scan :: "gpu_device \<Rightarrow> gpu_device" where
  "gpu_start_scan g =
    (if gpu_lo g \<ge> gpu_hi g \<or> gpu_top g \<ge> gpu_bottom g then gpu_finish g
     else g\<lparr>gpu_x := if gpu_step g > 0 then gpu_lo g else gpu_hi g - 1,
            gpu_y := if gpu_step g > 0 then gpu_top g else gpu_bottom g - 1,
            gpu_phase := GPH_SCAN\<rparr>)"

definition gpu_setup_area :: "gpu_device \<Rightarrow> gpu_device" where
  "gpu_setup_area g =
    (let g = gpu_clip_rect g in
     if gpu_p g GP_OP = GPU_TRIANGLE then
       (if gpu_area g = 0 then gpu_finish g else gpu_start_scan (gpu_clip_triangle g))
     else gpu_start_scan g)"

definition gpu_setup :: "gpu_device \<Rightarrow> u32 \<Rightarrow> u32 \<Rightarrow> u32 \<Rightarrow> gpu_device" where
  "gpu_setup g ram_size window_start window_end =
    (let p = gpu_p g in
     if \<not> gpu_valid p ram_size window_start window_end
     then g\<lparr>gpu_status := GPU_FAULT, gpu_error := GPU_INVALID, gpu_phase := GPH_IDLE\<rparr>
     else
       let g = g\<lparr>gpu_ax := sint (p GP_X0), gpu_ay := sint (p GP_Y0), gpu_bx := sint (p GP_X1),
                 gpu_by := sint (p GP_Y1), gpu_cx := sint (p GP_X2), gpu_cy := sint (p GP_Y2)\<rparr>
       in if p GP_OP = GPU_LINE then gpu_setup_line g else gpu_setup_area g)"

definition gpu_covered :: "gpu_device \<Rightarrow> bool" where
  "gpu_covered g =
    (let x = gpu_x g; y = gpu_y g; covered = (x \<ge> 0 \<and> x < 320 \<and> y \<ge> 0 \<and> y < 240)
     in if gpu_p g GP_OP = GPU_TRIANGLE then
          covered \<and> gpu_inside (gpu_ax g) (gpu_ay g) (gpu_bx g) (gpu_by g) x y \<and>
          gpu_inside (gpu_bx g) (gpu_by g) (gpu_cx g) (gpu_cy g) x y \<and>
          gpu_inside (gpu_cx g) (gpu_cy g) (gpu_ax g) (gpu_ay g) x y
        else covered)"

definition gpu_scan :: "gpu_device \<Rightarrow> gpu_device" where
  "gpu_scan g =
     g\<lparr>gpu_pixel := ucast (gpu_p g GP_COLOR),
       gpu_phase := if gpu_covered g then (if gpu_p g GP_OP = GPU_BLIT then GPH_READ else GPH_WRITE)
                    else GPH_ADVANCE\<rparr>"

definition gpu_read_offset :: "gpu_device \<Rightarrow> u32" where
  "gpu_read_offset g =
    (let p = gpu_p g in
     of_int (sint (p GP_SY) + gpu_y g - gpu_ay g) * p GP_STRIDE + of_int (sint (p GP_SX) + gpu_x g - gpu_ax g))"

definition gpu_transfer :: "gpu_device \<Rightarrow> bytes \<Rightarrow> bytes \<Rightarrow> bool \<Rightarrow> gpu_device \<times> bytes" where
  "gpu_transfer g ram fb hold =
    (if hold then (g\<lparr>gpu_stalls := gpu_stalls g + 1\<rparr>, fb)
     else if gpu_phase g = GPH_READ then
       (let p = gpu_p g; off = gpu_read_offset g in
        (g\<lparr>gpu_pixel := if p GP_SRC = 0x12000000 then fb off else ram (p GP_SRC - 0x80000000 + off),
           gpu_reads := gpu_reads g + 1, gpu_phase := GPH_WRITE\<rparr>, fb))
     else
       (let at = of_int (gpu_y g * 320 + gpu_x g) in
        (g\<lparr>gpu_fb_written := True, gpu_fb_written_at := at, gpu_writes := gpu_writes g + 1,
           gpu_phase := GPH_ADVANCE\<rparr>, fb(at := gpu_pixel g))))"

definition gpu_advance :: "gpu_device \<Rightarrow> gpu_device" where
  "gpu_advance g =
    (let (g, done) =
       (if gpu_p g GP_OP = GPU_LINE then
          (let done = (gpu_x g = gpu_bx g \<and> gpu_y g = gpu_by g);
               e2 = 2 * gpu_err g;
               g = (if e2 \<ge> - gpu_dy g then g\<lparr>gpu_err := gpu_err g - gpu_dy g, gpu_x := gpu_x g + 1\<rparr> else g);
               g = (if e2 \<le> gpu_dx g then g\<lparr>gpu_err := gpu_err g + gpu_dx g, gpu_y := gpu_y g + gpu_sy g\<rparr> else g)
           in (g, done))
        else if gpu_x g = (if gpu_step g > 0 then gpu_hi g - 1 else gpu_lo g) then
          (g\<lparr>gpu_x := if gpu_step g > 0 then gpu_lo g else gpu_hi g - 1, gpu_y := gpu_y g + gpu_step g\<rparr>,
           gpu_y g = (if gpu_step g > 0 then gpu_bottom g - 1 else gpu_top g))
        else (g\<lparr>gpu_x := gpu_x g + gpu_step g\<rparr>, False))
     in g\<lparr>gpu_status := if done then GPU_DONE else GPU_BUSY, gpu_phase := if done then GPH_IDLE else GPH_SCAN\<rparr>)"

definition gpu_tick :: "gpu_device \<Rightarrow> bytes \<Rightarrow> u32 \<Rightarrow> bytes \<Rightarrow> bool \<Rightarrow> u32 \<Rightarrow> u32 \<Rightarrow> gpu_device \<times> bytes" where
  "gpu_tick g ram ram_size fb hold window_start window_end =
    (if gpu_command_tick g then (g\<lparr>gpu_command_tick := False\<rparr>, fb)
     else if \<not> gpu_busy g then (g, fb)
     else
       let g = g\<lparr>gpu_cycles := gpu_cycles g + 1\<rparr> in
       case gpu_phase g of
         GPH_SETUP \<Rightarrow> (gpu_setup g ram_size window_start window_end, fb)
       | GPH_SCAN \<Rightarrow> (gpu_scan g, fb)
       | GPH_READ \<Rightarrow> gpu_transfer g ram fb hold
       | GPH_WRITE \<Rightarrow> gpu_transfer g ram fb hold
       | GPH_ADVANCE \<Rightarrow> (gpu_advance g, fb)
       | GPH_IDLE \<Rightarrow> (g\<lparr>gpu_status := GPU_FAULT, gpu_error := GPU_INTERNAL, gpu_phase := GPH_IDLE\<rparr>, fb))"

section \<open>The engine's invariant\<close>

text \<open>A rectangle of the screen with the cursor in it.\<close>

definition gpu_scan_ok :: "gpu_device \<Rightarrow> bool" where
  "gpu_scan_ok g \<longleftrightarrow>
     0 \<le> gpu_lo g \<and> gpu_hi g \<le> 320 \<and> 0 \<le> gpu_top g \<and> gpu_bottom g \<le> 240 \<and>
     gpu_lo g \<le> gpu_x g \<and> gpu_x g < gpu_hi g \<and> gpu_top g \<le> gpu_y g \<and> gpu_y g < gpu_bottom g \<and>
     (gpu_step g = 1 \<or> gpu_step g = - 1)"

text \<open>The state of Bresenham's loop: the cursor between the ends, and the error term a function of it.\<close>

definition gpu_line_ok :: "gpu_device \<Rightarrow> bool" where
  "gpu_line_ok g \<longleftrightarrow>
     (gpu_sy g = 1 \<or> gpu_sy g = - 1) \<and> gpu_dx g = gpu_bx g - gpu_ax g \<and>
     gpu_dy g = gpu_sy g * (gpu_by g - gpu_ay g) \<and> 0 \<le> gpu_dy g \<and>
     gpu_ax g \<le> gpu_x g \<and> gpu_x g \<le> gpu_bx g \<and>
     0 \<le> gpu_sy g * (gpu_y g - gpu_ay g) \<and> gpu_sy g * (gpu_y g - gpu_ay g) \<le> gpu_dy g \<and>
     gpu_err g = gpu_dx g * (gpu_sy g * (gpu_y g - gpu_ay g) + 1) - gpu_dy g * (gpu_x g - gpu_ax g + 1) \<and>
     - 1024 \<le> gpu_ax g \<and> gpu_bx g \<le> 1023 \<and>
     {gpu_ay g, gpu_by g} \<subseteq> {- 1024..1023}"

text \<open>A blit reads inside its source rectangle.\<close>

definition gpu_source_ok :: "(u32 \<Rightarrow> u32) \<Rightarrow> u32 \<Rightarrow> bool" where
  "gpu_source_ok p ram_size \<longleftrightarrow>
     p GP_SW \<le> 2048 \<and> 0 < p GP_SH \<and> p GP_SH \<le> 2048 \<and> p GP_STRIDE \<le> 65535 \<and>
     (if p GP_SRC = 0x12000000 then p GP_SW = 320 \<and> p GP_SH = 240 \<and> p GP_STRIDE = 320
      else p GP_SRC \<ge> 0x80000000 \<and> source_end p \<le> 0x80000000 + ucast ram_size)"

definition gpu_blit_ok :: "gpu_device \<Rightarrow> u32 \<Rightarrow> bool" where
  "gpu_blit_ok g ram_size \<longleftrightarrow>
     (let p = gpu_p g; sx = sint (p GP_SX); sy = sint (p GP_SY) in
      gpu_source_ok p ram_size \<and>
      0 \<le> sx + gpu_lo g - gpu_ax g \<and> sx + gpu_hi g - gpu_ax g \<le> uint (p GP_SW) \<and>
      0 \<le> sy + gpu_top g - gpu_ay g \<and> sy + gpu_bottom g - gpu_ay g \<le> uint (p GP_SH))"

definition gpu_running :: "gpu_device \<Rightarrow> u32 \<Rightarrow> bool" where
  "gpu_running g ram_size \<longleftrightarrow>
     (if gpu_p g GP_OP = GPU_LINE then gpu_line_ok g else gpu_scan_ok g) \<and>
     (gpu_p g GP_OP = GPU_BLIT \<longrightarrow> gpu_blit_ok g ram_size) \<and>
     (gpu_phase g \<in> {GPH_READ, GPH_WRITE} \<longrightarrow>
        0 \<le> gpu_x g \<and> gpu_x g < 320 \<and> 0 \<le> gpu_y g \<and> gpu_y g < 240) \<and>
     (gpu_phase g = GPH_READ \<longrightarrow> gpu_p g GP_OP = GPU_BLIT)"

definition gpu_inv :: "u32 \<Rightarrow> gpu_device \<Rightarrow> bool" where
  "gpu_inv ram_size g \<longleftrightarrow>
     (gpu_busy g \<longrightarrow> gpu_phase g \<noteq> GPH_IDLE \<and> (gpu_phase g \<noteq> GPH_SETUP \<longrightarrow> gpu_running g ram_size))"

lemma gpu_inv_reset: "gpu_inv ram_size (gpu_device_reset g)"
  by (simp add: gpu_inv_def gpu_device_reset_def gpu_device_zero_def gpu_busy_def)

lemma gpu_access_inv:
  "gpu_inv ram_size g \<Longrightarrow> gpu_access g off width write v = Some (g', v') \<Longrightarrow> gpu_inv ram_size g'"
  by (auto simp: gpu_access_def gpu_inv_def gpu_device_reset_def gpu_device_zero_def gpu_busy_def
      Let_def split: if_splits)

lemma sint_small: "w \<le> 2048 \<Longrightarrow> sint w = uint w" for w :: u32
  by (auto simp: sint_u32 word_le_def)

lemma gpu_scan_inv:
  "gpu_running g ram_size \<Longrightarrow> gpu_running (gpu_scan g) ram_size"
  by (auto simp: gpu_running_def gpu_scan_def gpu_line_ok_def gpu_scan_ok_def gpu_blit_ok_def gpu_covered_def
      Let_def split: if_splits)

lemma gpu_transfer_inv:
  assumes "gpu_running g ram_size" "gpu_phase g = GPH_READ \<or> gpu_phase g = GPH_WRITE"
  shows "gpu_running (fst (gpu_transfer g ram fb hold)) ram_size"
  using assms
  by (auto simp: gpu_running_def gpu_transfer_def gpu_line_ok_def gpu_scan_ok_def gpu_blit_ok_def
      Let_def split: if_splits)

text \<open>Bresenham's loop: with the cursor at \<open>u\<close> steps of \<open>dx\<close> and \<open>w\<close> steps of \<open>dy\<close>, not both
  complete, a step moves along at least one axis and past the end of neither.\<close>

lemma bresenham_step:
  fixes dx dy u w :: int
  defines "e \<equiv> dx * (w + 1) - dy * (u + 1)"
  assumes "0 \<le> u" "u \<le> dx" "0 \<le> w" "w \<le> dy" "\<not> (u = dx \<and> w = dy)"
  shows "2 * e \<ge> - dy \<or> 2 * e \<le> dx"
    and "2 * e \<ge> - dy \<Longrightarrow> u < dx"
    and "2 * e \<le> dx \<Longrightarrow> w < dy"
proof -
  show "2 * e \<ge> - dy \<or> 2 * e \<le> dx" using assms by linarith
  show "u < dx" if "2 * e \<ge> - dy"
  proof (rule ccontr)
    assume "\<not> u < dx"
    then have u: "u = dx" using assms by simp
    then have w: "w + 1 \<le> dy" using assms by auto
    have "dx * (w + 1) \<le> dx * dy" using w assms by (intro mult_left_mono) auto
    then have "e \<le> - dy" by (simp add: e_def u algebra_simps)
    with that w assms show False by linarith
  qed
  show "w < dy" if "2 * e \<le> dx"
  proof (rule ccontr)
    assume "\<not> w < dy"
    then have w: "w = dy" using assms by simp
    then have u: "u + 1 \<le> dx" using assms by auto
    have "dy * (u + 1) \<le> dy * dx" using u assms by (intro mult_left_mono) auto
    then have "e \<ge> dx" by (simp add: e_def w algebra_simps)
    with that u assms show False by linarith
  qed
qed

text \<open>The pixels the scan still has to visit after the current one.\<close>

definition gpu_left :: "gpu_device \<Rightarrow> int" where
  "gpu_left g =
     (if gpu_p g GP_OP = GPU_LINE then
        (gpu_bx g - gpu_x g) + (gpu_dy g - gpu_sy g * (gpu_y g - gpu_ay g))
      else if gpu_step g > 0 then
        (gpu_bottom g - 1 - gpu_y g) * (gpu_hi g - gpu_lo g) + (gpu_hi g - 1 - gpu_x g)
      else (gpu_y g - gpu_top g) * (gpu_hi g - gpu_lo g) + (gpu_x g - gpu_lo g))"

lemma gpu_advance_line:
  assumes op: "gpu_p g GP_OP = GPU_LINE" and ok: "gpu_line_ok g" and busy: "gpu_busy (gpu_advance g)"
  shows "gpu_line_ok (gpu_advance g) \<and> gpu_left (gpu_advance g) < gpu_left g"
proof -
  define u where "u = gpu_x g - gpu_ax g"
  define w where "w = gpu_sy g * (gpu_y g - gpu_ay g)"
  define e where "e = gpu_dx g * (w + 1) - gpu_dy g * (u + 1)"
  have sy: "gpu_sy g * gpu_sy g = 1" using ok by (auto simp: gpu_line_ok_def)
  have bounds: "0 \<le> u" "u \<le> gpu_dx g" "0 \<le> w" "w \<le> gpu_dy g" and err: "gpu_err g = e"
    using ok by (simp_all add: gpu_line_ok_def u_def w_def e_def)
  have notdone: "\<not> (gpu_x g = gpu_bx g \<and> gpu_y g = gpu_by g)"
    using busy op by (auto simp: gpu_advance_def gpu_busy_def Let_def)
  have "\<not> (u = gpu_dx g \<and> w = gpu_dy g)"
  proof
    assume "u = gpu_dx g \<and> w = gpu_dy g"
    then have "gpu_x g = gpu_bx g" "gpu_y g = gpu_by g"
      using ok by (auto simp: gpu_line_ok_def u_def w_def)
    with notdone show False by simp
  qed
  note b = bresenham_step [OF bounds this, folded e_def]
  have y: "gpu_sy g * (gpu_y g + gpu_sy g - gpu_ay g) = w + 1"
    by (simp add: w_def sy algebra_simps)
  have defs: "gpu_x g = u + gpu_ax g" by (simp add: u_def)
  show ?thesis
  proof (cases "2 * e \<ge> - gpu_dy g")
    case True
    show ?thesis
    proof (cases "2 * e \<le> gpu_dx g")
      case y2: True
      have "u < gpu_dx g" "w < gpu_dy g" using b(2) [OF True] b(3) [OF y2] by auto
      then show ?thesis using ok op True y2 y bounds
        by (simp add: gpu_advance_def gpu_line_ok_def gpu_left_def err e_def Let_def notdone
            flip: w_def) (simp add: u_def algebra_simps)
    next
      case y2: False
      have "u < gpu_dx g" using b(2) [OF True] by auto
      then show ?thesis using ok op True y2 y bounds
        by (simp add: gpu_advance_def gpu_line_ok_def gpu_left_def err e_def Let_def notdone
            flip: w_def) (simp add: u_def algebra_simps)
    qed
  next
    case False
    then have y2: "2 * e \<le> gpu_dx g" using b(1) by auto
    have "w < gpu_dy g" using b(3) [OF y2] by auto
    then show ?thesis using ok op False y2 y bounds
      by (simp add: gpu_advance_def gpu_line_ok_def gpu_left_def err e_def Let_def notdone
            flip: w_def) (simp add: u_def algebra_simps)
  qed
qed

lemma gpu_advance_scan:
  assumes op: "gpu_p g GP_OP \<noteq> GPU_LINE" and ok: "gpu_scan_ok g" and busy: "gpu_busy (gpu_advance g)"
  shows "gpu_scan_ok (gpu_advance g) \<and> gpu_left (gpu_advance g) < gpu_left g"
proof -
  define row where "row = gpu_hi g - gpu_lo g"
  have hi: "gpu_hi g = gpu_lo g + row" by (simp add: row_def)
  note s = gpu_scan_ok_def gpu_advance_def gpu_left_def gpu_busy_def Let_def
  from ok consider "gpu_step g = 1" | "gpu_step g = - 1" by (auto simp: gpu_scan_ok_def)
  then show ?thesis
  proof cases
    case 1
    show ?thesis
    proof (cases "gpu_x g = gpu_hi g - 1")
      case True
      then have "gpu_y g \<noteq> gpu_bottom g - 1" using busy op 1 by (auto simp: s)
      then show ?thesis using ok op 1 True by (simp add: s hi left_diff_distrib)
    next
      case False
      then show ?thesis using ok op 1 by (simp add: s hi)
    qed
  next
    case 2
    show ?thesis
    proof (cases "gpu_x g = gpu_lo g")
      case True
      then have "gpu_y g \<noteq> gpu_top g" using busy op 2 by (auto simp: s)
      then show ?thesis using ok op 2 True by (simp add: s hi left_diff_distrib)
    next
      case False
      then show ?thesis using ok op 2 by (simp add: s hi)
    qed
  qed
qed

lemma gpu_advance_frame [simp]:
  "gpu_p (gpu_advance g) = gpu_p g"
  "gpu_phase (gpu_advance g) = (if gpu_busy (gpu_advance g) then GPH_SCAN else GPH_IDLE)"
  "gpu_ax (gpu_advance g) = gpu_ax g" "gpu_ay (gpu_advance g) = gpu_ay g"
  "gpu_lo (gpu_advance g) = gpu_lo g" "gpu_hi (gpu_advance g) = gpu_hi g"
  "gpu_top (gpu_advance g) = gpu_top g" "gpu_bottom (gpu_advance g) = gpu_bottom g"
  by (auto simp: gpu_advance_def gpu_busy_def Let_def)

lemma gpu_advance_inv:
  assumes "gpu_running g ram_size" "gpu_busy (gpu_advance g)"
  shows "gpu_running (gpu_advance g) ram_size"
  using assms gpu_advance_line [of g] gpu_advance_scan [of g]
  by (auto simp: gpu_running_def gpu_blit_ok_def Let_def split: if_splits)

lemma gpu_setup_line_inv:
  assumes "gpu_p g GP_OP = GPU_LINE"
    and "{gpu_ax g, gpu_bx g, gpu_ay g, gpu_by g} \<subseteq> {- 1024..1023}"
  shows "gpu_running (gpu_setup_line g) ram_size"
  using assms
  by (auto simp: gpu_setup_line_def gpu_running_def gpu_line_ok_def Let_def)

definition gpu_rect_ok :: "gpu_device \<Rightarrow> bool" where
  "gpu_rect_ok g \<longleftrightarrow> 0 \<le> gpu_lo g \<and> gpu_hi g \<le> 320 \<and> 0 \<le> gpu_top g \<and> gpu_bottom g \<le> 240 \<and>
     (gpu_step g = 1 \<or> gpu_step g = - 1)"

lemma gpu_clip_rect_ok:
  "gpu_p g GP_OP = GPU_FILL \<or> gpu_p g GP_OP = GPU_BLIT \<Longrightarrow> gpu_rect_ok (gpu_clip_rect g)"
  by (auto simp: gpu_rect_ok_def gpu_clip_rect_def Let_def)

lemma gpu_clip_rect_frame [simp]:
  "gpu_p (gpu_clip_rect g) = gpu_p g" "gpu_ax (gpu_clip_rect g) = gpu_ax g" "gpu_ay (gpu_clip_rect g) = gpu_ay g"
  "gpu_step (gpu_clip_rect g) = 1 \<or> gpu_step (gpu_clip_rect g) = - 1"
  by (simp_all add: gpu_clip_rect_def Let_def)

lemma gpu_clip_triangle_ok:
  "gpu_step g = 1 \<or> gpu_step g = - 1 \<Longrightarrow> gpu_rect_ok (gpu_clip_triangle g)"
  by (simp add: gpu_rect_ok_def gpu_clip_triangle_def Let_def)

lemma gpu_clip_triangle_frame [simp]: "gpu_p (gpu_clip_triangle g) = gpu_p g"
  by (simp add: gpu_clip_triangle_def Let_def)

lemma max_shift_le: "0 \<le> s + max m (b - s) - b" for b s m :: int
  by linarith

lemma min_shift_le: "s + min m (b + u - s) - b \<le> u" for b s m u :: int
  by linarith

lemma gpu_clip_blit_ok:
  assumes op: "gpu_p g GP_OP = GPU_BLIT" and src: "gpu_source_ok (gpu_p g) ram_size"
  shows "gpu_blit_ok (gpu_clip_rect g) ram_size"
proof -
  have "sint (gpu_p g GP_SW) = uint (gpu_p g GP_SW)" "sint (gpu_p g GP_SH) = uint (gpu_p g GP_SH)"
    using src by (auto simp: gpu_source_ok_def intro: sint_small)
  moreover have "gpu_lo (gpu_clip_rect g) = max (max 0 (gpu_ax g)) (gpu_ax g - sint (gpu_p g GP_SX))"
    "gpu_hi (gpu_clip_rect g) =
       min (min 320 (gpu_ax g + sint (gpu_p g GP_W))) (gpu_ax g + sint (gpu_p g GP_SW) - sint (gpu_p g GP_SX))"
    "gpu_top (gpu_clip_rect g) = max (max 0 (gpu_ay g)) (gpu_ay g - sint (gpu_p g GP_SY))"
    "gpu_bottom (gpu_clip_rect g) =
       min (min 240 (gpu_ay g + sint (gpu_p g GP_H))) (gpu_ay g + sint (gpu_p g GP_SH) - sint (gpu_p g GP_SY))"
    using op by (simp_all add: gpu_clip_rect_def Let_def)
  ultimately show ?thesis
    by (simp only: gpu_blit_ok_def gpu_clip_rect_frame Let_def src max_shift_le min_shift_le simp_thms)
qed

lemma gpu_start_scan_ok:
  assumes "gpu_rect_ok g" "gpu_busy (gpu_start_scan g)"
  shows "gpu_scan_ok (gpu_start_scan g)" "gpu_phase (gpu_start_scan g) = GPH_SCAN"
  using assms
  by (auto simp: gpu_start_scan_def gpu_rect_ok_def gpu_scan_ok_def gpu_finish_def gpu_busy_def)

lemma gpu_start_scan_frame [simp]:
  "gpu_p (gpu_start_scan g) = gpu_p g"
  "gpu_blit_ok (gpu_start_scan g) ram_size = gpu_blit_ok g ram_size"
  by (simp_all add: gpu_start_scan_def gpu_finish_def gpu_blit_ok_def)

lemma gpu_setup_area_inv:
  assumes op: "gpu_p g GP_OP \<in> {GPU_FILL, GPU_BLIT, GPU_TRIANGLE}" and busy: "gpu_busy (gpu_setup_area g)"
    and src: "gpu_p g GP_OP = GPU_BLIT \<Longrightarrow> gpu_source_ok (gpu_p g) ram_size"
  shows "gpu_running (gpu_setup_area g) ram_size \<and> gpu_phase (gpu_setup_area g) = GPH_SCAN"
proof (cases "gpu_p g GP_OP = GPU_TRIANGLE")
  case True
  then have "gpu_setup_area g = gpu_start_scan (gpu_clip_triangle (gpu_clip_rect g))"
    using busy by (auto simp: gpu_setup_area_def Let_def gpu_finish_def gpu_busy_def split: if_splits)
  then show ?thesis
    using True busy gpu_start_scan_ok [OF gpu_clip_triangle_ok [OF gpu_clip_rect_frame(4)]]
    by (simp add: gpu_running_def)
next
  case False
  then have "gpu_setup_area g = gpu_start_scan (gpu_clip_rect g)"
    by (simp add: gpu_setup_area_def Let_def)
  moreover have "gpu_rect_ok (gpu_clip_rect g)" using False op by (intro gpu_clip_rect_ok) auto
  ultimately show ?thesis using False op busy gpu_clip_blit_ok [OF _ src] gpu_start_scan_ok
    by (auto simp: gpu_running_def)
qed

lemma gpu_valid_op:
  assumes "gpu_valid p ram_size ws we"
  shows "p GP_OP \<in> {GPU_FILL, GPU_BLIT, GPU_LINE, GPU_TRIANGLE}"
proof -
  have "1 \<le> unat (p GP_OP)" "unat (p GP_OP) \<le> 4"
    using assms by (auto simp: gpu_valid_def Let_def word_le_nat_alt split: if_splits)
  then have "unat (p GP_OP) \<in> {1, 2, 3, 4}" by auto
  then show ?thesis by (auto dest: unat_eq_imp_of_nat)
qed

lemma gpu_valid_line:
  "gpu_valid p ram_size ws we \<Longrightarrow> p GP_OP = GPU_LINE \<Longrightarrow>
   {sint (p GP_X0), sint (p GP_X1), sint (p GP_Y0), sint (p GP_Y1)} \<subseteq> {- 1024..1023}"
  by (auto simp: gpu_valid_def gpu_coord_def Let_def)

lemma gpu_valid_source:
  "gpu_valid p ram_size ws we \<Longrightarrow> p GP_OP = GPU_BLIT \<Longrightarrow> gpu_source_ok p ram_size"
  by (auto simp: gpu_valid_def gpu_source_ok_def Let_def split: if_splits)

lemma gpu_setup_inv:
  assumes busy: "gpu_busy (gpu_setup g ram_size ws we)"
  shows "gpu_running (gpu_setup g ram_size ws we) ram_size \<and> gpu_phase (gpu_setup g ram_size ws we) = GPH_SCAN"
proof -
  let ?p = "gpu_p g"
  define h where "h = g\<lparr>gpu_ax := sint (?p GP_X0), gpu_ay := sint (?p GP_Y0), gpu_bx := sint (?p GP_X1),
                       gpu_by := sint (?p GP_Y1), gpu_cx := sint (?p GP_X2), gpu_cy := sint (?p GP_Y2)\<rparr>"
  have valid: "gpu_valid ?p ram_size ws we"
    using busy by (auto simp: gpu_setup_def gpu_busy_def Let_def split: if_splits)
  have p: "gpu_p h = ?p" by (simp add: h_def)
  show ?thesis
  proof (cases "?p GP_OP = GPU_LINE")
    case True
    then have "gpu_setup g ram_size ws we = gpu_setup_line h"
      using valid by (simp add: gpu_setup_def h_def Let_def)
    moreover have "gpu_running (gpu_setup_line h) ram_size"
      using gpu_valid_line [OF valid True] True by (intro gpu_setup_line_inv) (auto simp: h_def)
    moreover have "gpu_phase (gpu_setup_line h) = GPH_SCAN"
      by (simp add: gpu_setup_line_def Let_def)
    ultimately show ?thesis by simp
  next
    case False
    then have eq: "gpu_setup g ram_size ws we = gpu_setup_area h"
      using valid by (simp add: gpu_setup_def h_def Let_def)
    have "gpu_p h GP_OP \<in> {GPU_FILL, GPU_BLIT, GPU_TRIANGLE}"
      using gpu_valid_op [OF valid] False p by simp
    from gpu_setup_area_inv [OF this, of ram_size] busy gpu_valid_source [OF valid]
    show ?thesis by (simp add: eq p)
  qed
qed

lemma gpu_running_cycles [simp]:
  "gpu_running (g\<lparr>gpu_cycles := c\<rparr>) ram_size = gpu_running g ram_size"
  "gpu_running (g\<lparr>gpu_command_tick := t\<rparr>) ram_size = gpu_running g ram_size"
  "gpu_running (g\<lparr>gpu_fb_written := t\<rparr>) ram_size = gpu_running g ram_size"
  by (simp_all add: gpu_running_def gpu_line_ok_def gpu_scan_ok_def gpu_blit_ok_def)

lemma gpu_scan_frame [simp]:
  "gpu_phase (gpu_scan g) \<noteq> GPH_IDLE" "gpu_phase (gpu_scan g) \<noteq> GPH_SETUP"
  by (simp_all add: gpu_scan_def)

lemma gpu_transfer_frame:
  "gpu_phase g = GPH_READ \<or> gpu_phase g = GPH_WRITE \<Longrightarrow>
   gpu_phase (fst (gpu_transfer g ram fb hold)) \<in> {GPH_READ, GPH_WRITE, GPH_ADVANCE}"
  by (auto simp: gpu_transfer_def Let_def)

lemma gpu_tick_inv:
  assumes "gpu_inv ram_size g"
  shows "gpu_inv ram_size (fst (gpu_tick g ram ram_size fb hold ws we))"
proof (cases "gpu_command_tick g \<or> \<not> gpu_busy g")
  case True
  then show ?thesis using assms
    by (cases "gpu_command_tick g") (simp_all add: gpu_tick_def gpu_inv_def gpu_busy_def)
next
  case False
  define h where "h = g\<lparr>gpu_cycles := gpu_cycles g + 1\<rparr>"
  have ph: "gpu_phase h = gpu_phase g" and busy: "gpu_busy h"
    using False by (simp_all add: h_def gpu_busy_def)
  have run: "gpu_phase g \<noteq> GPH_SETUP \<Longrightarrow> gpu_running h ram_size" and idle: "gpu_phase g \<noteq> GPH_IDLE"
    using assms False by (simp_all add: gpu_inv_def h_def)
  show ?thesis
    using False gpu_setup_inv [of h ram_size ws we] gpu_scan_inv [OF run] gpu_advance_inv [OF run]
      gpu_transfer_inv [OF run, of ram fb hold] gpu_transfer_frame [of h ram fb hold] idle
    by (cases "gpu_phase g") (auto simp: gpu_tick_def gpu_inv_def Let_def ph simp flip: h_def)
qed

section \<open>Bounds of the engine's accesses\<close>

lemma uint_source_end:
  assumes "gpu_source_ok p ram_size"
  shows "uint (source_end p) = uint (p GP_SRC) + (uint (p GP_SH) - 1) * uint (p GP_STRIDE) + uint (p GP_SW)"
proof -
  have sh: "0 < uint (p GP_SH)" "uint (p GP_SH) \<le> 2048" and sw: "uint (p GP_SW) \<le> 2048"
    and st: "uint (p GP_STRIDE) \<le> 65535" and ne: "p GP_SH \<noteq> 0"
    using assms by (auto simp: gpu_source_ok_def word_le_def word_less_def)
  have pr: "(uint (p GP_SH) - 1) * uint (p GP_STRIDE) \<le> 2047 * 65535"
    using sh st by (intro mult_mono) auto
  have pr0: "0 \<le> (uint (p GP_SH) - 1) * uint (p GP_STRIDE)" using sh by simp
  have one: "uint (p GP_SH - 1) = uint (p GP_SH) - 1"
    using sh uint_u32_less [of "p GP_SH"] by (simp add: uint_word_ariths mod_pos_pos_trivial)
  let ?e = "uint (p GP_SRC) + (uint (p GP_SH) - 1) * uint (p GP_STRIDE) + uint (p GP_SW)"
  have "source_end p = of_int ?e"
    using one ne by (simp add: source_end_def flip: one)
  then have "uint (source_end p) = uint (of_int ?e :: u64)" by (rule arg_cong)
  also have "\<dots> = ?e"
    using pr pr0 sw uint_u32_less [of "p GP_SRC"] by (intro uint_of_int_u64) simp_all
  finally show ?thesis .
qed

lemma gpu_read_bounds:
  assumes run: "gpu_running g ram_size" and ph: "gpu_phase g = GPH_READ"
  shows "uint (gpu_read_offset g) < uint (source_end (gpu_p g)) - uint (gpu_p g GP_SRC)"
    and "gpu_p g GP_SRC = 0x12000000 \<Longrightarrow> uint (gpu_read_offset g) < 76800"
proof -
  let ?p = "gpu_p g"
  define r where "r = sint (?p GP_SY) + gpu_y g - gpu_ay g"
  define c where "c = sint (?p GP_SX) + gpu_x g - gpu_ax g"
  have src: "gpu_source_ok ?p ram_size" and r: "0 \<le> r" "r \<le> uint (?p GP_SH) - 1"
    and c: "0 \<le> c" "c \<le> uint (?p GP_SW) - 1"
    using run ph by (auto simp: gpu_running_def gpu_blit_ok_def gpu_scan_ok_def r_def c_def Let_def split: if_splits)
  have sh: "uint (?p GP_SH) \<le> 2048" "uint (?p GP_SW) \<le> 2048" "uint (?p GP_STRIDE) \<le> 65535"
    using src by (auto simp: gpu_source_ok_def word_le_def)
  have m: "r * uint (?p GP_STRIDE) \<le> (uint (?p GP_SH) - 1) * uint (?p GP_STRIDE)"
    using r by (intro mult_right_mono) auto
  have "(uint (?p GP_SH) - 1) * uint (?p GP_STRIDE) \<le> 2047 * 65535"
    using r sh by (intro mult_mono) auto
  with m r c sh have range: "0 \<le> r * uint (?p GP_STRIDE) + c" "r * uint (?p GP_STRIDE) + c < 2 ^ 32" by auto
  have "gpu_read_offset g = of_int (r * uint (?p GP_STRIDE) + c)"
    by (simp add: gpu_read_offset_def Let_def r_def c_def)
  then have off: "uint (gpu_read_offset g) = r * uint (?p GP_STRIDE) + c"
    by (simp only: uint_of_int_u32 [OF range])
  show "uint (gpu_read_offset g) < uint (source_end ?p) - uint (?p GP_SRC)"
    using m c by (simp add: off uint_source_end [OF src])
  show "uint (gpu_read_offset g) < 76800" if "?p GP_SRC = 0x12000000"
    using that src m c by (simp add: off gpu_source_ok_def)
qed

lemma gpu_read_in_ram:
  assumes run: "gpu_running g ram_size" and ph: "gpu_phase g = GPH_READ"
    and src: "gpu_p g GP_SRC \<noteq> 0x12000000" and size: "ram_size \<le> 0x7fffffff"
  shows "gpu_p g GP_SRC - 0x80000000 + gpu_read_offset g < ram_size"
    and "gpu_busy g \<Longrightarrow> gpu_source_locked g (gpu_p g GP_SRC + gpu_read_offset g) 1"
proof -
  let ?p = "gpu_p g" and ?o = "gpu_read_offset g"
  have sok: "gpu_source_ok ?p ram_size" and op: "?p GP_OP = GPU_BLIT"
    using run ph by (auto simp: gpu_running_def gpu_blit_ok_def Let_def)
  have lo: "uint (?p GP_SRC) \<ge> 0x80000000" and sh: "?p GP_SH \<noteq> 0"
    and e: "uint (source_end ?p) \<le> 0x80000000 + uint ram_size"
  proof -
    show "uint (?p GP_SRC) \<ge> 0x80000000" "?p GP_SH \<noteq> 0"
      using sok src by (auto simp: gpu_source_ok_def word_le_def)
    have "source_end ?p \<le> 0x80000000 + ucast ram_size"
      using sok src by (auto simp: gpu_source_ok_def)
    then show "uint (source_end ?p) \<le> 0x80000000 + uint ram_size"
      using uint_u32_less [of ram_size]
      by (simp add: word_le_def uint_word_ariths unsigned_ucast_eq take_bit_int_eq_self mod_pos_pos_trivial)
  qed
  have rs: "uint ram_size \<le> 0x7fffffff" using size by (simp add: word_le_def)
  note b = gpu_read_bounds(1) [OF run ph]
  have sum: "uint (?p GP_SRC + ?o) = uint (?p GP_SRC) + uint ?o"
    using b e rs by (simp add: uint_word_ariths mod_pos_pos_trivial)
  have sub: "uint (?p GP_SRC - 0x80000000) = uint (?p GP_SRC) - 0x80000000"
    using lo uint_u32_less [of "?p GP_SRC"] by (simp add: uint_word_ariths mod_pos_pos_trivial)
  show "?p GP_SRC - 0x80000000 + ?o < ram_size"
    using b e lo rs sub by (simp add: word_less_def uint_word_ariths(1) mod_pos_pos_trivial)
  show "gpu_source_locked g (?p GP_SRC + ?o) 1" if "gpu_busy g"
  proof -
    have "uint (ucast (?p GP_SRC + ?o) + 1 :: u64) = uint (?p GP_SRC + ?o) + 1"
      using uint_u32_less [of "?p GP_SRC + ?o"]
      by (simp add: uint_word_ariths unsigned_ucast_eq take_bit_int_eq_self mod_pos_pos_trivial)
    then show ?thesis using that op lo sh e rs b sum
      by (simp add: gpu_source_locked_def Let_def word_less_def word_le_def uint_ucast_u64)
  qed
qed

lemma gpu_write_bounds:
  assumes "gpu_running g ram_size" "gpu_phase g = GPH_WRITE"
  shows "(of_int (gpu_y g * 320 + gpu_x g) :: u32) < 76800"
proof -
  have "0 \<le> gpu_y g * 320 + gpu_x g" "gpu_y g * 320 + gpu_x g < 76800"
    using assms by (auto simp: gpu_running_def)
  then show ?thesis
    using uint_of_int_u32 [of "gpu_y g * 320 + gpu_x g"] by (simp only: word_less_def) simp
qed

section \<open>Every job ends\<close>

lemma gpu_left_bounds:
  assumes "gpu_running g ram_size"
  shows "0 \<le> gpu_left g" "gpu_left g < 76800"
proof -
  have "0 \<le> gpu_left g \<and> gpu_left g < 76800"
  proof (cases "gpu_p g GP_OP = GPU_LINE")
    case True
    then show ?thesis using assms
      by (auto simp: gpu_running_def gpu_line_ok_def gpu_left_def)
  next
    case False
    then have ok: "gpu_scan_ok g" using assms by (simp add: gpu_running_def)
    have "(gpu_bottom g - 1 - gpu_y g) * (gpu_hi g - gpu_lo g) \<le> 239 * 320"
      "(gpu_y g - gpu_top g) * (gpu_hi g - gpu_lo g) \<le> 239 * 320"
      using ok mult_mono [of _ 239 "gpu_hi g - gpu_lo g" "320::int"] by (simp_all add: gpu_scan_ok_def)
    moreover have "0 \<le> (gpu_bottom g - 1 - gpu_y g) * (gpu_hi g - gpu_lo g)"
      "0 \<le> (gpu_y g - gpu_top g) * (gpu_hi g - gpu_lo g)"
      using ok by (auto simp: gpu_scan_ok_def intro!: mult_nonneg_nonneg)
    ultimately show ?thesis using False ok by (auto simp: gpu_left_def gpu_scan_ok_def)
  qed
  then show "0 \<le> gpu_left g" "gpu_left g < 76800" by simp_all
qed

text \<open>The ticks a job still needs, at most: four per pixel that is left, after the set-up tick.\<close>

definition gpu_work :: "gpu_device \<Rightarrow> nat" where
  "gpu_work g =
     (if gpu_command_tick g then 1 else 0) +
     (if \<not> gpu_busy g then 0
      else case gpu_phase g of
        GPH_IDLE \<Rightarrow> 0 | GPH_SETUP \<Rightarrow> 307201
      | GPH_SCAN \<Rightarrow> nat (4 * gpu_left g) + 4 | GPH_READ \<Rightarrow> nat (4 * gpu_left g) + 3
      | GPH_WRITE \<Rightarrow> nat (4 * gpu_left g) + 2 | GPH_ADVANCE \<Rightarrow> nat (4 * gpu_left g) + 1)"

lemma gpu_left_frame [simp]:
  "gpu_left (g\<lparr>gpu_cycles := c\<rparr>) = gpu_left g"
  "gpu_left (g\<lparr>gpu_command_tick := t\<rparr>) = gpu_left g"
  "gpu_left (g\<lparr>gpu_pixel := px\<rparr>) = gpu_left g"
  "gpu_left (g\<lparr>gpu_reads := n\<rparr>) = gpu_left g"
  "gpu_left (g\<lparr>gpu_writes := n\<rparr>) = gpu_left g"
  "gpu_left (g\<lparr>gpu_stalls := n\<rparr>) = gpu_left g"
  "gpu_left (g\<lparr>gpu_fb_written := b\<rparr>) = gpu_left g"
  "gpu_left (g\<lparr>gpu_fb_written_at := n\<rparr>) = gpu_left g"
  "gpu_left (g\<lparr>gpu_phase := ph\<rparr>) = gpu_left g"
  "gpu_left (gpu_scan g) = gpu_left g"
  "gpu_left (fst (gpu_transfer g ram fb hold)) = gpu_left g"
  by (simp_all add: gpu_left_def gpu_scan_def gpu_transfer_def Let_def)

lemma gpu_setup_line_command_tick [simp]: "gpu_command_tick (gpu_setup_line g) = gpu_command_tick g"
  by (simp add: gpu_setup_line_def Let_def)

lemma gpu_setup_area_command_tick [simp]: "gpu_command_tick (gpu_setup_area g) = gpu_command_tick g"
proof -
  have "gpu_command_tick (gpu_clip_rect g) = gpu_command_tick g" for g
    by (simp add: gpu_clip_rect_def Let_def)
  moreover have "gpu_command_tick (gpu_clip_triangle g) = gpu_command_tick g" for g
    by (simp add: gpu_clip_triangle_def Let_def)
  ultimately show ?thesis
    by (simp add: gpu_setup_area_def gpu_start_scan_def gpu_finish_def Let_def)
qed

lemma gpu_phase_command_tick [simp]:
  "gpu_command_tick (gpu_setup g ram_size ws we) = gpu_command_tick g"
  "gpu_command_tick (gpu_scan g) = gpu_command_tick g"
  "gpu_command_tick (fst (gpu_transfer g ram fb hold)) = gpu_command_tick g"
  "gpu_command_tick (gpu_advance g) = gpu_command_tick g"
  by (simp_all add: gpu_setup_def gpu_scan_def gpu_transfer_def gpu_advance_def Let_def)

lemma gpu_tick_work:
  assumes inv: "gpu_inv ram_size g" and busy: "gpu_busy g"
  shows "gpu_work (fst (gpu_tick g ram ram_size fb False ws we)) < gpu_work g"
proof (cases "gpu_command_tick g")
  case True
  then show ?thesis by (simp add: gpu_tick_def gpu_work_def gpu_busy_def cong: gpu_phase.case_cong)
next
  case False
  define h where "h = g\<lparr>gpu_cycles := gpu_cycles g + 1\<rparr>"
  have h: "gpu_phase h = gpu_phase g" "gpu_busy h" "gpu_command_tick h = gpu_command_tick g" "gpu_left h = gpu_left g"
    using busy by (simp_all add: h_def gpu_busy_def)
  have run: "gpu_phase g \<noteq> GPH_SETUP \<Longrightarrow> gpu_running h ram_size" and idle: "gpu_phase g \<noteq> GPH_IDLE"
    using inv busy by (simp_all add: gpu_inv_def h_def)
  have tick: "gpu_tick g ram ram_size fb False ws we =
      (case gpu_phase h of GPH_SETUP \<Rightarrow> (gpu_setup h ram_size ws we, fb)
       | GPH_SCAN \<Rightarrow> (gpu_scan h, fb) | GPH_READ \<Rightarrow> gpu_transfer h ram fb False
       | GPH_WRITE \<Rightarrow> gpu_transfer h ram fb False | GPH_ADVANCE \<Rightarrow> (gpu_advance h, fb)
       | GPH_IDLE \<Rightarrow> (h\<lparr>gpu_status := GPU_FAULT, gpu_error := GPU_INTERNAL, gpu_phase := GPH_IDLE\<rparr>, fb))"
    using busy False by (simp add: gpu_tick_def Let_def flip: h_def)
  show ?thesis
  proof (cases "gpu_phase g")
    case GPH_SETUP
    let ?s = "gpu_setup h ram_size ws we"
    have "gpu_busy ?s \<Longrightarrow> 0 \<le> gpu_left ?s \<and> gpu_left ?s < 76800 \<and> gpu_phase ?s = GPH_SCAN"
      using gpu_setup_inv [of h ram_size ws we] gpu_left_bounds by blast
    then show ?thesis using GPH_SETUP h busy False by (auto simp: tick gpu_work_def)
  next
    case GPH_SCAN
    then show ?thesis using h busy False gpu_left_bounds [OF run]
      by (simp add: tick gpu_work_def) (simp add: gpu_scan_def gpu_busy_def)
  next
    case GPH_READ
    then show ?thesis using h busy False
      by (simp add: tick gpu_work_def) (simp add: gpu_transfer_def gpu_busy_def Let_def)
  next
    case GPH_WRITE
    then show ?thesis using h busy False
      by (simp add: tick gpu_work_def) (simp add: gpu_transfer_def gpu_busy_def Let_def)
  next
    case GPH_ADVANCE
    then have run': "gpu_running h ram_size" using run by simp
    have "gpu_busy (gpu_advance h) \<Longrightarrow> gpu_left (gpu_advance h) < gpu_left h"
      using run' gpu_advance_line [of h] gpu_advance_scan [of h] by (auto simp: gpu_running_def split: if_splits)
    then show ?thesis using GPH_ADVANCE h busy False gpu_left_bounds [OF run']
        gpu_left_bounds [OF gpu_advance_inv [OF run']]
      by (auto simp: tick gpu_work_def)
  next
    case GPH_IDLE
    then show ?thesis using idle by simp
  qed
qed

text \<open>A run of ticks, each with the memory and the window as the machine has them then.\<close>

fun gpu_ticks :: "u32 \<Rightarrow> (bytes \<times> bytes \<times> u32 \<times> u32) list \<Rightarrow> gpu_device \<Rightarrow> gpu_device" where
  "gpu_ticks ram_size [] g = g"
| "gpu_ticks ram_size ((ram, fb, ws, we) # envs) g =
     gpu_ticks ram_size envs (fst (gpu_tick g ram ram_size fb False ws we))"

lemma gpu_tick_not_busy: "\<not> gpu_busy g \<Longrightarrow> \<not> gpu_busy (fst (gpu_tick g ram ram_size fb hold ws we))"
  by (auto simp: gpu_tick_def gpu_busy_def)

lemma gpu_ticks_not_busy: "\<not> gpu_busy g \<Longrightarrow> \<not> gpu_busy (gpu_ticks ram_size envs g)"
  by (induction ram_size envs g rule: gpu_ticks.induct) (simp_all add: gpu_tick_not_busy)

lemma gpu_ticks_finish:
  "gpu_inv ram_size g \<Longrightarrow> gpu_work g \<le> length envs \<Longrightarrow> \<not> gpu_busy (gpu_ticks ram_size envs g)"
proof (induction envs arbitrary: g)
  case Nil
  then show ?case by (cases "gpu_phase g") (auto simp: gpu_work_def gpu_inv_def split: if_splits)
next
  case (Cons env envs)
  obtain ram fb ws we where env: "env = (ram, fb, ws, we)" by (cases env)
  let ?g = "fst (gpu_tick g ram ram_size fb False ws we)"
  have inv: "gpu_inv ram_size ?g" using gpu_tick_inv Cons.prems(1) .
  show ?case
  proof (cases "gpu_busy g")
    case True
    then have "gpu_work ?g \<le> length envs" using gpu_tick_work [OF Cons.prems(1) True] Cons.prems(2)
      by (metis length_Cons less_Suc_eq_le order_less_le_trans)
    then show ?thesis using Cons.IH inv env by simp
  next
    case False
    then have "\<not> gpu_busy ?g" by (rule gpu_tick_not_busy)
    then have "\<not> gpu_busy (gpu_ticks ram_size envs ?g)" by (rule gpu_ticks_not_busy)
    then show ?thesis using env by simp
  qed
qed

lemma gpu_work_bound: "gpu_inv ram_size g \<Longrightarrow> gpu_work g \<le> 307202"
  using gpu_left_bounds [of g ram_size]
  by (cases "gpu_phase g") (auto simp: gpu_work_def gpu_inv_def)

section \<open>Properties\<close>

lemma gpu_inv_cycles: "gpu_inv ram_size (g\<lparr>gpu_cycles := c\<rparr>) = gpu_inv ram_size g"
  by (simp add: gpu_inv_def gpu_busy_def gpu_running_def gpu_scan_ok_def gpu_line_ok_def gpu_blit_ok_def)

lemma gpu_read_offset_cycles [simp]: "gpu_read_offset (g\<lparr>gpu_cycles := c\<rparr>) = gpu_read_offset g"
  by (simp add: gpu_read_offset_def)

lemma gpu_transfer_safe:
  assumes run: "gpu_running g ram_size" and ph: "gpu_phase g = GPH_READ \<or> gpu_phase g = GPH_WRITE"
    and size: "ram_size \<le> 0x7fffffff"
    and ram: "\<And>a. a < ram_size \<Longrightarrow> ram a = ram' a" and fb: "\<And>a. a < 76800 \<Longrightarrow> fb a = fb' a"
  shows "fst (gpu_transfer g ram fb hold) = fst (gpu_transfer g ram' fb' hold)"
    and "a < 76800 \<Longrightarrow> snd (gpu_transfer g ram fb hold) a = snd (gpu_transfer g ram' fb' hold) a"
    and "\<not> a < 76800 \<Longrightarrow> snd (gpu_transfer g ram fb hold) a = fb a"
proof -
  have rd: "ram (gpu_p g GP_SRC - 0x80000000 + gpu_read_offset g) = ram' (gpu_p g GP_SRC - 0x80000000 + gpu_read_offset g)"
    if "gpu_phase g = GPH_READ" "gpu_p g GP_SRC \<noteq> 0x12000000"
    using gpu_read_in_ram(1) [OF run that size] ram by blast
  have rf: "fb (gpu_read_offset g) = fb' (gpu_read_offset g)"
    if "gpu_phase g = GPH_READ" "gpu_p g GP_SRC = 0x12000000"
    using gpu_read_bounds(2) [OF run that] fb by (simp add: word_less_def)
  have wr: "(of_int (gpu_y g * 320 + gpu_x g) :: u32) < 76800" if "gpu_phase g = GPH_WRITE"
    using gpu_write_bounds [OF run that] .
  show "fst (gpu_transfer g ram fb hold) = fst (gpu_transfer g ram' fb' hold)"
    using ph rd rf by (auto simp: gpu_transfer_def Let_def)
  show "snd (gpu_transfer g ram fb hold) a = snd (gpu_transfer g ram' fb' hold) a" if "a < 76800"
    using fb [OF that] by (simp add: gpu_transfer_def Let_def)
  show "snd (gpu_transfer g ram fb hold) a = fb a" if "\<not> a < 76800"
    using that wr ph by (auto simp: gpu_transfer_def Let_def)
qed

lemma gpu_tick_safe:
  assumes inv: "gpu_inv ram_size g" and size: "ram_size \<le> 0x7fffffff"
    and ram: "\<And>a. a < ram_size \<Longrightarrow> ram a = ram' a" and fb: "\<And>a. a < 76800 \<Longrightarrow> fb a = fb' a"
  shows "fst (gpu_tick g ram ram_size fb hold ws we) = fst (gpu_tick g ram' ram_size fb' hold ws we) \<and>
    (if a < 76800
     then snd (gpu_tick g ram ram_size fb hold ws we) a = snd (gpu_tick g ram' ram_size fb' hold ws we) a
     else snd (gpu_tick g ram ram_size fb hold ws we) a = fb a)"
proof -
  define h where "h = g\<lparr>gpu_cycles := gpu_cycles g + 1\<rparr>"
  have run: "gpu_running h ram_size" if "gpu_busy g" "gpu_phase g = GPH_READ \<or> gpu_phase g = GPH_WRITE"
    using inv that gpu_inv_cycles [of ram_size _ g] by (auto simp: gpu_inv_def gpu_busy_def h_def)
  have ph: "gpu_phase h = gpu_phase g" by (simp add: h_def)
  have "fst (gpu_transfer h ram fb hold) = fst (gpu_transfer h ram' fb' hold) \<and>
    (if a < 76800 then snd (gpu_transfer h ram fb hold) a = snd (gpu_transfer h ram' fb' hold) a
     else snd (gpu_transfer h ram fb hold) a = fb a)"
    if "gpu_busy g" "gpu_phase g = GPH_READ \<or> gpu_phase g = GPH_WRITE"
    using gpu_transfer_safe [OF run [OF that], of ram ram' fb fb'] size ram fb that ph by auto
  then show ?thesis
    using fb ph
    by (cases "gpu_phase g") (auto simp: gpu_tick_def Let_def simp flip: h_def)
qed

text \<open>
  C3: memory safety of the 2D engine. From any state the engine can be in, one tick neither reads
  RAM at or past \<open>ram_size\<close> nor reads or writes the framebuffer at or past its 320 x 240 bytes:
  memories that agree inside the bounds give the same engine and the same framebuffer there, and
  bytes outside keep their value.
\<close>

theorem gpu_tick_memory_safe:
  assumes inv: "gpu_inv ram_size g" and size: "ram_size \<le> 0x7fffffff"
    and ram: "\<And>a. a < ram_size \<Longrightarrow> ram a = ram' a" and fb: "\<And>a. a < 76800 \<Longrightarrow> fb a = fb' a"
  shows "fst (gpu_tick g ram ram_size fb hold ws we) = fst (gpu_tick g ram' ram_size fb' hold ws we) \<and>
    (if a < 76800
     then snd (gpu_tick g ram ram_size fb hold ws we) a = snd (gpu_tick g ram' ram_size fb' hold ws we) a
     else snd (gpu_tick g ram ram_size fb hold ws we) a = fb a)"
  using gpu_tick_safe [OF inv size, of ram ram' fb fb' hold ws we a] ram fb by blast

definition gpu_blit_example :: gpu_device where
  "gpu_blit_example = gpu_device_zero\<lparr>gpu_status := GPU_BUSY, gpu_phase := GPH_SETUP,
     gpu_p := (\<lambda>_. 0)(GP_OP := GPU_BLIT, GP_SRC := 0x80000000, GP_SW := 2, GP_SH := 2, GP_STRIDE := 2,
       GP_W := 2, GP_H := 2)\<rparr>"

theorem gpu_tick_memory_safe_witness:
  "fst (gpu_tick gpu_blit_example (\<lambda>_. 0) 16 (\<lambda>_. 0) False 0x80000000 0x80000010) =
   fst (gpu_tick gpu_blit_example (\<lambda>a. if a < 16 then 0 else 9) 16 (\<lambda>_. 0) False 0x80000000 0x80000010)"
  using gpu_tick_memory_safe [of 16 gpu_blit_example "\<lambda>_. 0" "\<lambda>a. if a < 16 then 0 else 9" "\<lambda>_. 0" "\<lambda>_. 0"
      False "0x80000000" "0x80000010"]
  by (simp add: gpu_inv_def gpu_blit_example_def gpu_device_zero_def)

text \<open>
  C4: every 2D job ends. Whatever RAM, framebuffer and DMA window the engine sees on each tick,
  307202 ticks without a memory stall (one for the setup and at most four for each of the 76800
  pixels, with one for the command) leave it not busy.
\<close>

theorem gpu_job_terminates:
  assumes "gpu_inv ram_size g" "307202 \<le> length envs"
  shows "\<not> gpu_busy (gpu_ticks ram_size envs g)"
  using assms gpu_work_bound [of ram_size g] by (intro gpu_ticks_finish) auto

theorem gpu_job_terminates_witness:
  "\<not> gpu_busy (gpu_ticks 16 (replicate 307202 ((\<lambda>_. 0), (\<lambda>_. 0), 0x80000000, 0x80000010)) gpu_blit_example)"
  using gpu_job_terminates [of 16 gpu_blit_example
      "replicate 307202 ((\<lambda>_. 0), (\<lambda>_. 0), 0x80000000, 0x80000010)"]
  by (simp add: gpu_inv_def gpu_blit_example_def gpu_device_zero_def)

end
