(* ===== verification/G3d.thy ===== *)
theory G3d
  imports Prelude
begin

text \<open>
  The G2 programmable 3D engine, \<open>tools/rv32_g3d.c\<close> with \<open>tools/rv32_g3d.h\<close> and the public
  contract \<open>programs/rv32/g3d.h\<close>: CPU access to its registers and windows, the lock on the
  depth buffer, the shader, and one tick of the engine. \<open>int32_t\<close> and \<open>int64_t\<close> quantities are
  integers, and a cast to \<open>int32_t\<close> is \<open>to_i32\<close>.
\<close>

section \<open>Constants\<close>

abbreviation (input) G3D_BASE :: u32 where "G3D_BASE \<equiv> 0x11008000"
abbreviation (input) G3D_SIZE :: u32 where "G3D_SIZE \<equiv> 0x2000"
abbreviation (input) G3D_COMMAND :: u32 where "G3D_COMMAND \<equiv> 0x00"
abbreviation (input) G3D_STATUS :: u32 where "G3D_STATUS \<equiv> 0x04"
abbreviation (input) G3D_ERROR :: u32 where "G3D_ERROR \<equiv> 0x08"
abbreviation (input) G3D_FAULT_PC :: u32 where "G3D_FAULT_PC \<equiv> 0x0c"
abbreviation (input) G3D_CYCLES :: u32 where "G3D_CYCLES \<equiv> 0x10"
abbreviation (input) G3D_STALLS :: u32 where "G3D_STALLS \<equiv> 0x14"
abbreviation (input) G3D_INSTRUCTIONS :: u32 where "G3D_INSTRUCTIONS \<equiv> 0x18"
abbreviation (input) G3D_TRANSFERS :: u32 where "G3D_TRANSFERS \<equiv> 0x1c"
abbreviation (input) G3D_DIVIDES :: u32 where "G3D_DIVIDES \<equiv> 0x20"
abbreviation (input) G3D_PIXELS :: u32 where "G3D_PIXELS \<equiv> 0x24"
abbreviation (input) G3D_ZFAIL :: u32 where "G3D_ZFAIL \<equiv> 0x28"
abbreviation (input) G3D_CULLED :: u32 where "G3D_CULLED \<equiv> 0x2c"
abbreviation (input) G3D_VCOUNT :: u32 where "G3D_VCOUNT \<equiv> 0x40"
abbreviation (input) G3D_TCOUNT :: u32 where "G3D_TCOUNT \<equiv> 0x44"
abbreviation (input) G3D_ZBASE :: u32 where "G3D_ZBASE \<equiv> 0x48"
abbreviation (input) G3D_LIMIT :: u32 where "G3D_LIMIT \<equiv> 0x4c"
abbreviation (input) G3D_CONST :: u32 where "G3D_CONST \<equiv> 0x400"
abbreviation (input) G3D_PROGRAM :: u32 where "G3D_PROGRAM \<equiv> 0x800"
abbreviation (input) G3D_VERTEX :: u32 where "G3D_VERTEX \<equiv> 0x1000"
abbreviation (input) G3D_TRIANGLE :: u32 where "G3D_TRIANGLE \<equiv> 0x1800"
abbreviation (input) G3D_START :: u32 where "G3D_START \<equiv> 1"
abbreviation (input) G3D_RESET :: u32 where "G3D_RESET \<equiv> 2"
abbreviation (input) G3D_CLEAR_Z :: u32 where "G3D_CLEAR_Z \<equiv> 3"
abbreviation (input) G3D_BUSY :: u32 where "G3D_BUSY \<equiv> 1"
abbreviation (input) G3D_DONE :: u32 where "G3D_DONE \<equiv> 2"
abbreviation (input) G3D_FAULT :: u32 where "G3D_FAULT \<equiv> 4"

abbreviation (input) G3D_E_PARAM :: u32 where "G3D_E_PARAM \<equiv> 1"
abbreviation (input) G3D_E_INTERNAL :: u32 where "G3D_E_INTERNAL \<equiv> 2"
abbreviation (input) G3D_E_ILLEGAL :: u32 where "G3D_E_ILLEGAL \<equiv> 3"
abbreviation (input) G3D_E_OVERFLOW :: u32 where "G3D_E_OVERFLOW \<equiv> 4"
abbreviation (input) G3D_E_MISMATCH :: u32 where "G3D_E_MISMATCH \<equiv> 5"
abbreviation (input) G3D_E_LIMIT :: u32 where "G3D_E_LIMIT \<equiv> 6"
abbreviation (input) G3D_E_PC :: u32 where "G3D_E_PC \<equiv> 7"
abbreviation (input) G3D_E_INDEX :: u32 where "G3D_E_INDEX \<equiv> 8"

abbreviation (input) G3D_LANES :: u32 where "G3D_LANES \<equiv> 4"
abbreviation (input) G3D_PROGRAM_WORDS :: u32 where "G3D_PROGRAM_WORDS \<equiv> 128"
abbreviation (input) G3D_CONSTS :: u32 where "G3D_CONSTS \<equiv> 32"
abbreviation (input) G3D_SLOTS :: u32 where "G3D_SLOTS \<equiv> 8"
abbreviation (input) G3D_VMAX :: u32 where "G3D_VMAX \<equiv> 32"
abbreviation (input) G3D_TMAX :: u32 where "G3D_TMAX \<equiv> 64"
abbreviation (input) G3D_DEPTH :: u32 where "G3D_DEPTH \<equiv> 8"
abbreviation (input) G3D_W_NEAR :: int where "G3D_W_NEAR \<equiv> 4096"
abbreviation (input) G3D_DIVIDE_TICKS :: u32 where "G3D_DIVIDE_TICKS \<equiv> 35"
abbreviation (input) RAM_ORIGIN :: u32 where "RAM_ORIGIN \<equiv> 0x80000000"
abbreviation (input) Z_BYTES :: u32 where "Z_BYTES \<equiv> 153600"

abbreviation (input) G3D_OP_END :: u32 where "G3D_OP_END \<equiv> 0"
abbreviation (input) G3D_OP_LDI :: u32 where "G3D_OP_LDI \<equiv> 1"
abbreviation (input) G3D_OP_LDC :: u32 where "G3D_OP_LDC \<equiv> 2"
abbreviation (input) G3D_OP_IN :: u32 where "G3D_OP_IN \<equiv> 3"
abbreviation (input) G3D_OP_OUT :: u32 where "G3D_OP_OUT \<equiv> 4"
abbreviation (input) G3D_OP_SPC :: u32 where "G3D_OP_SPC \<equiv> 5"
abbreviation (input) G3D_OP_MOV :: u32 where "G3D_OP_MOV \<equiv> 6"
abbreviation (input) G3D_OP_ADD :: u32 where "G3D_OP_ADD \<equiv> 7"
abbreviation (input) G3D_OP_SUB :: u32 where "G3D_OP_SUB \<equiv> 8"
abbreviation (input) G3D_OP_MUL :: u32 where "G3D_OP_MUL \<equiv> 9"
abbreviation (input) G3D_OP_MAD :: u32 where "G3D_OP_MAD \<equiv> 10"
abbreviation (input) G3D_OP_MIN :: u32 where "G3D_OP_MIN \<equiv> 11"
abbreviation (input) G3D_OP_MAX :: u32 where "G3D_OP_MAX \<equiv> 12"
abbreviation (input) G3D_OP_ABS :: u32 where "G3D_OP_ABS \<equiv> 13"
abbreviation (input) G3D_OP_AND :: u32 where "G3D_OP_AND \<equiv> 14"
abbreviation (input) G3D_OP_OR :: u32 where "G3D_OP_OR \<equiv> 15"
abbreviation (input) G3D_OP_XOR :: u32 where "G3D_OP_XOR \<equiv> 16"
abbreviation (input) G3D_OP_SHL :: u32 where "G3D_OP_SHL \<equiv> 17"
abbreviation (input) G3D_OP_SRA :: u32 where "G3D_OP_SRA \<equiv> 18"
abbreviation (input) G3D_OP_ADDI :: u32 where "G3D_OP_ADDI \<equiv> 19"
abbreviation (input) G3D_OP_SLT :: u32 where "G3D_OP_SLT \<equiv> 20"
abbreviation (input) G3D_OP_SEQ :: u32 where "G3D_OP_SEQ \<equiv> 21"
abbreviation (input) G3D_OP_IF :: u32 where "G3D_OP_IF \<equiv> 22"
abbreviation (input) G3D_OP_ELSE :: u32 where "G3D_OP_ELSE \<equiv> 23"
abbreviation (input) G3D_OP_ENDIF :: u32 where "G3D_OP_ENDIF \<equiv> 24"
abbreviation (input) G3D_OP_LOOP :: u32 where "G3D_OP_LOOP \<equiv> 25"
abbreviation (input) G3D_OP_ENDLOOP :: u32 where "G3D_OP_ENDLOOP \<equiv> 26"
abbreviation (input) G3D_OP_BREAK :: u32 where "G3D_OP_BREAK \<equiv> 27"
abbreviation (input) G3D_OP_COUNT :: u32 where "G3D_OP_COUNT \<equiv> 28"

section \<open>State\<close>

datatype g3d_phase =
  G3D_PH_IDLE | G3D_PH_VALIDATE | G3D_PH_INDEX | G3D_PH_BATCH | G3D_PH_EXEC | G3D_PH_VCHECK |
  G3D_PH_DIVIDE | G3D_PH_FETCH | G3D_PH_AREA | G3D_PH_TEST | G3D_PH_ZREAD | G3D_PH_ZWRITE |
  G3D_PH_PWRITE | G3D_PH_FINISH | G3D_PH_CLEAR

record g3d_vertex =
  v_sx :: int
  v_sy :: int
  v_z :: int
  v_r :: int
  v_g :: int
  v_b :: int
  v_valid :: bool

record g3d_stack_entry =
  st_loop :: u8
  st_parent :: u8
  st_taken :: u8

record g3d_device =
  g3d_status :: u32
  g3d_error :: u32
  g3d_fault_pc :: u32
  g3d_cycles :: u32
  g3d_stalls :: u32
  g3d_instructions :: u32
  g3d_transfers :: u32
  g3d_divides :: u32
  g3d_pixels :: u32
  g3d_zfail :: u32
  g3d_culled :: u32
  g3d_vcount :: u32
  g3d_tcount :: u32
  g3d_zbase :: u32
  g3d_limit :: u32
  g3d_consts :: "u32 \<Rightarrow> u32"
  g3d_program :: "u32 \<Rightarrow> u32"
  g3d_inputs :: "u32 \<Rightarrow> u32 \<Rightarrow> u32"
  g3d_tris :: "u32 \<Rightarrow> u32"
  g3d_phase :: g3d_phase
  g3d_clearing :: bool
  g3d_command_tick :: bool
  g3d_ram_written :: bool
  g3d_ram_written_at :: u32
  g3d_fb_written :: bool
  g3d_fb_written_at :: u32
  g3d_index :: u32
  g3d_batch :: u32
  g3d_lane :: u32
  g3d_pc :: u32
  g3d_count :: u32
  g3d_mask :: u32
  g3d_pred :: u32
  g3d_depth :: u32
  g3d_stack :: "u32 \<Rightarrow> g3d_stack_entry"
  g3d_regs :: "u32 \<Rightarrow> u32 \<Rightarrow> u32"
  g3d_out :: "u32 \<Rightarrow> u32 \<Rightarrow> u32"
  g3d_verts :: "u32 \<Rightarrow> g3d_vertex"
  g3d_div_left :: u32
  g3d_div_k :: u32
  g3d_div_setup :: bool
  g3d_div_num :: "u32 \<Rightarrow> int"
  g3d_div_den :: int
  g3d_div_q :: "u32 \<Rightarrow> int"
  g3d_v :: "u32 \<Rightarrow> g3d_vertex"
  g3d_area :: int
  g3d_left :: int
  g3d_right :: int
  g3d_top :: int
  g3d_bottom :: int
  g3d_x :: int
  g3d_y :: int
  g3d_z :: int
  g3d_r :: int
  g3d_g :: int
  g3d_b :: int

definition g3d_busy :: "g3d_device \<Rightarrow> bool" where
  "g3d_busy d \<longleftrightarrow> g3d_status d = G3D_BUSY"

definition to_i32 :: "int \<Rightarrow> int" where
  "to_i32 n = sint (of_int n :: u32)"

definition g3d_vertex_zero :: g3d_vertex where
  "g3d_vertex_zero = \<lparr>v_sx = 0, v_sy = 0, v_z = 0, v_r = 0, v_g = 0, v_b = 0, v_valid = False\<rparr>"

definition g3d_stack_zero :: g3d_stack_entry where
  "g3d_stack_zero = \<lparr>st_loop = 0, st_parent = 0, st_taken = 0\<rparr>"

definition g3d_device_zero :: g3d_device where
  "g3d_device_zero =
     \<lparr>g3d_status = 0, g3d_error = 0, g3d_fault_pc = 0, g3d_cycles = 0, g3d_stalls = 0, g3d_instructions = 0,
      g3d_transfers = 0, g3d_divides = 0, g3d_pixels = 0, g3d_zfail = 0, g3d_culled = 0, g3d_vcount = 0,
      g3d_tcount = 0, g3d_zbase = 0, g3d_limit = 0, g3d_consts = (\<lambda>_. 0), g3d_program = (\<lambda>_. 0),
      g3d_inputs = (\<lambda>_ _. 0), g3d_tris = (\<lambda>_. 0), g3d_phase = G3D_PH_IDLE, g3d_clearing = False,
      g3d_command_tick = False, g3d_ram_written = False, g3d_ram_written_at = 0, g3d_fb_written = False,
      g3d_fb_written_at = 0, g3d_index = 0, g3d_batch = 0, g3d_lane = 0, g3d_pc = 0, g3d_count = 0,
      g3d_mask = 0, g3d_pred = 0, g3d_depth = 0, g3d_stack = (\<lambda>_. g3d_stack_zero), g3d_regs = (\<lambda>_ _. 0),
      g3d_out = (\<lambda>_ _. 0), g3d_verts = (\<lambda>_. g3d_vertex_zero), g3d_div_left = 0, g3d_div_k = 0,
      g3d_div_setup = False, g3d_div_num = (\<lambda>_. 0), g3d_div_den = 0, g3d_div_q = (\<lambda>_. 0),
      g3d_v = (\<lambda>_. g3d_vertex_zero), g3d_area = 0, g3d_left = 0, g3d_right = 0, g3d_top = 0,
      g3d_bottom = 0, g3d_x = 0, g3d_y = 0, g3d_z = 0, g3d_r = 0, g3d_g = 0, g3d_b = 0\<rparr>"

text \<open>RESET keeps the four windows the CPU owns.\<close>

definition g3d_device_reset :: "g3d_device \<Rightarrow> g3d_device" where
  "g3d_device_reset d =
     g3d_device_zero\<lparr>g3d_consts := g3d_consts d, g3d_program := g3d_program d,
                      g3d_inputs := g3d_inputs d, g3d_tris := g3d_tris d\<rparr>"

section \<open>CPU access\<close>

text \<open>\<open>window\<close> and \<open>param\<close> return pointers into the device: here a reference, read and written by
  \<open>slot_get\<close> and \<open>slot_set\<close>. The vertex window is indexed flat, as the code does.\<close>

datatype g3d_slot =
  S_CONST u32 | S_PROGRAM u32 | S_VERTEX u32 | S_TRI u32 |
  S_VCOUNT | S_TCOUNT | S_ZBASE | S_LIMIT

definition window :: "u32 \<Rightarrow> g3d_slot option" where
  "window off =
     (if off \<ge> G3D_CONST \<and> off < G3D_CONST + 4 * G3D_CONSTS then Some (S_CONST ((off - G3D_CONST) div 4))
      else if off \<ge> G3D_PROGRAM \<and> off < G3D_PROGRAM + 4 * G3D_PROGRAM_WORDS
        then Some (S_PROGRAM ((off - G3D_PROGRAM) div 4))
      else if off \<ge> G3D_VERTEX \<and> off < G3D_VERTEX + 4 * G3D_VMAX * G3D_SLOTS
        then Some (S_VERTEX ((off - G3D_VERTEX) div 4))
      else if off \<ge> G3D_TRIANGLE \<and> off < G3D_TRIANGLE + 4 * G3D_TMAX
        then Some (S_TRI ((off - G3D_TRIANGLE) div 4))
      else None)"

definition param :: "u32 \<Rightarrow> g3d_slot option" where
  "param off =
     (if off = G3D_VCOUNT then Some S_VCOUNT
      else if off = G3D_TCOUNT then Some S_TCOUNT
      else if off = G3D_ZBASE then Some S_ZBASE
      else if off = G3D_LIMIT then Some S_LIMIT
      else None)"

fun slot_get :: "g3d_device \<Rightarrow> g3d_slot \<Rightarrow> u32" where
  "slot_get d (S_CONST i) = g3d_consts d i"
| "slot_get d (S_PROGRAM i) = g3d_program d i"
| "slot_get d (S_VERTEX i) = g3d_inputs d (i div G3D_SLOTS) (i mod G3D_SLOTS)"
| "slot_get d (S_TRI i) = g3d_tris d i"
| "slot_get d S_VCOUNT = g3d_vcount d"
| "slot_get d S_TCOUNT = g3d_tcount d"
| "slot_get d S_ZBASE = g3d_zbase d"
| "slot_get d S_LIMIT = g3d_limit d"

fun slot_set :: "g3d_device \<Rightarrow> g3d_slot \<Rightarrow> u32 \<Rightarrow> g3d_device" where
  "slot_set d (S_CONST i) v = d\<lparr>g3d_consts := (g3d_consts d)(i := v)\<rparr>"
| "slot_set d (S_PROGRAM i) v = d\<lparr>g3d_program := (g3d_program d)(i := v)\<rparr>"
| "slot_set d (S_VERTEX i) v =
     d\<lparr>g3d_inputs := (g3d_inputs d)(i div G3D_SLOTS := (g3d_inputs d (i div G3D_SLOTS))(i mod G3D_SLOTS := v))\<rparr>"
| "slot_set d (S_TRI i) v = d\<lparr>g3d_tris := (g3d_tris d)(i := v)\<rparr>"
| "slot_set d S_VCOUNT v = d\<lparr>g3d_vcount := v\<rparr>"
| "slot_set d S_TCOUNT v = d\<lparr>g3d_tcount := v\<rparr>"
| "slot_set d S_ZBASE v = d\<lparr>g3d_zbase := v\<rparr>"
| "slot_set d S_LIMIT v = d\<lparr>g3d_limit := v\<rparr>"

definition g3d_counter :: "g3d_device \<Rightarrow> u32 \<Rightarrow> u32 option" where
  "g3d_counter d off =
     (if off = G3D_STATUS then Some (g3d_status d)
      else if off = G3D_ERROR then Some (g3d_error d)
      else if off = G3D_FAULT_PC then Some (g3d_fault_pc d)
      else if off = G3D_CYCLES then Some (g3d_cycles d)
      else if off = G3D_STALLS then Some (g3d_stalls d)
      else if off = G3D_INSTRUCTIONS then Some (g3d_instructions d)
      else if off = G3D_TRANSFERS then Some (g3d_transfers d)
      else if off = G3D_DIVIDES then Some (g3d_divides d)
      else if off = G3D_PIXELS then Some (g3d_pixels d)
      else if off = G3D_ZFAIL then Some (g3d_zfail d)
      else if off = G3D_CULLED then Some (g3d_culled d)
      else None)"

definition g3d_access :: "g3d_device \<Rightarrow> u32 \<Rightarrow> nat \<Rightarrow> bool \<Rightarrow> u32 \<Rightarrow> bool \<Rightarrow> (g3d_device \<times> u32) option" where
  "g3d_access d off width write v other_busy =
     (if width \<noteq> 4 \<or> off AND 3 \<noteq> 0 then None
      else case window off of
        Some w \<Rightarrow>
          if g3d_busy d then None
          else if write then Some (slot_set d w v, v) else Some (d, slot_get d w)
      | None \<Rightarrow>
          (case param off of
             Some p \<Rightarrow>
               if write then (if g3d_busy d then None else Some (slot_set d p v, v))
               else Some (d, slot_get d p)
           | None \<Rightarrow>
               if write then
                 (if off \<noteq> G3D_COMMAND then None
                  else if v = G3D_RESET then Some ((g3d_device_reset d)\<lparr>g3d_command_tick := True\<rparr>, v)
                  else if (v \<noteq> G3D_START \<and> v \<noteq> G3D_CLEAR_Z) \<or> g3d_busy d \<or> other_busy then None
                  else Some (d\<lparr>g3d_status := G3D_BUSY, g3d_phase := G3D_PH_VALIDATE,
                               g3d_clearing := (v = G3D_CLEAR_Z),
                               g3d_error := 0, g3d_fault_pc := 0, g3d_cycles := 0, g3d_stalls := 0,
                               g3d_instructions := 0, g3d_transfers := 0,
                               g3d_divides := 0, g3d_pixels := 0, g3d_zfail := 0, g3d_culled := 0,
                               g3d_command_tick := True\<rparr>, v))
               else (case g3d_counter d off of Some value \<Rightarrow> Some (d, value) | None \<Rightarrow> None)))"

definition g3d_z_locked :: "g3d_device \<Rightarrow> u32 \<Rightarrow> nat \<Rightarrow> bool" where
  "g3d_z_locked d addr width \<longleftrightarrow>
     g3d_busy d \<and> (ucast addr + of_nat width :: u64) > ucast (g3d_zbase d) \<and>
     (ucast addr :: u64) < ucast (g3d_zbase d) + ucast Z_BYTES"

section \<open>Sequencing\<close>

definition g3d_fault :: "g3d_device \<Rightarrow> u32 \<Rightarrow> g3d_device" where
  "g3d_fault d err = d\<lparr>g3d_status := G3D_FAULT, g3d_error := err, g3d_phase := G3D_PH_IDLE\<rparr>"

definition sat :: "int \<Rightarrow> int \<Rightarrow> int" where
  "sat n den =
     (let q = n sdiv den in
      if q > 2147483647 then 2147483647 else if q < - 2147483648 then - 2147483648 else to_i32 q)"

definition qmul :: "u32 \<Rightarrow> u32 \<Rightarrow> int" where
  "qmul a b = sint (of_int ((sint a * sint b) div 65536) :: u32)"

definition next_triangle :: "g3d_device \<Rightarrow> g3d_device" where
  "next_triangle d =
     (let d = d\<lparr>g3d_index := g3d_index d + 1\<rparr> in
      d\<lparr>g3d_phase := (if g3d_index d < g3d_tcount d then G3D_PH_FETCH else G3D_PH_FINISH)\<rparr>)"

definition next_vertex :: "g3d_device \<Rightarrow> g3d_device" where
  "next_vertex d =
     (let d = d\<lparr>g3d_lane := g3d_lane d + 1\<rparr> in
      if g3d_lane d < G3D_LANES \<and> g3d_batch d * G3D_LANES + g3d_lane d < g3d_vcount d
      then d\<lparr>g3d_phase := G3D_PH_VCHECK\<rparr>
      else
        let d = d\<lparr>g3d_batch := g3d_batch d + 1\<rparr> in
        if g3d_batch d * G3D_LANES < g3d_vcount d then d\<lparr>g3d_phase := G3D_PH_BATCH\<rparr>
        else d\<lparr>g3d_index := 0, g3d_phase := (if g3d_tcount d \<noteq> 0 then G3D_PH_FETCH else G3D_PH_FINISH)\<rparr>)"

definition next_pixel :: "g3d_device \<Rightarrow> g3d_device" where
  "next_pixel d =
     (if g3d_x d < g3d_right d then d\<lparr>g3d_x := g3d_x d + 1, g3d_phase := G3D_PH_TEST\<rparr>
      else if g3d_y d < g3d_bottom d
        then d\<lparr>g3d_x := g3d_left d, g3d_y := g3d_y d + 1, g3d_phase := G3D_PH_TEST\<rparr>
      else next_triangle d)"

definition start_divides :: "g3d_device \<Rightarrow> bool \<Rightarrow> int \<Rightarrow> g3d_device" where
  "start_divides d setup den =
     d\<lparr>g3d_div_setup := setup, g3d_div_den := den, g3d_div_k := 0, g3d_div_left := G3D_DIVIDE_TICKS,
       g3d_phase := G3D_PH_DIVIDE\<rparr>"

definition shader_fault :: "g3d_device \<Rightarrow> u32 \<Rightarrow> g3d_device" where
  "shader_fault d err =
     g3d_fault (d\<lparr>g3d_fault_pc := g3d_pc d OR push_bit 8 (g3d_batch d)\<rparr>) err"

section \<open>The shader\<close>

text \<open>One lane of a data instruction. \<open>Inl\<close> is the early return after a fault.\<close>

definition g3d_lane_op :: "u32 \<Rightarrow> u32 \<Rightarrow> u32 \<Rightarrow> g3d_device \<Rightarrow> g3d_device + g3d_device" where
  "g3d_lane_op w op l d =
     (let rd = drop_bit 22 w AND 15; ra = drop_bit 18 w AND 15; rb = drop_bit 14 w AND 15;
          rc = drop_bit 10 w AND 15; imm = w AND 0x3fff;
          r = g3d_regs d l; a = r ra; b = r rb; vid = g3d_batch d * G3D_LANES + l;
          sa = sint a; sb = sint b;
          put = (\<lambda>v. Inr (d\<lparr>g3d_regs := (g3d_regs d)(l := r(rd := v))\<rparr>))
      in
      if drop_bit (unat l) (g3d_mask d) AND 1 = 0 then Inr d
      else if op = G3D_OP_SLT \<or> op = G3D_OP_SEQ then
        Inr (d\<lparr>g3d_pred := (g3d_pred d AND NOT (push_bit (unat l) 1)) OR
                 push_bit (unat l) (if (if op = G3D_OP_SLT then sa < sb else a = b) then 1 else 0)\<rparr>)
      else if op = G3D_OP_OUT then Inr (d\<lparr>g3d_out := (g3d_out d)(l := (g3d_out d l)(imm AND 7 := a))\<rparr>)
      else if op = G3D_OP_LDI then put (signed_drop_bit 10 (push_bit 10 w))
      else if op = G3D_OP_LDC then put (g3d_consts d (imm AND 31))
      else if op = G3D_OP_IN then put (g3d_inputs d vid (imm AND 7))
      else if op = G3D_OP_SPC then put ([l, vid, g3d_vcount d, 0] ! unat (imm AND 3))
      else if op = G3D_OP_MOV then put a
      else if op = G3D_OP_ADD then put (a + b)
      else if op = G3D_OP_SUB then put (a - b)
      else if op = G3D_OP_MUL then put (of_int (qmul a b))
      else if op = G3D_OP_MAD then put (r rc + of_int (qmul a b))
      else if op = G3D_OP_MIN then put (if sa < sb then a else b)
      else if op = G3D_OP_MAX then put (if sa > sb then a else b)
      else if op = G3D_OP_ABS then put (if sa < 0 then 0 - a else a)
      else if op = G3D_OP_AND then put (a AND b)
      else if op = G3D_OP_OR then put (a OR b)
      else if op = G3D_OP_XOR then put (a XOR b)
      else if op = G3D_OP_SHL then put (push_bit (unat (imm AND 31)) a)
      else if op = G3D_OP_SRA then put (signed_drop_bit (unat (imm AND 31)) a)
      else if op = G3D_OP_ADDI then put (a + signed_drop_bit 18 (push_bit 18 imm))
      else Inl (shader_fault d G3D_E_INTERNAL))"

fun g3d_lanes :: "u32 \<Rightarrow> u32 \<Rightarrow> u32 list \<Rightarrow> g3d_device \<Rightarrow> g3d_device + g3d_device" where
  "g3d_lanes w op [] d = Inr d"
| "g3d_lanes w op (l # ls) d =
     (case g3d_lane_op w op l d of Inl d' \<Rightarrow> Inl d' | Inr d' \<Rightarrow> g3d_lanes w op ls d')"

text \<open>The search of BREAK for the innermost loop frame, and the removal of the leaving lanes from
  the conditional frames above it.\<close>

fun break_frame :: "(u32 \<Rightarrow> g3d_stack_entry) \<Rightarrow> nat \<Rightarrow> nat" where
  "break_frame stack 0 = 0"
| "break_frame stack (Suc i) = (if st_loop (stack (of_nat i)) \<noteq> 0 then Suc i else break_frame stack i)"

definition break_lanes :: "(u32 \<Rightarrow> g3d_stack_entry) \<Rightarrow> u32 \<Rightarrow> nat \<Rightarrow> u32 \<Rightarrow> (u32 \<Rightarrow> g3d_stack_entry)" where
  "break_lanes stack m i depth =
     foldl (\<lambda>s k. s(k := (s k)\<lparr>st_parent := st_parent (s k) AND ucast (NOT m)\<rparr>)) stack
       (map of_nat [i ..< unat depth])"

definition execute :: "g3d_device \<Rightarrow> g3d_device" where
  "execute d =
     (if g3d_count d = g3d_limit d then shader_fault d G3D_E_LIMIT
      else if g3d_pc d \<ge> G3D_PROGRAM_WORDS then shader_fault d G3D_E_PC
      else
        let w = g3d_program d (g3d_pc d); op = drop_bit 26 w; target = w AND 0x7f; next = g3d_pc d + 1
        in
        if op \<ge> G3D_OP_COUNT then shader_fault d G3D_E_ILLEGAL
        else
          let d = d\<lparr>g3d_count := g3d_count d + 1, g3d_instructions := g3d_instructions d + 1\<rparr>;
              top = g3d_depth d - 1; frame = g3d_stack d top
          in
          if op = G3D_OP_END then
            (if g3d_depth d \<noteq> 0 then shader_fault d G3D_E_MISMATCH
             else d\<lparr>g3d_lane := 0, g3d_phase := G3D_PH_VCHECK\<rparr>)
          else if op = G3D_OP_IF \<or> op = G3D_OP_LOOP then
            (if g3d_depth d = G3D_DEPTH then shader_fault d G3D_E_OVERFLOW
             else
               let d = d\<lparr>g3d_stack := (g3d_stack d)(g3d_depth d :=
                          \<lparr>st_loop = (if op = G3D_OP_LOOP then 1 else 0), st_parent = ucast (g3d_mask d),
                           st_taken = ucast (if op = G3D_OP_IF then g3d_mask d AND g3d_pred d else 0)\<rparr>),
                        g3d_depth := g3d_depth d + 1\<rparr>
               in
               if op = G3D_OP_IF then
                 (let d = d\<lparr>g3d_mask := g3d_mask d AND g3d_pred d\<rparr> in
                  d\<lparr>g3d_pc := (if g3d_mask d = 0 then target else next)\<rparr>)
               else d\<lparr>g3d_pc := next\<rparr>)
          else if op = G3D_OP_ELSE \<or> op = G3D_OP_ENDIF then
            (if g3d_depth d = 0 \<or> st_loop frame \<noteq> 0 then shader_fault d G3D_E_MISMATCH
             else if op = G3D_OP_ELSE then
               (let d = d\<lparr>g3d_mask := ucast (st_parent frame) AND NOT (ucast (st_taken frame)) AND 15\<rparr> in
                d\<lparr>g3d_pc := (if g3d_mask d = 0 then target else next)\<rparr>)
             else d\<lparr>g3d_mask := ucast (st_parent frame), g3d_depth := g3d_depth d - 1, g3d_pc := next\<rparr>)
          else if op = G3D_OP_ENDLOOP then
            (if g3d_depth d = 0 \<or> st_loop frame = 0 then shader_fault d G3D_E_MISMATCH
             else if g3d_mask d \<noteq> 0 then d\<lparr>g3d_pc := target\<rparr>
             else d\<lparr>g3d_mask := ucast (st_parent frame), g3d_depth := g3d_depth d - 1, g3d_pc := next\<rparr>)
          else if op = G3D_OP_BREAK then
            (let i = break_frame (g3d_stack d) (unat (g3d_depth d)) in
             if i = 0 then shader_fault d G3D_E_MISMATCH
             else d\<lparr>g3d_stack := break_lanes (g3d_stack d) (g3d_mask d) i (g3d_depth d),
                    g3d_mask := 0, g3d_pc := next\<rparr>)
          else
            (case g3d_lanes w op [0, 1, 2, 3] d of
               Inl d' \<Rightarrow> d'
             | Inr d' \<Rightarrow> d'\<lparr>g3d_pc := next\<rparr>))"

section \<open>Vertices, triangles and pixels\<close>

definition clamp_channel :: "u32 \<Rightarrow> int" where
  "clamp_channel o' = (let s = sint o' div 65536 in if s < 0 then 0 else if s > 255 then 255 else s)"

definition vertex_check :: "g3d_device \<Rightarrow> g3d_device" where
  "vertex_check d =
     (let o' = g3d_out d (g3d_lane d); vid = g3d_batch d * G3D_LANES + g3d_lane d;
          x = sint (o' 0); y = sint (o' 1); z = sint (o' 2); w = sint (o' 3);
          valid = (w \<ge> G3D_W_NEAR \<and> x \<le> 4 * w \<and> - x \<le> 4 * w \<and> y \<le> 4 * w \<and> - y \<le> 4 * w \<and> z \<ge> 0 \<and> z \<le> w);
          v = (g3d_verts d vid)\<lparr>v_valid := valid, v_r := clamp_channel (o' 4), v_g := clamp_channel (o' 5),
                                v_b := clamp_channel (o' 6)\<rparr>;
          d = d\<lparr>g3d_verts := (g3d_verts d)(vid := v)\<rparr>
      in
      if \<not> valid then next_vertex d
      else start_divides
             (d\<lparr>g3d_div_num := (g3d_div_num d)(0 := x * 2560, 1 := y * 1920, 2 := z * 65535)\<rparr>) False w)"

definition divide_done :: "g3d_device \<Rightarrow> g3d_device" where
  "divide_done d =
     (let k = g3d_div_k d;
          d = d\<lparr>g3d_div_q := (g3d_div_q d)(k := sat (g3d_div_num d k) (g3d_div_den d)),
                g3d_divides := g3d_divides d + 1\<rparr>
      in
      if \<not> g3d_div_setup d then
        (if k < 2 then d\<lparr>g3d_div_k := g3d_div_k d + 1, g3d_div_left := G3D_DIVIDE_TICKS\<rparr>
         else
           let vid = g3d_batch d * G3D_LANES + g3d_lane d;
               v = (g3d_verts d vid)\<lparr>v_sx := 2560 + g3d_div_q d 0, v_sy := 1920 - g3d_div_q d 1,
                                     v_z := g3d_div_q d 2\<rparr>
           in next_vertex (d\<lparr>g3d_verts := (g3d_verts d)(vid := v)\<rparr>))
      else if k < 7 then d\<lparr>g3d_div_k := g3d_div_k d + 1, g3d_div_left := G3D_DIVIDE_TICKS\<rparr>
      else if g3d_left d > g3d_right d \<or> g3d_top d > g3d_bottom d then next_triangle d
      else d\<lparr>g3d_x := g3d_left d, g3d_y := g3d_top d, g3d_phase := G3D_PH_TEST\<rparr>)"

definition attribute :: "nat \<Rightarrow> g3d_vertex \<Rightarrow> int" where
  "attribute k v = (if k = 0 then v_z v else if k = 1 then v_r v else if k = 2 then v_g v else v_b v)"

definition area_num :: "g3d_vertex \<Rightarrow> g3d_vertex \<Rightarrow> g3d_vertex \<Rightarrow> (u32 \<Rightarrow> int) \<Rightarrow> nat \<Rightarrow> (u32 \<Rightarrow> int)" where
  "area_num v0 v1 v2 num k =
     (let ex1 = v_sx v1 - v_sx v0; ey1 = v_sy v1 - v_sy v0; ex2 = v_sx v2 - v_sx v0; ey2 = v_sy v2 - v_sy v0;
          a0 = attribute k v0; d1 = attribute k v1 - a0; d2 = attribute k v2 - a0
      in num(of_nat (2 * k) := (d1 * ey2 - d2 * ey1) * 65536,
             of_nat (2 * k + 1) := (d2 * ex1 - d1 * ex2) * 65536))"

definition area :: "g3d_device \<Rightarrow> g3d_device" where
  "area d =
     (let v0 = g3d_v d 0; p1 = g3d_v d 1; p2 = g3d_v d 2;
          a = (v_sx p1 - v_sx v0) * (v_sy p2 - v_sy v0) - (v_sy p1 - v_sy v0) * (v_sx p2 - v_sx v0)
      in
      if a \<ge> 0 then next_triangle (d\<lparr>g3d_culled := g3d_culled d + 1\<rparr>)
      else
        let v1 = p2; v2 = p1;
            lo = min (min (v_sx v0) (v_sx v1)) (v_sx v2); hi = max (max (v_sx v0) (v_sx v1)) (v_sx v2);
            top = min (min (v_sy v0) (v_sy v1)) (v_sy v2); bottom = max (max (v_sy v0) (v_sy v1)) (v_sy v2);
            d = d\<lparr>g3d_v := (g3d_v d)(1 := v1, 2 := v2), g3d_area := to_i32 (- a),
                  g3d_left := (if lo div 16 < 0 then 0 else lo div 16),
                  g3d_right := (if hi div 16 > 319 then 319 else hi div 16),
                  g3d_top := (if top div 16 < 0 then 0 else top div 16),
                  g3d_bottom := (if bottom div 16 > 239 then 239 else bottom div 16),
                  g3d_div_num := foldl (area_num v0 v1 v2) (g3d_div_num d) [0, 1, 2, 3]\<rparr>
        in start_divides d True (g3d_area d))"

definition inside :: "g3d_vertex \<Rightarrow> g3d_vertex \<Rightarrow> int \<Rightarrow> int \<Rightarrow> bool" where
  "inside a b px py =
     (let dx = v_sx b - v_sx a; dy = v_sy b - v_sy a; e = dx * (py - v_sy a) - dy * (px - v_sx a)
      in e > 0 \<or> (e = 0 \<and> (dy < 0 \<or> (dy = 0 \<and> dx > 0))))"

definition at_pixel :: "g3d_device \<Rightarrow> int \<Rightarrow> int \<Rightarrow> nat \<Rightarrow> int" where
  "at_pixel d px py k =
     (let v0 = g3d_v d 0;
          s = g3d_div_q d (of_nat (2 * k)) * (px - v_sx v0) + g3d_div_q d (of_nat (2 * k + 1)) * (py - v_sy v0);
          a = attribute k v0 + s div 65536; hi = (if k \<noteq> 0 then 255 else 65535)
      in if a < 0 then 0 else if a > hi then hi else a)"

definition test :: "g3d_device \<Rightarrow> g3d_device" where
  "test d =
     (let px = g3d_x d * 16 + 8; py = g3d_y d * 16 + 8 in
      if \<not> inside (g3d_v d 0) (g3d_v d 1) px py \<or> \<not> inside (g3d_v d 1) (g3d_v d 2) px py \<or>
         \<not> inside (g3d_v d 2) (g3d_v d 0) px py
      then next_pixel d
      else d\<lparr>g3d_z := at_pixel d px py 0, g3d_r := at_pixel d px py 1, g3d_g := at_pixel d px py 2,
             g3d_b := at_pixel d px py 3, g3d_phase := G3D_PH_ZREAD\<rparr>)"

section \<open>One tick\<close>

definition zoff :: "g3d_device \<Rightarrow> u32" where
  "zoff d = g3d_zbase d - RAM_ORIGIN + 2 * (of_int (g3d_y d) * 320 + of_int (g3d_x d))"

definition zbase_ok :: "g3d_device \<Rightarrow> u32 \<Rightarrow> u32 \<Rightarrow> u32 \<Rightarrow> bool" where
  "zbase_ok d ram_size window_start window_end \<longleftrightarrow>
     g3d_zbase d mod 4 = 0 \<and> g3d_zbase d \<ge> RAM_ORIGIN \<and> g3d_zbase d - RAM_ORIGIN \<le> ram_size - Z_BYTES \<and>
     g3d_zbase d \<ge> window_start \<and> (ucast (g3d_zbase d) + ucast Z_BYTES :: u64) \<le> ucast window_end"

definition g3d_validate :: "g3d_device \<Rightarrow> u32 \<Rightarrow> u32 \<Rightarrow> u32 \<Rightarrow> g3d_device" where
  "g3d_validate d ram_size window_start window_end =
     (let z = zbase_ok d ram_size window_start window_end in
      if g3d_clearing d then
        (if \<not> z then g3d_fault d G3D_E_PARAM else d\<lparr>g3d_index := 0, g3d_phase := G3D_PH_CLEAR\<rparr>)
      else if \<not> z \<or> g3d_vcount d < 1 \<or> g3d_vcount d > G3D_VMAX \<or> g3d_tcount d > G3D_TMAX \<or>
              g3d_limit d < 1 \<or> g3d_limit d > 0xffff
        then g3d_fault d G3D_E_PARAM
      else d\<lparr>g3d_index := 0, g3d_batch := 0,
             g3d_phase := (if g3d_tcount d \<noteq> 0 then G3D_PH_INDEX else G3D_PH_BATCH)\<rparr>)"

definition g3d_check_index :: "g3d_device \<Rightarrow> g3d_device" where
  "g3d_check_index d =
     (let t = g3d_tris d (g3d_index d) in
      if t AND 255 \<ge> g3d_vcount d \<or> drop_bit 8 t AND 255 \<ge> g3d_vcount d \<or> drop_bit 16 t AND 255 \<ge> g3d_vcount d
      then g3d_fault d G3D_E_INDEX
      else
        let d = d\<lparr>g3d_index := g3d_index d + 1\<rparr> in
        if g3d_index d = g3d_tcount d then d\<lparr>g3d_phase := G3D_PH_BATCH\<rparr> else d)"

definition batch_mask :: "g3d_device \<Rightarrow> u32" where
  "batch_mask d =
     foldl (\<lambda>m l. if g3d_batch d * G3D_LANES + l < g3d_vcount d then m OR push_bit (unat l) 1 else m) 0
       [0, 1, 2, 3]"

definition g3d_start_batch :: "g3d_device \<Rightarrow> g3d_device" where
  "g3d_start_batch d =
     d\<lparr>g3d_regs := (\<lambda>_ _. 0), g3d_out := (\<lambda>_ _. 0), g3d_pc := 0, g3d_count := 0, g3d_pred := 0,
       g3d_depth := 0, g3d_mask := batch_mask d, g3d_phase := G3D_PH_EXEC\<rparr>"

definition g3d_fetch :: "g3d_device \<Rightarrow> g3d_device" where
  "g3d_fetch d =
     (let t = g3d_tris d (g3d_index d);
          d = d\<lparr>g3d_v := (g3d_v d)(0 := g3d_verts d (t AND 255), 1 := g3d_verts d (drop_bit 8 t AND 255),
                                    2 := g3d_verts d (drop_bit 16 t AND 255))\<rparr>
      in
      if \<not> v_valid (g3d_v d 0) \<or> \<not> v_valid (g3d_v d 1) \<or> \<not> v_valid (g3d_v d 2)
      then next_triangle (d\<lparr>g3d_culled := g3d_culled d + 1\<rparr>)
      else d\<lparr>g3d_phase := G3D_PH_AREA\<rparr>)"

definition bayer :: "nat list" where
  "bayer = [0, 8, 2, 10, 12, 4, 14, 6, 3, 11, 1, 9, 15, 7, 13, 5]"

definition dither :: "g3d_device \<Rightarrow> u8" where
  "dither d =
     (let t = int (bayer ! nat (g3d_y d mod 4 * 4 + g3d_x d mod 4));
          r = g3d_r d + 2 * t; g = g3d_g d + 2 * t; b = g3d_b d + 4 * t;
          lim = (\<lambda>c. if c > 255 then 255 else c)
      in of_int ((lim r AND 0xe0) OR (lim g div 8 AND 0x1c) OR lim b div 64))"

definition g3d_tick ::
  "g3d_device \<Rightarrow> bytes \<Rightarrow> u32 \<Rightarrow> bytes \<Rightarrow> bool \<Rightarrow> u32 \<Rightarrow> u32 \<Rightarrow> g3d_device \<times> bytes \<times> bytes" where
  "g3d_tick d ram ram_size fb hold window_start window_end =
     (if g3d_command_tick d then (d\<lparr>g3d_command_tick := False\<rparr>, ram, fb)
      else if \<not> g3d_busy d then (d, ram, fb)
      else
        let d = d\<lparr>g3d_cycles := g3d_cycles d + 1\<rparr>; at = zoff d; stall = d\<lparr>g3d_stalls := g3d_stalls d + 1\<rparr>
        in
        case g3d_phase d of
          G3D_PH_VALIDATE \<Rightarrow> (g3d_validate d ram_size window_start window_end, ram, fb)
        | G3D_PH_INDEX \<Rightarrow> (g3d_check_index d, ram, fb)
        | G3D_PH_BATCH \<Rightarrow> (g3d_start_batch d, ram, fb)
        | G3D_PH_EXEC \<Rightarrow> (execute d, ram, fb)
        | G3D_PH_VCHECK \<Rightarrow> (vertex_check d, ram, fb)
        | G3D_PH_DIVIDE \<Rightarrow>
            (let d = d\<lparr>g3d_div_left := g3d_div_left d - 1\<rparr> in
             (if g3d_div_left d = 0 then divide_done d else d, ram, fb))
        | G3D_PH_FETCH \<Rightarrow> (g3d_fetch d, ram, fb)
        | G3D_PH_AREA \<Rightarrow> (area d, ram, fb)
        | G3D_PH_TEST \<Rightarrow> (test d, ram, fb)
        | G3D_PH_ZREAD \<Rightarrow>
            if hold then (stall, ram, fb)
            else
              let old = ucast (ram at) OR push_bit 8 (ucast (ram (at + 1)) :: u32);
                  d = d\<lparr>g3d_transfers := g3d_transfers d + 1\<rparr>
              in (if (of_int (g3d_z d) :: u32) < old then d\<lparr>g3d_phase := G3D_PH_ZWRITE\<rparr>
                  else next_pixel (d\<lparr>g3d_zfail := g3d_zfail d + 1\<rparr>), ram, fb)
        | G3D_PH_ZWRITE \<Rightarrow>
            if hold then (stall, ram, fb)
            else (d\<lparr>g3d_ram_written := True, g3d_ram_written_at := at,
                    g3d_transfers := g3d_transfers d + 1, g3d_phase := G3D_PH_PWRITE\<rparr>,
                  ram(at := of_int (g3d_z d), at + 1 := of_int (g3d_z d div 256)), fb)
        | G3D_PH_PWRITE \<Rightarrow>
            if hold then (stall, ram, fb)
            else
              let fat = of_int (g3d_y d) * 320 + of_int (g3d_x d) in
              (next_pixel (d\<lparr>g3d_fb_written := True, g3d_fb_written_at := fat,
                             g3d_transfers := g3d_transfers d + 1, g3d_pixels := g3d_pixels d + 1\<rparr>),
               ram, fb(fat := dither d))
        | G3D_PH_CLEAR \<Rightarrow>
            if hold then (stall, ram, fb)
            else
              let cat = g3d_zbase d - RAM_ORIGIN + 4 * g3d_index d;
                  d = d\<lparr>g3d_ram_written := True, g3d_ram_written_at := cat,
                        g3d_transfers := g3d_transfers d + 1, g3d_index := g3d_index d + 1\<rparr>
              in (if g3d_index d = Z_BYTES div 4 then d\<lparr>g3d_phase := G3D_PH_FINISH\<rparr> else d,
                  ram(cat := 0xff, cat + 1 := 0xff, cat + 2 := 0xff, cat + 3 := 0xff), fb)
        | G3D_PH_FINISH \<Rightarrow> (d\<lparr>g3d_status := G3D_DONE, g3d_phase := G3D_PH_IDLE\<rparr>, ram, fb)
        | G3D_PH_IDLE \<Rightarrow> (g3d_fault d G3D_E_INTERNAL, ram, fb))"

end
