(* ===== verification/Machine.thy ===== *)
theory Machine
  imports Simd4 Gpu G3d
begin

text \<open>
  The machine of \<open>tools/rv32emu_core.h\<close>: the contract constants, the block device's registers
  and the machine struct, field for field. A pointer to an array is the array; a counted array
  (\<open>script\<close>/\<open>scripted\<close>, \<open>console_in\<close>/\<open>console_in_len\<close>, \<open>console_prompt\<close>/\<open>console_prompt_len\<close>) is
  a list. What the host sees or decides is kept in the state too:

  \<^item> \<open>m_stdout\<close> is what the console sent, in order; \<open>m_trace\<close>, \<open>m_checkpoints\<close>, \<open>m_record\<close> and
    \<open>m_frames_dir\<close> hold what was written to those outputs, or \<open>None\<close> for a \<open>NULL\<close> stream;
  \<^item> \<open>m_stdin\<close> is what successive polls of the host's stdin find: nothing (\<open>None\<close>), the end of
    input (an empty list), or up to 256 bytes;
  \<^item> \<open>m_ppm_ok\<close> and \<open>df_results\<close> are the outcomes of successive frame and disk file writes
    (success once the list is used up).
\<close>

section \<open>Constants\<close>

abbreviation (input) RAM_BASE :: u32 where "RAM_BASE \<equiv> 0x80000000"
abbreviation (input) RAM_SIZE :: u32 where "RAM_SIZE \<equiv> 0x01000000"
abbreviation (input) CONSOLE_BASE :: u32 where "CONSOLE_BASE \<equiv> 0x10000000"
abbreviation (input) CONSOLE_TX :: u32 where "CONSOLE_TX \<equiv> 0"
abbreviation (input) CONSOLE_IER :: u32 where "CONSOLE_IER \<equiv> 1"
abbreviation (input) CONSOLE_IIR :: u32 where "CONSOLE_IIR \<equiv> 2"
abbreviation (input) CONSOLE_LCR :: u32 where "CONSOLE_LCR \<equiv> 3"
abbreviation (input) CONSOLE_MCR :: u32 where "CONSOLE_MCR \<equiv> 4"
abbreviation (input) CONSOLE_STATUS :: u32 where "CONSOLE_STATUS \<equiv> 5"
abbreviation (input) CONSOLE_MSR :: u32 where "CONSOLE_MSR \<equiv> 6"
abbreviation (input) CONSOLE_SCR :: u32 where "CONSOLE_SCR \<equiv> 7"
abbreviation (input) CONSOLE_TX_READY :: u32 where "CONSOLE_TX_READY \<equiv> 0x20"
abbreviation (input) CONSOLE_TX_EMPTY :: u32 where "CONSOLE_TX_EMPTY \<equiv> 0x40"
abbreviation (input) CONSOLE_RX_READY :: u32 where "CONSOLE_RX_READY \<equiv> 0x01"
abbreviation (input) CONSOLE_LCR_DLAB :: u8 where "CONSOLE_LCR_DLAB \<equiv> 0x80"
abbreviation (input) CONSOLE_IER_MASK :: u8 where "CONSOLE_IER_MASK \<equiv> 0x0f"
abbreviation (input) CONSOLE_MCR_MASK :: u8 where "CONSOLE_MCR_MASK \<equiv> 0x1f"
abbreviation (input) CONSOLE_IER_RDI :: u8 where "CONSOLE_IER_RDI \<equiv> 0x01"
abbreviation (input) CONSOLE_IER_THRI :: u8 where "CONSOLE_IER_THRI \<equiv> 0x02"
abbreviation (input) CONSOLE_IIR_RDI :: u32 where "CONSOLE_IIR_RDI \<equiv> 0x04"
abbreviation (input) CONSOLE_IIR_THRI :: u32 where "CONSOLE_IIR_THRI \<equiv> 0x02"
abbreviation (input) CONSOLE_IIR_NONE :: u32 where "CONSOLE_IIR_NONE \<equiv> 0x01"
abbreviation (input) CONSOLE_MSR_LINE :: u32 where "CONSOLE_MSR_LINE \<equiv> 0xb0"
abbreviation (input) DONE_ADDR :: u32 where "DONE_ADDR \<equiv> 0x00100000"
abbreviation (input) DONE_PASS :: u32 where "DONE_PASS \<equiv> 0x5555"
abbreviation (input) DONE_FAIL :: u32 where "DONE_FAIL \<equiv> 0x3333"
abbreviation (input) DONE_RESET :: u32 where "DONE_RESET \<equiv> 0x7777"
abbreviation (input) CLINT_BASE :: u32 where "CLINT_BASE \<equiv> 0x02000000"
abbreviation (input) CLINT_SIZE :: u32 where "CLINT_SIZE \<equiv> 0x10000"
abbreviation (input) CLINT_MSIP :: u32 where "CLINT_MSIP \<equiv> 0"
abbreviation (input) CLINT_MTIMECMP :: u32 where "CLINT_MTIMECMP \<equiv> 0x4000"
abbreviation (input) CLINT_MTIME :: u32 where "CLINT_MTIME \<equiv> 0xbff8"
abbreviation (input) BOOT_HART :: u32 where "BOOT_HART \<equiv> 0"
abbreviation (input) PLIC_BASE :: u32 where "PLIC_BASE \<equiv> 0x0c000000"
abbreviation (input) PLIC_SIZE :: u32 where "PLIC_SIZE \<equiv> 0x600000"
abbreviation (input) PLIC_PENDING :: u32 where "PLIC_PENDING \<equiv> 0x1000"
abbreviation (input) PLIC_ENABLE :: u32 where "PLIC_ENABLE \<equiv> 0x2000"
abbreviation (input) PLIC_THRESHOLD :: u32 where "PLIC_THRESHOLD \<equiv> 0x200000"
abbreviation (input) PLIC_CLAIM :: u32 where "PLIC_CLAIM \<equiv> 0x200004"
abbreviation (input) PLIC_SOURCES :: u32 where "PLIC_SOURCES \<equiv> 32"
abbreviation (input) PLIC_SOURCE_INPUT :: nat where "PLIC_SOURCE_INPUT \<equiv> 12"
abbreviation (input) PLIC_SOURCE_VIRTIO :: nat where "PLIC_SOURCE_VIRTIO \<equiv> 1"
abbreviation (input) PLIC_WIRED :: u32 where "PLIC_WIRED \<equiv> 0x1002"
abbreviation (input) VIRTIO_BASE :: u32 where "VIRTIO_BASE \<equiv> 0x10001000"
abbreviation (input) VIRTIO_SIZE :: u32 where "VIRTIO_SIZE \<equiv> 0x200"
abbreviation (input) VIRTIO_DISK_SIZE :: u32 where "VIRTIO_DISK_SIZE \<equiv> 0x20000"
abbreviation (input) VIRTIO_DISK_MAX :: u32 where "VIRTIO_DISK_MAX \<equiv> 0x800000"
abbreviation (input) INPUT_BASE :: u32 where "INPUT_BASE \<equiv> 0x11001000"
abbreviation (input) INPUT_EVENT :: u32 where "INPUT_EVENT \<equiv> 0"
abbreviation (input) INPUT_COUNT :: u32 where "INPUT_COUNT \<equiv> 4"
abbreviation (input) INPUT_KEYS :: u32 where "INPUT_KEYS \<equiv> 8"
abbreviation (input) INPUT_QUEUE :: u32 where "INPUT_QUEUE \<equiv> 16"
abbreviation (input) EVENT_VALID :: u32 where "EVENT_VALID \<equiv> 0x80000000"
abbreviation (input) EVENT_PRESS :: u32 where "EVENT_PRESS \<equiv> 0x100"
abbreviation (input) DISPLAY_BASE :: u32 where "DISPLAY_BASE \<equiv> 0x11002000"
abbreviation (input) DISPLAY_PRESENT :: u32 where "DISPLAY_PRESENT \<equiv> 0"
abbreviation (input) DISPLAY_FRAMES :: u32 where "DISPLAY_FRAMES \<equiv> 4"
abbreviation (input) DISPLAY_WIDTH :: u32 where "DISPLAY_WIDTH \<equiv> 8"
abbreviation (input) DISPLAY_HEIGHT :: u32 where "DISPLAY_HEIGHT \<equiv> 0xc"
abbreviation (input) PALETTE_BASE :: u32 where "PALETTE_BASE \<equiv> 0x11003000"
abbreviation (input) PALETTE_SIZE :: u32 where "PALETTE_SIZE \<equiv> 0x400"
abbreviation (input) DMA_WINDOW_BASE :: u32 where "DMA_WINDOW_BASE \<equiv> 0x1100a000"
abbreviation (input) DMA_WINDOW_START :: u32 where "DMA_WINDOW_START \<equiv> 0"
abbreviation (input) DMA_WINDOW_END :: u32 where "DMA_WINDOW_END \<equiv> 4"
abbreviation (input) FB_BASE :: u32 where "FB_BASE \<equiv> 0x12000000"
abbreviation (input) FB_COLUMNS :: u32 where "FB_COLUMNS \<equiv> 320"
abbreviation (input) FB_ROWS :: u32 where "FB_ROWS \<equiv> 240"
abbreviation (input) FB_SIZE :: u32 where "FB_SIZE \<equiv> 76800"
abbreviation (input) EXIT_EMULATOR_ERROR :: int where "EXIT_EMULATOR_ERROR \<equiv> 2"

abbreviation (input) PRIV_U :: "'a::len word" where "PRIV_U \<equiv> 0"
abbreviation (input) PRIV_S :: "'a::len word" where "PRIV_S \<equiv> 1"
abbreviation (input) PRIV_M :: "'a::len word" where "PRIV_M \<equiv> 3"
abbreviation (input) MSTATUS_FS :: u32 where "MSTATUS_FS \<equiv> 0x6000"

section \<open>State\<close>

datatype halt = RUNNING | HALT_DONE | HALT_DOUBLE_FAULT | HALT_LIMIT | HALT_STOPPED

record scripted_event =
  se_frame :: u32
  se_event :: u32

text \<open>The disk file: its bytes, and what the next writes to it will do (\<open>None\<close> succeeds, \<open>Some n\<close>
  fails after \<open>n\<close> bytes).\<close>

record disk_file =
  df_bytes :: bytes
  df_results :: "nat option list"

record virtio_blk =
  vb_status :: u8
  vb_features_sel :: bool
  vb_queue_sel_zero :: bool
  vb_queue_ready :: bool
  vb_interrupt :: bool
  vb_queue_num :: u32
  vb_desc_lo :: u32
  vb_desc_hi :: u32
  vb_driver_lo :: u32
  vb_driver_hi :: u32
  vb_device_lo :: u32
  vb_device_hi :: u32
  vb_last_avail :: u16
  vb_used_idx :: u16
  vb_disk :: bytes
  vb_disk_size :: u32
  vb_file :: "disk_file option"
  vb_write_error :: bool

text \<open>The trace: one entry per line, with the fields the line prints.\<close>

datatype trace_line =
  T_RETIRE u64 u32 u32 "(nat \<times> u32) option" "(nat \<times> u32) option" "u8 option"
    "(u32 \<times> u32 \<times> nat) option" "(u32 \<times> u32 \<times> nat) option"
| T_TRAP u64 u32 u32 u32 u32
| T_INTERRUPT u64 u32 u32

record machine =
  m_simd :: simd_device
  m_gpu :: gpu_device
  m_g3d :: g3d_device
  m_dma_start :: u32
  m_dma_end :: u32
  m_x :: "u32 \<Rightarrow> u32"
  m_f :: "u32 \<Rightarrow> u32"
  m_fcsr :: u8
  m_pc :: u32
  m_mtvec :: u32
  m_mepc :: u32
  m_mcause :: u32
  m_mtval :: u32
  m_mstatus :: u32
  m_mie :: u32
  m_mscratch :: u32
  m_priv :: u8
  m_mpp :: u8
  m_medeleg :: u32
  m_mideleg :: u32
  m_mip_soft :: u32
  m_stvec :: u32
  m_sscratch :: u32
  m_sepc :: u32
  m_scause :: u32
  m_stval :: u32
  m_satp :: u32
  m_scounteren :: u32
  m_mcounteren :: u32
  m_pmpcfg :: "u32 \<Rightarrow> u8"
  m_pmpaddr :: "u32 \<Rightarrow> u32"
  m_plic_priority :: "u32 \<Rightarrow> u8"
  m_plic_enable :: u32
  m_plic_claimed :: u32
  m_plic_pending :: u32
  m_plic_threshold :: u8
  m_interrupts :: u64
  m_virtio :: virtio_blk
  m_ram :: bytes
  m_steps :: u64
  m_retired :: u64
  m_traps :: u64
  m_limit :: u64
  m_trace :: "trace_line list option"
  m_in_trap :: bool
  m_reserved :: bool
  m_reservation :: u32
  m_reservation_pa :: u32
  m_halt :: halt
  m_done_word :: u32
  m_second_cause :: u32
  m_second_tval :: u32
  m_mtime_offset :: u64
  m_mtimecmp :: u64
  m_msip :: u32
  m_fb :: bytes
  m_palette :: "u32 \<Rightarrow> u32"
  m_frames :: u32
  m_checkpoints :: "(u32 \<times> u32) list option"
  m_frames_dir :: "(u32 \<times> (u8 \<times> u8 \<times> u8) list) list option"
  m_output_error :: bool
  m_queue :: "u32 \<Rightarrow> u32"
  m_head :: u32
  m_count :: u32
  m_keys :: u32
  m_script :: "scripted_event list"
  m_next_scripted :: nat
  m_dropped :: nat
  m_record :: "(u32 \<times> bool \<times> u32) list option"
  m_console_in :: "u8 list"
  m_console_in_next :: nat
  m_console_stdin :: bool
  m_console_ier :: u8
  m_console_lcr :: u8
  m_console_mcr :: u8
  m_console_scr :: u8
  m_console_dll :: u8
  m_console_dlm :: u8
  m_console_latched :: u64
  m_console_prompt :: "u8 list"
  m_console_tail :: "nat \<Rightarrow> u8"
  m_console_tail_len :: nat
  m_console_prompts_seen :: u64
  m_console_lines_taken :: u64
  m_wr_reg :: int
  m_wr_freg :: int
  m_wr_fcsr :: bool
  m_wr_value :: u32
  m_mem_read :: bool
  m_mem_write :: bool
  m_mem_addr :: u32
  m_mem_read_value :: u32
  m_mem_write_value :: u32
  m_mem_width :: nat
  m_stdout :: "u8 list"
  m_stdin :: "u8 list option list"
  m_ppm_ok :: "bool list"

text \<open>
  The result of an access: \<open>Inr\<close> is \<open>ACC_OK\<close> with what the call wrote through its pointer. A
  load handler may change the machine whatever it returns. A store handler is in \<open>option\<close>:
  \<open>None\<close> means the call does not return (only a block device notification can do that, see the
  theory \<open>Virtio\<close>).
\<close>

datatype mem_fault = ACC_FAULT | ACC_MISALIGNED | ACC_PAGE_FAULT

type_synonym 'a mem_access = "mem_fault + 'a"
type_synonym load_handler = "machine \<Rightarrow> u32 \<Rightarrow> nat \<Rightarrow> u32 mem_access \<times> machine"
type_synonym store_handler = "machine \<Rightarrow> u32 \<Rightarrow> nat \<Rightarrow> u32 \<Rightarrow> (unit mem_access \<times> machine) option"

record region =
  r_name :: string
  r_base :: u32
  r_size :: u32
  r_load :: "load_handler option"
  r_store :: "store_handler option"

end
