(* ===== verification/G3dInv.thy ===== *)
theory G3dInv
  imports G3d
begin

text \<open>
  The invariant of the 3D engine (\<open>tools/rv32_g3d.c\<close>) and what follows from it for memory: every
  phase keeps its indices inside the arrays, divides by a positive number, and touches only the
  depth buffer the engine has locked and the 320 x 240 framebuffer.
\<close>

section \<open>The engine's invariant\<close>

definition z_ok :: "u32 \<Rightarrow> g3d_device \<Rightarrow> bool" where
  "z_ok ram_size d \<longleftrightarrow>
     g3d_zbase d mod 4 = 0 \<and> g3d_zbase d \<ge> RAM_ORIGIN \<and> g3d_zbase d - RAM_ORIGIN \<le> ram_size - Z_BYTES"

definition job_ok :: "u32 \<Rightarrow> g3d_device \<Rightarrow> bool" where
  "job_ok ram_size d \<longleftrightarrow> z_ok ram_size d \<and> 1 \<le> g3d_vcount d \<and> g3d_vcount d \<le> G3D_VMAX \<and> g3d_tcount d \<le> G3D_TMAX \<and>
     g3d_limit d \<le> 0xffff"

definition tri_ok :: "g3d_device \<Rightarrow> u32 \<Rightarrow> bool" where
  "tri_ok d i \<longleftrightarrow>
     (let t = g3d_tris d i in
      t AND 255 < g3d_vcount d \<and> drop_bit 8 t AND 255 < g3d_vcount d \<and> drop_bit 16 t AND 255 < g3d_vcount d)"

definition tris_ok :: "g3d_device \<Rightarrow> bool" where
  "tris_ok d \<longleftrightarrow> (\<forall>i < g3d_tcount d. tri_ok d i)"

definition rect_ok :: "g3d_device \<Rightarrow> bool" where
  "rect_ok d \<longleftrightarrow> 0 \<le> g3d_left d \<and> g3d_right d \<le> 319 \<and> 0 \<le> g3d_top d \<and> g3d_bottom d \<le> 239"

definition pixel_ok :: "g3d_device \<Rightarrow> bool" where
  "pixel_ok d \<longleftrightarrow>
     rect_ok d \<and> g3d_left d \<le> g3d_x d \<and> g3d_x d \<le> g3d_right d \<and> g3d_top d \<le> g3d_y d \<and> g3d_y d \<le> g3d_bottom d"

definition colour_ok :: "g3d_device \<Rightarrow> bool" where
  "colour_ok d \<longleftrightarrow> 0 \<le> g3d_z d \<and> g3d_z d \<le> 65535 \<and> 0 \<le> g3d_r d \<and> g3d_r d \<le> 255 \<and>
     0 \<le> g3d_g d \<and> g3d_g d \<le> 255 \<and> 0 \<le> g3d_b d \<and> g3d_b d \<le> 255"

text \<open>A vertex of the batch that lies inside the job.\<close>

definition lane_ok :: "g3d_device \<Rightarrow> bool" where
  "lane_ok d \<longleftrightarrow> g3d_batch d < 8 \<and> g3d_lane d < 4 \<and> g3d_batch d * G3D_LANES + g3d_lane d < g3d_vcount d"

definition batch_ok :: "g3d_device \<Rightarrow> bool" where
  "batch_ok d \<longleftrightarrow> g3d_batch d < 8 \<and> g3d_batch d * G3D_LANES < g3d_vcount d"

text \<open>Screen coordinates stay within the guard band, so the area of a triangle fits 32 bits.\<close>

definition vertex_ok :: "g3d_vertex \<Rightarrow> bool" where
  "vertex_ok v \<longleftrightarrow> \<bar>v_sx v - 2560\<bar> \<le> 10240 \<and> \<bar>v_sy v - 1920\<bar> \<le> 7680 \<and>
     0 \<le> v_z v \<and> v_z v \<le> 65535 \<and> 0 \<le> v_r v \<and> v_r v \<le> 255 \<and>
     0 \<le> v_g v \<and> v_g v \<le> 255 \<and> 0 \<le> v_b v \<and> v_b v \<le> 255"

definition verts_ok :: "g3d_device \<Rightarrow> bool" where
  "verts_ok d \<longleftrightarrow> (\<forall>i. vertex_ok (g3d_verts d i)) \<and> (\<forall>i. vertex_ok (g3d_v d i))"

text \<open>The running division: never by zero, and the projected coordinates bounded by the guard.\<close>

definition divide_ok :: "g3d_device \<Rightarrow> bool" where
  "divide_ok d \<longleftrightarrow>
     g3d_div_left d \<noteq> 0 \<and> g3d_div_left d \<le> G3D_DIVIDE_TICKS \<and> 0 < g3d_div_den d \<and>
     (if g3d_div_setup d then g3d_div_k d < 8 \<and> g3d_index d < g3d_tcount d \<and> rect_ok d
      else g3d_div_k d < 3 \<and> lane_ok d \<and>
        \<bar>g3d_div_num d 0\<bar> \<le> 10240 * g3d_div_den d \<and> \<bar>g3d_div_num d 1\<bar> \<le> 7680 * g3d_div_den d \<and>
        0 \<le> g3d_div_num d 2 \<and> g3d_div_num d 2 \<le> 65535 * g3d_div_den d \<and>
        (g3d_div_k d > 0 \<longrightarrow> \<bar>g3d_div_q d 0\<bar> \<le> 10240) \<and> (g3d_div_k d > 1 \<longrightarrow> \<bar>g3d_div_q d 1\<bar> \<le> 7680))"

definition g3d_phase_ok :: "u32 \<Rightarrow> g3d_device \<Rightarrow> bool" where
  "g3d_phase_ok ram_size d =
     (case g3d_phase d of
        G3D_PH_IDLE \<Rightarrow> False
      | G3D_PH_VALIDATE \<Rightarrow> True
      | G3D_PH_FINISH \<Rightarrow> True
      | G3D_PH_CLEAR \<Rightarrow> z_ok ram_size d \<and> g3d_index d < Z_BYTES div 4
      | G3D_PH_INDEX \<Rightarrow> job_ok ram_size d \<and> g3d_index d < g3d_tcount d \<and> g3d_batch d = 0 \<and>
                       (\<forall>i < g3d_index d. tri_ok d i)
      | G3D_PH_BATCH \<Rightarrow> job_ok ram_size d \<and> tris_ok d \<and> batch_ok d
      | G3D_PH_EXEC \<Rightarrow> job_ok ram_size d \<and> tris_ok d \<and> batch_ok d \<and> g3d_depth d \<le> G3D_DEPTH \<and>
                       g3d_count d \<le> g3d_limit d
      | G3D_PH_VCHECK \<Rightarrow> job_ok ram_size d \<and> tris_ok d \<and> lane_ok d
      | G3D_PH_DIVIDE \<Rightarrow> job_ok ram_size d \<and> tris_ok d \<and> divide_ok d
      | G3D_PH_FETCH \<Rightarrow> job_ok ram_size d \<and> tris_ok d \<and> g3d_index d < g3d_tcount d
      | G3D_PH_AREA \<Rightarrow> job_ok ram_size d \<and> tris_ok d \<and> g3d_index d < g3d_tcount d
      | G3D_PH_TEST \<Rightarrow> job_ok ram_size d \<and> tris_ok d \<and> g3d_index d < g3d_tcount d \<and> pixel_ok d
      | _ \<Rightarrow> job_ok ram_size d \<and> tris_ok d \<and> g3d_index d < g3d_tcount d \<and> pixel_ok d \<and> colour_ok d)"

definition g3d_inv :: "u32 \<Rightarrow> g3d_device \<Rightarrow> bool" where
  "g3d_inv ram_size d \<longleftrightarrow> verts_ok d \<and> (g3d_busy d \<longrightarrow> g3d_phase_ok ram_size d)"

lemma g3d_inv_reset: "g3d_inv ram_size (g3d_device_reset d)"
  by (simp add: g3d_inv_def g3d_device_reset_def g3d_device_zero_def g3d_busy_def verts_ok_def vertex_ok_def
      g3d_vertex_zero_def)

lemma slot_set_frame [simp]:
  "g3d_status (slot_set d s v) = g3d_status d" "g3d_verts (slot_set d s v) = g3d_verts d"
  "g3d_v (slot_set d s v) = g3d_v d"
  by (cases s; simp)+

lemma g3d_reset_frame [simp]: "g3d_status (g3d_device_reset d) = 0"
  by (simp add: g3d_device_reset_def g3d_device_zero_def)

lemma g3d_access_inv:
  "g3d_inv ram_size d \<Longrightarrow> g3d_access d off width write v other = Some (d', v') \<Longrightarrow> g3d_inv ram_size d'"
  using g3d_inv_reset [of ram_size d]
  by (auto simp: g3d_access_def g3d_inv_def g3d_busy_def verts_ok_def g3d_phase_ok_def
      split: if_splits option.splits)

section \<open>Sequencing keeps it\<close>

lemma vid_unat: "b < 8 \<Longrightarrow> l \<le> 4 \<Longrightarrow> unat (b * 4 + l) = 4 * unat b + unat l" for b l :: u32
  by (simp add: unat_word_ariths word_less_nat_alt word_le_nat_alt)

lemma vid_less: "lane_ok d \<Longrightarrow> job_ok ram_size d \<Longrightarrow> g3d_batch d * G3D_LANES + g3d_lane d < 32"
  by (auto simp: lane_ok_def job_ok_def)

lemma g3d_inv_not_busy: "\<not> g3d_busy d \<Longrightarrow> g3d_inv ram_size d \<longleftrightarrow> verts_ok d"
  by (simp add: g3d_inv_def)

lemma next_triangle_inv:
  assumes "job_ok ram_size d" "tris_ok d" "g3d_index d < g3d_tcount d"
  shows "g3d_phase_ok ram_size (next_triangle d)"
  using assms
  by (simp add: next_triangle_def g3d_phase_ok_def job_ok_def z_ok_def tris_ok_def tri_ok_def Let_def)

lemma next_pixel_inv:
  assumes "job_ok ram_size d" "tris_ok d" "g3d_index d < g3d_tcount d" "pixel_ok d"
  shows "g3d_phase_ok ram_size (next_pixel d)"
proof -
  consider (right) "g3d_x d < g3d_right d" | (down) "\<not> g3d_x d < g3d_right d" "g3d_y d < g3d_bottom d"
    | (last) "\<not> g3d_x d < g3d_right d" "\<not> g3d_y d < g3d_bottom d" by blast
  then show ?thesis
  proof cases
    case last
    then show ?thesis using assms by (simp add: next_pixel_def next_triangle_inv)
  qed (use assms in \<open>simp_all add: next_pixel_def g3d_phase_ok_def job_ok_def z_ok_def tris_ok_def tri_ok_def
        pixel_ok_def rect_ok_def\<close>)
qed

lemma next_vertex_inv:
  assumes "job_ok ram_size d" "tris_ok d" "lane_ok d"
  shows "g3d_phase_ok ram_size (next_vertex d)"
proof -
  have l: "g3d_lane d + 1 \<le> 4" "unat (g3d_lane d + 1) = unat (g3d_lane d) + 1"
    "unat (g3d_batch d + 1) = unat (g3d_batch d) + 1"
    using assms(3) by (auto simp: lane_ok_def word_le_nat_alt word_less_nat_alt unat_word_ariths)
  have b: "(g3d_batch d + 1) * 4 < g3d_vcount d \<Longrightarrow> g3d_batch d + 1 < 8"
  proof -
    assume a: "(g3d_batch d + 1) * 4 < g3d_vcount d"
    have "unat ((g3d_batch d + 1) * 4) = 4 * (unat (g3d_batch d) + 1)"
      using assms(3) l(3) by (simp add: lane_ok_def unat_word_ariths word_less_nat_alt)
    moreover have "unat (g3d_vcount d) \<le> 32" using assms(1) by (simp add: job_ok_def word_le_nat_alt)
    ultimately show ?thesis using a l(3) by (simp add: word_less_nat_alt)
  qed
  show ?thesis using assms l b
    by (simp add: next_vertex_def g3d_phase_ok_def job_ok_def z_ok_def tris_ok_def tri_ok_def lane_ok_def batch_ok_def
        Let_def word_neq_0_conv)
qed

section \<open>The shader keeps it\<close>

text \<open>What a shader instruction leaves alone.\<close>

definition shader_frame :: "g3d_device \<Rightarrow> g3d_device \<Rightarrow> bool" where
  "shader_frame d d' \<longleftrightarrow>
     g3d_vcount d' = g3d_vcount d \<and> g3d_tcount d' = g3d_tcount d \<and> g3d_zbase d' = g3d_zbase d \<and>
     g3d_limit d' = g3d_limit d \<and> g3d_tris d' = g3d_tris d \<and> g3d_batch d' = g3d_batch d \<and> g3d_index d' = g3d_index d \<and>
     g3d_verts d' = g3d_verts d \<and> g3d_v d' = g3d_v d \<and>
     g3d_ram_written d' = g3d_ram_written d \<and> g3d_fb_written d' = g3d_fb_written d \<and>
     g3d_command_tick d' = g3d_command_tick d"

lemma shader_frame_trans: "shader_frame a b \<Longrightarrow> shader_frame b c \<Longrightarrow> shader_frame a c"
  by (simp add: shader_frame_def)

lemma shader_fault_frame: "shader_frame d (shader_fault d e)" "\<not> g3d_busy (shader_fault d e)"
  by (simp_all add: shader_frame_def shader_fault_def g3d_fault_def g3d_busy_def)

definition lane_result_ok :: "g3d_device \<Rightarrow> g3d_device + g3d_device \<Rightarrow> bool" where
  "lane_result_ok d r \<longleftrightarrow>
     (case r of
        Inl d' \<Rightarrow> shader_frame d d' \<and> \<not> g3d_busy d'
      | Inr d' \<Rightarrow> shader_frame d d' \<and> g3d_status d' = g3d_status d \<and> g3d_phase d' = g3d_phase d \<and>
                 g3d_depth d' = g3d_depth d \<and> g3d_lane d' = g3d_lane d \<and> g3d_count d' = g3d_count d)"

lemma lane_result_if:
  "lane_result_ok d r \<Longrightarrow> lane_result_ok d s \<Longrightarrow> lane_result_ok d (if c then r else s)"
  by simp

lemma lane_result_fault: "lane_result_ok d (Inl (shader_fault d e))"
  by (simp add: lane_result_ok_def shader_fault_frame)

lemma lane_result_update:
  "lane_result_ok d (Inr d)"
  "lane_result_ok d (Inr (d\<lparr>g3d_regs := r\<rparr>))"
  "lane_result_ok d (Inr (d\<lparr>g3d_pred := p\<rparr>))"
  "lane_result_ok d (Inr (d\<lparr>g3d_out := o'\<rparr>))"
  by (simp_all add: lane_result_ok_def shader_frame_def)

lemma g3d_lane_op_frame: "lane_result_ok d (g3d_lane_op w op l d)"
  unfolding g3d_lane_op_def Let_def
  by (intro lane_result_if lane_result_fault lane_result_update)

lemma g3d_lanes_frame: "lane_result_ok d (g3d_lanes w op ls d)"
proof (induction w op ls d rule: g3d_lanes.induct)
  case (1 w op d)
  then show ?case by (simp add: lane_result_update)
next
  case (2 w op l ls d)
  then show ?case using g3d_lane_op_frame [of d w op l]
    by (auto simp: lane_result_ok_def split: sum.splits intro: shader_frame_trans)
qed

lemma depth_Suc: "d \<le> 8 \<Longrightarrow> d \<noteq> 8 \<Longrightarrow> d + 1 \<le> (8 :: u32)"
  by unat_arith

lemma depth_pred: "d \<le> 8 \<Longrightarrow> d \<noteq> 0 \<Longrightarrow> d - 1 \<le> (8 :: u32)"
  by unat_arith

text \<open>One instruction: the frame, and where a run that goes on stands.\<close>

definition shader_step_ok :: "g3d_device \<Rightarrow> g3d_device \<Rightarrow> bool" where
  "shader_step_ok d d' \<longleftrightarrow>
     shader_frame d d' \<and>
     (g3d_busy d' \<longrightarrow> (g3d_phase d' = G3D_PH_EXEC \<and> g3d_depth d' \<le> G3D_DEPTH \<and> g3d_count d \<noteq> g3d_limit d \<and>
                      g3d_count d' = g3d_count d + 1) \<or>
                   (g3d_phase d' = G3D_PH_VCHECK \<and> g3d_lane d' = 0))"

lemma shader_fault_step: "shader_step_ok d (shader_fault d e)"
  by (simp add: shader_step_ok_def shader_fault_frame)

lemma shader_fault_counted: "shader_step_ok d (shader_fault (d\<lparr>g3d_count := c, g3d_instructions := i\<rparr>) e)"
  by (simp add: shader_step_ok_def shader_frame_def shader_fault_def g3d_fault_def g3d_busy_def)

lemma shader_step_if:
  "(c \<Longrightarrow> shader_step_ok d a) \<Longrightarrow> (\<not> c \<Longrightarrow> shader_step_ok d b) \<Longrightarrow> shader_step_ok d (if c then a else b)"
  by simp

lemma execute_ok:
  assumes "g3d_phase d = G3D_PH_EXEC" "g3d_depth d \<le> G3D_DEPTH"
  shows "shader_step_ok d (execute d)"
proof (cases "g3d_count d = g3d_limit d")
  case True
  then show ?thesis by (simp add: execute_def shader_fault_step)
next
  case False
  let ?d = "d\<lparr>g3d_count := g3d_count d + 1, g3d_instructions := g3d_instructions d + 1\<rparr>"
  have lanes: "shader_step_ok d (case g3d_lanes w op ls ?d of Inl d' \<Rightarrow> d' | Inr d' \<Rightarrow> d'\<lparr>g3d_pc := n\<rparr>)" for w op ls n
    using g3d_lanes_frame [of ?d w op ls] assms False
    by (auto simp: lane_result_ok_def shader_step_ok_def shader_frame_def g3d_busy_def split: sum.splits)
  show ?thesis
    unfolding execute_def Let_def
    using assms False
    by (intro shader_step_if shader_fault_step shader_fault_counted lanes)
       (simp_all add: shader_step_ok_def shader_frame_def depth_Suc depth_pred)
qed

lemma shader_frame_inv:
  assumes "shader_frame d d'"
  shows "job_ok ram_size d' = job_ok ram_size d" "tris_ok d' = tris_ok d" "batch_ok d' = batch_ok d"
    "verts_ok d' = verts_ok d"
  using assms
  by (simp_all add: shader_frame_def job_ok_def z_ok_def tris_ok_def tri_ok_def batch_ok_def verts_ok_def)

lemma execute_inv:
  assumes "job_ok ram_size d" "tris_ok d" "batch_ok d" "g3d_depth d \<le> G3D_DEPTH" "g3d_phase d = G3D_PH_EXEC"
    and "g3d_busy (execute d)" and count: "g3d_count d \<le> g3d_limit d"
  shows "g3d_phase_ok ram_size (execute d)"
proof -
  have ok: "shader_step_ok d (execute d)" using assms by (intro execute_ok)
  then have "job_ok ram_size (execute d)" "tris_ok (execute d)" "batch_ok (execute d)"
    "g3d_limit (execute d) = g3d_limit d"
    using assms shader_frame_inv [of d "execute d"] by (simp_all add: shader_step_ok_def shader_frame_def)
  moreover have "g3d_count d + 1 \<le> g3d_limit d" if "g3d_count d \<noteq> g3d_limit d"
    using that count by unat_arith
  ultimately show ?thesis using ok assms(6)
    by (auto simp: shader_step_ok_def g3d_phase_ok_def lane_ok_def batch_ok_def)
qed


section \<open>Projection and triangle setup keep it\<close>

lemma to_i32_id: "- 2147483648 \<le> q \<Longrightarrow> q \<le> 2147483647 \<Longrightarrow> to_i32 q = q"
  by (simp add: to_i32_def signed_of_int signed_take_bit_int_eq_self)

lemma abs_sdiv: "0 < den \<Longrightarrow> \<bar>n sdiv den\<bar> = \<bar>n\<bar> div den" for n den :: int
  by (simp add: signed_divide_int_def abs_mult sgn_if pos_imp_zdiv_nonneg_iff)

lemma abs_sdiv_le: "0 < den \<Longrightarrow> \<bar>n\<bar> \<le> c * den \<Longrightarrow> \<bar>n sdiv den\<bar> \<le> c" for n den c :: int
  using zdiv_mono1 [of "\<bar>n\<bar>" "c * den" den] by (simp add: abs_sdiv)

lemma sat_bound:
  assumes "0 < den" "\<bar>n\<bar> \<le> c * den" "c \<le> 2147483647"
  shows "\<bar>sat n den\<bar> \<le> c"
  using abs_sdiv_le [OF assms(1,2)] assms(3) by (auto simp: sat_def Let_def to_i32_id)

lemma sat_nonneg: "0 < den \<Longrightarrow> 0 \<le> n \<Longrightarrow> 0 \<le> sat n den"
  using pos_imp_zdiv_nonneg_iff [of den n]
  by (auto simp: sat_def Let_def to_i32_id signed_divide_int_def sgn_if)

lemma clamp_channel_bounds: "0 \<le> clamp_channel o'" "clamp_channel o' \<le> 255"
  by (simp_all add: clamp_channel_def Let_def)

lemma verts_ok_frame [simp]:
  "verts_ok (next_triangle d) = verts_ok d" "verts_ok (next_vertex d) = verts_ok d"
  "verts_ok (next_pixel d) = verts_ok d" "verts_ok (start_divides d s den) = verts_ok d"
  "verts_ok (g3d_fault d e) = verts_ok d" "verts_ok (d\<lparr>g3d_div_num := n\<rparr>) = verts_ok d"
  "verts_ok (d\<lparr>g3d_div_q := q, g3d_divides := c\<rparr>) = verts_ok d"
  "verts_ok (d\<lparr>g3d_div_k := k, g3d_div_left := l\<rparr>) = verts_ok d"
  "verts_ok (d\<lparr>g3d_culled := c\<rparr>) = verts_ok d" "verts_ok (d\<lparr>g3d_phase := p\<rparr>) = verts_ok d"
  "verts_ok (d\<lparr>g3d_x := x, g3d_y := y\<rparr>) = verts_ok d"
  by (simp_all add: verts_ok_def next_triangle_def next_vertex_def next_pixel_def start_divides_def g3d_fault_def Let_def)

lemma status_frame [simp]:
  "g3d_status (next_triangle d) = g3d_status d" "g3d_status (next_vertex d) = g3d_status d"
  "g3d_status (next_pixel d) = g3d_status d" "g3d_status (start_divides d s den) = g3d_status d"
  by (simp_all add: next_triangle_def next_vertex_def next_pixel_def start_divides_def Let_def)

lemmas job_defs = job_ok_def z_ok_def tris_ok_def tri_ok_def lane_ok_def

lemma vertex_check_inv:
  assumes "job_ok ram_size d" "tris_ok d" "lane_ok d" "verts_ok d"
  shows "g3d_phase_ok ram_size (vertex_check d)" "verts_ok (vertex_check d)"
proof -
  let ?o = "g3d_out d (g3d_lane d)" and ?vid = "g3d_batch d * G3D_LANES + g3d_lane d"
  let ?valid = "sint (?o 3) \<ge> G3D_W_NEAR \<and> sint (?o 0) \<le> 4 * sint (?o 3) \<and> - sint (?o 0) \<le> 4 * sint (?o 3) \<and>
     sint (?o 1) \<le> 4 * sint (?o 3) \<and> - sint (?o 1) \<le> 4 * sint (?o 3) \<and> sint (?o 2) \<ge> 0 \<and> sint (?o 2) \<le> sint (?o 3)"
  define e where "e = d\<lparr>g3d_verts := (g3d_verts d)(?vid := (g3d_verts d ?vid)\<lparr>v_valid := ?valid,
     v_r := clamp_channel (?o 4), v_g := clamp_channel (?o 5), v_b := clamp_channel (?o 6)\<rparr>)\<rparr>"
  have v: "verts_ok e"
    using assms(4) by (auto simp: e_def verts_ok_def vertex_ok_def clamp_channel_bounds)
  have j: "job_ok ram_size e" "tris_ok e" "lane_ok e"
    using assms by (auto simp: e_def job_defs)
  have eq: "vertex_check d = (if \<not> ?valid then next_vertex e else start_divides
      (e\<lparr>g3d_div_num := (g3d_div_num e)(0 := sint (?o 0) * 2560, 1 := sint (?o 1) * 1920, 2 := sint (?o 2) * 65535)\<rparr>)
      False (sint (?o 3)))"
    by (simp add: vertex_check_def Let_def e_def)
  show "verts_ok (vertex_check d)" using v by (simp add: eq)
  have "g3d_phase_ok ram_size (next_vertex e)" using j by (rule next_vertex_inv)
  moreover have "g3d_phase_ok ram_size (start_divides
      (e\<lparr>g3d_div_num := (g3d_div_num e)(0 := sint (?o 0) * 2560, 1 := sint (?o 1) * 1920, 2 := sint (?o 2) * 65535)\<rparr>)
      False (sint (?o 3)))" if ?valid
    using that j by (simp add: start_divides_def g3d_phase_ok_def divide_ok_def job_defs abs_mult abs_le_iff)
  ultimately show "g3d_phase_ok ram_size (vertex_check d)" by (simp add: eq)
qed

lemma less_3_cases: "k < 3 \<Longrightarrow> k = 0 \<or> k = 1 \<or> k = (2 :: u32)"
  by (auto simp: word_less_nat_alt unat_arith_simps)

lemma lanes_8: "k < 7 \<Longrightarrow> k + 1 < (8 :: u32)"
  by unat_arith

lemma divide_done_inv:
  assumes job: "job_ok ram_size d" "tris_ok d" and ok: "divide_ok (d\<lparr>g3d_div_left := l\<rparr>)" and v: "verts_ok d"
    and ph: "g3d_phase d = G3D_PH_DIVIDE"
  shows "g3d_phase_ok ram_size (divide_done d)" "verts_ok (divide_done d)"
proof -
  let ?k = "g3d_div_k d" and ?vid = "g3d_batch d * G3D_LANES + g3d_lane d"
  define e where "e = d\<lparr>g3d_div_q := (g3d_div_q d)(?k := sat (g3d_div_num d ?k) (g3d_div_den d)),
     g3d_divides := g3d_divides d + 1\<rparr>"
  have je: "job_ok ram_size e" "tris_ok e" "verts_ok e" using job v by (simp_all add: e_def job_defs)
  have "g3d_phase_ok ram_size (divide_done d) \<and> verts_ok (divide_done d)"
  proof (cases "g3d_div_setup d")
    case True
    have k: "?k < 8" "g3d_index d < g3d_tcount d" "rect_ok d" "0 < g3d_div_den d"
      using ok True by (auto simp: divide_ok_def rect_ok_def)
    have eq: "divide_done d = (if ?k < 7 then e\<lparr>g3d_div_k := ?k + 1, g3d_div_left := G3D_DIVIDE_TICKS\<rparr>
        else if g3d_left d > g3d_right d \<or> g3d_top d > g3d_bottom d then next_triangle e
        else e\<lparr>g3d_x := g3d_left d, g3d_y := g3d_top d, g3d_phase := G3D_PH_TEST\<rparr>)"
      using True by (simp add: divide_done_def Let_def e_def)
    have i: "g3d_index e < g3d_tcount e" using k by (simp add: e_def)
    have "g3d_phase_ok ram_size (e\<lparr>g3d_div_k := ?k + 1, g3d_div_left := G3D_DIVIDE_TICKS\<rparr>)" if "?k < 7"
      using that k job True ph lanes_8 [OF that]
      by (simp add: e_def g3d_phase_ok_def divide_ok_def job_defs rect_ok_def)
    moreover have "g3d_phase_ok ram_size (e\<lparr>g3d_x := g3d_left d, g3d_y := g3d_top d, g3d_phase := G3D_PH_TEST\<rparr>)"
      if "g3d_left d \<le> g3d_right d" "g3d_top d \<le> g3d_bottom d"
      using that k job by (simp add: e_def g3d_phase_ok_def job_defs pixel_ok_def rect_ok_def)
    ultimately show ?thesis using next_triangle_inv [OF je(1,2) i] je(3) by (simp add: eq)
  next
    case False
    have k: "?k < 3" "lane_ok d" "0 < g3d_div_den d"
      and n: "\<bar>g3d_div_num d 0\<bar> \<le> 10240 * g3d_div_den d" "\<bar>g3d_div_num d 1\<bar> \<le> 7680 * g3d_div_den d"
        "0 \<le> g3d_div_num d 2" "g3d_div_num d 2 \<le> 65535 * g3d_div_den d"
      and q: "?k > 0 \<longrightarrow> \<bar>g3d_div_q d 0\<bar> \<le> 10240" "?k > 1 \<longrightarrow> \<bar>g3d_div_q d 1\<bar> \<le> 7680"
      using ok False by (auto simp: divide_ok_def lane_ok_def)
    have s0: "\<bar>sat (g3d_div_num d 0) (g3d_div_den d)\<bar> \<le> 10240"
      and s1: "\<bar>sat (g3d_div_num d 1) (g3d_div_den d)\<bar> \<le> 7680"
      and s2: "0 \<le> sat (g3d_div_num d 2) (g3d_div_den d)" "sat (g3d_div_num d 2) (g3d_div_den d) \<le> 65535"
      using sat_bound [OF k(3) n(1)] sat_bound [OF k(3) n(2)] sat_nonneg [OF k(3) n(3)]
        sat_bound [OF k(3), of "g3d_div_num d 2" 65535] n by auto
    define w where "w = e\<lparr>g3d_verts := (g3d_verts e)(?vid := (g3d_verts e ?vid)\<lparr>v_sx := 2560 + g3d_div_q e 0,
       v_sy := 1920 - g3d_div_q e 1, v_z := g3d_div_q e 2\<rparr>)\<rparr>"
    have eq: "divide_done d = (if ?k < 2 then e\<lparr>g3d_div_k := ?k + 1, g3d_div_left := G3D_DIVIDE_TICKS\<rparr> else next_vertex w)"
      using False by (simp add: divide_done_def Let_def e_def w_def)
    show ?thesis
    proof (cases "?k < 2")
      case True
      then have "?k = 0 \<or> ?k = 1" using k(1) less_3_cases [of ?k] by auto
      then have "g3d_phase_ok ram_size (e\<lparr>g3d_div_k := ?k + 1, g3d_div_left := G3D_DIVIDE_TICKS\<rparr>)"
        using k n q s0 s1 job False ph
        by (auto simp: e_def g3d_phase_ok_def divide_ok_def job_defs)
      then show ?thesis using True je(3) by (simp add: eq)
    next
      case no: False
      then have k2: "?k = 2" using k(1) less_3_cases [of ?k] by auto
      have w: "job_ok ram_size w" "tris_ok w" "lane_ok w"
        using job k by (simp_all add: w_def e_def job_defs)
      have "verts_ok w" using je(3) q s2 k2 by (auto simp: w_def e_def verts_ok_def vertex_ok_def)
      then show ?thesis using no next_vertex_inv [OF w] by (simp add: eq)
    qed
  qed
  then show "g3d_phase_ok ram_size (divide_done d)" "verts_ok (divide_done d)" by simp_all
qed

lemma abs_cross_le:
  fixes a b c e :: int
  assumes "\<bar>a\<bar> \<le> x" "\<bar>b\<bar> \<le> y" "\<bar>c\<bar> \<le> y" "\<bar>e\<bar> \<le> x"
  shows "\<bar>a * b - c * e\<bar> \<le> 2 * (x * y)"
proof -
  have "\<bar>a * b\<bar> \<le> x * y" "\<bar>c * e\<bar> \<le> y * x"
    using assms by (simp_all add: abs_mult mult_mono)
  then show ?thesis by (simp add: mult.commute)
qed

lemma area_bound:
  assumes "vertex_ok p" "vertex_ok q" "vertex_ok r"
  shows "\<bar>(v_sx q - v_sx p) * (v_sy r - v_sy p) - (v_sy q - v_sy p) * (v_sx r - v_sx p)\<bar> \<le> 629145600"
proof -
  have "\<bar>v_sx b - v_sx a\<bar> \<le> 20480" "\<bar>v_sy b - v_sy a\<bar> \<le> 15360" if "vertex_ok a" "vertex_ok b" for a b
    using that by (auto simp: vertex_ok_def abs_le_iff)
  then have "\<bar>(v_sx q - v_sx p) * (v_sy r - v_sy p) - (v_sy q - v_sy p) * (v_sx r - v_sx p)\<bar> \<le> 2 * (20480 * 15360)"
    using assms by (intro abs_cross_le) blast+
  then show ?thesis by simp
qed

text \<open>A front-facing triangle: its vertices swapped, its box clipped to the screen, its gradients divided.\<close>

lemma area_front:
  assumes "\<not> (v_sx (g3d_v d 1) - v_sx (g3d_v d 0)) * (v_sy (g3d_v d 2) - v_sy (g3d_v d 0)) -
    (v_sy (g3d_v d 1) - v_sy (g3d_v d 0)) * (v_sx (g3d_v d 2) - v_sx (g3d_v d 0)) \<ge> 0" (is "\<not> ?a \<ge> 0")
  obtains l r t b n where
    "area d = start_divides (d\<lparr>g3d_v := (g3d_v d)(1 := g3d_v d 2, 2 := g3d_v d 1), g3d_area := to_i32 (- ?a),
       g3d_left := l, g3d_right := r, g3d_top := t, g3d_bottom := b, g3d_div_num := n\<rparr>) True
       (g3d_area (d\<lparr>g3d_v := (g3d_v d)(1 := g3d_v d 2, 2 := g3d_v d 1), g3d_area := to_i32 (- ?a),
       g3d_left := l, g3d_right := r, g3d_top := t, g3d_bottom := b, g3d_div_num := n\<rparr>))"
    "0 \<le> l" "r \<le> 319" "0 \<le> t" "b \<le> 239"
proof -
  have lim: "0 \<le> (if (x :: int) < 0 then 0 else x)" "(if c < x then c else x) \<le> c" for x c by simp_all
  show thesis
    by (rule that, simp only: area_def Let_def assms if_False)
      (rule lim)+
qed

lemma area_inv:
  assumes job: "job_ok ram_size d" "tris_ok d" "g3d_index d < g3d_tcount d" and v: "verts_ok d"
  shows "g3d_phase_ok ram_size (area d)" "verts_ok (area d)"
proof -
  let ?a = "(v_sx (g3d_v d 1) - v_sx (g3d_v d 0)) * (v_sy (g3d_v d 2) - v_sy (g3d_v d 0)) -
    (v_sy (g3d_v d 1) - v_sy (g3d_v d 0)) * (v_sx (g3d_v d 2) - v_sx (g3d_v d 0))"
  have bound: "\<bar>?a\<bar> \<le> 629145600" using v by (intro area_bound) (simp_all add: verts_ok_def)
  have "g3d_phase_ok ram_size (area d) \<and> verts_ok (area d)"
  proof (cases "?a \<ge> 0")
    case True
    have c: "job_ok ram_size (d\<lparr>g3d_culled := c\<rparr>)" "tris_ok (d\<lparr>g3d_culled := c\<rparr>)" for c
      using job by (simp_all add: job_defs)
    have "area d = next_triangle (d\<lparr>g3d_culled := g3d_culled d + 1\<rparr>)"
      by (simp only: area_def Let_def True if_True)
    then show ?thesis using next_triangle_inv [OF c] job(3) v by simp
  next
    case False
    have den: "0 < to_i32 (- ?a)" using False bound by (subst to_i32_id) auto
    show ?thesis
      using den job v
      by (rule_tac area_front [OF False])
        (simp add: start_divides_def g3d_phase_ok_def divide_ok_def job_defs rect_ok_def, simp add: verts_ok_def)
  qed
  then show "g3d_phase_ok ram_size (area d)" "verts_ok (area d)" by simp_all
qed

section \<open>The other phases\<close>

lemma g3d_fault_idle [simp]: "\<not> g3d_busy (g3d_fault d e)"
  by (simp add: g3d_fault_def g3d_busy_def)

lemma word_ge_1: "1 \<le> w \<longleftrightarrow> 0 < w" for w :: u32
  by unat_arith

lemma g3d_inv_if:
  "(c \<Longrightarrow> g3d_inv ram_size a) \<Longrightarrow> (\<not> c \<Longrightarrow> g3d_inv ram_size b) \<Longrightarrow> g3d_inv ram_size (if c then a else b)"
  by simp

lemma g3d_inv_fault: "verts_ok d \<Longrightarrow> g3d_inv ram_size (g3d_fault d e)"
  by (simp add: g3d_inv_def)

lemma g3d_inv_phase: "verts_ok d \<Longrightarrow> g3d_phase_ok ram_size d \<Longrightarrow> g3d_inv ram_size d"
  by (simp add: g3d_inv_def)

lemma g3d_validate_inv:
  assumes v: "verts_ok d"
  shows "g3d_inv ram_size (g3d_validate d ram_size ws we)"
proof -
  have z: "z_ok ram_size d" if "zbase_ok d ram_size ws we"
    using that by (simp add: zbase_ok_def z_ok_def)
  have clear: "g3d_inv ram_size (d\<lparr>g3d_index := 0, g3d_phase := G3D_PH_CLEAR\<rparr>)" if "z_ok ram_size d"
    using v that by (intro g3d_inv_phase) (simp_all add: verts_ok_def g3d_phase_ok_def z_ok_def)
  have start: "g3d_inv ram_size (d\<lparr>g3d_index := 0, g3d_batch := 0,
      g3d_phase := (if g3d_tcount d \<noteq> 0 then G3D_PH_INDEX else G3D_PH_BATCH)\<rparr>)"
    if "z_ok ram_size d" "\<not> g3d_vcount d < 1" "\<not> g3d_vcount d > G3D_VMAX" "\<not> g3d_tcount d > G3D_TMAX"
      "\<not> g3d_limit d > 0xffff"
    using v that by (intro g3d_inv_phase)
      (simp_all add: verts_ok_def g3d_phase_ok_def z_ok_def job_ok_def tris_ok_def batch_ok_def not_less word_ge_1
        word_neq_0_conv)
  show ?thesis
    unfolding g3d_validate_def Let_def
    by (intro g3d_inv_if g3d_inv_fault v clear start; blast dest: z)
qed

lemma word_less_Suc: "i < k \<Longrightarrow> (j :: u32) < i + 1 \<longleftrightarrow> j < i \<or> j = i"
  by unat_arith

lemma word_Suc_less: "(i :: u32) < k \<Longrightarrow> i + 1 \<noteq> k \<Longrightarrow> i + 1 < k"
  by unat_arith

lemma g3d_check_index_inv:
  assumes job: "job_ok ram_size d" "g3d_index d < g3d_tcount d" "g3d_batch d = 0" "\<forall>i < g3d_index d. tri_ok d i"
    and ph: "g3d_phase d = G3D_PH_INDEX" and v: "verts_ok d"
  shows "g3d_inv ram_size (g3d_check_index d)"
proof -
  let ?e = "d\<lparr>g3d_index := g3d_index d + 1\<rparr>"
  have tri: "\<forall>i < g3d_index d + 1. tri_ok d i" if "tri_ok d (g3d_index d)"
    using that job(4) word_less_Suc [OF job(2)] by blast
  have e: "verts_ok ?e" "job_ok ram_size ?e" "tri_ok ?e = tri_ok d"
    using v job(1) by (simp_all add: verts_ok_def job_ok_def z_ok_def tri_ok_def fun_eq_iff)
  have last: "g3d_inv ram_size (?e\<lparr>g3d_phase := G3D_PH_BATCH\<rparr>)"
    if "tri_ok d (g3d_index d)" "g3d_index d + 1 = g3d_tcount d"
    using e tri [OF that(1)] that(2) job(1,3)
    by (intro g3d_inv_phase)
      (simp_all add: g3d_phase_ok_def job_ok_def z_ok_def tris_ok_def batch_ok_def tri_ok_def word_ge_1)
  have more: "g3d_inv ram_size ?e" if "tri_ok d (g3d_index d)" "g3d_index d + 1 \<noteq> g3d_tcount d"
    using e tri [OF that(1)] word_Suc_less [OF job(2) that(2)] job(3) ph
    by (intro g3d_inv_phase) (simp_all add: g3d_phase_ok_def)
  have ok: "tri_ok d (g3d_index d)" if "\<not> (let t = g3d_tris d (g3d_index d) in t AND 255 \<ge> g3d_vcount d \<or>
      drop_bit 8 t AND 255 \<ge> g3d_vcount d \<or> drop_bit 16 t AND 255 \<ge> g3d_vcount d)"
    using that by (simp add: tri_ok_def Let_def not_le)
  have "g3d_check_index d = (if let t = g3d_tris d (g3d_index d) in t AND 255 \<ge> g3d_vcount d \<or>
      drop_bit 8 t AND 255 \<ge> g3d_vcount d \<or> drop_bit 16 t AND 255 \<ge> g3d_vcount d then g3d_fault d G3D_E_INDEX
      else if g3d_index d + 1 = g3d_tcount d then ?e\<lparr>g3d_phase := G3D_PH_BATCH\<rparr> else ?e)"
    by (simp add: g3d_check_index_def Let_def)
  then show ?thesis
    by (simp only:) (intro g3d_inv_if g3d_inv_fault v last more ok)
qed

lemma g3d_start_batch_inv:
  "job_ok ram_size d \<Longrightarrow> tris_ok d \<Longrightarrow> batch_ok d \<Longrightarrow> verts_ok d \<Longrightarrow> g3d_inv ram_size (g3d_start_batch d)"
  by (simp add: g3d_inv_def g3d_start_batch_def g3d_phase_ok_def job_defs batch_ok_def verts_ok_def)

lemma g3d_fetch_inv:
  assumes "job_ok ram_size d" "tris_ok d" "g3d_index d < g3d_tcount d" "verts_ok d"
  shows "g3d_inv ram_size (g3d_fetch d)"
proof -
  let ?t = "g3d_tris d (g3d_index d)"
  define e where "e = d\<lparr>g3d_v := (g3d_v d)(0 := g3d_verts d (?t AND 255), 1 := g3d_verts d (drop_bit 8 ?t AND 255),
                                    2 := g3d_verts d (drop_bit 16 ?t AND 255))\<rparr>"
  have e: "verts_ok e" "g3d_index e < g3d_tcount e" "job_ok ram_size e" "tris_ok e"
    using assms by (simp_all add: e_def verts_ok_def job_defs)
  then have c: "job_ok ram_size (e\<lparr>g3d_culled := c\<rparr>)" "tris_ok (e\<lparr>g3d_culled := c\<rparr>)"
    "g3d_index (e\<lparr>g3d_culled := c\<rparr>) < g3d_tcount (e\<lparr>g3d_culled := c\<rparr>)" for c
    by (simp_all add: job_defs)
  have "g3d_fetch d = (if \<not> v_valid (g3d_v e 0) \<or> \<not> v_valid (g3d_v e 1) \<or> \<not> v_valid (g3d_v e 2)
      then next_triangle (e\<lparr>g3d_culled := g3d_culled e + 1\<rparr>) else e\<lparr>g3d_phase := G3D_PH_AREA\<rparr>)"
    by (simp add: g3d_fetch_def e_def Let_def)
  then show ?thesis using e next_triangle_inv [OF c]
    by (simp add: g3d_inv_def) (simp add: g3d_phase_ok_def job_defs)
qed

lemma at_pixel_bounds: "0 \<le> at_pixel d px py k" "at_pixel d px py k \<le> (if k = 0 then 65535 else 255)"
  by (auto simp: at_pixel_def Let_def)

lemma test_inv:
  assumes "job_ok ram_size d" "tris_ok d" "g3d_index d < g3d_tcount d" "pixel_ok d" "verts_ok d"
  shows "g3d_inv ram_size (test d)"
proof -
  let ?px = "g3d_x d * 16 + 8" and ?py = "g3d_y d * 16 + 8"
  have "g3d_phase_ok ram_size (d\<lparr>g3d_z := at_pixel d ?px ?py 0, g3d_r := at_pixel d ?px ?py 1,
       g3d_g := at_pixel d ?px ?py 2, g3d_b := at_pixel d ?px ?py 3, g3d_phase := G3D_PH_ZREAD\<rparr>)"
    using assms(1-4) at_pixel_bounds [of d ?px ?py 0] at_pixel_bounds [of d ?px ?py 1]
      at_pixel_bounds [of d ?px ?py 2] at_pixel_bounds [of d ?px ?py 3]
    by (simp add: g3d_phase_ok_def job_defs pixel_ok_def rect_ok_def colour_ok_def)
  then show ?thesis using assms(5) next_pixel_inv [OF assms(1-4)]
    by (simp add: test_def Let_def g3d_inv_def) (simp add: verts_ok_def)
qed

lemma g3d_inv_frame:
  assumes "g3d_phase d' = g3d_phase d" "g3d_status d' = g3d_status d" "g3d_zbase d' = g3d_zbase d"
    "g3d_vcount d' = g3d_vcount d" "g3d_tcount d' = g3d_tcount d" "g3d_tris d' = g3d_tris d"
    "g3d_index d' = g3d_index d" "g3d_batch d' = g3d_batch d" "g3d_lane d' = g3d_lane d"
    "g3d_depth d' = g3d_depth d" "g3d_verts d' = g3d_verts d" "g3d_v d' = g3d_v d"
    "g3d_left d' = g3d_left d" "g3d_right d' = g3d_right d" "g3d_top d' = g3d_top d" "g3d_bottom d' = g3d_bottom d"
    "g3d_x d' = g3d_x d" "g3d_y d' = g3d_y d" "g3d_z d' = g3d_z d" "g3d_r d' = g3d_r d" "g3d_g d' = g3d_g d"
    "g3d_b d' = g3d_b d" "g3d_div_left d' = g3d_div_left d" "g3d_div_den d' = g3d_div_den d"
    "g3d_div_setup d' = g3d_div_setup d" "g3d_div_k d' = g3d_div_k d" "g3d_div_num d' = g3d_div_num d"
    "g3d_div_q d' = g3d_div_q d" "g3d_limit d' = g3d_limit d" "g3d_count d' = g3d_count d"
  shows "g3d_phase_ok ram_size d' = g3d_phase_ok ram_size d" "verts_ok d' = verts_ok d"
    "g3d_inv ram_size d' = g3d_inv ram_size d"
proof -
  have "job_ok ram_size d' = job_ok ram_size d" "z_ok ram_size d' = z_ok ram_size d" "tris_ok d' = tris_ok d"
    "tri_ok d' = tri_ok d" "lane_ok d' = lane_ok d" "batch_ok d' = batch_ok d" "pixel_ok d' = pixel_ok d"
    "colour_ok d' = colour_ok d" "rect_ok d' = rect_ok d"
    using assms by (simp_all add: job_defs batch_ok_def pixel_ok_def rect_ok_def colour_ok_def fun_eq_iff)
  moreover from this have "divide_ok d' = divide_ok d" using assms by (simp add: divide_ok_def)
  ultimately show ph: "g3d_phase_ok ram_size d' = g3d_phase_ok ram_size d"
    using assms(1,5,7,8,10,29,30) by (cases "g3d_phase d") (simp_all add: g3d_phase_ok_def)
  show "verts_ok d' = verts_ok d" using assms by (simp add: verts_ok_def)
  with ph show "g3d_inv ram_size d' = g3d_inv ram_size d" using assms(2) by (simp add: g3d_inv_def g3d_busy_def)
qed

lemma g3d_inv_counters [simp]:
  "g3d_inv ram_size (d\<lparr>g3d_cycles := c\<rparr>) = g3d_inv ram_size d"
  "g3d_inv ram_size (d\<lparr>g3d_stalls := c\<rparr>) = g3d_inv ram_size d"
  "g3d_inv ram_size (d\<lparr>g3d_command_tick := b\<rparr>) = g3d_inv ram_size d"
  "g3d_inv ram_size (d\<lparr>g3d_ram_written := b\<rparr>) = g3d_inv ram_size d"
  "g3d_inv ram_size (d\<lparr>g3d_fb_written := b\<rparr>) = g3d_inv ram_size d"
  by (rule g3d_inv_frame(3), simp_all)+

text \<open>A busy engine by the phase it is in.\<close>

lemma g3d_inv_busy: "g3d_inv ram_size d \<Longrightarrow> g3d_busy d \<Longrightarrow> verts_ok d \<and> g3d_phase_ok ram_size d"
  by (simp add: g3d_inv_def)

lemma word_pred_le: "w \<noteq> 0 \<Longrightarrow> w \<le> k \<Longrightarrow> w - 1 \<le> (k :: u32)"
  by unat_arith

lemma g3d_divide_tick_inv:
  assumes v: "verts_ok d" and job: "job_ok ram_size d" "tris_ok d" "divide_ok d" and ph: "g3d_phase d = G3D_PH_DIVIDE"
  shows "g3d_inv ram_size (let d = d\<lparr>g3d_div_left := g3d_div_left d - 1\<rparr> in if g3d_div_left d = 0 then divide_done d else d)"
proof -
  let ?e = "d\<lparr>g3d_div_left := g3d_div_left d - 1\<rparr>"
  have e: "job_ok ram_size ?e" "tris_ok ?e" "verts_ok ?e" "g3d_phase ?e = G3D_PH_DIVIDE"
    "divide_ok (?e\<lparr>g3d_div_left := g3d_div_left d\<rparr>)"
    using assms by (simp_all add: job_defs verts_ok_def)
  have f: "lane_ok ?e = lane_ok d" "rect_ok ?e = rect_ok d" by (simp_all add: lane_ok_def rect_ok_def)
  have "g3d_inv ram_size (divide_done ?e)"
    using divide_done_inv [OF e(1,2,5,3,4)] by (intro g3d_inv_phase)
  moreover have "g3d_inv ram_size ?e" if "g3d_div_left ?e \<noteq> 0"
    using that e job ph f by (intro g3d_inv_phase) (simp_all add: g3d_phase_ok_def divide_ok_def word_pred_le)
  ultimately show ?thesis unfolding Let_def by (intro g3d_inv_if)
qed

lemma pixel_counters:
  "job_ok ram_size (d\<lparr>g3d_transfers := t, g3d_zfail := z\<rparr>) = job_ok ram_size d"
  "tris_ok (d\<lparr>g3d_transfers := t, g3d_zfail := z\<rparr>) = tris_ok d"
  "pixel_ok (d\<lparr>g3d_transfers := t, g3d_zfail := z\<rparr>) = pixel_ok d"
  "verts_ok (d\<lparr>g3d_transfers := t, g3d_zfail := z\<rparr>) = verts_ok d"
  "job_ok ram_size (d\<lparr>g3d_fb_written := b, g3d_fb_written_at := a, g3d_transfers := t, g3d_pixels := p\<rparr>) = job_ok ram_size d"
  "tris_ok (d\<lparr>g3d_fb_written := b, g3d_fb_written_at := a, g3d_transfers := t, g3d_pixels := p\<rparr>) = tris_ok d"
  "pixel_ok (d\<lparr>g3d_fb_written := b, g3d_fb_written_at := a, g3d_transfers := t, g3d_pixels := p\<rparr>) = pixel_ok d"
  "verts_ok (d\<lparr>g3d_fb_written := b, g3d_fb_written_at := a, g3d_transfers := t, g3d_pixels := p\<rparr>) = verts_ok d"
  by (simp_all add: job_defs pixel_ok_def rect_ok_def verts_ok_def)

lemma g3d_transfer_inv:
  assumes v: "verts_ok d" and ok: "job_ok ram_size d" "tris_ok d" "g3d_index d < g3d_tcount d" "pixel_ok d" "colour_ok d"
  shows "g3d_inv ram_size (d\<lparr>g3d_transfers := t, g3d_phase := G3D_PH_ZWRITE\<rparr>)"
    "g3d_inv ram_size (next_pixel (d\<lparr>g3d_transfers := t, g3d_zfail := z\<rparr>))"
    "g3d_inv ram_size (d\<lparr>g3d_ram_written := b, g3d_ram_written_at := a, g3d_transfers := t, g3d_phase := G3D_PH_PWRITE\<rparr>)"
    "g3d_inv ram_size (next_pixel (d\<lparr>g3d_fb_written := b, g3d_fb_written_at := a, g3d_transfers := t, g3d_pixels := p\<rparr>))"
proof -
  show "g3d_inv ram_size (d\<lparr>g3d_transfers := t, g3d_phase := G3D_PH_ZWRITE\<rparr>)"
    "g3d_inv ram_size (d\<lparr>g3d_ram_written := b, g3d_ram_written_at := a, g3d_transfers := t, g3d_phase := G3D_PH_PWRITE\<rparr>)"
    using v ok by (intro g3d_inv_phase;
        simp add: verts_ok_def g3d_phase_ok_def job_defs pixel_ok_def rect_ok_def colour_ok_def)+
  show "g3d_inv ram_size (next_pixel (d\<lparr>g3d_transfers := t, g3d_zfail := z\<rparr>))"
    "g3d_inv ram_size (next_pixel (d\<lparr>g3d_fb_written := b, g3d_fb_written_at := a, g3d_transfers := t, g3d_pixels := p\<rparr>))"
    using v ok by (intro g3d_inv_phase next_pixel_inv; simp add: pixel_counters)+
qed

lemma g3d_clear_inv:
  assumes v: "verts_ok d" and z: "z_ok ram_size d" "g3d_index d < Z_BYTES div 4" and ph: "g3d_phase d = G3D_PH_CLEAR"
  shows "g3d_inv ram_size (let d = d\<lparr>g3d_ram_written := True, g3d_ram_written_at := cat,
      g3d_transfers := g3d_transfers d + 1, g3d_index := g3d_index d + 1\<rparr>
      in if g3d_index d = Z_BYTES div 4 then d\<lparr>g3d_phase := G3D_PH_FINISH\<rparr> else d)"
proof -
  have "g3d_index d + 1 < Z_BYTES div 4" if "g3d_index d + 1 \<noteq> Z_BYTES div 4"
    using word_Suc_less [OF z(2) that] .
  then show ?thesis using v z(1) ph
    unfolding Let_def
    by (intro g3d_inv_if g3d_inv_phase) (simp_all add: g3d_phase_ok_def z_ok_def verts_ok_def)
qed

lemma g3d_tick_inv:
  assumes "g3d_inv ram_size d"
  shows "g3d_inv ram_size (fst (g3d_tick d ram ram_size fb hold ws we))"
proof (cases "g3d_command_tick d \<or> \<not> g3d_busy d")
  case True
  then show ?thesis using assms by (cases "g3d_command_tick d") (simp_all add: g3d_tick_def)
next
  case False
  define e where "e = d\<lparr>g3d_cycles := g3d_cycles d + 1\<rparr>"
  have inv: "g3d_inv ram_size e" using assms by (simp add: e_def)
  have busy: "g3d_busy e" using False by (simp add: e_def g3d_busy_def)
  have stall: "g3d_inv ram_size (e\<lparr>g3d_stalls := g3d_stalls e + 1\<rparr>)" using inv by simp
  have v: "verts_ok e" and ok: "g3d_phase_ok ram_size e" using g3d_inv_busy [OF inv busy] by simp_all
  have ph: "g3d_phase d = g3d_phase e" by (simp add: e_def)
  show ?thesis
  proof (cases "g3d_phase e")
    case G3D_PH_IDLE
    then show ?thesis using ok by (simp add: g3d_phase_ok_def)
  next
    case G3D_PH_VALIDATE
    then show ?thesis using g3d_validate_inv [OF v] False ph by (simp add: g3d_tick_def Let_def flip: e_def)
  next
    case G3D_PH_INDEX
    then show ?thesis using ok v False ph
      by (simp add: g3d_tick_def Let_def g3d_phase_ok_def g3d_check_index_inv flip: e_def)
  next
    case G3D_PH_BATCH
    then show ?thesis using ok v False ph
      by (simp add: g3d_tick_def Let_def g3d_phase_ok_def g3d_start_batch_inv flip: e_def)
  next
    case G3D_PH_EXEC
    have "verts_ok (execute e)"
      using execute_ok [of e] shader_frame_inv [of e "execute e"] ok v G3D_PH_EXEC
      by (simp add: g3d_phase_ok_def shader_step_ok_def)
    then have "g3d_inv ram_size (execute e)"
      using execute_inv [of ram_size e] ok G3D_PH_EXEC by (simp add: g3d_inv_def g3d_phase_ok_def)
    then show ?thesis using G3D_PH_EXEC False ph by (simp add: g3d_tick_def Let_def flip: e_def)
  next
    case G3D_PH_VCHECK
    then have "g3d_inv ram_size (vertex_check e)"
      using vertex_check_inv [of ram_size e] ok v by (intro g3d_inv_phase) (simp_all add: g3d_phase_ok_def)
    then show ?thesis using G3D_PH_VCHECK False ph by (simp add: g3d_tick_def Let_def flip: e_def)
  next
    case G3D_PH_DIVIDE
    then show ?thesis using g3d_divide_tick_inv [of e ram_size] ok v False ph
      by (simp add: g3d_tick_def Let_def g3d_phase_ok_def flip: e_def)
  next
    case G3D_PH_FETCH
    then show ?thesis using g3d_fetch_inv [of ram_size e] ok v False ph
      by (simp add: g3d_tick_def Let_def g3d_phase_ok_def flip: e_def)
  next
    case G3D_PH_AREA
    then have "g3d_inv ram_size (area e)"
      using area_inv [of ram_size e] ok v by (intro g3d_inv_phase) (simp_all add: g3d_phase_ok_def)
    then show ?thesis using G3D_PH_AREA False ph by (simp add: g3d_tick_def Let_def flip: e_def)
  next
    case G3D_PH_TEST
    then show ?thesis using test_inv [of ram_size e] ok v False ph
      by (simp add: g3d_tick_def Let_def g3d_phase_ok_def flip: e_def)
  next
    case G3D_PH_CLEAR
    then show ?thesis using g3d_clear_inv [of e ram_size "g3d_zbase e - RAM_ORIGIN + 4 * g3d_index e"] ok v False ph stall
      by (simp add: g3d_tick_def Let_def g3d_phase_ok_def flip: e_def)
  next
    case G3D_PH_FINISH
    then show ?thesis using v False ph
      by (simp add: g3d_tick_def Let_def g3d_inv_def g3d_busy_def verts_ok_def flip: e_def)
  qed (use g3d_transfer_inv [of e ram_size] ok v False ph stall in
        \<open>simp_all add: g3d_tick_def Let_def g3d_phase_ok_def flip: e_def\<close>)
qed

section \<open>Memory the engine reaches\<close>

lemma zbase_uint:
  assumes "z_ok ram_size d" "Z_BYTES \<le> ram_size"
  shows "uint (g3d_zbase d - RAM_ORIGIN) = uint (g3d_zbase d) - 0x80000000"
    "0x80000000 \<le> uint (g3d_zbase d)" "uint (g3d_zbase d) - 0x80000000 + 153600 \<le> uint ram_size"
proof -
  show lo: "0x80000000 \<le> uint (g3d_zbase d)" using assms(1) by (simp add: z_ok_def word_le_def)
  then show sub: "uint (g3d_zbase d - RAM_ORIGIN) = uint (g3d_zbase d) - 0x80000000"
    using uint_u32_less [of "g3d_zbase d"] by (simp add: uint_word_ariths mod_pos_pos_trivial)
  have "uint (ram_size - Z_BYTES) = uint ram_size - 153600"
    using assms(2) uint_u32_less [of ram_size] by (simp add: word_le_def uint_word_ariths mod_pos_pos_trivial)
  then show "uint (g3d_zbase d) - 0x80000000 + 153600 \<le> uint ram_size"
    using assms(1) sub by (simp add: z_ok_def word_le_def)
qed

lemma pixel_bounds:
  assumes "pixel_ok d"
  shows "0 \<le> g3d_x d" "g3d_x d < 320" "0 \<le> g3d_y d" "g3d_y d < 240" "0 \<le> g3d_y d * 320 + g3d_x d" "g3d_y d * 320 + g3d_x d < 76800"
  using assms by (auto simp: pixel_ok_def rect_ok_def)

lemma zoff_uint:
  assumes "z_ok ram_size d" "pixel_ok d" "Z_BYTES \<le> ram_size"
  shows "uint (zoff d) = uint (g3d_zbase d) - 0x80000000 + 2 * (g3d_y d * 320 + g3d_x d)"
    "uint (zoff d + 1) = uint (zoff d) + 1"
proof -
  note z = zbase_uint [OF assms(1,3)] and p = pixel_bounds [OF assms(2)]
  let ?n = "uint (g3d_zbase d) - 0x80000000 + 2 * (g3d_y d * 320 + g3d_x d)"
  have n: "zoff d = of_int ?n"
    by (simp add: zoff_def flip: z(1))
  show eq: "uint (zoff d) = ?n"
    unfolding n using z p uint_u32_less [of ram_size] by (intro uint_of_int_u32) simp_all
  show "uint (zoff d + 1) = uint (zoff d) + 1"
    using eq z p uint_u32_less [of ram_size] by (simp add: uint_word_ariths mod_pos_pos_trivial)
qed

lemma clear_uint:
  assumes "z_ok ram_size d" "g3d_index d < Z_BYTES div 4" "Z_BYTES \<le> ram_size" "0 \<le> k" "k < 4"
  shows "uint (g3d_zbase d - RAM_ORIGIN + 4 * g3d_index d + of_int k) =
    uint (g3d_zbase d) - 0x80000000 + 4 * uint (g3d_index d) + k"
proof -
  note z = zbase_uint [OF assms(1,3)]
  let ?n = "uint (g3d_zbase d) - 0x80000000 + 4 * uint (g3d_index d) + k"
  have eq: "g3d_zbase d - RAM_ORIGIN + 4 * g3d_index d + of_int k = of_int ?n"
    by (simp flip: z(1))
  have "uint (g3d_index d) < 38400" using assms(2) by (simp add: word_less_def)
  then show ?thesis unfolding eq using z assms(4,5) uint_u32_less [of ram_size] by (intro uint_of_int_u32) simp_all
qed

text \<open>The depth buffer as offsets into RAM.\<close>

definition in_depth :: "g3d_device \<Rightarrow> u32 \<Rightarrow> bool" where
  "in_depth d a \<longleftrightarrow> uint (g3d_zbase d) - 0x80000000 \<le> uint a \<and> uint a < uint (g3d_zbase d) - 0x80000000 + 153600"

lemma in_depth_zoff:
  assumes "z_ok ram_size d" "pixel_ok d" "Z_BYTES \<le> ram_size"
  shows "in_depth d (zoff d)" "in_depth d (zoff d + 1)"
  using zoff_uint [OF assms] pixel_bounds [OF assms(2)] by (simp_all add: in_depth_def)

lemma in_depth_clear:
  assumes "z_ok ram_size d" "g3d_index d < Z_BYTES div 4" "Z_BYTES \<le> ram_size"
  shows "in_depth d (g3d_zbase d - RAM_ORIGIN + 4 * g3d_index d)"
    "in_depth d (g3d_zbase d - RAM_ORIGIN + 4 * g3d_index d + 1)"
    "in_depth d (g3d_zbase d - RAM_ORIGIN + 4 * g3d_index d + 2)"
    "in_depth d (g3d_zbase d - RAM_ORIGIN + 4 * g3d_index d + 3)"
proof -
  have "uint (g3d_index d) < 38400" using assms(2) by (simp add: word_less_def)
  then show "in_depth d (g3d_zbase d - RAM_ORIGIN + 4 * g3d_index d)"
    "in_depth d (g3d_zbase d - RAM_ORIGIN + 4 * g3d_index d + 1)"
    "in_depth d (g3d_zbase d - RAM_ORIGIN + 4 * g3d_index d + 2)"
    "in_depth d (g3d_zbase d - RAM_ORIGIN + 4 * g3d_index d + 3)"
    using clear_uint [OF assms, of 0] clear_uint [OF assms, of 1] clear_uint [OF assms, of 2] clear_uint [OF assms, of 3]
    by (simp_all add: in_depth_def)
qed

lemma in_depth_ram: "z_ok ram_size d \<Longrightarrow> Z_BYTES \<le> ram_size \<Longrightarrow> in_depth d a \<Longrightarrow> a < ram_size"
  using zbase_uint [of ram_size d] by (simp add: in_depth_def word_less_def)

lemma in_depth_locked:
  assumes "g3d_busy d" "in_depth d a" "z_ok ram_size d" "Z_BYTES \<le> ram_size" "ram_size \<le> 0x7fffffff"
  shows "g3d_z_locked d (RAM_ORIGIN + a) 1"
proof -
  note z = zbase_uint [OF assms(3,4)]
  have rs: "uint ram_size \<le> 0x7fffffff" using assms(5) by (simp add: word_le_def)
  then have sum: "uint (RAM_ORIGIN + a) = 0x80000000 + uint a"
    using assms(2) z by (simp add: in_depth_def uint_word_ariths mod_pos_pos_trivial)
  have "uint (ucast (RAM_ORIGIN + a) + 1 :: u64) = uint (RAM_ORIGIN + a) + 1"
    using uint_u32_less [of "RAM_ORIGIN + a"] by (simp add: uint_word_ariths(1) uint_ucast_u64 mod_pos_pos_trivial)
  moreover have "uint (ucast (g3d_zbase d) + 153600 :: u64) = uint (g3d_zbase d) + 153600"
    using uint_u32_less [of "g3d_zbase d"] by (simp add: uint_word_ariths(1) uint_ucast_u64 mod_pos_pos_trivial)
  ultimately show ?thesis
    using assms(1,2) sum by (simp add: g3d_z_locked_def word_less_def uint_ucast_u64 in_depth_def)
qed

lemma fb_uint:
  assumes "pixel_ok d"
  shows "of_int (g3d_y d) * 320 + of_int (g3d_x d) < (76800 :: u32)"
proof -
  have "of_int (g3d_y d) * 320 + of_int (g3d_x d) = (of_int (g3d_y d * 320 + g3d_x d) :: u32)" by simp
  then show ?thesis using pixel_bounds [OF assms] uint_of_int_u32 [of "g3d_y d * 320 + g3d_x d"]
    by (simp only: word_less_def) simp
qed

section \<open>Properties\<close>

lemma g3d_idle_tick:
  "g3d_command_tick d \<or> \<not> g3d_busy d \<Longrightarrow>
   \<exists>e. \<forall>ram fb. g3d_tick d ram ram_size fb hold ws we = (e, ram, fb)"
  by (auto simp: g3d_tick_def)

lemma g3d_tick_safe:
  assumes inv: "g3d_inv ram_size d" and size: "Z_BYTES \<le> ram_size"
    and ram: "\<And>a. a < ram_size \<Longrightarrow> ram a = ram' a" and fb: "\<And>a. a < 76800 \<Longrightarrow> fb a = fb' a"
    and tick: "g3d_tick d ram ram_size fb hold ws we = (e, ram1, fb1)"
      "g3d_tick d ram' ram_size fb' hold ws we = (e', ram1', fb1')"
  shows "e = e' \<and> (if a < ram_size then ram1 a = ram1' a else ram1 a = ram a) \<and>
    (if a < 76800 then fb1 a = fb1' a else fb1 a = fb a)"
proof (cases "g3d_command_tick d \<or> \<not> g3d_busy d")
  case True
  then show ?thesis using g3d_idle_tick [OF True, of ram_size hold ws we] tick ram fb by auto
next
  case False
  define c where "c = d\<lparr>g3d_cycles := g3d_cycles d + 1\<rparr>"
  have ok: "g3d_phase_ok ram_size c"
    using g3d_inv_busy [of ram_size c] inv False by (simp add: c_def g3d_busy_def)
  have z: "z_ok ram_size c" if "g3d_phase c \<in> {G3D_PH_ZREAD, G3D_PH_ZWRITE, G3D_PH_PWRITE, G3D_PH_CLEAR}"
    using ok that by (auto simp: g3d_phase_ok_def job_ok_def)
  have p: "pixel_ok c" if "g3d_phase c \<in> {G3D_PH_ZREAD, G3D_PH_ZWRITE, G3D_PH_PWRITE}"
    using ok that by (auto simp: g3d_phase_ok_def)
  have at: "zoff c < ram_size" "zoff c + 1 < ram_size"
    if "g3d_phase c \<in> {G3D_PH_ZREAD, G3D_PH_ZWRITE, G3D_PH_PWRITE}"
    using in_depth_zoff [OF z p size] in_depth_ram [OF z size] that by auto
  have cl: "g3d_zbase c - RAM_ORIGIN + 4 * g3d_index c + k < ram_size" if "g3d_phase c = G3D_PH_CLEAR" "k \<in> {0, 1, 2, 3}" for k
    using in_depth_clear [OF z _ size] in_depth_ram [OF z size] ok that by (auto simp: g3d_phase_ok_def)
  have fat: "of_int (g3d_y c) * 320 + of_int (g3d_x c) < (76800 :: u32)" if "g3d_phase c = G3D_PH_PWRITE"
    using fb_uint [OF p] that by simp
  have ph: "g3d_phase d = g3d_phase c" by (simp add: c_def)
  show ?thesis
    using tick False ph at cl [of 0] cl [of 1] cl [of 2] cl [of 3] fat ram fb
    by (cases "g3d_phase c") (auto simp: g3d_tick_def Let_def simp flip: c_def split: if_splits)
qed

text \<open>
  C21: memory safety of the 3D engine. From any state the engine can be in, one tick reads and writes
  RAM only below \<open>ram_size\<close> and writes the framebuffer only below 320 x 240: memories that agree
  inside the bounds give the same engine and agree inside the bounds again, and bytes outside keep
  their values.
\<close>

theorem g3d_tick_memory_safe:
  assumes inv: "g3d_inv ram_size d" and size: "Z_BYTES \<le> ram_size"
    and ram: "\<And>a. a < ram_size \<Longrightarrow> ram a = ram' a" and fb: "\<And>a. a < 76800 \<Longrightarrow> fb a = fb' a"
    and tick: "g3d_tick d ram ram_size fb hold ws we = (e, ram1, fb1)"
      "g3d_tick d ram' ram_size fb' hold ws we = (e', ram1', fb1')"
  shows "e = e' \<and> (if a < ram_size then ram1 a = ram1' a else ram1 a = ram a) \<and>
    (if a < 76800 then fb1 a = fb1' a else fb1 a = fb a)"
  using g3d_tick_safe [OF inv size _ _ tick, of a] ram fb by blast

definition g3d_pixel_example :: g3d_device where
  "g3d_pixel_example = g3d_device_zero\<lparr>g3d_status := G3D_BUSY, g3d_phase := G3D_PH_ZWRITE, g3d_zbase := 0x80000000,
     g3d_vcount := 3, g3d_tcount := 1, g3d_limit := 100, g3d_tris := (\<lambda>_. 0x020100), g3d_right := 319, g3d_bottom := 239,
     g3d_x := 3, g3d_y := 2, g3d_z := 9\<rparr>"

lemma g3d_pixel_example_inv: "g3d_inv 0x1000000 g3d_pixel_example" "g3d_busy g3d_pixel_example"
  by (simp_all add: g3d_inv_def g3d_pixel_example_def g3d_device_zero_def g3d_vertex_zero_def verts_ok_def vertex_ok_def
      g3d_busy_def g3d_phase_ok_def job_defs pixel_ok_def rect_ok_def colour_ok_def)

theorem g3d_tick_memory_safe_witness:
  "\<exists>e r f. g3d_tick g3d_pixel_example (\<lambda>_. 0) 0x1000000 (\<lambda>_. 0) False 0 0 = (e, r, f) \<and> r 0xffffff0 = 0"
proof -
  obtain e r f where t: "g3d_tick g3d_pixel_example (\<lambda>_. 0) 0x1000000 (\<lambda>_. 0) False 0 0 = (e, r, f)"
    by (metis prod.exhaust)
  then show ?thesis
    using g3d_tick_memory_safe [of "0x1000000" g3d_pixel_example "\<lambda>_. 0" "\<lambda>_. 0" "\<lambda>_. 0" "\<lambda>_. 0" False 0 0 e r f e r f "0xffffff0"]
      g3d_pixel_example_inv by auto
qed

text \<open>
  C22: exclusive ownership of the depth buffer. A byte of RAM that a tick of the 3D engine changes is
  one whose CPU stores \<open>g3d_z_locked\<close> refuses while the job runs.
\<close>

theorem g3d_writes_only_locked:
  assumes inv: "g3d_inv ram_size d" and size: "Z_BYTES \<le> ram_size" "ram_size \<le> 0x7fffffff"
    and tick: "g3d_tick d ram ram_size fb hold ws we = (e, ram1, fb1)" and ne: "ram1 a \<noteq> ram a"
  shows "g3d_z_locked d (RAM_ORIGIN + a) 1"
proof (cases "g3d_command_tick d \<or> \<not> g3d_busy d")
  case True
  then show ?thesis using g3d_idle_tick [OF True, of ram_size hold ws we] tick ne by auto
next
  case False
  define c where "c = d\<lparr>g3d_cycles := g3d_cycles d + 1\<rparr>"
  have ok: "g3d_phase_ok ram_size c"
    using g3d_inv_busy [of ram_size c] inv False by (simp add: c_def g3d_busy_def)
  have ph: "g3d_phase d = g3d_phase c" by (simp add: c_def)
  consider (z) "g3d_phase c = G3D_PH_ZWRITE" "a = zoff c \<or> a = zoff c + 1"
    | (clear) "g3d_phase c = G3D_PH_CLEAR" "\<exists>k \<in> {0, 1, 2, 3}. a = g3d_zbase c - RAM_ORIGIN + 4 * g3d_index c + k"
    using tick ne False ph
    by (cases "g3d_phase c") (auto simp: g3d_tick_def Let_def simp flip: c_def split: if_splits)
  then have "z_ok ram_size c \<and> in_depth c a"
  proof cases
    case z
    then have "z_ok ram_size c" "pixel_ok c" using ok by (simp_all add: g3d_phase_ok_def job_ok_def)
    then show ?thesis using in_depth_zoff [OF _ _ size(1)] z(2) by auto
  next
    case clear
    then have "z_ok ram_size c" "g3d_index c < Z_BYTES div 4" using ok by (simp_all add: g3d_phase_ok_def)
    then show ?thesis using in_depth_clear [OF _ _ size(1)] clear(2) by auto
  qed
  then have "g3d_z_locked c (RAM_ORIGIN + a) 1"
    using False size by (intro in_depth_locked [of _ _ ram_size]) (auto simp: c_def g3d_busy_def)
  then show ?thesis by (simp add: c_def g3d_z_locked_def g3d_busy_def)
qed

theorem g3d_writes_only_locked_witness:
  "g3d_z_locked g3d_pixel_example (RAM_ORIGIN + 1286) 1"
proof -
  obtain e r f where t: "g3d_tick g3d_pixel_example (\<lambda>_. 0) 0x1000000 (\<lambda>_. 0) False 0 0 = (e, r, f)"
    by (metis prod.exhaust)
  moreover from this have "r 1286 \<noteq> 0"
    by (auto simp: g3d_tick_def g3d_pixel_example_def g3d_device_zero_def g3d_busy_def zoff_def Let_def)
  ultimately show ?thesis
    using g3d_writes_only_locked [of "0x1000000" g3d_pixel_example "\<lambda>_. 0" "\<lambda>_. 0" False 0 0 e r f 1286]
      g3d_pixel_example_inv by simp
qed




end
