(* ===== verification/Window.thy ===== *)
theory Window
  imports Machine G3dInv
begin

text \<open>
  The contract between the CPU and the devices behind the bus of \<open>tools/rv32emu_core.c\<close>: what a
  load or store handler of the memory map may change (nothing the CPU owns), what it keeps (every
  device's invariant), and what a refused access does (nothing). The locales state the contract;
  every window of the map interprets one of them in the theory of its component.
\<close>

section \<open>What the CPU owns\<close>

text \<open>
  The fields no handler writes. The only other effects on the run are that the done register halts
  it and that a device write may end the LR.W reservation.
\<close>

definition cpu_kept :: "machine \<Rightarrow> machine \<Rightarrow> bool" where
  "cpu_kept m m' \<longleftrightarrow>
     m_x m' = m_x m \<and> m_f m' = m_f m \<and> m_fcsr m' = m_fcsr m \<and> m_pc m' = m_pc m \<and>
     m_mtvec m' = m_mtvec m \<and> m_mepc m' = m_mepc m \<and> m_mcause m' = m_mcause m \<and> m_mtval m' = m_mtval m \<and>
     m_mstatus m' = m_mstatus m \<and> m_mie m' = m_mie m \<and> m_mscratch m' = m_mscratch m \<and>
     m_priv m' = m_priv m \<and> m_mpp m' = m_mpp m \<and> m_medeleg m' = m_medeleg m \<and> m_mideleg m' = m_mideleg m \<and>
     m_mip_soft m' = m_mip_soft m \<and> m_stvec m' = m_stvec m \<and> m_sscratch m' = m_sscratch m \<and>
     m_sepc m' = m_sepc m \<and> m_scause m' = m_scause m \<and> m_stval m' = m_stval m \<and> m_satp m' = m_satp m \<and>
     m_scounteren m' = m_scounteren m \<and> m_mcounteren m' = m_mcounteren m \<and>
     m_pmpcfg m' = m_pmpcfg m \<and> m_pmpaddr m' = m_pmpaddr m \<and>
     m_interrupts m' = m_interrupts m \<and> m_steps m' = m_steps m \<and> m_retired m' = m_retired m \<and>
     m_traps m' = m_traps m \<and> m_limit m' = m_limit m \<and> m_trace m' = m_trace m \<and>
     m_in_trap m' = m_in_trap m \<and> m_reservation m' = m_reservation m \<and>
     m_reservation_pa m' = m_reservation_pa m \<and> m_second_cause m' = m_second_cause m \<and>
     m_second_tval m' = m_second_tval m \<and> m_wr_reg m' = m_wr_reg m \<and> m_wr_freg m' = m_wr_freg m \<and>
     m_wr_fcsr m' = m_wr_fcsr m \<and> m_wr_value m' = m_wr_value m \<and> m_mem_read m' = m_mem_read m \<and>
     m_mem_write m' = m_mem_write m \<and> m_mem_addr m' = m_mem_addr m \<and>
     m_mem_read_value m' = m_mem_read_value m \<and> m_mem_write_value m' = m_mem_write_value m \<and>
     m_mem_width m' = m_mem_width m \<and>
     (m_reserved m' \<longrightarrow> m_reserved m) \<and> (m_halt m' = m_halt m \<or> m_halt m' = HALT_DONE)"

lemma cpu_kept_refl [simp]: "cpu_kept m m"
  by (simp add: cpu_kept_def)

lemma imp_or_trans:
  "(c \<longrightarrow> b) \<Longrightarrow> (b \<longrightarrow> a) \<Longrightarrow> c \<longrightarrow> a"
  "z = y \<or> z = d \<Longrightarrow> y = x \<or> y = d \<Longrightarrow> z = x \<or> z = (d::halt)"
  by auto

lemma cpu_kept_trans [trans]: "cpu_kept a b \<Longrightarrow> cpu_kept b c \<Longrightarrow> cpu_kept a c"
  unfolding cpu_kept_def by (elim conjE, intro conjI; erule (1) trans imp_or_trans)

text \<open>The fields a device may write.\<close>

lemma cpu_kept_update [simp]:
  "cpu_kept m (m'\<lparr>m_simd := v0\<rparr>) = cpu_kept m m'"
  "cpu_kept m (m'\<lparr>m_gpu := v1\<rparr>) = cpu_kept m m'"
  "cpu_kept m (m'\<lparr>m_g3d := v2\<rparr>) = cpu_kept m m'"
  "cpu_kept m (m'\<lparr>m_dma_start := v3\<rparr>) = cpu_kept m m'"
  "cpu_kept m (m'\<lparr>m_dma_end := v4\<rparr>) = cpu_kept m m'"
  "cpu_kept m (m'\<lparr>m_plic_priority := v5\<rparr>) = cpu_kept m m'"
  "cpu_kept m (m'\<lparr>m_plic_enable := v6\<rparr>) = cpu_kept m m'"
  "cpu_kept m (m'\<lparr>m_plic_claimed := v7\<rparr>) = cpu_kept m m'"
  "cpu_kept m (m'\<lparr>m_plic_pending := v8\<rparr>) = cpu_kept m m'"
  "cpu_kept m (m'\<lparr>m_plic_threshold := v9\<rparr>) = cpu_kept m m'"
  "cpu_kept m (m'\<lparr>m_virtio := v10\<rparr>) = cpu_kept m m'"
  "cpu_kept m (m'\<lparr>m_ram := v11\<rparr>) = cpu_kept m m'"
  "cpu_kept m (m'\<lparr>m_done_word := v12\<rparr>) = cpu_kept m m'"
  "cpu_kept m (m'\<lparr>m_mtime_offset := v13\<rparr>) = cpu_kept m m'"
  "cpu_kept m (m'\<lparr>m_mtimecmp := v14\<rparr>) = cpu_kept m m'"
  "cpu_kept m (m'\<lparr>m_msip := v15\<rparr>) = cpu_kept m m'"
  "cpu_kept m (m'\<lparr>m_fb := v16\<rparr>) = cpu_kept m m'"
  "cpu_kept m (m'\<lparr>m_palette := v17\<rparr>) = cpu_kept m m'"
  "cpu_kept m (m'\<lparr>m_frames := v18\<rparr>) = cpu_kept m m'"
  "cpu_kept m (m'\<lparr>m_checkpoints := v19\<rparr>) = cpu_kept m m'"
  "cpu_kept m (m'\<lparr>m_frames_dir := v20\<rparr>) = cpu_kept m m'"
  "cpu_kept m (m'\<lparr>m_output_error := v21\<rparr>) = cpu_kept m m'"
  "cpu_kept m (m'\<lparr>m_queue := v22\<rparr>) = cpu_kept m m'"
  "cpu_kept m (m'\<lparr>m_head := v23\<rparr>) = cpu_kept m m'"
  "cpu_kept m (m'\<lparr>m_count := v24\<rparr>) = cpu_kept m m'"
  "cpu_kept m (m'\<lparr>m_keys := v25\<rparr>) = cpu_kept m m'"
  "cpu_kept m (m'\<lparr>m_script := v26\<rparr>) = cpu_kept m m'"
  "cpu_kept m (m'\<lparr>m_next_scripted := v27\<rparr>) = cpu_kept m m'"
  "cpu_kept m (m'\<lparr>m_dropped := v28\<rparr>) = cpu_kept m m'"
  "cpu_kept m (m'\<lparr>m_record := v29\<rparr>) = cpu_kept m m'"
  "cpu_kept m (m'\<lparr>m_console_in := v30\<rparr>) = cpu_kept m m'"
  "cpu_kept m (m'\<lparr>m_console_in_next := v31\<rparr>) = cpu_kept m m'"
  "cpu_kept m (m'\<lparr>m_console_stdin := v32\<rparr>) = cpu_kept m m'"
  "cpu_kept m (m'\<lparr>m_console_ier := v33\<rparr>) = cpu_kept m m'"
  "cpu_kept m (m'\<lparr>m_console_lcr := v34\<rparr>) = cpu_kept m m'"
  "cpu_kept m (m'\<lparr>m_console_mcr := v35\<rparr>) = cpu_kept m m'"
  "cpu_kept m (m'\<lparr>m_console_scr := v36\<rparr>) = cpu_kept m m'"
  "cpu_kept m (m'\<lparr>m_console_dll := v37\<rparr>) = cpu_kept m m'"
  "cpu_kept m (m'\<lparr>m_console_dlm := v38\<rparr>) = cpu_kept m m'"
  "cpu_kept m (m'\<lparr>m_console_latched := v39\<rparr>) = cpu_kept m m'"
  "cpu_kept m (m'\<lparr>m_console_prompt := v40\<rparr>) = cpu_kept m m'"
  "cpu_kept m (m'\<lparr>m_console_tail := v41\<rparr>) = cpu_kept m m'"
  "cpu_kept m (m'\<lparr>m_console_tail_len := v42\<rparr>) = cpu_kept m m'"
  "cpu_kept m (m'\<lparr>m_console_prompts_seen := v43\<rparr>) = cpu_kept m m'"
  "cpu_kept m (m'\<lparr>m_console_lines_taken := v44\<rparr>) = cpu_kept m m'"
  "cpu_kept m (m'\<lparr>m_stdout := v45\<rparr>) = cpu_kept m m'"
  "cpu_kept m (m'\<lparr>m_stdin := v46\<rparr>) = cpu_kept m m'"
  "cpu_kept m (m'\<lparr>m_ppm_ok := v47\<rparr>) = cpu_kept m m'"
  by (simp_all add: cpu_kept_def)

section \<open>The devices' invariants\<close>

definition engines_ok :: "simd_device \<Rightarrow> gpu_device \<Rightarrow> g3d_device \<Rightarrow> bool" where
  "engines_ok s g d \<longleftrightarrow>
     simd_inv s \<and> gpu_inv RAM_SIZE g \<and> g3d_inv RAM_SIZE d \<and> \<not> (gpu_busy g \<and> g3d_busy d)"

definition plic_ok :: "(u32 \<Rightarrow> u8) \<Rightarrow> u32 \<Rightarrow> u32 \<Rightarrow> u32 \<Rightarrow> u8 \<Rightarrow> bool" where
  "plic_ok priority enable claimed pending threshold \<longleftrightarrow>
     (\<forall>i. priority i \<le> 7) \<and> within enable PLIC_WIRED \<and> within claimed PLIC_WIRED \<and>
     within pending PLIC_WIRED \<and> pending AND claimed = 0 \<and> threshold \<le> 7"

definition input_ok :: "u32 \<Rightarrow> u32 \<Rightarrow> scripted_event list \<Rightarrow> nat \<Rightarrow> bool" where
  "input_ok head count script next' \<longleftrightarrow> head < INPUT_QUEUE \<and> count \<le> INPUT_QUEUE \<and> next' \<le> length script"

definition palette_ok :: "(u32 \<Rightarrow> u32) \<Rightarrow> bool" where
  "palette_ok palette \<longleftrightarrow> (\<forall>i. within (palette i) 0xffffff)"

definition console_ok :: "u8 \<Rightarrow> u8 \<Rightarrow> u8 list \<Rightarrow> nat \<Rightarrow> u8 list \<Rightarrow> nat \<Rightarrow> bool" where
  "console_ok ier mcr prompt tail_len input next' \<longleftrightarrow>
     within ier CONSOLE_IER_MASK \<and> within mcr CONSOLE_MCR_MASK \<and> tail_len \<le> length prompt \<and> next' \<le> length input"

text \<open>
  The block device: the used index follows the available index, the queue is a power of two the
  driver may choose, the disk is whole sectors, and a disk file holds the disk's bytes until a
  write to it has failed.
\<close>

definition disk_file_ok :: "virtio_blk \<Rightarrow> bool" where
  "disk_file_ok v \<longleftrightarrow>
     (\<forall>file. vb_file v = Some file \<and> \<not> vb_write_error v \<longrightarrow>
        (\<forall>a < vb_disk_size v. df_bytes file a = vb_disk v a))"

definition queue_size_ok :: "u32 \<Rightarrow> bool" where
  "queue_size_ok n \<longleftrightarrow> n \<in> {0, 1, 2, 4, 8}"

definition virtio_ok :: "virtio_blk \<Rightarrow> bool" where
  "virtio_ok v \<longleftrightarrow>
     vb_used_idx v = vb_last_avail v \<and> queue_size_ok (vb_queue_num v) \<and>
     vb_disk_size v \<le> VIRTIO_DISK_MAX \<and> vb_disk_size v mod 512 = 0 \<and> disk_file_ok v"

definition device_inv :: "machine \<Rightarrow> bool" where
  "device_inv m \<longleftrightarrow>
     engines_ok (m_simd m) (m_gpu m) (m_g3d m) \<and>
     plic_ok (m_plic_priority m) (m_plic_enable m) (m_plic_claimed m) (m_plic_pending m) (m_plic_threshold m) \<and>
     input_ok (m_head m) (m_count m) (m_script m) (m_next_scripted m) \<and> palette_ok (m_palette m) \<and>
     console_ok (m_console_ier m) (m_console_mcr m) (m_console_prompt m) (m_console_tail_len m) (m_console_in m)
       (m_console_in_next m) \<and>
     virtio_ok (m_virtio m) \<and> within (m_msip m) 1"

text \<open>The fields the invariant does not read.\<close>

lemma device_inv_update [simp]:
  "device_inv (m\<lparr>m_dma_start := v0\<rparr>) = device_inv m"
  "device_inv (m\<lparr>m_dma_end := v1\<rparr>) = device_inv m"
  "device_inv (m\<lparr>m_x := v2\<rparr>) = device_inv m"
  "device_inv (m\<lparr>m_f := v3\<rparr>) = device_inv m"
  "device_inv (m\<lparr>m_fcsr := v4\<rparr>) = device_inv m"
  "device_inv (m\<lparr>m_pc := v5\<rparr>) = device_inv m"
  "device_inv (m\<lparr>m_mtvec := v6\<rparr>) = device_inv m"
  "device_inv (m\<lparr>m_mepc := v7\<rparr>) = device_inv m"
  "device_inv (m\<lparr>m_mcause := v8\<rparr>) = device_inv m"
  "device_inv (m\<lparr>m_mtval := v9\<rparr>) = device_inv m"
  "device_inv (m\<lparr>m_mstatus := v10\<rparr>) = device_inv m"
  "device_inv (m\<lparr>m_mie := v11\<rparr>) = device_inv m"
  "device_inv (m\<lparr>m_mscratch := v12\<rparr>) = device_inv m"
  "device_inv (m\<lparr>m_priv := v13\<rparr>) = device_inv m"
  "device_inv (m\<lparr>m_mpp := v14\<rparr>) = device_inv m"
  "device_inv (m\<lparr>m_medeleg := v15\<rparr>) = device_inv m"
  "device_inv (m\<lparr>m_mideleg := v16\<rparr>) = device_inv m"
  "device_inv (m\<lparr>m_mip_soft := v17\<rparr>) = device_inv m"
  "device_inv (m\<lparr>m_stvec := v18\<rparr>) = device_inv m"
  "device_inv (m\<lparr>m_sscratch := v19\<rparr>) = device_inv m"
  "device_inv (m\<lparr>m_sepc := v20\<rparr>) = device_inv m"
  "device_inv (m\<lparr>m_scause := v21\<rparr>) = device_inv m"
  "device_inv (m\<lparr>m_stval := v22\<rparr>) = device_inv m"
  "device_inv (m\<lparr>m_satp := v23\<rparr>) = device_inv m"
  "device_inv (m\<lparr>m_scounteren := v24\<rparr>) = device_inv m"
  "device_inv (m\<lparr>m_mcounteren := v25\<rparr>) = device_inv m"
  "device_inv (m\<lparr>m_pmpcfg := v26\<rparr>) = device_inv m"
  "device_inv (m\<lparr>m_pmpaddr := v27\<rparr>) = device_inv m"
  "device_inv (m\<lparr>m_interrupts := v28\<rparr>) = device_inv m"
  "device_inv (m\<lparr>m_ram := v29\<rparr>) = device_inv m"
  "device_inv (m\<lparr>m_steps := v30\<rparr>) = device_inv m"
  "device_inv (m\<lparr>m_retired := v31\<rparr>) = device_inv m"
  "device_inv (m\<lparr>m_traps := v32\<rparr>) = device_inv m"
  "device_inv (m\<lparr>m_limit := v33\<rparr>) = device_inv m"
  "device_inv (m\<lparr>m_trace := v34\<rparr>) = device_inv m"
  "device_inv (m\<lparr>m_in_trap := v35\<rparr>) = device_inv m"
  "device_inv (m\<lparr>m_reserved := v36\<rparr>) = device_inv m"
  "device_inv (m\<lparr>m_reservation := v37\<rparr>) = device_inv m"
  "device_inv (m\<lparr>m_reservation_pa := v38\<rparr>) = device_inv m"
  "device_inv (m\<lparr>m_halt := v39\<rparr>) = device_inv m"
  "device_inv (m\<lparr>m_done_word := v40\<rparr>) = device_inv m"
  "device_inv (m\<lparr>m_second_cause := v41\<rparr>) = device_inv m"
  "device_inv (m\<lparr>m_second_tval := v42\<rparr>) = device_inv m"
  "device_inv (m\<lparr>m_mtime_offset := v43\<rparr>) = device_inv m"
  "device_inv (m\<lparr>m_mtimecmp := v44\<rparr>) = device_inv m"
  "device_inv (m\<lparr>m_fb := v45\<rparr>) = device_inv m"
  "device_inv (m\<lparr>m_frames := v46\<rparr>) = device_inv m"
  "device_inv (m\<lparr>m_checkpoints := v47\<rparr>) = device_inv m"
  "device_inv (m\<lparr>m_frames_dir := v48\<rparr>) = device_inv m"
  "device_inv (m\<lparr>m_output_error := v49\<rparr>) = device_inv m"
  "device_inv (m\<lparr>m_queue := v50\<rparr>) = device_inv m"
  "device_inv (m\<lparr>m_keys := v51\<rparr>) = device_inv m"
  "device_inv (m\<lparr>m_dropped := v52\<rparr>) = device_inv m"
  "device_inv (m\<lparr>m_record := v53\<rparr>) = device_inv m"
  "device_inv (m\<lparr>m_console_stdin := v54\<rparr>) = device_inv m"
  "device_inv (m\<lparr>m_console_lcr := v55\<rparr>) = device_inv m"
  "device_inv (m\<lparr>m_console_scr := v56\<rparr>) = device_inv m"
  "device_inv (m\<lparr>m_console_dll := v57\<rparr>) = device_inv m"
  "device_inv (m\<lparr>m_console_dlm := v58\<rparr>) = device_inv m"
  "device_inv (m\<lparr>m_console_latched := v59\<rparr>) = device_inv m"
  "device_inv (m\<lparr>m_console_tail := v60\<rparr>) = device_inv m"
  "device_inv (m\<lparr>m_console_prompts_seen := v61\<rparr>) = device_inv m"
  "device_inv (m\<lparr>m_console_lines_taken := v62\<rparr>) = device_inv m"
  "device_inv (m\<lparr>m_wr_reg := v63\<rparr>) = device_inv m"
  "device_inv (m\<lparr>m_wr_freg := v64\<rparr>) = device_inv m"
  "device_inv (m\<lparr>m_wr_fcsr := v65\<rparr>) = device_inv m"
  "device_inv (m\<lparr>m_wr_value := v66\<rparr>) = device_inv m"
  "device_inv (m\<lparr>m_mem_read := v67\<rparr>) = device_inv m"
  "device_inv (m\<lparr>m_mem_write := v68\<rparr>) = device_inv m"
  "device_inv (m\<lparr>m_mem_addr := v69\<rparr>) = device_inv m"
  "device_inv (m\<lparr>m_mem_read_value := v70\<rparr>) = device_inv m"
  "device_inv (m\<lparr>m_mem_write_value := v71\<rparr>) = device_inv m"
  "device_inv (m\<lparr>m_mem_width := v72\<rparr>) = device_inv m"
  "device_inv (m\<lparr>m_stdout := v73\<rparr>) = device_inv m"
  "device_inv (m\<lparr>m_stdin := v74\<rparr>) = device_inv m"
  "device_inv (m\<lparr>m_ppm_ok := v75\<rparr>) = device_inv m"
  by (simp_all add: device_inv_def)

section \<open>The arrays\<close>

text \<open>
  The C arrays are modelled by total functions. Two machines agree outside the arrays' extents when
  no write of the run between them was out of bounds; the block device's size never changes.
\<close>

definition disk_kept :: "virtio_blk \<Rightarrow> virtio_blk \<Rightarrow> bool" where
  "disk_kept v v' \<longleftrightarrow>
     vb_disk_size v' = vb_disk_size v \<and> (\<forall>a. vb_disk_size v \<le> a \<longrightarrow> vb_disk v' a = vb_disk v a) \<and>
     (\<forall>a. vb_disk_size v \<le> a \<longrightarrow>
        map_option (\<lambda>f. df_bytes f a) (vb_file v') = map_option (\<lambda>f. df_bytes f a) (vb_file v))"

definition arrays_kept :: "machine \<Rightarrow> machine \<Rightarrow> bool" where
  "arrays_kept m m' \<longleftrightarrow>
     (\<forall>a. RAM_SIZE \<le> a \<longrightarrow> m_ram m' a = m_ram m a) \<and> (\<forall>a. FB_SIZE \<le> a \<longrightarrow> m_fb m' a = m_fb m a) \<and>
     (\<forall>i. 256 \<le> i \<longrightarrow> m_palette m' i = m_palette m i) \<and>
     (\<forall>i. INPUT_QUEUE \<le> i \<longrightarrow> m_queue m' i = m_queue m i) \<and>
     (\<forall>i. PLIC_SOURCES \<le> i \<longrightarrow> m_plic_priority m' i = m_plic_priority m i) \<and>
     m_console_prompt m' = m_console_prompt m \<and>
     (\<forall>i. length (m_console_prompt m) \<le> i \<longrightarrow> m_console_tail m' i = m_console_tail m i) \<and>
     disk_kept (m_virtio m) (m_virtio m') \<and>
     (\<forall>i. 32 \<le> i \<longrightarrow> m_x m' i = m_x m i \<and> m_f m' i = m_f m i) \<and>
     (\<forall>i. 8 \<le> i \<longrightarrow> m_pmpcfg m' i = m_pmpcfg m i \<and> m_pmpaddr m' i = m_pmpaddr m i)"

lemma disk_kept_refl [simp]: "disk_kept v v"
  by (simp add: disk_kept_def)

lemma disk_kept_trans: "disk_kept u v \<Longrightarrow> disk_kept v w \<Longrightarrow> disk_kept u w"
  by (simp add: disk_kept_def)

lemma arrays_kept_refl [simp]: "arrays_kept m m"
  by (simp add: arrays_kept_def)

lemma arrays_kept_trans [trans]: "arrays_kept a b \<Longrightarrow> arrays_kept b c \<Longrightarrow> arrays_kept a c"
  unfolding arrays_kept_def by (auto intro: disk_kept_trans)

lemma arrays_kept_update [simp]:
  "arrays_kept m (m'\<lparr>m_simd := v0\<rparr>) = arrays_kept m m'"
  "arrays_kept m (m'\<lparr>m_gpu := v1\<rparr>) = arrays_kept m m'"
  "arrays_kept m (m'\<lparr>m_g3d := v2\<rparr>) = arrays_kept m m'"
  "arrays_kept m (m'\<lparr>m_dma_start := v3\<rparr>) = arrays_kept m m'"
  "arrays_kept m (m'\<lparr>m_dma_end := v4\<rparr>) = arrays_kept m m'"
  "arrays_kept m (m'\<lparr>m_fcsr := v5\<rparr>) = arrays_kept m m'"
  "arrays_kept m (m'\<lparr>m_pc := v6\<rparr>) = arrays_kept m m'"
  "arrays_kept m (m'\<lparr>m_mtvec := v7\<rparr>) = arrays_kept m m'"
  "arrays_kept m (m'\<lparr>m_mepc := v8\<rparr>) = arrays_kept m m'"
  "arrays_kept m (m'\<lparr>m_mcause := v9\<rparr>) = arrays_kept m m'"
  "arrays_kept m (m'\<lparr>m_mtval := v10\<rparr>) = arrays_kept m m'"
  "arrays_kept m (m'\<lparr>m_mstatus := v11\<rparr>) = arrays_kept m m'"
  "arrays_kept m (m'\<lparr>m_mie := v12\<rparr>) = arrays_kept m m'"
  "arrays_kept m (m'\<lparr>m_mscratch := v13\<rparr>) = arrays_kept m m'"
  "arrays_kept m (m'\<lparr>m_priv := v14\<rparr>) = arrays_kept m m'"
  "arrays_kept m (m'\<lparr>m_mpp := v15\<rparr>) = arrays_kept m m'"
  "arrays_kept m (m'\<lparr>m_medeleg := v16\<rparr>) = arrays_kept m m'"
  "arrays_kept m (m'\<lparr>m_mideleg := v17\<rparr>) = arrays_kept m m'"
  "arrays_kept m (m'\<lparr>m_mip_soft := v18\<rparr>) = arrays_kept m m'"
  "arrays_kept m (m'\<lparr>m_stvec := v19\<rparr>) = arrays_kept m m'"
  "arrays_kept m (m'\<lparr>m_sscratch := v20\<rparr>) = arrays_kept m m'"
  "arrays_kept m (m'\<lparr>m_sepc := v21\<rparr>) = arrays_kept m m'"
  "arrays_kept m (m'\<lparr>m_scause := v22\<rparr>) = arrays_kept m m'"
  "arrays_kept m (m'\<lparr>m_stval := v23\<rparr>) = arrays_kept m m'"
  "arrays_kept m (m'\<lparr>m_satp := v24\<rparr>) = arrays_kept m m'"
  "arrays_kept m (m'\<lparr>m_scounteren := v25\<rparr>) = arrays_kept m m'"
  "arrays_kept m (m'\<lparr>m_mcounteren := v26\<rparr>) = arrays_kept m m'"
  "arrays_kept m (m'\<lparr>m_plic_enable := v27\<rparr>) = arrays_kept m m'"
  "arrays_kept m (m'\<lparr>m_plic_claimed := v28\<rparr>) = arrays_kept m m'"
  "arrays_kept m (m'\<lparr>m_plic_pending := v29\<rparr>) = arrays_kept m m'"
  "arrays_kept m (m'\<lparr>m_plic_threshold := v30\<rparr>) = arrays_kept m m'"
  "arrays_kept m (m'\<lparr>m_interrupts := v31\<rparr>) = arrays_kept m m'"
  "arrays_kept m (m'\<lparr>m_steps := v32\<rparr>) = arrays_kept m m'"
  "arrays_kept m (m'\<lparr>m_retired := v33\<rparr>) = arrays_kept m m'"
  "arrays_kept m (m'\<lparr>m_traps := v34\<rparr>) = arrays_kept m m'"
  "arrays_kept m (m'\<lparr>m_limit := v35\<rparr>) = arrays_kept m m'"
  "arrays_kept m (m'\<lparr>m_trace := v36\<rparr>) = arrays_kept m m'"
  "arrays_kept m (m'\<lparr>m_in_trap := v37\<rparr>) = arrays_kept m m'"
  "arrays_kept m (m'\<lparr>m_reserved := v38\<rparr>) = arrays_kept m m'"
  "arrays_kept m (m'\<lparr>m_reservation := v39\<rparr>) = arrays_kept m m'"
  "arrays_kept m (m'\<lparr>m_reservation_pa := v40\<rparr>) = arrays_kept m m'"
  "arrays_kept m (m'\<lparr>m_halt := v41\<rparr>) = arrays_kept m m'"
  "arrays_kept m (m'\<lparr>m_done_word := v42\<rparr>) = arrays_kept m m'"
  "arrays_kept m (m'\<lparr>m_second_cause := v43\<rparr>) = arrays_kept m m'"
  "arrays_kept m (m'\<lparr>m_second_tval := v44\<rparr>) = arrays_kept m m'"
  "arrays_kept m (m'\<lparr>m_mtime_offset := v45\<rparr>) = arrays_kept m m'"
  "arrays_kept m (m'\<lparr>m_mtimecmp := v46\<rparr>) = arrays_kept m m'"
  "arrays_kept m (m'\<lparr>m_msip := v47\<rparr>) = arrays_kept m m'"
  "arrays_kept m (m'\<lparr>m_frames := v48\<rparr>) = arrays_kept m m'"
  "arrays_kept m (m'\<lparr>m_checkpoints := v49\<rparr>) = arrays_kept m m'"
  "arrays_kept m (m'\<lparr>m_frames_dir := v50\<rparr>) = arrays_kept m m'"
  "arrays_kept m (m'\<lparr>m_output_error := v51\<rparr>) = arrays_kept m m'"
  "arrays_kept m (m'\<lparr>m_head := v52\<rparr>) = arrays_kept m m'"
  "arrays_kept m (m'\<lparr>m_count := v53\<rparr>) = arrays_kept m m'"
  "arrays_kept m (m'\<lparr>m_keys := v54\<rparr>) = arrays_kept m m'"
  "arrays_kept m (m'\<lparr>m_script := v55\<rparr>) = arrays_kept m m'"
  "arrays_kept m (m'\<lparr>m_next_scripted := v56\<rparr>) = arrays_kept m m'"
  "arrays_kept m (m'\<lparr>m_dropped := v57\<rparr>) = arrays_kept m m'"
  "arrays_kept m (m'\<lparr>m_record := v58\<rparr>) = arrays_kept m m'"
  "arrays_kept m (m'\<lparr>m_console_in := v59\<rparr>) = arrays_kept m m'"
  "arrays_kept m (m'\<lparr>m_console_in_next := v60\<rparr>) = arrays_kept m m'"
  "arrays_kept m (m'\<lparr>m_console_stdin := v61\<rparr>) = arrays_kept m m'"
  "arrays_kept m (m'\<lparr>m_console_ier := v62\<rparr>) = arrays_kept m m'"
  "arrays_kept m (m'\<lparr>m_console_lcr := v63\<rparr>) = arrays_kept m m'"
  "arrays_kept m (m'\<lparr>m_console_mcr := v64\<rparr>) = arrays_kept m m'"
  "arrays_kept m (m'\<lparr>m_console_scr := v65\<rparr>) = arrays_kept m m'"
  "arrays_kept m (m'\<lparr>m_console_dll := v66\<rparr>) = arrays_kept m m'"
  "arrays_kept m (m'\<lparr>m_console_dlm := v67\<rparr>) = arrays_kept m m'"
  "arrays_kept m (m'\<lparr>m_console_latched := v68\<rparr>) = arrays_kept m m'"
  "arrays_kept m (m'\<lparr>m_console_tail_len := v69\<rparr>) = arrays_kept m m'"
  "arrays_kept m (m'\<lparr>m_console_prompts_seen := v70\<rparr>) = arrays_kept m m'"
  "arrays_kept m (m'\<lparr>m_console_lines_taken := v71\<rparr>) = arrays_kept m m'"
  "arrays_kept m (m'\<lparr>m_wr_reg := v72\<rparr>) = arrays_kept m m'"
  "arrays_kept m (m'\<lparr>m_wr_freg := v73\<rparr>) = arrays_kept m m'"
  "arrays_kept m (m'\<lparr>m_wr_fcsr := v74\<rparr>) = arrays_kept m m'"
  "arrays_kept m (m'\<lparr>m_wr_value := v75\<rparr>) = arrays_kept m m'"
  "arrays_kept m (m'\<lparr>m_mem_read := v76\<rparr>) = arrays_kept m m'"
  "arrays_kept m (m'\<lparr>m_mem_write := v77\<rparr>) = arrays_kept m m'"
  "arrays_kept m (m'\<lparr>m_mem_addr := v78\<rparr>) = arrays_kept m m'"
  "arrays_kept m (m'\<lparr>m_mem_read_value := v79\<rparr>) = arrays_kept m m'"
  "arrays_kept m (m'\<lparr>m_mem_write_value := v80\<rparr>) = arrays_kept m m'"
  "arrays_kept m (m'\<lparr>m_mem_width := v81\<rparr>) = arrays_kept m m'"
  "arrays_kept m (m'\<lparr>m_stdout := v82\<rparr>) = arrays_kept m m'"
  "arrays_kept m (m'\<lparr>m_stdin := v83\<rparr>) = arrays_kept m m'"
  "arrays_kept m (m'\<lparr>m_ppm_ok := v84\<rparr>) = arrays_kept m m'"
  by (simp_all add: arrays_kept_def)

section \<open>The contract\<close>

locale load_window =
  fixes ld :: load_handler
  assumes ld_kept: "ld m off w = (r, m') \<Longrightarrow> cpu_kept m m'"
    and ld_inv: "ld m off w = (r, m') \<Longrightarrow> device_inv m \<Longrightarrow> device_inv m'"
    and ld_fault: "ld m off w = (Inl f, m') \<Longrightarrow> f = ACC_FAULT \<and> m' = m"
    and ld_arrays: "ld m off w = (r, m') \<Longrightarrow> arrays_kept m m'"

locale device_window = load_window +
  fixes st :: store_handler and size :: u32
  assumes st_kept: "st m off w v = Some (r', m') \<Longrightarrow> device_inv m \<Longrightarrow> cpu_kept m m'"
    and st_inv: "st m off w v = Some (r', m') \<Longrightarrow> device_inv m \<Longrightarrow> device_inv m'"
    and st_fault: "st m off w v = Some (Inl f, m') \<Longrightarrow> f = ACC_FAULT \<and> m' = m"
    and st_arrays: "st m off w v = Some (r', m') \<Longrightarrow> device_inv m \<Longrightarrow> unat off + w \<le> unat size \<Longrightarrow>
      arrays_kept m m'"
begin

text \<open>A read and a write of one word in turn, as an AMO makes them.\<close>

lemma rmw_kept: "ld m off w = (r, m1) \<Longrightarrow> st m1 off w v = Some (r', m2) \<Longrightarrow> device_inv m \<Longrightarrow> cpu_kept m m2"
  using ld_kept ld_inv st_kept cpu_kept_trans by blast

lemma rmw_inv: "ld m off w = (r, m1) \<Longrightarrow> st m1 off w v = Some (r', m2) \<Longrightarrow> device_inv m \<Longrightarrow> device_inv m2"
  using ld_inv st_inv by blast

lemma rmw_arrays:
  "ld m off w = (r, m1) \<Longrightarrow> st m1 off w v = Some (r', m2) \<Longrightarrow> device_inv m \<Longrightarrow> unat off + w \<le> unat size \<Longrightarrow>
   arrays_kept m m2"
  using ld_inv ld_arrays st_arrays arrays_kept_trans by blast

end

text \<open>A window that does not change the machine on a load satisfies the contract of loads.\<close>

lemma load_window_pure:
  assumes "\<And>m off w. snd (ld m off w) = m" "\<And>m off w f m'. ld m off w = (Inl f, m') \<Longrightarrow> f = ACC_FAULT"
  shows "load_window ld"
proof
  fix m off w r m' assume "ld m off w = (r, m')"
  then have "m' = m" using assms(1) [of m off w] by simp
  then show "cpu_kept m m'" "device_inv m \<Longrightarrow> device_inv m'" "arrays_kept m m'" by simp_all
next
  fix m off w f m' assume a: "ld m off w = (Inl f, m')"
  then have "m' = m" using assms(1) [of m off w] by simp
  then show "f = ACC_FAULT \<and> m' = m" using assms(2) [OF a] by simp
qed

end
