(* ===== verification/Console.thy ===== *)
theory Console
  imports Window
begin

text \<open>
  The console: the subset of a 16550 of \<open>console_load\<close> and \<open>console_store\<close> in
  \<open>tools/rv32emu_core.c\<close>, with the host's stdin and the prompt gate, and the done register.
\<close>

section \<open>Input\<close>

definition console_poll_stdin :: "machine \<Rightarrow> machine" where
  "console_poll_stdin m =
     (if \<not> m_console_stdin m \<or> m_console_in_next m < length (m_console_in m) then m
      else case m_stdin m of
        [] \<Rightarrow> m
      | None # rest \<Rightarrow> m\<lparr>m_stdin := rest\<rparr>
      | Some buffer # rest \<Rightarrow>
          if buffer = [] then m\<lparr>m_stdin := rest, m_console_stdin := False\<rparr>
          else m\<lparr>m_stdin := rest, m_console_in := take 256 buffer, m_console_in_next := 0\<rparr>)"

definition console_rx_waiting :: "machine \<Rightarrow> bool \<times> machine" where
  "console_rx_waiting m =
     (let m = console_poll_stdin m in
      (m_console_in_next m < length (m_console_in m) \<and>
       (length (m_console_prompt m) = 0 \<or> m_console_lines_taken m < m_console_prompts_seen m), m))"

definition console_watch_prompt :: "machine \<Rightarrow> u8 \<Rightarrow> machine" where
  "console_watch_prompt m byte =
     (let n = length (m_console_prompt m);
          moved = (\<lambda>i. if i < n - 1 then m_console_tail m (i + 1) else m_console_tail m i);
          m = m\<lparr>m_console_tail := moved(n - 1 := byte)\<rparr>;
          m = (if m_console_tail_len m < n then m\<lparr>m_console_tail_len := m_console_tail_len m + 1\<rparr> else m)
      in if m_console_tail_len m = n \<and> map (m_console_tail m) [0..<n] = m_console_prompt m
         then m\<lparr>m_console_prompts_seen := m_console_prompts_seen m + 1\<rparr>
         else m)"

section \<open>Registers\<close>

definition console_dlab :: "machine \<Rightarrow> bool" where
  "console_dlab m \<longleftrightarrow> m_console_lcr m AND CONSOLE_LCR_DLAB \<noteq> 0"

definition console_load :: load_handler where
  "console_load m offset width =
     (if width \<noteq> 1 then (Inl ACC_FAULT, m)
      else if offset = CONSOLE_TX then
        (if console_dlab m then
           (Inr (ucast (m_console_dll m)), m\<lparr>m_console_latched := m_console_latched m + 1\<rparr>)
         else
           let (waiting, m) = console_rx_waiting m in
           if waiting then
             let b = m_console_in m ! m_console_in_next m in
             (Inr (ucast b),
              m\<lparr>m_console_in_next := m_console_in_next m + 1,
                m_console_lines_taken := m_console_lines_taken m + (if b = 10 then 1 else 0)\<rparr>)
           else (Inr 0, m))
      else if offset = CONSOLE_IER then
        (Inr (ucast (if console_dlab m then m_console_dlm m else m_console_ier m)), m)
      else if offset = CONSOLE_IIR then
        (let (rdi, m) = (if m_console_ier m AND CONSOLE_IER_RDI \<noteq> 0 then console_rx_waiting m else (False, m)) in
         if rdi then (Inr CONSOLE_IIR_RDI, m)
         else if m_console_ier m AND CONSOLE_IER_THRI \<noteq> 0 then (Inr CONSOLE_IIR_THRI, m)
         else (Inr CONSOLE_IIR_NONE, m))
      else if offset = CONSOLE_LCR then (Inr (ucast (m_console_lcr m)), m)
      else if offset = CONSOLE_MCR then (Inr (ucast (m_console_mcr m)), m)
      else if offset = CONSOLE_STATUS then
        (let (waiting, m) = console_rx_waiting m in
         (Inr (CONSOLE_TX_READY OR CONSOLE_TX_EMPTY OR (if waiting then CONSOLE_RX_READY else 0)), m))
      else if offset = CONSOLE_MSR then (Inr CONSOLE_MSR_LINE, m)
      else if offset = CONSOLE_SCR then (Inr (ucast (m_console_scr m)), m)
      else (Inl ACC_FAULT, m))"

definition console_store :: store_handler where
  "console_store m offset width value = Some
     (if width \<noteq> 1 then (Inl ACC_FAULT, m)
      else
        let byte = (ucast value :: u8) in
        if offset = CONSOLE_TX then
          (if console_dlab m then
             (Inr (), m\<lparr>m_console_dll := byte, m_console_latched := m_console_latched m + 1\<rparr>)
           else
             let m = m\<lparr>m_stdout := m_stdout m @ [byte]\<rparr> in
             (Inr (), if length (m_console_prompt m) \<noteq> 0 then console_watch_prompt m byte else m))
        else if offset = CONSOLE_IER then
          (Inr (), if console_dlab m then m\<lparr>m_console_dlm := byte\<rparr>
                   else m\<lparr>m_console_ier := byte AND CONSOLE_IER_MASK\<rparr>)
        else if offset = CONSOLE_IIR then (Inr (), m)
        else if offset = CONSOLE_LCR then
          (let m = (if byte AND CONSOLE_LCR_DLAB \<noteq> 0 \<and> \<not> console_dlab m
                    then m\<lparr>m_console_latched := 0\<rparr> else m)
           in (Inr (), m\<lparr>m_console_lcr := byte\<rparr>))
        else if offset = CONSOLE_MCR then (Inr (), m\<lparr>m_console_mcr := byte AND CONSOLE_MCR_MASK\<rparr>)
        else if offset = CONSOLE_SCR then (Inr (), m\<lparr>m_console_scr := byte\<rparr>)
        else (Inl ACC_FAULT, m))"

text \<open>The done register reads 0 and ends the run when written.\<close>

definition done_load :: load_handler where
  "done_load m offset width =
     (if width = 4 \<and> offset = 0 then (Inr 0, m) else (Inl ACC_FAULT, m))"

definition done_store :: store_handler where
  "done_store m offset width value = Some
     (if width = 4 \<and> offset = 0 then (Inr (), m\<lparr>m_halt := HALT_DONE, m_done_word := value\<rparr>)
      else (Inl ACC_FAULT, m))"

section \<open>The contract of the windows\<close>

lemma console_poll_kept [simp]: "cpu_kept m (console_poll_stdin m') = cpu_kept m m'"
  by (simp add: console_poll_stdin_def split: list.split option.split)

lemma console_poll_inv: "device_inv m \<Longrightarrow> device_inv (console_poll_stdin m)"
  by (auto simp: console_poll_stdin_def device_inv_def console_ok_def split: list.split option.split)

lemma console_waiting_kept: "console_rx_waiting m = (b, m') \<Longrightarrow> cpu_kept m m'"
  by (auto simp: console_rx_waiting_def Let_def)

lemma console_waiting_inv: "console_rx_waiting m = (b, m') \<Longrightarrow> device_inv m \<Longrightarrow> device_inv m'"
  by (auto simp: console_rx_waiting_def Let_def console_poll_inv)

lemma console_waiting_next: "console_rx_waiting m = (True, m') \<Longrightarrow> m_console_in_next m' < length (m_console_in m')"
  by (auto simp: console_rx_waiting_def Let_def)

lemma console_take_inv:
  "device_inv m \<Longrightarrow> m_console_in_next m < length (m_console_in m) \<Longrightarrow>
   device_inv (m\<lparr>m_console_in_next := Suc (m_console_in_next m)\<rparr>)"
  by (simp add: device_inv_def console_ok_def)

lemma console_watch_kept [simp]: "cpu_kept m (console_watch_prompt m' b) = cpu_kept m m'"
  by (simp add: console_watch_prompt_def Let_def)

lemma console_watch_inv: "device_inv m \<Longrightarrow> device_inv (console_watch_prompt m b)"
  by (auto simp: console_watch_prompt_def Let_def device_inv_def console_ok_def)

lemma console_poll_arrays [simp]: "arrays_kept m (console_poll_stdin m') = arrays_kept m m'"
  by (simp add: console_poll_stdin_def split: list.split option.split)

lemma console_waiting_arrays: "console_rx_waiting m = (b, m') \<Longrightarrow> arrays_kept m m'"
  by (auto simp: console_rx_waiting_def Let_def)

lemma console_watch_arrays: "m_console_prompt m \<noteq> [] \<Longrightarrow> arrays_kept m (console_watch_prompt m b)"
proof -
  assume "m_console_prompt m \<noteq> []"
  then obtain c cs where "m_console_prompt m = c # cs" by (cases "m_console_prompt m") auto
  then show ?thesis by (simp add: console_watch_prompt_def Let_def arrays_kept_def)
qed

lemma console_mask_inv:
  "device_inv m \<Longrightarrow> device_inv (m\<lparr>m_console_ier := b AND CONSOLE_IER_MASK\<rparr>)"
  "device_inv m \<Longrightarrow> device_inv (m\<lparr>m_console_mcr := b AND CONSOLE_MCR_MASK\<rparr>)"
  by (auto simp: device_inv_def console_ok_def intro: mask_intros)

interpretation console_window: device_window console_load console_store 8
proof
  fix m off w r m' assume a: "console_load m off w = (r, m')"
  show "cpu_kept m m'"
    using a by (auto simp: console_load_def Let_def dest: console_waiting_kept split: if_splits prod.splits)
  show "device_inv m'" if "device_inv m"
    using a that
    by (auto simp: console_load_def Let_def dest: console_waiting_inv console_waiting_next
        intro!: console_take_inv split: if_splits prod.splits)
  show "arrays_kept m m'"
    using a by (auto simp: console_load_def Let_def dest: console_waiting_arrays split: if_splits prod.splits)
next
  fix m off w f m' assume "console_load m off w = (Inl f, m')"
  then show "f = ACC_FAULT \<and> m' = m"
    by (auto simp: console_load_def Let_def split: if_splits prod.splits)
next
  fix m off w v r' m' assume a: "console_store m off w v = Some (r', m')"
  show "cpu_kept m m'"
    using a by (auto simp: console_store_def Let_def split: if_splits)
  show "device_inv m'" if "device_inv m"
    using a that by (auto simp: console_store_def Let_def console_watch_inv console_mask_inv split: if_splits)
  show "arrays_kept m m'"
    using a
      arrays_kept_trans [of m "m\<lparr>m_stdout := m_stdout m @ [ucast v]\<rparr>", OF _ console_watch_arrays]
    by (auto simp: console_store_def Let_def split: if_splits)
next
  fix m off w v f m' assume "console_store m off w v = Some (Inl f, m')"
  then show "f = ACC_FAULT \<and> m' = m"
    by (auto simp: console_store_def Let_def split: if_splits)
qed

lemma halt_done_kept: "cpu_kept m (m\<lparr>m_halt := HALT_DONE\<rparr>)"
  by (simp add: cpu_kept_def)

interpretation done_window: device_window done_load done_store 4
  by unfold_locales (auto simp: done_load_def done_store_def halt_done_kept split: if_splits)

end
