(* ===== verification/Clint.thy ===== *)
theory Clint
  imports Window
begin

text \<open>The CLINT of \<open>tools/rv32emu_core.c\<close>: device time as an offset from the step counter, the
  timer compare and the software interrupt word.\<close>

definition mtime_now :: "machine \<Rightarrow> u64" where
  "mtime_now m = m_steps m + m_mtime_offset m"

definition clint_load :: load_handler where
  "clint_load m offset width =
     (if width \<noteq> 4 then (Inl ACC_FAULT, m)
      else if offset = CLINT_MSIP then (Inr (m_msip m), m)
      else if offset = CLINT_MTIMECMP then (Inr (ucast (m_mtimecmp m)), m)
      else if offset = CLINT_MTIMECMP + 4 then (Inr (ucast (drop_bit 32 (m_mtimecmp m))), m)
      else if offset = CLINT_MTIME then (Inr (ucast (mtime_now m)), m)
      else if offset = CLINT_MTIME + 4 then (Inr (ucast (drop_bit 32 (mtime_now m))), m)
      else (Inl ACC_FAULT, m))"

definition clint_store :: store_handler where
  "clint_store m offset width value = Some
     (if width \<noteq> 4 then (Inl ACC_FAULT, m)
      else
        let now = mtime_now m in
        if offset = CLINT_MSIP then (Inr (), m\<lparr>m_msip := value AND 1\<rparr>)
        else if offset = CLINT_MTIMECMP then
          (Inr (), m\<lparr>m_mtimecmp := (m_mtimecmp m AND NOT 0xffffffff) OR ucast value\<rparr>)
        else if offset = CLINT_MTIMECMP + 4 then
          (Inr (), m\<lparr>m_mtimecmp := (m_mtimecmp m AND 0xffffffff) OR push_bit 32 (ucast value)\<rparr>)
        else if offset = CLINT_MTIME then
          (Inr (), m\<lparr>m_mtime_offset := ((now AND NOT 0xffffffff) OR ucast value) - m_steps m\<rparr>)
        else if offset = CLINT_MTIME + 4 then
          (Inr (), m\<lparr>m_mtime_offset := ((now AND 0xffffffff) OR push_bit 32 (ucast value)) - m_steps m\<rparr>)
        else (Inl ACC_FAULT, m))"

section \<open>The contract of the window\<close>

lemma msip_inv: "device_inv m \<Longrightarrow> device_inv (m\<lparr>m_msip := v AND 1\<rparr>)"
  by (auto simp: device_inv_def intro: mask_intros)

interpretation clint_window: device_window clint_load clint_store CLINT_SIZE
  by unfold_locales (auto simp: clint_load_def clint_store_def Let_def msip_inv split: if_splits)

end
