(* ===== verification/Plic.thy ===== *)
theory Plic
  imports Clint
begin

text \<open>The PLIC of \<open>tools/rv32emu_core.c\<close>: the gateways, the claim and completion protocol of
  context 0, and \<open>mip_now\<close>, the live interrupt levels.\<close>

definition plic_lines :: "machine \<Rightarrow> u32" where
  "plic_lines m =
     (if m_count m \<noteq> 0 then push_bit PLIC_SOURCE_INPUT 1 else 0) OR
     (if vb_interrupt (m_virtio m) then push_bit PLIC_SOURCE_VIRTIO 1 else 0)"

definition plic_sample :: "machine \<Rightarrow> machine" where
  "plic_sample m =
     m\<lparr>m_plic_pending := m_plic_pending m OR (plic_lines m AND PLIC_WIRED AND NOT (m_plic_claimed m))\<rparr>"

definition plic_pending :: "machine \<Rightarrow> u32" where
  "plic_pending m = m_plic_pending m"

text \<open>The loop over the sources of \<open>plic_best\<close>, as a function of one source.\<close>

definition plic_better :: "machine \<Rightarrow> u32 \<Rightarrow> nat \<Rightarrow> u32 \<times> u32 \<Rightarrow> u32 \<times> u32" where
  "plic_better m candidates source bp =
     (case bp of (best, best_priority) \<Rightarrow>
        if drop_bit source candidates AND 1 \<noteq> 0 \<and> ucast (m_plic_priority m (of_nat source)) > best_priority
        then (of_nat source, ucast (m_plic_priority m (of_nat source)))
        else (best, best_priority))"

definition plic_best :: "machine \<Rightarrow> u32" where
  "plic_best m =
     (let candidates = (if m_plic_enable m \<noteq> 0 then plic_pending m AND m_plic_enable m else 0)
      in fst (fold (plic_better m candidates) [1..<32] (0, ucast (m_plic_threshold m))))"

definition plic_load :: load_handler where
  "plic_load m offset width =
     (if width \<noteq> 4 then (Inl ACC_FAULT, m)
      else if offset < 4 * PLIC_SOURCES then (Inr (ucast (m_plic_priority m (offset div 4))), m)
      else if offset = PLIC_PENDING then (Inr (plic_pending m), m)
      else if offset = PLIC_ENABLE then (Inr (m_plic_enable m), m)
      else if offset = PLIC_THRESHOLD then (Inr (ucast (m_plic_threshold m)), m)
      else if offset = PLIC_CLAIM then
        (let value = plic_best m; bit = push_bit (unat value) 1 in
         (Inr value, m\<lparr>m_plic_claimed := m_plic_claimed m OR (bit AND NOT 1),
                       m_plic_pending := m_plic_pending m AND NOT bit\<rparr>))
      else (Inl ACC_FAULT, m))"

definition plic_store :: store_handler where
  "plic_store m offset width value = Some
     (if width \<noteq> 4 then (Inl ACC_FAULT, m)
      else if offset < 4 * PLIC_SOURCES then
        (Inr (), if drop_bit (unat (offset div 4)) PLIC_WIRED AND 1 \<noteq> 0
                 then m\<lparr>m_plic_priority := (m_plic_priority m)(offset div 4 := ucast (value AND 7))\<rparr>
                 else m)
      else if offset = PLIC_ENABLE then (Inr (), m\<lparr>m_plic_enable := value AND PLIC_WIRED\<rparr>)
      else if offset = PLIC_THRESHOLD then (Inr (), m\<lparr>m_plic_threshold := ucast (value AND 7)\<rparr>)
      else if offset = PLIC_CLAIM then
        (Inr (), if value < PLIC_SOURCES \<and> drop_bit (unat value) (m_plic_enable m) AND 1 \<noteq> 0
                 then m\<lparr>m_plic_claimed := m_plic_claimed m AND NOT (push_bit (unat value) 1)\<rparr>
                 else m)
      else (Inl ACC_FAULT, m))"

section \<open>Interrupt levels\<close>

abbreviation (input) IRQ_SSI :: nat where "IRQ_SSI \<equiv> 1"
abbreviation (input) IRQ_MSI :: nat where "IRQ_MSI \<equiv> 3"
abbreviation (input) IRQ_STI :: nat where "IRQ_STI \<equiv> 5"
abbreviation (input) IRQ_MTI :: nat where "IRQ_MTI \<equiv> 7"
abbreviation (input) IRQ_SEI :: nat where "IRQ_SEI \<equiv> 9"
abbreviation (input) IRQ_MEI :: nat where "IRQ_MEI \<equiv> 11"
abbreviation (input) S_INTERRUPTS :: u32 where "S_INTERRUPTS \<equiv> 0x222"
abbreviation (input) MIE_MASK :: u32 where "MIE_MASK \<equiv> 0xaaa"
abbreviation (input) INTERRUPT :: u32 where "INTERRUPT \<equiv> 0x80000000"

definition mip_now :: "machine \<Rightarrow> u32" where
  "mip_now m =
     (if m_msip m \<noteq> 0 then push_bit IRQ_MSI 1 else 0) OR
     (if mtime_now m \<ge> m_mtimecmp m then push_bit IRQ_MTI 1 else 0) OR
     (if plic_best m \<noteq> 0 then push_bit IRQ_MEI 1 else 0) OR m_mip_soft m"

section \<open>The claim\<close>

text \<open>The priority of a source, as \<open>plic_best\<close> compares it.\<close>

abbreviation (input) plic_prio :: "machine \<Rightarrow> nat \<Rightarrow> u32" where
  "plic_prio m i \<equiv> ucast (m_plic_priority m (of_nat i))"

text \<open>What the loop over the sources holds after the sources below \<open>k\<close>: no candidate above the
  threshold, or the first of those of the highest priority.\<close>

definition plic_chosen :: "machine \<Rightarrow> u32 \<Rightarrow> u32 \<Rightarrow> nat \<Rightarrow> u32 \<times> u32 \<Rightarrow> bool" where
  "plic_chosen m c t k bp \<longleftrightarrow>
     (if fst bp = 0 then snd bp = t \<and> (\<forall>i. 1 \<le> i \<and> i < k \<and> bit c i \<longrightarrow> plic_prio m i \<le> t)
      else 1 \<le> unat (fst bp) \<and> unat (fst bp) < k \<and> bit c (unat (fst bp)) \<and>
           snd bp = plic_prio m (unat (fst bp)) \<and> t < snd bp \<and>
           (\<forall>i. 1 \<le> i \<and> i < k \<and> bit c i \<longrightarrow>
              plic_prio m i \<le> snd bp \<and> (plic_prio m i = snd bp \<longrightarrow> unat (fst bp) \<le> i)))"

lemma plic_better_chosen:
  assumes "plic_chosen m c t k bp" "1 \<le> k" "k < 32"
  shows "plic_chosen m c t (Suc k) (plic_better m c k bp)"
proof -
  have k: "unat (of_nat k :: u32) = k" "(of_nat k :: u32) \<noteq> 0"
    using assms by (simp_all add: unat_of_nat_u32 flip: unat_eq_0)
  show ?thesis
  proof (cases "bit c k \<and> snd bp < plic_prio m k")
    case True
    then have "plic_better m c k bp = (of_nat k, plic_prio m k)"
      by (auto simp: plic_better_def bit_test split: prod.split)
    then show ?thesis
      using assms True k by (auto simp: plic_chosen_def less_Suc_eq split: if_splits)
  next
    case False
    then have "plic_better m c k bp = bp"
      by (auto simp: plic_better_def bit_test split: prod.split)
    then show ?thesis
      using assms False by (auto simp: plic_chosen_def less_Suc_eq not_less split: if_splits)
  qed
qed

lemma plic_fold_chosen:
  "k < 32 \<Longrightarrow> plic_chosen m c t (Suc k) (fold (plic_better m c) [1..<Suc k] (0, t))"
proof (induction k)
  case 0 show ?case by (simp add: plic_chosen_def)
next
  case (Suc k) then show ?case by (simp add: plic_better_chosen)
qed

lemma plic_best_chosen:
  "\<exists>p. plic_chosen m (m_plic_pending m AND m_plic_enable m) (ucast (m_plic_threshold m)) 32 (plic_best m, p)"
proof -
  define c where "c = m_plic_pending m AND m_plic_enable m"
  have "(if m_plic_enable m \<noteq> 0 then plic_pending m AND m_plic_enable m else 0) = c"
    by (simp add: plic_pending_def c_def)
  then have "plic_best m = fst (fold (plic_better m c) [1..<32] (0, ucast (m_plic_threshold m)))"
    by (simp only: plic_best_def Let_def)
  then show ?thesis
    using plic_fold_chosen [of 31 m c "ucast (m_plic_threshold m)"]
    by (intro exI [of _ "snd (fold (plic_better m c) [1..<32] (0, ucast (m_plic_threshold m)))"])
      (simp add: c_def)
qed

lemma plic_best_pending:
  assumes "plic_best m \<noteq> 0"
  shows "bit (m_plic_pending m) (unat (plic_best m))" "1 \<le> unat (plic_best m)" "unat (plic_best m) < 32"
  using plic_best_chosen [of m] assms by (auto simp: plic_chosen_def bit_simps)

section \<open>The contract of the window\<close>

lemma plic_claim_inv:
  assumes "device_inv m"
  shows "device_inv (m\<lparr>m_plic_claimed := m_plic_claimed m OR (push_bit (unat (plic_best m)) 1 AND NOT 1),
                        m_plic_pending := m_plic_pending m AND NOT (push_bit (unat (plic_best m)) 1)\<rparr>)"
proof (cases "plic_best m = 0")
  case True
  have "within (m_plic_pending m AND NOT 1) PLIC_WIRED" "(m_plic_pending m AND NOT 1) AND m_plic_claimed m = 0"
    using assms by (simp_all add: device_inv_def plic_ok_def within_bits bit_disjoint bit_simps)
  then show ?thesis using True assms by (simp add: device_inv_def plic_ok_def)
next
  case False
  then show ?thesis
    using assms plic_best_pending [OF False]
    by (auto simp: device_inv_def plic_ok_def within_bits bit_disjoint bit_simps)
qed

lemma plic_complete_inv:
  "device_inv m \<Longrightarrow> device_inv (m\<lparr>m_plic_claimed := m_plic_claimed m AND NOT v\<rparr>)"
  by (auto simp: device_inv_def plic_ok_def within_bits bit_disjoint bit_simps)

lemma plic_priority_arrays:
  "off < 4 * PLIC_SOURCES \<Longrightarrow> arrays_kept m (m\<lparr>m_plic_priority := (m_plic_priority m)(off div 4 := v)\<rparr>)"
  by (auto simp: arrays_kept_def word_le_nat_alt word_less_nat_alt unat_div)

lemma plic_set_inv:
  assumes "device_inv m"
  shows "device_inv (m\<lparr>m_plic_priority := (m_plic_priority m)(i := ucast (v AND 7))\<rparr>)"
    "device_inv (m\<lparr>m_plic_enable := v AND PLIC_WIRED\<rparr>)" "device_inv (m\<lparr>m_plic_threshold := ucast (v AND 7)\<rparr>)"
  using assms by (auto simp: device_inv_def plic_ok_def and_7_le intro: mask_intros)

interpretation plic_window: device_window plic_load plic_store PLIC_SIZE
proof (unfold_locales, goal_cases)
  case (1 m off w r m') then show ?case by (auto simp: plic_load_def Let_def split: if_splits)
next
  case (2 m off w r m')
  then show ?case by (auto simp: plic_load_def Let_def split: if_splits intro!: plic_claim_inv [simplified])
next
  case (3 m off w f m') then show ?case by (auto simp: plic_load_def Let_def split: if_splits)
next
  case (4 m off w r m') then show ?case by (auto simp: plic_load_def Let_def split: if_splits)
next
  case (5 m off w v r m') then show ?case by (auto simp: plic_store_def split: if_splits)
next
  case (6 m off w v r m')
  then show ?case by (auto simp: plic_store_def plic_set_inv plic_complete_inv split: if_splits)
next
  case (7 m off w v f m') then show ?case by (auto simp: plic_store_def split: if_splits)
next
  case (8 m off w v r m')
  then show ?case by (auto simp: plic_store_def plic_priority_arrays split: if_splits)
qed

lemma plic_sample_kept [simp]: "cpu_kept m (plic_sample m') = cpu_kept m m'"
  by (simp add: plic_sample_def)

lemma plic_sample_arrays [simp]: "arrays_kept m (plic_sample m') = arrays_kept m m'"
  by (simp add: plic_sample_def)

lemma plic_sample_inv: "device_inv m \<Longrightarrow> device_inv (plic_sample m)"
  by (auto simp: plic_sample_def device_inv_def plic_ok_def within_bits bit_disjoint bit_simps)

end
