(* ===== verification/Virtio.thy ===== *)
theory Virtio
  imports Window
begin

text \<open>
  The block device of \<open>tools/rv32emu_core.c\<close>: DMA, one request of the queue, the service loop
  that a notification runs, and the registers. \<open>virtio_serve\<close> loops until the driver's available
  index equals the device's; its requests write guest memory, so the loop need not end. It is a
  \<open>partial_function\<close>: \<open>None\<close> is a call that does not return.
\<close>

abbreviation (input) VIRTIO_MAGIC :: u32 where "VIRTIO_MAGIC \<equiv> 0x74726976"
abbreviation (input) VIRTIO_VENDOR :: u32 where "VIRTIO_VENDOR \<equiv> 0x594e4954"
abbreviation (input) VIRTIO_QUEUE_MAX :: u32 where "VIRTIO_QUEUE_MAX \<equiv> 8"
abbreviation (input) VIRTIO_NEEDS_RESET :: u8 where "VIRTIO_NEEDS_RESET \<equiv> 0x40"

section \<open>DMA\<close>

definition dma_word :: "u32 \<Rightarrow> bool" where
  "dma_word addr \<longleftrightarrow> addr \<ge> RAM_BASE \<and> addr - RAM_BASE < RAM_SIZE"

definition dma_read :: "machine \<Rightarrow> u32 \<Rightarrow> u32 option" where
  "dma_read m addr =
     (if \<not> dma_word addr then None
      else Some (bytes_read (m_ram m) ((addr AND NOT 3) - RAM_BASE) 4))"

definition dma_read16 :: "machine \<Rightarrow> u32 \<Rightarrow> u16 option" where
  "dma_read16 m addr =
     (case dma_read m addr of
        None \<Rightarrow> None
      | Some word \<Rightarrow> Some (ucast (if addr AND 2 \<noteq> 0 then drop_bit 16 word else word)))"

definition snoop_device_write :: "machine \<Rightarrow> u32 \<Rightarrow> machine" where
  "snoop_device_write m addr =
     (if m_reserved m \<and> drop_bit 2 addr = m_reservation_pa m then m\<lparr>m_reserved := False\<rparr> else m)"

definition write_strobed :: "bytes \<Rightarrow> u32 \<Rightarrow> u32 \<Rightarrow> u32 \<Rightarrow> bytes" where
  "write_strobed p at value strobe =
     fold (\<lambda>i p. if strobe AND push_bit i 1 \<noteq> 0
                 then p(at + of_nat i := ucast (drop_bit (8 * i) value)) else p) [0..<4] p"

definition dma_write :: "machine \<Rightarrow> u32 \<Rightarrow> u32 \<Rightarrow> u32 \<Rightarrow> machine option" where
  "dma_write m addr value strobe =
     (if \<not> dma_word addr then None
      else
        let m = snoop_device_write m addr in
        Some (m\<lparr>m_ram := write_strobed (m_ram m) ((addr AND NOT 3) - RAM_BASE) value strobe\<rparr>))"

text \<open>Writing \<open>bytes\<close> bytes of the disk at \<open>offset\<close> through to the file, when there is one.\<close>

definition copy_bytes :: "bytes \<Rightarrow> bytes \<Rightarrow> u32 \<Rightarrow> nat \<Rightarrow> bytes" where
  "copy_bytes src dst offset n = (\<lambda>a. if a \<ge> offset \<and> unat (a - offset) < n then src a else dst a)"

definition virtio_disk_written :: "machine \<Rightarrow> u32 \<Rightarrow> u32 \<Rightarrow> machine" where
  "virtio_disk_written m offset bytes =
     (let v = m_virtio m in
      case vb_file v of
        None \<Rightarrow> m
      | Some file \<Rightarrow>
          (case df_results file of
             Some n # rest \<Rightarrow>
               m\<lparr>m_virtio := v\<lparr>vb_write_error := True,
                                vb_file := Some \<lparr>df_bytes = copy_bytes (vb_disk v) (df_bytes file) offset
                                                              (min n (unat bytes)),
                                                 df_results = rest\<rparr>\<rparr>\<rparr>
           | results \<Rightarrow>
               m\<lparr>m_virtio := v\<lparr>vb_file := Some \<lparr>df_bytes = copy_bytes (vb_disk v) (df_bytes file) offset
                                                              (unat bytes),
                                                 df_results = tl results\<rparr>\<rparr>\<rparr>))"

section \<open>One request\<close>

text \<open>One descriptor of the chain: its address, its length, whether the device writes it, and the
  next index; \<open>None\<close> when it cannot be followed. The high address word is checked before the two
  words after it are read.\<close>

definition virtio_descriptor :: "machine \<Rightarrow> nat \<Rightarrow> u16 \<Rightarrow> (u32 \<times> u32 \<times> bool \<times> u16) option" where
  "virtio_descriptor m which index =
     (let v = m_virtio m; base = vb_desc_lo v + 16 * ucast index in
      case dma_read m base of None \<Rightarrow> None | Some w0 \<Rightarrow>
      (case dma_read m (base + 4) of None \<Rightarrow> None | Some w1 \<Rightarrow>
       if w1 \<noteq> 0 then None else
       (case dma_read m (base + 8) of None \<Rightarrow> None | Some w2 \<Rightarrow>
        (case dma_read m (base + 12) of None \<Rightarrow> None | Some w3 \<Rightarrow>
         let has_next = (w3 AND 1 \<noteq> 0); write = (w3 AND 2 \<noteq> 0) in
         if has_next \<noteq> (which \<noteq> 2) \<or> (which = 0 \<and> write) \<or> (which = 2 \<and> \<not> write) \<or>
            (which \<noteq> 2 \<and> drop_bit 16 w3 \<ge> vb_queue_num v)
         then None
         else Some (w0, w2, write, ucast (drop_bit 16 w3))))))"

text \<open>The data loop: \<open>n\<close> words from word \<open>i\<close>. \<open>Inl\<close> is the early \<open>return false\<close>.\<close>

fun virtio_copy :: "machine \<Rightarrow> u32 \<Rightarrow> u32 \<Rightarrow> u32 \<Rightarrow> u32 \<Rightarrow> nat \<Rightarrow> machine + machine" where
  "virtio_copy m type sector address i 0 = Inr m"
| "virtio_copy m type sector address i (Suc n) =
     (let v = m_virtio m; at = sector * 512 + 4 * i in
      if type = 0 then
        (case dma_write m (address + 4 * i) (bytes_read (vb_disk v) at 4) 0xf of
           None \<Rightarrow> Inl m
         | Some m' \<Rightarrow> virtio_copy m' type sector address (i + 1) n)
      else
        (case dma_read m (address + 4 * i) of
           None \<Rightarrow> Inl (virtio_disk_written m (sector * 512) (4 * i))
         | Some word \<Rightarrow>
             virtio_copy (m\<lparr>m_virtio := v\<lparr>vb_disk := bytes_write (vb_disk v) at 4 word\<rparr>\<rparr>)
               type sector address (i + 1) n))"

definition virtio_transfer ::
  "machine \<Rightarrow> u32 \<Rightarrow> u32 \<Rightarrow> u32 \<Rightarrow> u32 \<Rightarrow> u32 \<Rightarrow> bool \<Rightarrow> machine + machine \<times> u8" where
  "virtio_transfer m type sector sector_hi address len data_write =
     (let v = m_virtio m; sectors = vb_disk_size v div 512; words_total = vb_disk_size v div 4 in
      if type > 1 then Inr (m, 2)
      else if sector_hi \<noteq> 0 \<or> sector \<ge> sectors \<or> len AND 3 \<noteq> 0 \<or> address AND 3 \<noteq> 0 \<or>
              (ucast sector * 128 + ucast (drop_bit 2 len) :: u64) > ucast words_total \<or>
              data_write \<noteq> (type = 0)
        then Inr (m, 1)
      else
        (case virtio_copy m type sector address 0 (unat (len div 4)) of
           Inl m' \<Rightarrow> Inl m'
         | Inr m' \<Rightarrow>
             let m' = (if type = 1 then virtio_disk_written m' (sector * 512) len else m')
             in Inr (m', if vb_write_error (m_virtio m') then 1 else 0)))"

text \<open>The completion: the status byte, the used element and the used index, then the device's own
  indices and interrupt. \<open>Inl\<close> is \<open>return false\<close> after the writes before the refused one.\<close>

definition virtio_complete :: "machine \<Rightarrow> u16 \<Rightarrow> u32 \<Rightarrow> u32 \<Rightarrow> u32 \<Rightarrow> u8 \<Rightarrow> machine + machine" where
  "virtio_complete m head type len status_at result =
     (let v = m_virtio m; mask = vb_queue_num v - 1;
          used = vb_device_lo v + 4 + 8 * (ucast (vb_used_idx v) AND mask);
          written = (if result = 0 \<and> type = 0 then len + 1 else 1)
      in
      case dma_write m status_at (ucast result * 0x01010101) (push_bit (unat (status_at AND 3)) 1) of
        None \<Rightarrow> Inl m | Some m1 \<Rightarrow>
      (case dma_write m1 used (ucast head) 0xf of
        None \<Rightarrow> Inl m1 | Some m2 \<Rightarrow>
      (case dma_write m2 (used + 4) written 0xf of
        None \<Rightarrow> Inl m2 | Some m3 \<Rightarrow>
      (case dma_write m3 (vb_device_lo v + 2) (ucast (vb_used_idx v + 1) * 0x10001)
              (if vb_device_lo v AND 2 \<noteq> 0 then 0x3 else 0xc) of
        None \<Rightarrow> Inl m3 | Some m4 \<Rightarrow>
          Inr (m4\<lparr>m_virtio := (m_virtio m4)\<lparr>vb_used_idx := vb_used_idx v + 1,
                                          vb_last_avail := vb_last_avail v + 1,
                                          vb_interrupt := True\<rparr>\<rparr>)))))"

definition virtio_request :: "machine \<Rightarrow> machine + machine" where
  "virtio_request m =
     (let v = m_virtio m; mask = vb_queue_num v - 1 in
      case dma_read16 m (vb_driver_lo v + 4 + 2 * (ucast (vb_last_avail v) AND mask)) of
        None \<Rightarrow> Inl m
      | Some head \<Rightarrow>
        if ucast head \<ge> vb_queue_num v then Inl m else
        (case virtio_descriptor m 0 head of None \<Rightarrow> Inl m | Some (address0, _, _, next0) \<Rightarrow>
        (case virtio_descriptor m 1 next0 of None \<Rightarrow> Inl m | Some (address1, len, data_write, next1) \<Rightarrow>
        (case virtio_descriptor m 2 next1 of None \<Rightarrow> Inl m | Some (address2, _, _, _) \<Rightarrow>
        (case dma_read m address0 of None \<Rightarrow> Inl m | Some type \<Rightarrow>
        (case dma_read m (address0 + 8) of None \<Rightarrow> Inl m | Some sector \<Rightarrow>
        (case dma_read m (address0 + 12) of None \<Rightarrow> Inl m | Some sector_hi \<Rightarrow>
        (case virtio_transfer m type sector sector_hi address1 len data_write of
           Inl m' \<Rightarrow> Inl m'
         | Inr (m', result) \<Rightarrow> virtio_complete m' head type len address2 result))))))))"

section \<open>The service loop\<close>

definition virtio_needs_reset :: "machine \<Rightarrow> machine" where
  "virtio_needs_reset m =
     m\<lparr>m_virtio := (m_virtio m)\<lparr>vb_status := vb_status (m_virtio m) OR VIRTIO_NEEDS_RESET\<rparr>\<rparr>"

partial_function (option) virtio_loop :: "machine \<Rightarrow> machine option" where
  "virtio_loop m =
     (case dma_read16 m (vb_driver_lo (m_virtio m) + 2) of
        None \<Rightarrow> Some (virtio_needs_reset m)
      | Some available \<Rightarrow>
          if available = vb_last_avail (m_virtio m) then Some m
          else case virtio_request m of
                 Inl m' \<Rightarrow> Some (virtio_needs_reset m')
               | Inr m' \<Rightarrow> virtio_loop m')"

definition virtio_serve :: "machine \<Rightarrow> machine option" where
  "virtio_serve m =
     (let v = m_virtio m in
      if vb_desc_hi v \<noteq> 0 \<or> vb_driver_hi v \<noteq> 0 \<or> vb_device_hi v \<noteq> 0 \<or> vb_queue_num v = 0
      then Some (virtio_needs_reset m)
      else virtio_loop m)"

section \<open>Registers\<close>

definition virtio_load :: load_handler where
  "virtio_load m offset width =
     (let v = m_virtio m; ok = (\<lambda>value. (Inr value, m)) in
      if width \<noteq> 4 then (Inl ACC_FAULT, m)
      else if offset = 0x000 then ok VIRTIO_MAGIC
      else if offset = 0x004 then ok 2
      else if offset = 0x008 then ok 2
      else if offset = 0x00c then ok VIRTIO_VENDOR
      else if offset = 0x010 then ok (if vb_features_sel v then 1 else 0)
      else if offset = 0x034 then ok (if vb_queue_sel_zero v then VIRTIO_QUEUE_MAX else 0)
      else if offset = 0x044 then ok (if vb_queue_ready v then 1 else 0)
      else if offset = 0x060 then ok (if vb_interrupt v then 1 else 0)
      else if offset = 0x070 then ok (ucast (vb_status v))
      else if offset = 0x080 then ok (vb_desc_lo v)
      else if offset = 0x084 then ok (vb_desc_hi v)
      else if offset = 0x090 then ok (vb_driver_lo v)
      else if offset = 0x094 then ok (vb_driver_hi v)
      else if offset = 0x0a0 then ok (vb_device_lo v)
      else if offset = 0x0a4 then ok (vb_device_hi v)
      else if offset = 0x0fc then ok 0
      else if offset = 0x100 then ok (vb_disk_size v div 512)
      else if offset = 0x104 then ok 0
      else (Inl ACC_FAULT, m))"

definition virtio_store :: store_handler where
  "virtio_store m offset width value =
     (let v = m_virtio m; ok = (\<lambda>v'. Some (Inr (), m\<lparr>m_virtio := v'\<rparr>));
          sel = (\<lambda>v'. Some (Inr (), m\<lparr>m_virtio := (if vb_queue_sel_zero v then v' else v)\<rparr>))
      in
      if width \<noteq> 4 then Some (Inl ACC_FAULT, m)
      else if offset = 0x014 then ok (v\<lparr>vb_features_sel := (value = 1)\<rparr>)
      else if offset = 0x020 then Some (Inr (), m)
      else if offset = 0x024 then Some (Inr (), m)
      else if offset = 0x030 then ok (v\<lparr>vb_queue_sel_zero := (value = 0)\<rparr>)
      else if offset = 0x038 then
        sel (v\<lparr>vb_queue_num := (if value = 1 \<or> value = 2 \<or> value = 4 \<or> value = 8 then value else 0)\<rparr>)
      else if offset = 0x044 then sel (v\<lparr>vb_queue_ready := (value AND 1 \<noteq> 0)\<rparr>)
      else if offset = 0x050 then
        (if value = 0 \<and> vb_queue_ready v \<and> vb_status v AND 4 \<noteq> 0 \<and> vb_status v AND VIRTIO_NEEDS_RESET = 0
         then map_option (\<lambda>m'. (Inr (), m')) (virtio_serve m)
         else Some (Inr (), m))
      else if offset = 0x064 then ok (if value AND 1 \<noteq> 0 then v\<lparr>vb_interrupt := False\<rparr> else v)
      else if offset = 0x070 then
        (let v = v\<lparr>vb_status := ucast value\<rparr> in
         ok (if value AND 0xff = 0
             then v\<lparr>vb_queue_ready := False, vb_queue_num := 0, vb_last_avail := 0, vb_used_idx := 0,
                    vb_interrupt := False, vb_features_sel := False\<rparr>
             else v))
      else if offset = 0x080 then sel (v\<lparr>vb_desc_lo := value\<rparr>)
      else if offset = 0x084 then sel (v\<lparr>vb_desc_hi := value\<rparr>)
      else if offset = 0x090 then sel (v\<lparr>vb_driver_lo := value\<rparr>)
      else if offset = 0x094 then sel (v\<lparr>vb_driver_hi := value\<rparr>)
      else if offset = 0x0a0 then sel (v\<lparr>vb_device_lo := value\<rparr>)
      else if offset = 0x0a4 then sel (v\<lparr>vb_device_hi := value\<rparr>)
      else Some (Inl ACC_FAULT, m))"

section \<open>What a request changes\<close>

text \<open>
  Serving the queue changes RAM inside its extent, the device itself, and may end the
  reservation: nothing else.
\<close>

definition virtio_frame :: "machine \<Rightarrow> machine \<Rightarrow> bool" where
  "virtio_frame m m' \<longleftrightarrow>
     (\<exists>r b v. m' = m\<lparr>m_ram := r, m_reserved := b, m_virtio := v\<rparr> \<and> (b \<longrightarrow> m_reserved m) \<and>
        (\<forall>a. RAM_SIZE \<le> a \<longrightarrow> r a = m_ram m a) \<and> disk_kept (m_virtio m) v)"

lemma virtio_frame_trans [trans]: "virtio_frame a b \<Longrightarrow> virtio_frame b c \<Longrightarrow> virtio_frame a c"
  unfolding virtio_frame_def
proof (elim exE conjE)
  fix r b' v r' b'' v'
  assume h: "b = a\<lparr>m_ram := r, m_reserved := b', m_virtio := v\<rparr>"
    "c = b\<lparr>m_ram := r', m_reserved := b'', m_virtio := v'\<rparr>" "b' \<longrightarrow> m_reserved a" "b'' \<longrightarrow> m_reserved b"
    "\<forall>x. RAM_SIZE \<le> x \<longrightarrow> r x = m_ram a x" "\<forall>x. RAM_SIZE \<le> x \<longrightarrow> r' x = m_ram b x"
    "disk_kept (m_virtio a) v" "disk_kept (m_virtio b) v'"
  show "\<exists>r b v. c = a\<lparr>m_ram := r, m_reserved := b, m_virtio := v\<rparr> \<and> (b \<longrightarrow> m_reserved a) \<and>
          (\<forall>x. RAM_SIZE \<le> x \<longrightarrow> r x = m_ram a x) \<and> disk_kept (m_virtio a) v"
    using h disk_kept_trans [of "m_virtio a" v v'] by (intro exI [of _ r'] exI [of _ b''] exI [of _ v']) simp
qed

lemma virtio_frame_virtio: "disk_kept (m_virtio m) v \<Longrightarrow> virtio_frame m (m\<lparr>m_virtio := v\<rparr>)"
  unfolding virtio_frame_def by (intro exI [of _ "m_ram m"] exI [of _ "m_reserved m"] exI [of _ v]) simp

lemma virtio_frame_refl [simp]: "virtio_frame m m"
  using virtio_frame_virtio [of m "m_virtio m"] by simp

lemma virtio_frame_kept: "virtio_frame m m' \<Longrightarrow> cpu_kept m m'"
  by (auto simp: virtio_frame_def cpu_kept_def)

lemma virtio_frame_arrays: "virtio_frame m m' \<Longrightarrow> arrays_kept m m'"
  by (auto simp: virtio_frame_def arrays_kept_def)

lemma virtio_frame_inv: "virtio_frame m m' \<Longrightarrow> device_inv m \<Longrightarrow> virtio_ok (m_virtio m') \<Longrightarrow> device_inv m'"
  by (auto simp: virtio_frame_def device_inv_def)

subsection \<open>DMA\<close>

lemma write_strobed_outside:
  "(\<And>i. i < 4 \<Longrightarrow> a \<noteq> at + of_nat i) \<Longrightarrow> write_strobed p at value strobe a = p a"
proof -
  assume h: "\<And>i. i < 4 \<Longrightarrow> a \<noteq> at + of_nat i"
  have "fold (\<lambda>i p. if strobe AND push_bit i 1 \<noteq> 0
                 then p(at + of_nat i := ucast (drop_bit (8 * i) value)) else p) [0..<n] p a = p a" if "n \<le> 4" for n
    using that by (induction n) (use h in auto)
  then show ?thesis by (simp add: write_strobed_def)
qed

lemma dma_word_offset:
  assumes "dma_word addr"
  shows "unat ((addr AND NOT 3) - RAM_BASE) + 4 \<le> 16777216"
proof -
  have "2147483648 \<le> unat addr" "unat addr < 2164260864"
    using assms by (auto simp: dma_word_def word_le_nat_alt word_less_nat_alt unat_sub)
  then have "2147483648 \<le> unat (addr AND NOT 3)" "unat (addr AND NOT 3) + 4 \<le> 2164260864"
    unfolding unat_and_not_3 by presburger+
  then show ?thesis by (simp add: unat_sub word_le_nat_alt)
qed

lemma dma_write_frame:
  assumes "dma_write m addr value strobe = Some m'"
  shows "virtio_frame m m'" "m_virtio m' = m_virtio m"
proof -
  define at where "at = (addr AND NOT 3) - RAM_BASE"
  have d: "dma_word addr"
    and m': "m' = (snoop_device_write m addr)\<lparr>m_ram := write_strobed (m_ram (snoop_device_write m addr)) at value strobe\<rparr>"
    using assms by (auto simp: dma_write_def Let_def at_def split: if_splits)
  have out: "write_strobed (m_ram m) at value strobe a = m_ram m a" if "RAM_SIZE \<le> a" for a
  proof (rule write_strobed_outside)
    fix i :: nat assume "i < 4"
    then have "unat (at + of_nat i) < 16777216"
      using dma_word_offset [OF d] by (simp add: at_def unat_word_ariths unat_of_nat)
    then show "a \<noteq> at + of_nat i" using that by (auto simp: word_le_nat_alt)
  qed
  have "m' = m\<lparr>m_ram := write_strobed (m_ram m) at value strobe, m_reserved := m_reserved (snoop_device_write m addr),
                 m_virtio := m_virtio m\<rparr>"
    by (simp add: m' snoop_device_write_def)
  moreover have "m_reserved (snoop_device_write m addr) \<longrightarrow> m_reserved m" by (simp add: snoop_device_write_def)
  ultimately show "virtio_frame m m'" using out unfolding virtio_frame_def by (blast intro: disk_kept_refl)
  show "m_virtio m' = m_virtio m" by (simp add: m' snoop_device_write_def)
qed

subsection \<open>The disk and its file\<close>

text \<open>The file may differ from the disk only in the \<open>n\<close> bytes from \<open>lo\<close>.\<close>

definition disk_stale :: "virtio_blk \<Rightarrow> u32 \<Rightarrow> nat \<Rightarrow> bool" where
  "disk_stale v lo n \<longleftrightarrow>
     (\<forall>file. vb_file v = Some file \<and> \<not> vb_write_error v \<longrightarrow>
        (\<forall>a < vb_disk_size v. \<not> (lo \<le> a \<and> unat (a - lo) < n) \<longrightarrow> df_bytes file a = vb_disk v a))"

definition virtio_regs :: "virtio_blk \<Rightarrow> u16 \<times> u16 \<times> u32" where
  "virtio_regs v = (vb_used_idx v, vb_last_avail v, vb_queue_num v)"

lemma disk_stale_0: "disk_stale v lo 0 = disk_file_ok v"
  by (simp add: disk_stale_def disk_file_ok_def)

lemma copy_bytes_beyond:
  assumes "unat lo + n \<le> unat hi" "hi \<le> a"
  shows "copy_bytes src dst lo n a = dst a"
proof -
  have "n \<le> unat (a - lo)" if "lo \<le> a"
    using that assms by (simp add: unat_sub word_le_nat_alt)
  then show ?thesis by (auto simp: copy_bytes_def)
qed

lemma virtio_disk_written_effect:
  fixes lo n m
  defines "m' \<equiv> virtio_disk_written m lo n"
  assumes "disk_stale (m_virtio m) lo (unat n)" "unat lo + unat n \<le> unat (vb_disk_size (m_virtio m))"
  shows "virtio_frame m m'" "disk_file_ok (m_virtio m')" "virtio_regs (m_virtio m') = virtio_regs (m_virtio m)"
proof -
  have c: "copy_bytes src dst lo (min k (unat n)) a = dst a" "copy_bytes src dst lo (unat n) a = dst a"
    if "vb_disk_size (m_virtio m) \<le> a" for src dst a k
    using assms(3) that by (auto intro!: copy_bytes_beyond)
  show "virtio_frame m m'" "disk_file_ok (m_virtio m')" "virtio_regs (m_virtio m') = virtio_regs (m_virtio m)"
    using assms(2) c
    by (auto simp: m'_def virtio_disk_written_def Let_def disk_kept_def disk_stale_def disk_file_ok_def copy_bytes_def
        virtio_regs_def split: option.split list.split intro!: virtio_frame_virtio)
qed

subsection \<open>The data loop\<close>

lemma virtio_copy_read:
  "virtio_copy m 0 sector address i n \<in> {Inl m', Inr m'} \<Longrightarrow> virtio_frame m m' \<and> m_virtio m' = m_virtio m"
proof (induction n arbitrary: m i)
  case 0 then show ?case by auto
next
  case (Suc n)
  show ?case
  proof (cases "dma_write m (address + 4 * i) (bytes_read (vb_disk (m_virtio m)) (sector * 512 + 4 * i) 4) 0xf")
    case None then show ?thesis using Suc.prems by (auto simp: Let_def)
  next
    case (Some m1)
    then show ?thesis
      using Suc.prems Suc.IH [of m1 "i + 1"] dma_write_frame [OF Some] virtio_frame_trans [of m m1 m']
      by (auto simp: Let_def)
  qed
qed

lemma disk_word_written:
  assumes "unat lo + 4 * (unat i + 1) \<le> unat (vb_disk_size v)" "disk_stale v lo (4 * unat i)"
  shows "disk_stale (v\<lparr>vb_disk := bytes_write (vb_disk v) (lo + 4 * i) 4 word\<rparr>) lo (4 * unat (i + 1))"
    "disk_kept v (v\<lparr>vb_disk := bytes_write (vb_disk v) (lo + 4 * i) 4 word\<rparr>)"
proof -
  have small: "unat lo + 4 * (unat i + 1) < 2 ^ 32"
    using assms(1) unat_u32_less [of "vb_disk_size v"] by simp
  have i4: "unat (4 * i) = 4 * unat i" using small by (simp add: unat_word_ariths)
  have i1: "unat (i + 1) = unat i + 1" using small by (simp add: unat_word_ariths)
  have at: "unat (lo + 4 * i + of_nat k) = unat lo + 4 * unat i + k" if "k < 4" for k
    using small that i4 by (simp add: unat_word_ariths unat_of_nat)
  have out: "bytes_write (vb_disk v) (lo + 4 * i) 4 word a = vb_disk v a"
    if "\<not> (lo \<le> a \<and> unat (a - lo) < 4 * unat (i + 1))" for a
  proof (rule bytes_write_outside)
    fix k :: nat assume "k < 4"
    then show "a \<noteq> lo + 4 * i + of_nat k"
      using that at [of k] i1 by (auto simp: word_le_nat_alt unat_sub)
  qed
  show "disk_stale (v\<lparr>vb_disk := bytes_write (vb_disk v) (lo + 4 * i) 4 word\<rparr>) lo (4 * unat (i + 1))"
    using assms(2) out i1 by (auto simp: disk_stale_def)
  have "bytes_write (vb_disk v) (lo + 4 * i) 4 word a = vb_disk v a" if "vb_disk_size v \<le> a" for a
    using that assms(1) at [of 0] by (intro bytes_write_beyond [of _ 4 "vb_disk_size v"]) auto
  then show "disk_kept v (v\<lparr>vb_disk := bytes_write (vb_disk v) (lo + 4 * i) 4 word\<rparr>)"
    by (simp add: disk_kept_def)
qed

lemma virtio_copy_write:
  assumes "type \<noteq> 0" "disk_stale (m_virtio m) (sector * 512) (4 * unat i)"
    "unat (sector * 512) + 4 * (unat i + n) \<le> unat (vb_disk_size (m_virtio m))"
  shows "case virtio_copy m type sector address i n of
      Inr m' \<Rightarrow> virtio_frame m m' \<and> disk_stale (m_virtio m') (sector * 512) (4 * (unat i + n)) \<and>
        virtio_regs (m_virtio m') = virtio_regs (m_virtio m)
    | Inl m' \<Rightarrow> virtio_frame m m' \<and> disk_file_ok (m_virtio m') \<and>
        virtio_regs (m_virtio m') = virtio_regs (m_virtio m)"
  using assms(2, 3)
proof (induction n arbitrary: m i)
  case 0 then show ?case by simp
next
  case (Suc n)
  have i4: "unat (4 * i) = 4 * unat i" and i1: "unat (i + 1) = unat i + 1"
    using Suc.prems(2) unat_u32_less [of "vb_disk_size (m_virtio m)"] by (simp_all add: unat_word_ariths)
  show ?case
  proof (cases "dma_read m (address + 4 * i)")
    case None
    then have "virtio_copy m type sector address i (Suc n) = Inl (virtio_disk_written m (sector * 512) (4 * i))"
      using assms(1) by (simp add: Let_def)
    then show ?thesis
      using virtio_disk_written_effect [of m "sector * 512" "4 * i"] Suc.prems i4 by (simp del: virtio_copy.simps)
  next
    case (Some word)
    define m1 where "m1 = m\<lparr>m_virtio := (m_virtio m)\<lparr>vb_disk :=
      bytes_write (vb_disk (m_virtio m)) (sector * 512 + 4 * i) 4 word\<rparr>\<rparr>"
    have step: "virtio_frame m m1" "disk_stale (m_virtio m1) (sector * 512) (4 * unat (i + 1))"
      "virtio_regs (m_virtio m1) = virtio_regs (m_virtio m)" "vb_disk_size (m_virtio m1) = vb_disk_size (m_virtio m)"
      using Suc.prems disk_word_written [of "sector * 512" i "m_virtio m" word]
      by (auto simp: m1_def virtio_regs_def intro: virtio_frame_virtio)
    have "virtio_copy m type sector address i (Suc n) = virtio_copy m1 type sector address (i + 1) n"
      using Some assms(1) by (simp add: Let_def m1_def)
    moreover have "unat (sector * 512) + 4 * (unat (i + 1) + n) \<le> unat (vb_disk_size (m_virtio m1))"
      using Suc.prems(2) i1 step(4) by simp
    ultimately show ?thesis
      using Suc.IH [OF step(2)] step(3) i1 virtio_frame_trans [OF step(1)]
      by (simp del: virtio_copy.simps split: sum.splits)
  qed
qed

subsection \<open>One request\<close>

text \<open>Serving keeps the device's invariant and touches nothing outside its frame.\<close>

definition virtio_served :: "machine \<Rightarrow> machine \<Rightarrow> bool" where
  "virtio_served m m' \<longleftrightarrow> virtio_frame m m' \<and> (virtio_ok (m_virtio m) \<longrightarrow> virtio_ok (m_virtio m'))"

lemma virtio_served_refl [simp]: "virtio_served m m"
  by (simp add: virtio_served_def)

lemma virtio_served_trans: "virtio_served a b \<Longrightarrow> virtio_served b c \<Longrightarrow> virtio_served a c"
  unfolding virtio_served_def using virtio_frame_trans by blast

lemma virtio_served_dma: "dma_write m addr value strobe = Some m' \<Longrightarrow> virtio_served m m'"
  by (frule dma_write_frame(1), drule dma_write_frame(2)) (simp add: virtio_served_def)

lemma virtio_ok_regs:
  assumes "virtio_ok v" "disk_kept v v'" "virtio_regs v' = virtio_regs v" "disk_file_ok v'"
  shows "virtio_ok v'"
  using assms by (simp add: virtio_ok_def virtio_regs_def disk_kept_def)

lemma virtio_frame_disk: "virtio_frame m m' \<Longrightarrow> disk_kept (m_virtio m) (m_virtio m')"
  by (auto simp: virtio_frame_def)

lemma virtio_servedI:
  assumes "virtio_frame m m'" "virtio_regs (m_virtio m') = virtio_regs (m_virtio m)" "disk_file_ok (m_virtio m')"
  shows "virtio_served m m'"
  using assms virtio_ok_regs [OF _ virtio_frame_disk] unfolding virtio_served_def by blast

lemma virtio_transfer_fits:
  assumes "sector < vb_disk_size v div 512" "vb_disk_size v \<le> VIRTIO_DISK_MAX"
    "(ucast sector * 128 + ucast (drop_bit 2 len) :: u64) \<le> ucast (vb_disk_size v div 4)"
  shows "unat (sector * 512) + 4 * (unat (len::u32) div 4) \<le> unat (vb_disk_size v)"
proof -
  have sector: "unat sector < unat (vb_disk_size v) div 512" "unat (vb_disk_size v) \<le> 8388608"
    using assms(1, 2) by (simp_all add: word_less_nat_alt word_le_nat_alt unat_div)
  then have s512: "unat (sector * 512) = 512 * unat sector" by (simp add: unat_word_ariths)
  have "unat (ucast sector * 128 + ucast (drop_bit 2 len) :: u64) = unat sector * 128 + unat len div 4"
    using unat_u32_less [of sector] unat_u32_less [of len]
    by (simp add: unat_word_ariths unat_drop_bit_eq drop_bit_eq_div unsigned_ucast_eq take_bit_eq_mod)
  then have "unat sector * 128 + unat len div 4 \<le> unat (vb_disk_size v) div 4"
    using assms(3) unat_u32_less [of "vb_disk_size v div 4"] by (simp add: word_le_nat_alt unsigned_ucast_eq take_bit_eq_mod unat_div)
  then show ?thesis unfolding s512 by linarith
qed

lemma virtio_transfer_served:
  assumes "virtio_ok (m_virtio m)"
  shows "case virtio_transfer m type sector sector_hi address len data_write of
      Inl m' \<Rightarrow> virtio_served m m' | Inr (m', result) \<Rightarrow> virtio_served m m'"
proof (cases "type > 1 \<or> sector_hi \<noteq> 0 \<or> sector \<ge> vb_disk_size (m_virtio m) div 512 \<or> len AND 3 \<noteq> 0 \<or>
    address AND 3 \<noteq> 0 \<or> (ucast sector * 128 + ucast (drop_bit 2 len) :: u64) > ucast (vb_disk_size (m_virtio m) div 4) \<or>
    data_write \<noteq> (type = 0)")
  case True
  then show ?thesis by (auto simp: virtio_transfer_def Let_def)
next
  case False
  define c where "c = virtio_copy m type sector address 0 (unat (len div 4))"
  have t: "virtio_transfer m type sector sector_hi address len data_write =
      (case c of Inl m' \<Rightarrow> Inl m'
       | Inr m' \<Rightarrow> let m' = (if type = 1 then virtio_disk_written m' (sector * 512) len else m')
                   in Inr (m', if vb_write_error (m_virtio m') then 1 else 0))"
    using False by (simp add: virtio_transfer_def Let_def c_def)
  show ?thesis
  proof (cases "type = 0")
    case True
    then have "virtio_served m m'" if "c = Inl m' \<or> c = Inr m'" for m'
      using that virtio_copy_read [of m sector address 0 "unat (len div 4)" m']
      by (auto simp: c_def virtio_served_def)
    then show ?thesis unfolding t using True by (cases c) simp_all
  next
    case False': False
    have fits: "unat (sector * 512) + 4 * (unat len div 4) \<le> unat (vb_disk_size (m_virtio m))"
      using False assms by (intro virtio_transfer_fits) (auto simp: virtio_ok_def)
    have len: "4 * (unat len div 4) = unat len"
    proof -
      have "len AND 3 = take_bit 2 len" by (simp add: take_bit_eq_mask mask_eq_exp_minus_1)
      then have "unat (take_bit 2 len) = 0" using False by simp
      then have "unat len mod 4 = 0" by (simp add: unsigned_take_bit_eq take_bit_eq_mod unat_mod)
      then show ?thesis by presburger
    qed
    have "\<not> 1 < type" using False by blast
    then have "type = 1" using False' by unat_arith
    have copied: "case c of Inr m' \<Rightarrow> virtio_frame m m' \<and> disk_stale (m_virtio m') (sector * 512) (unat len) \<and>
        virtio_regs (m_virtio m') = virtio_regs (m_virtio m)
      | Inl m' \<Rightarrow> virtio_frame m m' \<and> disk_file_ok (m_virtio m') \<and>
        virtio_regs (m_virtio m') = virtio_regs (m_virtio m)"
      using virtio_copy_write [OF False', of m sector 0 "unat (len div 4)" address] assms fits len
      by (simp add: c_def disk_stale_0 virtio_ok_def unat_div split: sum.splits)
    show ?thesis
    proof (cases c)
      case (Inl m1)
      then show ?thesis
        using copied unfolding t by (simp add: virtio_servedI)
    next
      case (Inr m1)
      then have m1: "virtio_frame m m1" "disk_stale (m_virtio m1) (sector * 512) (unat len)"
        "virtio_regs (m_virtio m1) = virtio_regs (m_virtio m)"
        using copied by simp_all
      have "vb_disk_size (m_virtio m1) = vb_disk_size (m_virtio m)"
        using virtio_frame_disk [OF m1(1)] by (simp add: disk_kept_def)
      then have "virtio_served m (virtio_disk_written m1 (sector * 512) len)"
        using virtio_disk_written_effect [OF m1(2)] fits len m1 virtio_frame_trans [OF m1(1)]
        by (intro virtio_servedI) simp_all
      then show ?thesis unfolding t using Inr \<open>type = 1\<close> by (simp add: Let_def)
    qed
  qed
qed

text \<open>The outcome of a request or a part of it, whether it succeeded or not.\<close>

definition served_result :: "machine \<Rightarrow> machine + machine \<Rightarrow> bool" where
  "served_result m r \<longleftrightarrow> virtio_served m (case r of Inl m' \<Rightarrow> m' | Inr m' \<Rightarrow> m')"

lemma served_Inl: "served_result m (Inl m)"
  by (simp add: served_result_def)

lemma served_if: "served_result m r \<Longrightarrow> served_result m r' \<Longrightarrow> served_result m (if b then r else r')"
  by simp

lemma served_option:
  "served_result m r \<Longrightarrow> (\<And>x. o' = Some x \<Longrightarrow> served_result m (f x)) \<Longrightarrow>
   served_result m (case o' of None \<Rightarrow> r | Some x \<Rightarrow> f x)"
  by (cases o') simp_all

lemma served_prod:
  "(\<And>a b c d. served_result m (f a b c d)) \<Longrightarrow> served_result m (case x of (a, b, c, d) \<Rightarrow> f a b c d)"
  by (cases x) simp

lemma served_dma:
  assumes "\<And>m'. dma_write m addr v strobe = Some m' \<Longrightarrow> served_result m' (f m')"
  shows "served_result m (case dma_write m addr v strobe of None \<Rightarrow> Inl m | Some m' \<Rightarrow> f m')"
proof (rule served_option [OF served_Inl])
  fix m' assume a: "dma_write m addr v strobe = Some m'"
  show "served_result m (f m')"
    using assms [OF a] virtio_served_trans [OF virtio_served_dma [OF a]] by (simp add: served_result_def)
qed

lemma virtio_complete_served: "served_result m (virtio_complete m head type len status_at result)"
proof -
  have finish: "served_result m4 (Inr (m4\<lparr>m_virtio := (m_virtio m4)\<lparr>vb_used_idx := vb_used_idx (m_virtio m) + 1,
      vb_last_avail := vb_last_avail (m_virtio m) + 1, vb_interrupt := True\<rparr>\<rparr>))"
    if "m_virtio m4 = m_virtio m" for m4
    using that virtio_frame_virtio [of m4]
    by (simp add: served_result_def virtio_served_def virtio_ok_def disk_kept_def disk_file_ok_def)
  show ?thesis
    unfolding virtio_complete_def Let_def
    by (intro served_dma finish) (simp add: dma_write_frame(2))
qed

lemma virtio_request_served:
  assumes "virtio_ok (m_virtio m)"
  shows "served_result m (virtio_request m)"
proof -
  have go: "served_result m (case virtio_transfer m type sector sector_hi address len data_write of
           Inl m' \<Rightarrow> Inl m'
         | Inr (m', result) \<Rightarrow> virtio_complete m' head type len status_at result)"
    for type sector sector_hi address len data_write head status_at
  proof (cases "virtio_transfer m type sector sector_hi address len data_write")
    case (Inl m1)
    then show ?thesis
      using virtio_transfer_served [OF assms, of type sector sector_hi address len data_write]
      by (simp add: served_result_def)
  next
    case (Inr r)
    then show ?thesis
      using virtio_transfer_served [OF assms, of type sector sector_hi address len data_write]
        virtio_complete_served [of "fst r" head type len status_at "snd r"] virtio_served_trans [of m "fst r"]
      by (cases r) (simp add: served_result_def)
  qed
  show ?thesis
    unfolding virtio_request_def Let_def
    by (intro served_option served_if served_Inl served_prod go)
qed

subsection \<open>The service loop and the window\<close>

lemma virtio_needs_reset_served: "virtio_served m (virtio_needs_reset m)"
  using virtio_frame_virtio [of m]
  by (simp add: virtio_needs_reset_def virtio_served_def virtio_ok_def disk_kept_def disk_file_ok_def)

lemma virtio_loop_served: "virtio_loop m = Some m' \<Longrightarrow> virtio_ok (m_virtio m) \<longrightarrow> virtio_served m m'"
proof (rule virtio_loop.raw_induct [of "\<lambda>m m'. virtio_ok (m_virtio m) \<longrightarrow> virtio_served m m'"])
  fix loop m m'
  assume IH: "\<And>m m'. loop m = Some m' \<Longrightarrow> virtio_ok (m_virtio m) \<longrightarrow> virtio_served m m'"
    and run: "(case dma_read16 m (vb_driver_lo (m_virtio m) + 2) of
        None \<Rightarrow> Some (virtio_needs_reset m)
      | Some available \<Rightarrow>
          if available = vb_last_avail (m_virtio m) then Some m
          else case virtio_request m of
                 Inl m' \<Rightarrow> Some (virtio_needs_reset m')
               | Inr m' \<Rightarrow> loop m') = Some m'"
  show "virtio_ok (m_virtio m) \<longrightarrow> virtio_served m m'"
  proof
    assume ok: "virtio_ok (m_virtio m)"
    have next': "virtio_served m m1 \<and> virtio_ok (m_virtio m1)" if "virtio_request m = Inl m1 \<or> virtio_request m = Inr m1" for m1
      using virtio_request_served [OF ok] ok that by (auto simp: served_result_def virtio_served_def)
    show "virtio_served m m'"
    proof (cases "dma_read16 m (vb_driver_lo (m_virtio m) + 2)")
      case None
      then show ?thesis using run virtio_needs_reset_served by auto
    next
      case (Some available)
      show ?thesis
      proof (cases "virtio_request m")
        case (Inl m1)
        then show ?thesis
          using run Some next' [of m1] virtio_served_trans [OF _ virtio_needs_reset_served, of m m1]
          by (auto split: if_splits)
      next
        case (Inr m1)
        then show ?thesis
          using run Some next' [of m1] IH [of m1 m'] virtio_served_trans [of m m1 m'] by (auto split: if_splits)
      qed
    qed
  qed
qed

lemma virtio_serve_served: "virtio_serve m = Some m' \<Longrightarrow> virtio_ok (m_virtio m) \<Longrightarrow> virtio_served m m'"
  using virtio_loop_served [of m m'] virtio_needs_reset_served
  by (auto simp: virtio_serve_def Let_def split: if_splits)

text \<open>A write of a register changes the device's registers, is refused, or runs the service loop.\<close>

definition register_write :: "virtio_blk \<Rightarrow> virtio_blk \<Rightarrow> bool" where
  "register_write v v' \<longleftrightarrow>
     vb_disk v' = vb_disk v \<and> vb_disk_size v' = vb_disk_size v \<and> vb_file v' = vb_file v \<and>
     vb_write_error v' = vb_write_error v \<and>
     (queue_size_ok (vb_queue_num v) \<longrightarrow> queue_size_ok (vb_queue_num v')) \<and>
     (vb_used_idx v = vb_last_avail v \<longrightarrow> vb_used_idx v' = vb_last_avail v')"

lemma register_write_ok: "register_write v v' \<Longrightarrow> virtio_ok v \<Longrightarrow> virtio_ok v'"
  by (simp add: register_write_def virtio_ok_def disk_file_ok_def)

lemma register_write_disk: "register_write v v' \<Longrightarrow> disk_kept v v'"
  by (simp add: register_write_def disk_kept_def)

lemma virtio_store_effect:
  assumes "virtio_store m off w v = Some (r, m')"
  shows "r = Inl ACC_FAULT \<and> m' = m \<or> r = Inr () \<and> virtio_serve m = Some m' \<or>
    r = Inr () \<and> m' = m\<lparr>m_virtio := m_virtio m'\<rparr> \<and> register_write (m_virtio m) (m_virtio m')"
proof -
  have num: "v = 1 \<or> v = 2 \<or> v = 4 \<or> v = 8 \<Longrightarrow> queue_size_ok v" "queue_size_ok 0"
    by (auto simp: queue_size_ok_def)
  show ?thesis
    using assms unfolding virtio_store_def Let_def
    by (simp split: if_split_asm; clarsimp simp: register_write_def num)
qed

lemma virtio_store_served:
  assumes "virtio_store m off w v = Some (r, m')" "device_inv m"
  shows "virtio_served m m'"
  using virtio_store_effect [OF assms(1)]
proof (elim disjE conjE)
  assume "m' = m\<lparr>m_virtio := m_virtio m'\<rparr>" "register_write (m_virtio m) (m_virtio m')"
  then show ?thesis
    using virtio_frame_virtio [OF register_write_disk, of m "m_virtio m'"] register_write_ok
    by (simp add: virtio_served_def)
next
  assume "virtio_serve m = Some m'"
  then show ?thesis using virtio_serve_served assms(2) by (simp add: device_inv_def)
qed simp

lemma virtio_served_inv: "virtio_served m m' \<Longrightarrow> device_inv m \<Longrightarrow> device_inv m'"
  unfolding virtio_served_def using virtio_frame_inv [of m m'] by (auto simp: device_inv_def [of m])

interpretation virtio_window: device_window virtio_load virtio_store VIRTIO_SIZE
proof (unfold_locales, goal_cases)
  case (1 m off w r m') then show ?case by (auto simp: virtio_load_def Let_def split: if_splits)
next
  case (2 m off w r m') then show ?case by (auto simp: virtio_load_def Let_def split: if_splits)
next
  case (3 m off w r m') then show ?case by (auto simp: virtio_load_def Let_def split: if_splits)
next
  case (4 m off w r m') then show ?case by (auto simp: virtio_load_def Let_def split: if_splits)
next
  case (5 m off w v r m')
  then show ?case using virtio_store_served virtio_frame_kept by (simp add: virtio_served_def)
next
  case (6 m off w v r m') then show ?case using virtio_store_served virtio_served_inv by blast
next
  case (7 m off w v f m') then show ?case using virtio_store_effect [OF 7] by auto
next
  case (8 m off w v r m')
  then show ?case using virtio_store_served virtio_frame_arrays by (simp add: virtio_served_def)
qed

end
