(* ===== verification/Input.thy ===== *)
theory Input
  imports Window
begin

text \<open>The input device of \<open>tools/rv32emu_core.c\<close>: a ring of sixteen events with the key state,
  the record of offered events, and the delivery of the input script.\<close>

section \<open>Queueing and delivery\<close>

definition emu_queue_event :: "machine \<Rightarrow> u32 \<Rightarrow> u32 \<Rightarrow> machine" where
  "emu_queue_event m frame event =
     (let m = (case m_record m of
                 Some lines \<Rightarrow>
                   m\<lparr>m_record := Some (lines @ [(frame, event AND EVENT_PRESS \<noteq> 0, event AND 31)])\<rparr>
               | None \<Rightarrow> m)
      in
      if m_count m = INPUT_QUEUE then m\<lparr>m_dropped := m_dropped m + 1\<rparr>
      else
        let bit = push_bit (unat (event AND 31)) 1 in
        m\<lparr>m_queue := (m_queue m)((m_head m + m_count m) mod INPUT_QUEUE := event),
          m_count := m_count m + 1,
          m_keys := (if event AND EVENT_PRESS \<noteq> 0 then m_keys m OR bit else m_keys m AND NOT bit)\<rparr>)"

function emu_deliver_events :: "machine \<Rightarrow> machine" where
  "emu_deliver_events m =
     (if m_next_scripted m < length (m_script m) \<and> se_frame (m_script m ! m_next_scripted m) \<le> m_frames m then
        (let ev = m_script m ! m_next_scripted m;
             m = emu_queue_event m (se_frame ev) (se_event ev)
         in emu_deliver_events (m\<lparr>m_next_scripted := m_next_scripted m + 1\<rparr>))
      else m)"
  by pat_completeness auto

lemma emu_queue_event_script [simp]:
  "m_script (emu_queue_event m f e) = m_script m"
  "m_next_scripted (emu_queue_event m f e) = m_next_scripted m"
  "m_frames (emu_queue_event m f e) = m_frames m"
  by (simp_all add: emu_queue_event_def Let_def split: option.split)

termination emu_deliver_events
  by (relation "measure (\<lambda>m. length (m_script m) - m_next_scripted m)") (auto simp: Let_def)

declare emu_deliver_events.simps [simp del]

section \<open>The registers\<close>

definition input_load :: load_handler where
  "input_load m offset width =
     (if width \<noteq> 4 then (Inl ACC_FAULT, m)
      else if offset = INPUT_EVENT then
        (if m_count m = 0 then (Inr 0, m)
         else (Inr (m_queue m (m_head m)),
               m\<lparr>m_head := (m_head m + 1) mod INPUT_QUEUE, m_count := m_count m - 1\<rparr>))
      else if offset = INPUT_COUNT then (Inr (m_count m), m)
      else if offset = INPUT_KEYS then (Inr (m_keys m), m)
      else (Inl ACC_FAULT, m))"

section \<open>The contract of the window\<close>

lemma input_take_inv:
  assumes "device_inv m" "m_count m \<noteq> 0"
  shows "device_inv (m\<lparr>m_head := (m_head m + 1) mod INPUT_QUEUE, m_count := m_count m - 1\<rparr>)"
proof -
  have "(m_head m + 1) mod INPUT_QUEUE < INPUT_QUEUE" by (simp add: word_mod_less_divisor)
  moreover have "m_count m - 1 \<le> INPUT_QUEUE"
    using assms by (simp add: device_inv_def input_ok_def) unat_arith
  ultimately show ?thesis using assms by (simp add: device_inv_def input_ok_def)
qed

interpretation input_window: load_window input_load
  by unfold_locales (auto simp: input_load_def input_take_inv split: if_splits)

lemma emu_queue_event_kept [simp]: "cpu_kept m (emu_queue_event m' f e) = cpu_kept m m'"
  by (simp add: emu_queue_event_def Let_def split: option.split)

lemma emu_queue_event_inv: "device_inv m \<Longrightarrow> device_inv (emu_queue_event m f e)"
proof -
  have "n \<le> 16 \<Longrightarrow> n \<noteq> 16 \<Longrightarrow> n + 1 \<le> 16" for n :: u32 by unat_arith
  then show "device_inv m \<Longrightarrow> device_inv (emu_queue_event m f e)"
    by (simp add: emu_queue_event_def Let_def device_inv_def input_ok_def split: option.split)
qed

lemma emu_queue_event_arrays: "arrays_kept m (emu_queue_event m f e)"
proof -
  have "(m_head m + m_count m) mod 16 < (16::u32)" by (simp add: word_mod_less_divisor)
  then show ?thesis
    by (auto simp: emu_queue_event_def Let_def arrays_kept_def split: option.split)
qed

text \<open>What queueing one scripted event keeps, delivery keeps.\<close>

lemma emu_deliver_rule:
  assumes "P m"
    and "\<And>m f e. P m \<Longrightarrow> m_next_scripted m < length (m_script m) \<Longrightarrow>
      P ((emu_queue_event m f e)\<lparr>m_next_scripted := Suc (m_next_scripted m)\<rparr>)"
  shows "P (emu_deliver_events m)"
  using assms(1)
proof (induction m rule: emu_deliver_events.induct)
  case (1 m)
  show ?case
  proof (cases "m_next_scripted m < length (m_script m) \<and> se_frame (m_script m ! m_next_scripted m) \<le> m_frames m")
    case True
    then show ?thesis
      using 1(1) [OF True refl refl] assms(2) [OF 1(2)]
      by (subst emu_deliver_events.simps) (simp add: Let_def)
  next
    case False
    then show ?thesis using 1(2) by (subst emu_deliver_events.simps) auto
  qed
qed

lemma emu_deliver_kept: "cpu_kept m (emu_deliver_events m)"
  by (rule emu_deliver_rule) simp_all

lemma emu_deliver_arrays: "arrays_kept m (emu_deliver_events m)"
  by (rule emu_deliver_rule) (simp_all add: arrays_kept_trans [OF _ emu_queue_event_arrays])

lemma emu_deliver_inv: "device_inv m \<Longrightarrow> device_inv (emu_deliver_events m)"
proof (rule emu_deliver_rule)
  fix m f e assume "device_inv m" "m_next_scripted m < length (m_script m)"
  then show "device_inv ((emu_queue_event m f e)\<lparr>m_next_scripted := Suc (m_next_scripted m)\<rparr>)"
    using emu_queue_event_inv [of m f e] by (simp add: device_inv_def input_ok_def)
qed

end
