(* ===== verification/Display.thy ===== *)
theory Display
  imports Input
begin

text \<open>The display of \<open>tools/rv32emu_core.c\<close>: the framebuffer window, the palette, the checkpoint
  hash and a present. The bytes of a frame file are its pixels' colours in order; whether the host
  could write the file is the next entry of \<open>m_ppm_ok\<close>.\<close>

definition engine_busy :: "machine \<Rightarrow> bool" where
  "engine_busy m \<longleftrightarrow> gpu_busy (m_gpu m) \<or> g3d_busy (m_g3d m)"

definition fb_load :: load_handler where
  "fb_load m offset width =
     (if engine_busy m then (Inl ACC_FAULT, m) else (Inr (bytes_read (m_fb m) offset width), m))"

definition fb_store :: store_handler where
  "fb_store m offset width value = Some
     (if engine_busy m then (Inl ACC_FAULT, m)
      else (Inr (), m\<lparr>m_fb := bytes_write (m_fb m) offset width value\<rparr>))"

definition emu_frame_hash :: "bytes \<Rightarrow> u32" where
  "emu_frame_hash pixels =
     fold (\<lambda>i h. (push_bit 5 h + h) XOR bytes_read pixels (of_nat (4 * i)) 4) [0..<19200] 5381"

definition rgb332_word :: "u8 \<Rightarrow> u32" where
  "rgb332_word pixel =
     (let p = ucast pixel :: u32 in
      push_bit 16 ((drop_bit 5 p AND 7) * 255 div 7) OR push_bit 8 ((drop_bit 2 p AND 7) * 255 div 7) OR
      (p AND 3) * 255 div 3)"

definition emu_palette_rgb :: "machine \<Rightarrow> u8 \<Rightarrow> u8 \<times> u8 \<times> u8" where
  "emu_palette_rgb m pixel =
     (let colour = m_palette m (ucast pixel) in
      (ucast (drop_bit 16 colour), ucast (drop_bit 8 colour), ucast colour))"

definition ppm_pixels :: "machine \<Rightarrow> (u8 \<times> u8 \<times> u8) list" where
  "ppm_pixels m = map (\<lambda>i. emu_palette_rgb m (m_fb m (of_nat i))) [0..<76800]"

definition present_frame_file :: "machine \<Rightarrow> machine" where
  "present_frame_file m =
     (case m_frames_dir m of
        None \<Rightarrow> m
      | Some files \<Rightarrow>
          (case m_ppm_ok m of
             False # rest \<Rightarrow> m\<lparr>m_ppm_ok := rest, m_output_error := True\<rparr>
           | results \<Rightarrow>
               m\<lparr>m_ppm_ok := tl results, m_frames_dir := Some (files @ [(m_frames m, ppm_pixels m)])\<rparr>))"

definition present :: "machine \<Rightarrow> machine" where
  "present m =
     (let m = m\<lparr>m_frames := m_frames m + 1\<rparr>;
          m = emu_deliver_events m;
          m = (case m_checkpoints m of
                 None \<Rightarrow> m
               | Some lines \<Rightarrow> m\<lparr>m_checkpoints := Some (lines @ [(m_frames m, emu_frame_hash (m_fb m))])\<rparr>)
      in present_frame_file m)"

definition palette_load :: load_handler where
  "palette_load m offset width =
     (if width \<noteq> 4 then (Inl ACC_FAULT, m) else (Inr (m_palette m (offset div 4)), m))"

definition palette_store :: store_handler where
  "palette_store m offset width value = Some
     (if width \<noteq> 4 then (Inl ACC_FAULT, m)
      else (Inr (), m\<lparr>m_palette := (m_palette m)(offset div 4 := value AND 0x00ffffff)\<rparr>))"

definition display_load :: load_handler where
  "display_load m offset width =
     (if width \<noteq> 4 then (Inl ACC_FAULT, m)
      else if offset = DISPLAY_FRAMES then (Inr (m_frames m), m)
      else if offset = DISPLAY_WIDTH then (Inr FB_COLUMNS, m)
      else if offset = DISPLAY_HEIGHT then (Inr FB_ROWS, m)
      else (Inl ACC_FAULT, m))"

definition display_store :: store_handler where
  "display_store m offset width value = Some
     (if width = 4 \<and> offset = DISPLAY_PRESENT then
        (if engine_busy m then (Inl ACC_FAULT, m) else (Inr (), present m))
      else (Inl ACC_FAULT, m))"

section \<open>The contract of the windows\<close>

lemma present_kept: "cpu_kept m (present m)"
proof -
  have "cpu_kept m (emu_deliver_events (m\<lparr>m_frames := m_frames m + 1\<rparr>))"
    by (rule cpu_kept_trans [OF _ emu_deliver_kept]) simp
  then show ?thesis
    by (simp add: present_def present_frame_file_def Let_def split: option.split list.split bool.split)
qed

lemma present_inv: "device_inv m \<Longrightarrow> device_inv (present m)"
proof -
  assume "device_inv m"
  then have "device_inv (emu_deliver_events (m\<lparr>m_frames := m_frames m + 1\<rparr>))" by (intro emu_deliver_inv) simp
  then show ?thesis
    by (simp add: present_def present_frame_file_def Let_def split: option.split list.split bool.split)
qed

lemma present_arrays: "arrays_kept m (present m)"
proof -
  have "arrays_kept m (emu_deliver_events (m\<lparr>m_frames := m_frames m + 1\<rparr>))"
    by (rule arrays_kept_trans [OF _ emu_deliver_arrays]) simp
  then show ?thesis
    by (simp add: present_def present_frame_file_def Let_def split: option.split list.split bool.split)
qed

lemma palette_arrays:
  "unat off + 4 \<le> 1024 \<Longrightarrow> arrays_kept m (m\<lparr>m_palette := (m_palette m)(off div 4 := v)\<rparr>)"
  by (auto simp: arrays_kept_def word_le_nat_alt unat_div)

lemma palette_inv: "device_inv m \<Longrightarrow> device_inv (m\<lparr>m_palette := (m_palette m)(i := v AND 0xffffff)\<rparr>)"
  by (auto simp: device_inv_def palette_ok_def intro: mask_intros)

interpretation display_window: device_window display_load display_store 16
  by unfold_locales (auto simp: display_load_def display_store_def present_kept present_inv present_arrays split: if_splits)

interpretation palette_window: device_window palette_load palette_store PALETTE_SIZE
  by unfold_locales (auto simp: palette_load_def palette_store_def palette_inv palette_arrays split: if_splits)

lemma fb_arrays:
  "unat off + w \<le> 76800 \<Longrightarrow> arrays_kept m (m\<lparr>m_fb := bytes_write (m_fb m) off w v\<rparr>)"
  by (simp add: arrays_kept_def bytes_write_beyond [of off w 76800])

interpretation framebuffer_window: device_window fb_load fb_store FB_SIZE
  by unfold_locales (auto simp: fb_load_def fb_store_def fb_arrays split: if_splits)

end
