(* ===== verification/Bus.thy ===== *)
theory Bus
  imports Console Plic Virtio Display Rom
begin

text \<open>
  The memory map of \<open>tools/rv32emu_core.c\<close>: the RAM and accelerator windows, the table \<open>REGIONS\<close> and its decoder.
\<close>

section \<open>RAM and the accelerators\<close>

definition ram_load :: load_handler where
  "ram_load m offset width = (Inr (bytes_read (m_ram m) offset width), m)"

definition ram_store :: store_handler where
  "ram_store m offset width value = Some
     (if gpu_source_locked (m_gpu m) (RAM_BASE + offset) width then (Inl ACC_FAULT, m)
      else if g3d_z_locked (m_g3d m) (RAM_BASE + offset) width then (Inl ACC_FAULT, m)
      else (Inr (), m\<lparr>m_ram := bytes_write (m_ram m) offset width value\<rparr>))"

definition simd_load :: load_handler where
  "simd_load m offset width =
     (case simd_access (m_simd m) (SIMD_BASE + offset) width False 0 of
        Some (s, value) \<Rightarrow> (Inr value, m\<lparr>m_simd := s\<rparr>)
      | None \<Rightarrow> (Inl ACC_FAULT, m))"

definition simd_store :: store_handler where
  "simd_store m offset width value =
     (case simd_access (m_simd m) (SIMD_BASE + offset) width True value of
        Some (s, _) \<Rightarrow> Some (Inr (), m\<lparr>m_simd := s\<rparr>)
      | None \<Rightarrow> Some (Inl ACC_FAULT, m))"

definition simd_program_load :: load_handler where
  "simd_program_load m offset width = simd_load m (SIMD_PROGRAM - SIMD_BASE + offset) width"

definition simd_program_store :: store_handler where
  "simd_program_store m offset width value = simd_store m (SIMD_PROGRAM - SIMD_BASE + offset) width value"

definition simd_data_load :: load_handler where
  "simd_data_load m offset width = simd_load m (SIMD_DATA - SIMD_BASE + offset) width"

definition simd_data_store :: store_handler where
  "simd_data_store m offset width value = simd_store m (SIMD_DATA - SIMD_BASE + offset) width value"

definition gpu_load :: load_handler where
  "gpu_load m off width =
     (case gpu_access (m_gpu m) off width False 0 of
        Some (g, value) \<Rightarrow> (Inr value, m\<lparr>m_gpu := g\<rparr>)
      | None \<Rightarrow> (Inl ACC_FAULT, m))"

definition gpu_store :: store_handler where
  "gpu_store m off width v =
     (if off = GPU_COMMAND \<and> v = GPU_START \<and> g3d_busy (m_g3d m) then Some (Inl ACC_FAULT, m)
      else case gpu_access (m_gpu m) off width True v of
        Some (g, _) \<Rightarrow> Some (Inr (), m\<lparr>m_gpu := g\<rparr>)
      | None \<Rightarrow> Some (Inl ACC_FAULT, m))"

definition g3d_mmio_load :: load_handler where
  "g3d_mmio_load m off width =
     (case g3d_access (m_g3d m) off width False 0 (gpu_busy (m_gpu m)) of
        Some (g, value) \<Rightarrow> (Inr value, m\<lparr>m_g3d := g\<rparr>)
      | None \<Rightarrow> (Inl ACC_FAULT, m))"

definition g3d_mmio_store :: store_handler where
  "g3d_mmio_store m off width v =
     (case g3d_access (m_g3d m) off width True v (gpu_busy (m_gpu m)) of
        Some (g, _) \<Rightarrow> Some (Inr (), m\<lparr>m_g3d := g\<rparr>)
      | None \<Rightarrow> Some (Inl ACC_FAULT, m))"

definition dma_window_load :: load_handler where
  "dma_window_load m off width =
     (if width \<noteq> 4 \<or> (off \<noteq> DMA_WINDOW_START \<and> off \<noteq> DMA_WINDOW_END) then (Inl ACC_FAULT, m)
      else (Inr (if off = DMA_WINDOW_START then m_dma_start m else m_dma_end m), m))"

definition dma_window_store :: store_handler where
  "dma_window_store m off width v = Some
     (if width \<noteq> 4 \<or> (off \<noteq> DMA_WINDOW_START \<and> off \<noteq> DMA_WINDOW_END) then (Inl ACC_FAULT, m)
      else (Inr (), if off = DMA_WINDOW_START then m\<lparr>m_dma_start := v\<rparr> else m\<lparr>m_dma_end := v\<rparr>))"

section \<open>The table\<close>

definition REGIONS :: "region list" where
  "REGIONS =
    [\<lparr>r_name = ''gpu'', r_base = GPU_BASE, r_size = 128, r_load = Some gpu_load, r_store = Some gpu_store\<rparr>,
     \<lparr>r_name = ''dma_window'', r_base = DMA_WINDOW_BASE, r_size = 8,
       r_load = Some dma_window_load, r_store = Some dma_window_store\<rparr>,
     \<lparr>r_name = ''g3d'', r_base = G3D_BASE, r_size = G3D_SIZE,
       r_load = Some g3d_mmio_load, r_store = Some g3d_mmio_store\<rparr>,
     \<lparr>r_name = ''done'', r_base = DONE_ADDR, r_size = 4, r_load = Some done_load, r_store = Some done_store\<rparr>,
     \<lparr>r_name = ''console'', r_base = CONSOLE_BASE, r_size = 8,
       r_load = Some console_load, r_store = Some console_store\<rparr>,
     \<lparr>r_name = ''clint'', r_base = CLINT_BASE, r_size = CLINT_SIZE,
       r_load = Some clint_load, r_store = Some clint_store\<rparr>,
     \<lparr>r_name = ''plic'', r_base = PLIC_BASE, r_size = PLIC_SIZE,
       r_load = Some plic_load, r_store = Some plic_store\<rparr>,
     \<lparr>r_name = ''virtio'', r_base = VIRTIO_BASE, r_size = VIRTIO_SIZE,
       r_load = Some virtio_load, r_store = Some virtio_store\<rparr>,
     \<lparr>r_name = ''bootrom'', r_base = RV32_DTB_ROM_BASE, r_size = RV32_DTB_ROM_SIZE,
       r_load = Some rom_load, r_store = None\<rparr>,
     \<lparr>r_name = ''input'', r_base = INPUT_BASE, r_size = 16, r_load = Some input_load, r_store = None\<rparr>,
     \<lparr>r_name = ''display'', r_base = DISPLAY_BASE, r_size = 16,
       r_load = Some display_load, r_store = Some display_store\<rparr>,
     \<lparr>r_name = ''palette'', r_base = PALETTE_BASE, r_size = PALETTE_SIZE,
       r_load = Some palette_load, r_store = Some palette_store\<rparr>,
     \<lparr>r_name = ''framebuffer'', r_base = FB_BASE, r_size = FB_SIZE,
       r_load = Some fb_load, r_store = Some fb_store\<rparr>,
     \<lparr>r_name = ''simd4'', r_base = SIMD_BASE, r_size = 32, r_load = Some simd_load, r_store = Some simd_store\<rparr>,
     \<lparr>r_name = ''simd4_program'', r_base = SIMD_PROGRAM, r_size = 1024,
       r_load = Some simd_program_load, r_store = Some simd_program_store\<rparr>,
     \<lparr>r_name = ''simd4_data'', r_base = SIMD_DATA, r_size = 1024,
       r_load = Some simd_data_load, r_store = Some simd_data_store\<rparr>,
     \<lparr>r_name = ''ram'', r_base = RAM_BASE, r_size = RAM_SIZE, r_load = Some ram_load, r_store = Some ram_store\<rparr>]"

definition in_region :: "u32 \<Rightarrow> nat \<Rightarrow> region \<Rightarrow> bool" where
  "in_region addr width r \<longleftrightarrow> addr \<ge> r_base r \<and> addr - r_base r + of_nat width \<le> r_size r"

definition find_region :: "u32 \<Rightarrow> nat \<Rightarrow> region option" where
  "find_region addr width = find (in_region addr width) REGIONS"

definition in_ram :: "u32 \<Rightarrow> nat \<Rightarrow> bool" where
  "in_ram addr width \<longleftrightarrow> addr \<ge> RAM_BASE \<and> addr - RAM_BASE + of_nat width \<le> RAM_SIZE"

definition ram_read :: "machine \<Rightarrow> u32 \<Rightarrow> nat \<Rightarrow> u32" where
  "ram_read m addr width = bytes_read (m_ram m) (addr - RAM_BASE) width"

section \<open>The contract of the windows\<close>

lemma ram_arrays:
  "unat off + w \<le> 16777216 \<Longrightarrow> arrays_kept m (m\<lparr>m_ram := bytes_write (m_ram m) off w v\<rparr>)"
  by (simp add: arrays_kept_def bytes_write_beyond [of off w 16777216])

interpretation ram_window: device_window ram_load ram_store RAM_SIZE
  by unfold_locales (auto simp: ram_load_def ram_store_def ram_arrays split: if_splits)

interpretation dma_window_window: device_window dma_window_load dma_window_store 8
  by unfold_locales (auto simp: dma_window_load_def dma_window_store_def split: if_splits)

lemma simd_window_inv: "device_inv m \<Longrightarrow> simd_inv s \<Longrightarrow> device_inv (m\<lparr>m_simd := s\<rparr>)"
  by (simp add: device_inv_def engines_ok_def)

lemma device_inv_simd: "device_inv m \<Longrightarrow> simd_inv (m_simd m)"
  by (simp add: device_inv_def engines_ok_def)

lemma simd_windows: "device_window simd_load simd_store extent"
proof
  fix m off w r m' assume "simd_load m off w = (r, m')"
  then show "cpu_kept m m'" "device_inv m \<Longrightarrow> device_inv m'" "arrays_kept m m'"
    by (auto simp: simd_load_def split: option.splits intro: simd_window_inv simd_access_inv device_inv_simd)
next
  fix m off w f m' assume "simd_load m off w = (Inl f, m')"
  then show "f = ACC_FAULT \<and> m' = m" by (auto simp: simd_load_def split: option.splits)
next
  fix m off w v r m' assume "simd_store m off w v = Some (r, m')"
  then show "device_inv m \<Longrightarrow> cpu_kept m m'" "device_inv m \<Longrightarrow> device_inv m'"
    "device_inv m \<Longrightarrow> unat off + w \<le> unat extent \<Longrightarrow> arrays_kept m m'"
    by (auto simp: simd_store_def split: option.splits intro: simd_window_inv simd_access_inv device_inv_simd)
next
  fix m off w v f m' assume "simd_store m off w v = Some (Inl f, m')"
  then show "f = ACC_FAULT \<and> m' = m" by (auto simp: simd_store_def split: option.splits)
qed

text \<open>A window that passes its accesses on at another offset satisfies the contract.\<close>

lemma device_window_shift:
  assumes w: "device_window ld st extent0"
    and arrays: "\<And>m off w v r m'. st m off w v = Some (r, m') \<Longrightarrow> arrays_kept m m'"
    and shift: "\<And>m off w. ld' m off w = ld m (base + off) w" "\<And>m off w v. st' m off w v = st m (base + off) w v"
  shows "device_window ld' st' extent"
proof -
  have l: "load_window ld" using w by (simp add: device_window_def)
  show ?thesis
    by unfold_locales
      (simp_all add: shift load_window.ld_kept [OF l] load_window.ld_inv [OF l] load_window.ld_arrays [OF l]
        load_window.ld_fault [OF l] device_window.st_kept [OF w] device_window.st_inv [OF w]
        device_window.st_fault [OF w] arrays)
qed

lemma simd_store_arrays: "simd_store m off w v = Some (r, m') \<Longrightarrow> arrays_kept m m'"
  by (auto simp: simd_store_def split: option.splits)

interpretation simd_window: device_window simd_load simd_store 32
  by (rule simd_windows)

interpretation simd_program_window: device_window simd_program_load simd_program_store 1024
  by (rule device_window_shift [OF simd_windows [of 32] simd_store_arrays]) (simp_all only: simd_program_load_def simd_program_store_def)

interpretation simd_data_window: device_window simd_data_load simd_data_store 1024
  by (rule device_window_shift [OF simd_windows [of 32] simd_store_arrays]) (simp_all only: simd_data_load_def simd_data_store_def)

subsection \<open>The graphics engines\<close>

lemma gpu_access_busy:
  "gpu_access g off w write v = Some (g', v') \<Longrightarrow> gpu_busy g' \<Longrightarrow>
   gpu_busy g \<or> (write \<and> off = GPU_COMMAND \<and> v = GPU_START)"
  by (auto simp: gpu_access_def Let_def gpu_busy_def gpu_device_reset_def gpu_device_zero_def split: if_splits)

lemma g3d_access_busy:
  "g3d_access d off w write v other = Some (d', v') \<Longrightarrow> g3d_busy d' \<Longrightarrow> g3d_busy d \<or> \<not> other"
  by (auto simp: g3d_access_def g3d_busy_def g3d_device_reset_def g3d_device_zero_def
      split: if_splits option.splits)

lemma gpu_window_inv:
  assumes "device_inv m" "gpu_access (m_gpu m) off w write v = Some (g', v')"
    "\<not> (write \<and> off = GPU_COMMAND \<and> v = GPU_START \<and> g3d_busy (m_g3d m))"
  shows "device_inv (m\<lparr>m_gpu := g'\<rparr>)"
  using assms gpu_access_inv [OF _ assms(2)] gpu_access_busy [OF assms(2)]
  by (auto simp: device_inv_def engines_ok_def)

lemma g3d_window_inv:
  assumes "device_inv m" "g3d_access (m_g3d m) off w write v (gpu_busy (m_gpu m)) = Some (d', v')"
  shows "device_inv (m\<lparr>m_g3d := d'\<rparr>)"
  using assms g3d_access_inv [OF _ assms(2)] g3d_access_busy [OF assms(2)]
  by (auto simp: device_inv_def engines_ok_def)

interpretation gpu_window: device_window gpu_load gpu_store 128
proof
  fix m off w r m' assume "gpu_load m off w = (r, m')"
  then show "cpu_kept m m'" "device_inv m \<Longrightarrow> device_inv m'" "arrays_kept m m'"
    by (auto simp: gpu_load_def split: option.splits intro: gpu_window_inv)
next
  fix m off w f m' assume "gpu_load m off w = (Inl f, m')"
  then show "f = ACC_FAULT \<and> m' = m" by (auto simp: gpu_load_def split: option.splits)
next
  fix m off w v r m' assume "gpu_store m off w v = Some (r, m')"
  then show "device_inv m \<Longrightarrow> cpu_kept m m'" "device_inv m \<Longrightarrow> device_inv m'"
    "device_inv m \<Longrightarrow> unat off + w \<le> unat (128::u32) \<Longrightarrow> arrays_kept m m'"
    by (auto simp: gpu_store_def split: option.splits if_splits intro: gpu_window_inv)
next
  fix m off w v f m' assume "gpu_store m off w v = Some (Inl f, m')"
  then show "f = ACC_FAULT \<and> m' = m" by (auto simp: gpu_store_def split: option.splits if_splits)
qed

interpretation g3d_window: device_window g3d_mmio_load g3d_mmio_store G3D_SIZE
proof
  fix m off w r m' assume "g3d_mmio_load m off w = (r, m')"
  then show "cpu_kept m m'" "device_inv m \<Longrightarrow> device_inv m'" "arrays_kept m m'"
    by (auto simp: g3d_mmio_load_def split: option.splits intro: g3d_window_inv)
next
  fix m off w f m' assume "g3d_mmio_load m off w = (Inl f, m')"
  then show "f = ACC_FAULT \<and> m' = m" by (auto simp: g3d_mmio_load_def split: option.splits)
next
  fix m off w v r m' assume "g3d_mmio_store m off w v = Some (r, m')"
  then show "device_inv m \<Longrightarrow> cpu_kept m m'" "device_inv m \<Longrightarrow> device_inv m'"
    "device_inv m \<Longrightarrow> unat off + w \<le> unat (G3D_SIZE::u32) \<Longrightarrow> arrays_kept m m'"
    by (auto simp: g3d_mmio_store_def split: option.splits intro: g3d_window_inv)
next
  fix m off w v f m' assume "g3d_mmio_store m off w v = Some (Inl f, m')"
  then show "f = ACC_FAULT \<and> m' = m" by (auto simp: g3d_mmio_store_def split: option.splits)
qed

section \<open>The map\<close>

text \<open>What every row of the table promises: its load handler, and its store handler when it has one.\<close>

definition region_ok :: "region \<Rightarrow> bool" where
  "region_ok r \<longleftrightarrow>
     unat (r_base r) + unat (r_size r) \<le> 2 ^ 32 \<and>
     (\<forall>ld. r_load r = Some ld \<longrightarrow> load_window ld) \<and>
     (\<forall>ld st. r_load r = Some ld \<and> r_store r = Some st \<longrightarrow> device_window ld st (r_size r)) \<and>
     (r_store r \<noteq> None \<longrightarrow> r_load r \<noteq> None)"

lemma regions_ok: "\<forall>r\<in>set REGIONS. region_ok r"
  using gpu_window.device_window_axioms dma_window_window.device_window_axioms g3d_window.device_window_axioms
    done_window.device_window_axioms console_window.device_window_axioms clint_window.device_window_axioms
    plic_window.device_window_axioms virtio_window.device_window_axioms rom_window.load_window_axioms
    input_window.load_window_axioms display_window.device_window_axioms palette_window.device_window_axioms
    framebuffer_window.device_window_axioms simd_window.device_window_axioms
    simd_program_window.device_window_axioms simd_data_window.device_window_axioms ram_window.device_window_axioms
  by (simp add: REGIONS_def region_ok_def device_window.axioms(1))

text \<open>The rows do not overlap, and each lies above address 0x1000 and below the end of the address space.\<close>

lemma regions_apart:
  "\<forall>r\<in>set REGIONS. \<forall>r'\<in>set REGIONS.
     r = r' \<or> unat (r_base r) + unat (r_size r) \<le> unat (r_base r') \<or> unat (r_base r') + unat (r_size r') \<le> unat (r_base r)"
  by (simp add: REGIONS_def)

lemma regions_placed:
  "r \<in> set REGIONS \<Longrightarrow> 4096 \<le> unat (r_base r) \<and> unat (r_base r) + unat (r_size r) \<le> 4294967296"
  by (auto simp: REGIONS_def)

lemma in_region_span:
  assumes "r \<in> set REGIONS" "in_region addr w r" "w \<le> 4"
  shows "unat (r_base r) \<le> unat addr" "unat (addr - r_base r) = unat addr - unat (r_base r)"
    "unat (addr - r_base r) + w \<le> unat (r_size r)"
proof -
  have le: "r_base r \<le> addr" and fit: "addr - r_base r + of_nat w \<le> r_size r"
    using assms(2) by (simp_all add: in_region_def)
  show a: "unat (r_base r) \<le> unat addr" using le by (simp add: word_le_nat_alt)
  show b: "unat (addr - r_base r) = unat addr - unat (r_base r)" using le by (simp add: unat_sub)
  have "unat (addr - r_base r) + w < 4294967296"
    using b regions_placed [OF assms(1)] assms(3) unat_u32_less [of addr] by linarith
  then have "unat (addr - r_base r + of_nat w) = unat (addr - r_base r) + w"
    using assms(3) by (simp add: unat_word_ariths unat_of_nat)
  then show "unat (addr - r_base r) + w \<le> unat (r_size r)" using fit by (simp add: word_le_nat_alt)
qed

lemma in_region_iff:
  assumes "r \<in> set REGIONS" "w \<le> 4"
  shows "in_region addr w r \<longleftrightarrow>
    unat (r_base r) \<le> unat addr \<and> unat addr + w \<le> unat (r_base r) + unat (r_size r)"
proof
  assume "in_region addr w r"
  then show "unat (r_base r) \<le> unat addr \<and> unat addr + w \<le> unat (r_base r) + unat (r_size r)"
    using in_region_span [of r addr w] assms by auto
next
  assume h: "unat (r_base r) \<le> unat addr \<and> unat addr + w \<le> unat (r_base r) + unat (r_size r)"
  then have b: "unat (addr - r_base r) = unat addr - unat (r_base r)" by (simp add: unat_sub word_le_nat_alt)
  then have "unat (addr - r_base r) + w < 4294967296"
    using h regions_placed [OF assms(1)] assms(2) unat_u32_less [of addr] by linarith
  then have "unat (addr - r_base r + of_nat w) = unat (addr - r_base r) + w"
    using assms(2) by (simp add: unat_word_ariths unat_of_nat)
  moreover have "unat (addr - r_base r) + w \<le> unat (r_size r)" using h b by linarith
  ultimately show "in_region addr w r" using h by (simp only: in_region_def word_le_nat_alt)
qed

lemma in_region_unique:
  assumes "r \<in> set REGIONS" "r' \<in> set REGIONS" "in_region addr w r" "in_region addr w r'" "0 < w" "w \<le> 4"
  shows "r = r'"
  using regions_apart [rule_format, OF assms(1, 2)] in_region_span [OF assms(1, 3, 6)]
    in_region_span [OF assms(2, 4, 6)] assms(5) by linarith

lemma find_region_ok:
  assumes "find_region addr w = Some r" "w \<le> 4"
  shows "region_ok r" "r \<in> set REGIONS" "in_region addr w r" "unat (addr - r_base r) + w \<le> unat (r_size r)"
proof -
  show r: "r \<in> set REGIONS" "in_region addr w r"
    using assms(1) by (auto simp: find_region_def find_Some_iff)
  show "region_ok r" using regions_ok r(1) by blast
  show "unat (addr - r_base r) + w \<le> unat (r_size r)" using in_region_span [OF r assms(2)] by simp
qed

text \<open>
  C20. The decoder of the memory map: \<open>find_region\<close> gives a row for an access of 1, 2 or 4 bytes
  exactly when the whole access lies in that row. No access lies in two rows, so the order of the
  table does not matter, and an access that straddles the end of a row finds nothing.
\<close>

theorem find_region_correct:
  assumes "w \<in> {1, 2, 4}"
  shows "find_region addr w = Some r \<longleftrightarrow>
    r \<in> set REGIONS \<and> unat (r_base r) \<le> unat addr \<and> unat addr + w \<le> unat (r_base r) + unat (r_size r)"
proof -
  have w: "0 < w" "w \<le> 4" using assms by auto
  have span: "in_region addr w q \<longleftrightarrow> unat (r_base q) \<le> unat addr \<and> unat addr + w \<le> unat (r_base q) + unat (r_size q)"
    if "q \<in> set REGIONS" for q
    using in_region_iff [OF that w(2)] .
  show ?thesis
  proof
    assume "find_region addr w = Some r"
    then show "r \<in> set REGIONS \<and> unat (r_base r) \<le> unat addr \<and> unat addr + w \<le> unat (r_base r) + unat (r_size r)"
      using find_region_ok [OF _ w(2)] span by blast
  next
    assume h: "r \<in> set REGIONS \<and> unat (r_base r) \<le> unat addr \<and> unat addr + w \<le> unat (r_base r) + unat (r_size r)"
    then have r: "r \<in> set REGIONS" "in_region addr w r" using span by auto
    then obtain q where q: "find_region addr w = Some q"
      by (cases "find_region addr w") (auto simp: find_region_def find_None_iff)
    then show "find_region addr w = Some r"
      using in_region_unique [OF r(1) find_region_ok(2) [OF q w(2)] r(2) find_region_ok(3) [OF q w(2)] w] by simp
  qed
qed

theorem find_region_correct_witness:
  "find_region 0x10000005 1 = Some (REGIONS ! 4) \<and> find_region 0x10000006 4 \<noteq> Some (REGIONS ! 4)"
  using find_region_correct [of 1 "0x10000005" "REGIONS ! 4"] find_region_correct [of 4 "0x10000006" "REGIONS ! 4"]
  by (simp add: REGIONS_def)

end
