(* ===== verification/Mmu.thy ===== *)
theory Mmu
  imports Bus
begin

text \<open>
  Memory protection and translation of \<open>tools/rv32emu_core.c\<close>: PMP, the Sv32 walk, and the data
  accesses \<open>load\<close>, \<open>store\<close> and \<open>amo\<close> over the bus.
\<close>

section \<open>PMP\<close>

abbreviation (input) PMP_R :: u32 where "PMP_R \<equiv> 0x01"
abbreviation (input) PMP_W :: u32 where "PMP_W \<equiv> 0x02"
abbreviation (input) PMP_X :: u32 where "PMP_X \<equiv> 0x04"
abbreviation (input) PMP_A :: u32 where "PMP_A \<equiv> 0x18"
abbreviation (input) PMP_TOR :: u32 where "PMP_TOR \<equiv> 0x08"
abbreviation (input) PMP_NA4 :: u32 where "PMP_NA4 \<equiv> 0x10"
abbreviation (input) PMP_NAPOT :: u32 where "PMP_NAPOT \<equiv> 0x18"
abbreviation (input) PMP_L :: u32 where "PMP_L \<equiv> 0x80"
abbreviation (input) PMP_ENTRIES :: u32 where "PMP_ENTRIES \<equiv> 8"

text \<open>Whether entry \<open>i\<close> is on and matches the word; an OFF entry matches nothing.\<close>

definition pmp_match :: "machine \<Rightarrow> u32 \<Rightarrow> u32 \<Rightarrow> bool" where
  "pmp_match m word i =
     (let cfg = ucast (m_pmpcfg m i) :: u32; at = m_pmpaddr m i; mode = cfg AND PMP_A in
      if mode = PMP_TOR then word \<ge> (if i \<noteq> 0 then m_pmpaddr m (i - 1) else 0) \<and> word < at
      else if mode = PMP_NA4 then word = at
      else if mode = PMP_NAPOT then (word XOR at) AND NOT (at XOR (at + 1)) = 0
      else False)"

fun pmp_scan :: "u32 \<Rightarrow> machine \<Rightarrow> u32 \<Rightarrow> u32 \<Rightarrow> u32 list \<Rightarrow> bool" where
  "pmp_scan priv m word need [] \<longleftrightarrow> priv = PRIV_M"
| "pmp_scan priv m word need (i # is) \<longleftrightarrow>
     (if pmp_match m word i then
        let cfg = ucast (m_pmpcfg m i) in
        (priv = PRIV_M \<and> cfg AND PMP_L = 0) \<or> cfg AND need = need
      else pmp_scan priv m word need is)"

definition pmp_allows :: "u32 \<Rightarrow> machine \<Rightarrow> u32 \<Rightarrow> u32 \<Rightarrow> bool" where
  "pmp_allows priv m addr need = pmp_scan priv m (drop_bit 2 addr) need [0, 1, 2, 3, 4, 5, 6, 7]"

section \<open>Sv32\<close>

abbreviation (input) MSTATUS_MPRV :: u32 where "MSTATUS_MPRV \<equiv> 0x20000"
abbreviation (input) MSTATUS_SUM :: u32 where "MSTATUS_SUM \<equiv> 0x40000"
abbreviation (input) MSTATUS_MXR :: u32 where "MSTATUS_MXR \<equiv> 0x80000"
abbreviation (input) SATP_MODE :: u32 where "SATP_MODE \<equiv> 0x80000000"
abbreviation (input) SATP_PPN :: u32 where "SATP_PPN \<equiv> 0x003fffff"
abbreviation (input) PTE_V :: u32 where "PTE_V \<equiv> 0x01"
abbreviation (input) PTE_R :: u32 where "PTE_R \<equiv> 0x02"
abbreviation (input) PTE_W :: u32 where "PTE_W \<equiv> 0x04"
abbreviation (input) PTE_X :: u32 where "PTE_X \<equiv> 0x08"
abbreviation (input) PTE_U :: u32 where "PTE_U \<equiv> 0x10"
abbreviation (input) PTE_A :: u32 where "PTE_A \<equiv> 0x40"
abbreviation (input) PTE_D :: u32 where "PTE_D \<equiv> 0x80"

definition data_priv :: "machine \<Rightarrow> u32" where
  "data_priv m =
     ucast (if m_priv m = PRIV_M \<and> m_mstatus m AND MSTATUS_MPRV \<noteq> 0 then m_mpp m else m_priv m)"

datatype walk_kind = WALK_FETCH | WALK_LOAD | WALK_STORE

text \<open>A leaf entry: its checks, in the order of the source, and the address it gives.\<close>

definition walk_leaf :: "machine \<Rightarrow> u32 \<Rightarrow> walk_kind \<Rightarrow> u32 \<Rightarrow> bool \<Rightarrow> u32 \<Rightarrow> u32 mem_access" where
  "walk_leaf m va kind priv level pte =
     (let ppn = drop_bit 10 pte; user = (pte AND PTE_U \<noteq> 0);
          allowed = (case kind of
                       WALK_FETCH \<Rightarrow> pte AND PTE_X \<noteq> 0
                     | WALK_STORE \<Rightarrow> pte AND PTE_W \<noteq> 0
                     | WALK_LOAD \<Rightarrow> pte AND PTE_R \<noteq> 0 \<or> (m_mstatus m AND MSTATUS_MXR \<noteq> 0 \<and> pte AND PTE_X \<noteq> 0));
          address = (if level then push_bit 22 (ucast (drop_bit 10 ppn)) OR ucast (va AND 0x3fffff)
                     else push_bit 12 (ucast ppn) OR ucast (va AND 0xfff)) :: u64
      in
      if level \<and> ppn AND 0x3ff \<noteq> 0 then Inl ACC_PAGE_FAULT
      else if (if priv = PRIV_U then \<not> user
               else user \<and> (kind = WALK_FETCH \<or> m_mstatus m AND MSTATUS_SUM = 0))
        then Inl ACC_PAGE_FAULT
      else if \<not> allowed \<or> pte AND PTE_A = 0 \<or> (kind = WALK_STORE \<and> pte AND PTE_D = 0)
        then Inl ACC_PAGE_FAULT
      else if drop_bit 32 address \<noteq> 0 then Inl ACC_FAULT
      else Inr (ucast address))"

text \<open>The loop over the two levels; \<open>level\<close> true is level 1.\<close>

function walk :: "machine \<Rightarrow> u32 \<Rightarrow> walk_kind \<Rightarrow> u32 \<Rightarrow> bool \<Rightarrow> u64 \<Rightarrow> u32 mem_access" where
  "walk m va kind priv level table =
     (let at = table + ucast (4 * (drop_bit (if level then 22 else 12) va AND 0x3ff)) in
      if drop_bit 32 at \<noteq> 0 \<or> \<not> in_ram (ucast at) 4 \<or> \<not> pmp_allows PRIV_S m (ucast at) PMP_R
        then Inl ACC_FAULT
      else
        let pte = ram_read m (ucast at) 4 in
        if pte AND PTE_V = 0 \<or> (pte AND PTE_R = 0 \<and> pte AND PTE_W \<noteq> 0) then Inl ACC_PAGE_FAULT
        else if pte AND (PTE_R OR PTE_X) = 0 then
          (if \<not> level \<or> pte AND (PTE_D OR PTE_A OR PTE_U) \<noteq> 0 then Inl ACC_PAGE_FAULT
           else walk m va kind priv False (push_bit 12 (ucast (drop_bit 10 pte))))
        else walk_leaf m va kind priv level pte)"
  by pat_completeness auto
termination walk
  by (relation "measure (\<lambda>(m, va, kind, priv, level, table). if level then 1 else 0)") auto

declare walk.simps [simp del]

definition translate :: "machine \<Rightarrow> u32 \<Rightarrow> walk_kind \<Rightarrow> u32 \<Rightarrow> u32 mem_access" where
  "translate m va kind priv =
     (if m_satp m AND SATP_MODE = 0 \<or> priv = PRIV_M then Inr va
      else walk m va kind priv True (push_bit 12 (ucast (m_satp m AND SATP_PPN))))"

section \<open>Data accesses\<close>

text \<open>A load gives the value and the physical address (the source's \<open>pa\<close>, which only LR.W uses).\<close>

definition load :: "machine \<Rightarrow> u32 \<Rightarrow> nat \<Rightarrow> (u32 \<times> u32) mem_access \<times> machine" where
  "load m va width =
     (let priv = data_priv m in
      if va mod of_nat width \<noteq> 0 then (Inl ACC_MISALIGNED, m)
      else case translate m va WALK_LOAD priv of
        Inl fault \<Rightarrow> (Inl fault, m)
      | Inr addr \<Rightarrow>
          if \<not> pmp_allows priv m addr PMP_R then (Inl ACC_FAULT, m)
          else (case find_region addr width of
            None \<Rightarrow> (Inl ACC_FAULT, m)
          | Some r \<Rightarrow>
              (case r_load r of
                 None \<Rightarrow> (Inl ACC_FAULT, m)
               | Some handler \<Rightarrow>
                   (case handler m (addr - r_base r) width of
                      (Inl fault, m') \<Rightarrow> (Inl fault, m')
                    | (Inr value, m') \<Rightarrow> (Inr (value, addr), m')))))"

definition store :: "machine \<Rightarrow> u32 \<Rightarrow> nat \<Rightarrow> u32 \<Rightarrow> (unit mem_access \<times> machine) option" where
  "store m va width value =
     (let priv = data_priv m in
      if va mod of_nat width \<noteq> 0 then Some (Inl ACC_MISALIGNED, m)
      else case translate m va WALK_STORE priv of
        Inl fault \<Rightarrow> Some (Inl fault, m)
      | Inr addr \<Rightarrow>
          if \<not> pmp_allows priv m addr PMP_W then Some (Inl ACC_FAULT, m)
          else (case find_region addr width of
            None \<Rightarrow> Some (Inl ACC_FAULT, m)
          | Some r \<Rightarrow>
              (case r_store r of
                 None \<Rightarrow> Some (Inl ACC_FAULT, m)
               | Some handler \<Rightarrow> handler m (addr - r_base r) width value)))"

section \<open>Causes\<close>

abbreviation (input) CAUSE_FETCH_MISALIGNED :: u32 where "CAUSE_FETCH_MISALIGNED \<equiv> 0"
abbreviation (input) CAUSE_FETCH_FAULT :: u32 where "CAUSE_FETCH_FAULT \<equiv> 1"
abbreviation (input) CAUSE_ILLEGAL :: u32 where "CAUSE_ILLEGAL \<equiv> 2"
abbreviation (input) CAUSE_BREAKPOINT :: u32 where "CAUSE_BREAKPOINT \<equiv> 3"
abbreviation (input) CAUSE_LOAD_MISALIGNED :: u32 where "CAUSE_LOAD_MISALIGNED \<equiv> 4"
abbreviation (input) CAUSE_LOAD_FAULT :: u32 where "CAUSE_LOAD_FAULT \<equiv> 5"
abbreviation (input) CAUSE_STORE_MISALIGNED :: u32 where "CAUSE_STORE_MISALIGNED \<equiv> 6"
abbreviation (input) CAUSE_STORE_FAULT :: u32 where "CAUSE_STORE_FAULT \<equiv> 7"
abbreviation (input) CAUSE_ECALL_U :: u32 where "CAUSE_ECALL_U \<equiv> 8"
abbreviation (input) CAUSE_ECALL_S :: u32 where "CAUSE_ECALL_S \<equiv> 9"
abbreviation (input) CAUSE_ECALL_M :: u32 where "CAUSE_ECALL_M \<equiv> 11"
abbreviation (input) CAUSE_FETCH_PAGE_FAULT :: u32 where "CAUSE_FETCH_PAGE_FAULT \<equiv> 12"
abbreviation (input) CAUSE_LOAD_PAGE_FAULT :: u32 where "CAUSE_LOAD_PAGE_FAULT \<equiv> 13"
abbreviation (input) CAUSE_STORE_PAGE_FAULT :: u32 where "CAUSE_STORE_PAGE_FAULT \<equiv> 15"

fun load_cause :: "mem_fault \<Rightarrow> u32" where
  "load_cause ACC_MISALIGNED = CAUSE_LOAD_MISALIGNED"
| "load_cause ACC_PAGE_FAULT = CAUSE_LOAD_PAGE_FAULT"
| "load_cause ACC_FAULT = CAUSE_LOAD_FAULT"

fun store_cause :: "mem_fault \<Rightarrow> u32" where
  "store_cause ACC_MISALIGNED = CAUSE_STORE_MISALIGNED"
| "store_cause ACC_PAGE_FAULT = CAUSE_STORE_PAGE_FAULT"
| "store_cause ACC_FAULT = CAUSE_STORE_FAULT"

section \<open>The A extension\<close>

abbreviation (input) AMO_ADD :: u32 where "AMO_ADD \<equiv> 0x00"
abbreviation (input) AMO_SWAP :: u32 where "AMO_SWAP \<equiv> 0x01"
abbreviation (input) AMO_LR :: u32 where "AMO_LR \<equiv> 0x02"
abbreviation (input) AMO_SC :: u32 where "AMO_SC \<equiv> 0x03"
abbreviation (input) AMO_XOR :: u32 where "AMO_XOR \<equiv> 0x04"
abbreviation (input) AMO_OR :: u32 where "AMO_OR \<equiv> 0x08"
abbreviation (input) AMO_AND :: u32 where "AMO_AND \<equiv> 0x0c"
abbreviation (input) AMO_MIN :: u32 where "AMO_MIN \<equiv> 0x10"
abbreviation (input) AMO_MAX :: u32 where "AMO_MAX \<equiv> 0x14"
abbreviation (input) AMO_MINU :: u32 where "AMO_MINU \<equiv> 0x18"
abbreviation (input) AMO_MAXU :: u32 where "AMO_MAXU \<equiv> 0x1c"

definition amo_valid :: "u32 \<Rightarrow> u32 \<Rightarrow> bool" where
  "amo_valid funct5 rs2 =
     (if funct5 = AMO_LR then rs2 = 0
      else funct5 \<in> {AMO_ADD, AMO_SWAP, AMO_SC, AMO_XOR, AMO_OR, AMO_AND, AMO_MIN, AMO_MAX, AMO_MINU, AMO_MAXU})"

text \<open>The value an AMO writes; \<open>None\<close> is the \<open>abort()\<close> for another \<open>funct5\<close>.\<close>

definition amo_value :: "u32 \<Rightarrow> u32 \<Rightarrow> u32 \<Rightarrow> u32 option" where
  "amo_value funct5 old operand =
     (if funct5 = AMO_SWAP then Some operand
      else if funct5 = AMO_ADD then Some (old + operand)
      else if funct5 = AMO_XOR then Some (old XOR operand)
      else if funct5 = AMO_AND then Some (old AND operand)
      else if funct5 = AMO_OR then Some (old OR operand)
      else if funct5 = AMO_MIN then Some (if sint old < sint operand then old else operand)
      else if funct5 = AMO_MAX then Some (if sint old > sint operand then old else operand)
      else if funct5 = AMO_MINU then Some (if old < operand then old else operand)
      else if funct5 = AMO_MAXU then Some (if old > operand then old else operand)
      else None)"

text \<open>The read and the write of an AMO; the result carries the old and the new word.\<close>

definition amo ::
  "machine \<Rightarrow> u32 \<Rightarrow> u32 \<Rightarrow> u32 \<Rightarrow> ((u32 \<times> u32) mem_access \<times> machine) option" where
  "amo m va funct5 operand =
     (let priv = data_priv m in
      if va mod 4 \<noteq> 0 then Some (Inl ACC_MISALIGNED, m)
      else case translate m va WALK_STORE priv of
        Inl fault \<Rightarrow> Some (Inl fault, m)
      | Inr addr \<Rightarrow>
          if \<not> pmp_allows priv m addr (PMP_R OR PMP_W) then Some (Inl ACC_FAULT, m)
          else (case find_region addr 4 of
            None \<Rightarrow> Some (Inl ACC_FAULT, m)
          | Some r \<Rightarrow>
              (case r_load r of
                 None \<Rightarrow> Some (Inl ACC_FAULT, m)
               | Some loader \<Rightarrow>
                   (case loader m (addr - r_base r) 4 of
                      (Inl fault, m') \<Rightarrow> Some (Inl fault, m')
                    | (Inr old, m') \<Rightarrow>
                        (case amo_value funct5 old operand of
                           None \<Rightarrow> None
                         | Some value \<Rightarrow>
                             (case r_store r of
                                None \<Rightarrow> Some (Inl ACC_FAULT, m')
                              | Some storer \<Rightarrow>
                                  (case storer m' (addr - r_base r) 4 value of
                                     None \<Rightarrow> None
                                   | Some (Inl fault, m'') \<Rightarrow> Some (Inl fault, m'')
                                   | Some (Inr _, m'') \<Rightarrow> Some (Inr (old, value), m''))))))))"

section \<open>What an access keeps\<close>

lemma region_load_window: "region_ok r \<Longrightarrow> r_load r = Some ld \<Longrightarrow> load_window ld"
  by (simp add: region_ok_def)

lemma region_store_window:
  assumes "region_ok r" "r_store r = Some st"
  obtains ld where "r_load r = Some ld" "device_window ld st (r_size r)"
  using assms by (auto simp: region_ok_def)

text \<open>A load is refused with the machine unchanged, or a handler of the map answers it.\<close>

lemma load_cases:
  assumes "load m va w = (r, m')"
  obtains (refused) f where "r = Inl f" "m' = m"
  | (handled) addr q ld r' where "find_region addr w = Some q" "r_load q = Some ld"
      "ld m (addr - r_base q) w = (r', m')" "\<And>f. r = Inl f \<Longrightarrow> r' = Inl f"
  using assms unfolding load_def Let_def
  by (auto split: if_splits sum.splits option.splits prod.splits)

lemma store_cases:
  assumes "store m va w v = Some (r, m')"
  obtains (refused) f where "r = Inl f" "m' = m"
  | (handled) addr q st where "find_region addr w = Some q" "r_store q = Some st"
      "st m (addr - r_base q) w v = Some (r, m')"
  using assms unfolding store_def Let_def
  by (auto split: if_splits sum.splits option.splits)

lemma load_effect:
  assumes "load m va w = (r, m')" "w \<le> 4"
  shows "cpu_kept m m' \<and> (device_inv m \<longrightarrow> device_inv m') \<and> arrays_kept m m' \<and> (\<forall>f. r = Inl f \<longrightarrow> m' = m)"
  using assms(1)
proof (cases rule: load_cases)
  case (handled addr q ld r')
  note l = region_load_window [OF find_region_ok(1) [OF handled(1) assms(2)] handled(2)]
  show "cpu_kept m m' \<and> (device_inv m \<longrightarrow> device_inv m') \<and> arrays_kept m m' \<and> (\<forall>f. r = Inl f \<longrightarrow> m' = m)"
    using load_window.ld_kept [OF l handled(3)] load_window.ld_inv [OF l handled(3)]
      load_window.ld_arrays [OF l handled(3)] load_window.ld_fault [OF l] handled by auto
qed simp_all

lemma store_effect:
  assumes "store m va w v = Some (r, m')" "w \<le> 4" "device_inv m"
  shows "cpu_kept m m' \<and> device_inv m' \<and> arrays_kept m m' \<and> (\<forall>f. r = Inl f \<longrightarrow> m' = m)"
  using assms(1)
proof (cases rule: store_cases)
  case (handled addr q st)
  obtain ld where l: "device_window ld st (r_size q)"
    using region_store_window [OF find_region_ok(1) [OF handled(1) assms(2)] handled(2)] by blast
  show "cpu_kept m m' \<and> device_inv m' \<and> arrays_kept m m' \<and> (\<forall>f. r = Inl f \<longrightarrow> m' = m)"
    using device_window.st_kept [OF l handled(3)] device_window.st_inv [OF l handled(3)]
      device_window.st_arrays [OF l handled(3)] device_window.st_fault [OF l] handled
      find_region_ok(4) [OF handled(1) assms(2)] assms(3) by auto
qed (use assms in simp_all)

lemma amo_cases:
  assumes "amo m va funct5 operand = Some (r, m')"
  obtains (refused) f where "r = Inl f" "m' = m"
  | (read) addr q ld r' f where "find_region addr 4 = Some q" "r_load q = Some ld"
      "ld m (addr - r_base q) 4 = (r', m')" "r = Inl f"
  | (written) addr q ld st old m1 v r' where "find_region addr 4 = Some q" "r_load q = Some ld" "r_store q = Some st"
      "ld m (addr - r_base q) 4 = (Inr old, m1)" "st m1 (addr - r_base q) 4 v = Some (r', m')"
  using assms unfolding amo_def Let_def
  by (auto split: if_splits sum.splits option.splits prod.splits)

lemma amo_effect:
  assumes "amo m va funct5 operand = Some (r, m')" "device_inv m"
  shows "cpu_kept m m' \<and> device_inv m' \<and> arrays_kept m m'"
  using assms(1)
proof (cases rule: amo_cases)
  case refused
  then show "cpu_kept m m' \<and> device_inv m' \<and> arrays_kept m m'" using assms(2) by simp_all
next
  case (read addr q ld r' f)
  note l = region_load_window [OF find_region_ok(1) [OF read(1) order_refl] read(2)]
  show "cpu_kept m m' \<and> device_inv m' \<and> arrays_kept m m'"
    using load_window.ld_kept [OF l read(3)] load_window.ld_inv [OF l read(3)]
      load_window.ld_arrays [OF l read(3)] assms(2) by simp_all
next
  case (written addr q ld st old m1 v r')
  obtain ld' where "r_load q = Some ld'" "device_window ld' st (r_size q)"
    using region_store_window [OF find_region_ok(1) [OF written(1) order_refl] written(3)] by auto
  then have l: "device_window ld st (r_size q)" using written(2) by simp
  show "cpu_kept m m' \<and> device_inv m' \<and> arrays_kept m m'"
    using device_window.rmw_kept [OF l written(4, 5)] device_window.rmw_inv [OF l written(4, 5)]
      device_window.rmw_arrays [OF l written(4, 5)] find_region_ok(4) [OF written(1) order_refl] assms(2) by simp_all
qed

end
