(* ===== verification/Trap.thy ===== *)
theory Trap
  imports Mmu
begin

text \<open>
  Trap entry, the device tick of the accelerators, exceptions and interrupts, the CSR file and the
  privilege checks on it, of \<open>tools/rv32emu_core.c\<close>.
\<close>

section \<open>Constants\<close>

abbreviation (input) MSTATUS_SIE :: u32 where "MSTATUS_SIE \<equiv> 0x2"
abbreviation (input) MSTATUS_MIE :: u32 where "MSTATUS_MIE \<equiv> 0x8"
abbreviation (input) MSTATUS_SPIE :: u32 where "MSTATUS_SPIE \<equiv> 0x20"
abbreviation (input) MSTATUS_MPIE :: u32 where "MSTATUS_MPIE \<equiv> 0x80"
abbreviation (input) MSTATUS_SPP :: u32 where "MSTATUS_SPP \<equiv> 0x100"
abbreviation (input) MSTATUS_TVM :: u32 where "MSTATUS_TVM \<equiv> 0x100000"
abbreviation (input) MSTATUS_TW :: u32 where "MSTATUS_TW \<equiv> 0x200000"
abbreviation (input) MSTATUS_TSR :: u32 where "MSTATUS_TSR \<equiv> 0x400000"
abbreviation (input) MSTATUS_SD :: u32 where "MSTATUS_SD \<equiv> 0x80000000"
abbreviation (input) MSTATUS_WRITABLE :: u32 where "MSTATUS_WRITABLE \<equiv> 0x7e61aa"
abbreviation (input) MSTATUS_MPP :: u32 where "MSTATUS_MPP \<equiv> 0x1800"
abbreviation (input) SSTATUS_MASK :: u32 where "SSTATUS_MASK \<equiv> 0x800c6122"
abbreviation (input) MEDELEG_MASK :: u32 where "MEDELEG_MASK \<equiv> 0xb3ff"
abbreviation (input) MISA_VALUE :: u32 where "MISA_VALUE \<equiv> 0x40141121"

section \<open>Trap entry\<close>

definition delegated :: "machine \<Rightarrow> u32 \<Rightarrow> bool" where
  "delegated m cause \<longleftrightarrow>
     m_priv m \<noteq> PRIV_M \<and>
     drop_bit (unat (cause AND 31)) (if cause AND INTERRUPT \<noteq> 0 then m_mideleg m else m_medeleg m) AND 1 \<noteq> 0"

definition enter_handler :: "machine \<Rightarrow> u32 \<Rightarrow> u32 \<Rightarrow> machine" where
  "enter_handler m cause tval =
     (let m = m\<lparr>m_reserved := False\<rparr> in
      if delegated m cause then
        m\<lparr>m_sepc := m_pc m, m_scause := cause, m_stval := tval,
          m_mstatus := (m_mstatus m AND NOT (MSTATUS_SIE OR MSTATUS_SPIE OR MSTATUS_SPP)) OR
                       (if m_mstatus m AND MSTATUS_SIE \<noteq> 0 then MSTATUS_SPIE else 0) OR
                       (if m_priv m = PRIV_S then MSTATUS_SPP else 0),
          m_priv := PRIV_S, m_pc := m_stvec m\<rparr>
      else
        m\<lparr>m_mepc := m_pc m, m_mcause := cause, m_mtval := tval,
          m_mstatus := (m_mstatus m AND NOT (MSTATUS_MIE OR MSTATUS_MPIE)) OR
                       (if m_mstatus m AND MSTATUS_MIE \<noteq> 0 then MSTATUS_MPIE else 0),
          m_mpp := m_priv m, m_priv := PRIV_M, m_pc := m_mtvec m\<rparr>)"

text \<open>The three engines' ticks, then the reports of their writes to the LR.W reservation.\<close>

definition tick_engines :: "machine \<Rightarrow> machine" where
  "tick_engines m =
     (let m = m\<lparr>m_simd := simd_tick (m_simd m) False\<rparr>;
          (g, fb) = gpu_tick (m_gpu m) (m_ram m) RAM_SIZE (m_fb m) False (m_dma_start m) (m_dma_end m);
          m = m\<lparr>m_gpu := g, m_fb := fb\<rparr>;
          (d, ram, fb) = g3d_tick (m_g3d m) (m_ram m) RAM_SIZE (m_fb m) False (m_dma_start m) (m_dma_end m)
      in m\<lparr>m_g3d := d, m_ram := ram, m_fb := fb\<rparr>)"

definition report_g3d_ram :: "machine \<Rightarrow> machine" where
  "report_g3d_ram m =
     (if g3d_ram_written (m_g3d m) then
        (let m = snoop_device_write m (RAM_BASE + g3d_ram_written_at (m_g3d m)) in
         m\<lparr>m_g3d := (m_g3d m)\<lparr>g3d_ram_written := False\<rparr>\<rparr>)
      else m)"

definition report_g3d_fb :: "machine \<Rightarrow> machine" where
  "report_g3d_fb m =
     (if g3d_fb_written (m_g3d m) then
        (let m = snoop_device_write m (FB_BASE + g3d_fb_written_at (m_g3d m)) in
         m\<lparr>m_g3d := (m_g3d m)\<lparr>g3d_fb_written := False\<rparr>\<rparr>)
      else m)"

definition report_gpu_fb :: "machine \<Rightarrow> machine" where
  "report_gpu_fb m =
     (if gpu_fb_written (m_gpu m) then
        (let m = snoop_device_write m (FB_BASE + gpu_fb_written_at (m_gpu m)) in
         m\<lparr>m_gpu := (m_gpu m)\<lparr>gpu_fb_written := False\<rparr>\<rparr>)
      else m)"

definition tick_accelerators :: "machine \<Rightarrow> machine" where
  "tick_accelerators m = report_gpu_fb (report_g3d_fb (report_g3d_ram (tick_engines m)))"

definition trace_out :: "machine \<Rightarrow> trace_line \<Rightarrow> machine" where
  "trace_out m line =
     (case m_trace m of None \<Rightarrow> m | Some lines \<Rightarrow> m\<lparr>m_trace := Some (lines @ [line])\<rparr>)"

definition trap :: "machine \<Rightarrow> u32 \<Rightarrow> u32 \<Rightarrow> u32 \<Rightarrow> machine" where
  "trap m word cause tval =
     (let m = tick_accelerators m;
          m = m\<lparr>m_steps := m_steps m + 1\<rparr>;
          m = trace_out m (T_TRAP (m_steps m) (m_pc m) word cause tval)
      in
      if m_in_trap m then
        m\<lparr>m_halt := HALT_DOUBLE_FAULT, m_second_cause := cause, m_second_tval := tval\<rparr>
      else enter_handler (m\<lparr>m_in_trap := True, m_traps := m_traps m + 1\<rparr>) cause tval)"

definition take_interrupt :: "machine \<Rightarrow> u32 \<Rightarrow> machine" where
  "take_interrupt m code =
     (let m = tick_accelerators m;
          m = m\<lparr>m_steps := m_steps m + 1\<rparr>;
          m = trace_out m (T_INTERRUPT (m_steps m) (m_pc m) code)
      in
      if m_in_trap m then
        m\<lparr>m_halt := HALT_DOUBLE_FAULT, m_second_cause := INTERRUPT OR code, m_second_tval := 0\<rparr>
      else enter_handler (m\<lparr>m_in_trap := True, m_interrupts := m_interrupts m + 1\<rparr>) (INTERRUPT OR code) 0)"

section \<open>CSRs\<close>

abbreviation (input) CSR_FFLAGS :: u32 where "CSR_FFLAGS \<equiv> 0x001"
abbreviation (input) CSR_FRM :: u32 where "CSR_FRM \<equiv> 0x002"
abbreviation (input) CSR_FCSR :: u32 where "CSR_FCSR \<equiv> 0x003"
abbreviation (input) CSR_SSTATUS :: u32 where "CSR_SSTATUS \<equiv> 0x100"
abbreviation (input) CSR_SIE :: u32 where "CSR_SIE \<equiv> 0x104"
abbreviation (input) CSR_STVEC :: u32 where "CSR_STVEC \<equiv> 0x105"
abbreviation (input) CSR_SCOUNTEREN :: u32 where "CSR_SCOUNTEREN \<equiv> 0x106"
abbreviation (input) CSR_SSCRATCH :: u32 where "CSR_SSCRATCH \<equiv> 0x140"
abbreviation (input) CSR_SEPC :: u32 where "CSR_SEPC \<equiv> 0x141"
abbreviation (input) CSR_SCAUSE :: u32 where "CSR_SCAUSE \<equiv> 0x142"
abbreviation (input) CSR_STVAL :: u32 where "CSR_STVAL \<equiv> 0x143"
abbreviation (input) CSR_SIP :: u32 where "CSR_SIP \<equiv> 0x144"
abbreviation (input) CSR_SATP :: u32 where "CSR_SATP \<equiv> 0x180"
abbreviation (input) CSR_MSTATUS :: u32 where "CSR_MSTATUS \<equiv> 0x300"
abbreviation (input) CSR_MISA :: u32 where "CSR_MISA \<equiv> 0x301"
abbreviation (input) CSR_MEDELEG :: u32 where "CSR_MEDELEG \<equiv> 0x302"
abbreviation (input) CSR_MIDELEG :: u32 where "CSR_MIDELEG \<equiv> 0x303"
abbreviation (input) CSR_MIE :: u32 where "CSR_MIE \<equiv> 0x304"
abbreviation (input) CSR_MTVEC :: u32 where "CSR_MTVEC \<equiv> 0x305"
abbreviation (input) CSR_MCOUNTEREN :: u32 where "CSR_MCOUNTEREN \<equiv> 0x306"
abbreviation (input) CSR_MSCRATCH :: u32 where "CSR_MSCRATCH \<equiv> 0x340"
abbreviation (input) CSR_MEPC :: u32 where "CSR_MEPC \<equiv> 0x341"
abbreviation (input) CSR_MCAUSE :: u32 where "CSR_MCAUSE \<equiv> 0x342"
abbreviation (input) CSR_MTVAL :: u32 where "CSR_MTVAL \<equiv> 0x343"
abbreviation (input) CSR_MIP :: u32 where "CSR_MIP \<equiv> 0x344"
abbreviation (input) CSR_PMPCFG0 :: u32 where "CSR_PMPCFG0 \<equiv> 0x3a0"
abbreviation (input) CSR_PMPCFG1 :: u32 where "CSR_PMPCFG1 \<equiv> 0x3a1"
abbreviation (input) CSR_PMPADDR0 :: u32 where "CSR_PMPADDR0 \<equiv> 0x3b0"
abbreviation (input) CSR_PMPADDR7 :: u32 where "CSR_PMPADDR7 \<equiv> 0x3b7"
abbreviation (input) CSR_CYCLE :: u32 where "CSR_CYCLE \<equiv> 0xc00"
abbreviation (input) CSR_TIME :: u32 where "CSR_TIME \<equiv> 0xc01"
abbreviation (input) CSR_INSTRET :: u32 where "CSR_INSTRET \<equiv> 0xc02"
abbreviation (input) CSR_CYCLEH :: u32 where "CSR_CYCLEH \<equiv> 0xc80"
abbreviation (input) CSR_TIMEH :: u32 where "CSR_TIMEH \<equiv> 0xc81"
abbreviation (input) CSR_INSTRETH :: u32 where "CSR_INSTRETH \<equiv> 0xc82"
abbreviation (input) CSR_MVENDORID :: u32 where "CSR_MVENDORID \<equiv> 0xf11"
abbreviation (input) CSR_MARCHID :: u32 where "CSR_MARCHID \<equiv> 0xf12"
abbreviation (input) CSR_MIMPID :: u32 where "CSR_MIMPID \<equiv> 0xf13"
abbreviation (input) CSR_MHARTID :: u32 where "CSR_MHARTID \<equiv> 0xf14"

definition mstatus_value :: "machine \<Rightarrow> u32" where
  "mstatus_value m =
     (let value = m_mstatus m OR push_bit 11 (ucast (m_mpp m)) in
      if value AND MSTATUS_FS = MSTATUS_FS then value OR MSTATUS_SD else value)"

definition fs_off :: "machine \<Rightarrow> bool" where
  "fs_off m \<longleftrightarrow> m_mstatus m AND MSTATUS_FS = 0"

definition floating_instruction :: "u32 \<Rightarrow> bool" where
  "floating_instruction word =
     (let opcode = word AND 0x7f; funct3 = drop_bit 12 word AND 7; csr = drop_bit 20 word in
      opcode = 0x07 \<or> opcode = 0x27 \<or> opcode = 0x43 \<or> opcode = 0x47 \<or> opcode = 0x4b \<or>
      opcode = 0x4f \<or> opcode = 0x53 \<or> (opcode = 0x73 \<and> funct3 AND 3 \<noteq> 0 \<and> csr \<ge> 1 \<and> csr \<le> 3))"

definition pmpcfg_word :: "machine \<Rightarrow> u32 \<Rightarrow> u32" where
  "pmpcfg_word m c =
     ucast (m_pmpcfg m c) OR push_bit 8 (ucast (m_pmpcfg m (c + 1))) OR
     push_bit 16 (ucast (m_pmpcfg m (c + 2))) OR push_bit 24 (ucast (m_pmpcfg m (c + 3)))"

definition csr_read :: "machine \<Rightarrow> u32 \<Rightarrow> u32 option" where
  "csr_read m number =
     (if number = CSR_FFLAGS then Some (ucast (m_fcsr m) AND 31)
      else if number = CSR_FRM then Some (ucast (drop_bit 5 (m_fcsr m)))
      else if number = CSR_FCSR then Some (ucast (m_fcsr m))
      else if number = CSR_MSTATUS then Some (mstatus_value m)
      else if number = CSR_SSTATUS then Some (mstatus_value m AND SSTATUS_MASK)
      else if number = CSR_MEDELEG then Some (m_medeleg m)
      else if number = CSR_MIDELEG then Some (m_mideleg m)
      else if number = CSR_SIE then Some (m_mie m AND m_mideleg m)
      else if number = CSR_SIP then Some (mip_now m AND m_mideleg m)
      else if number = CSR_STVEC then Some (m_stvec m)
      else if number = CSR_SCOUNTEREN then Some (m_scounteren m)
      else if number = CSR_SSCRATCH then Some (m_sscratch m)
      else if number = CSR_SEPC then Some (m_sepc m)
      else if number = CSR_SCAUSE then Some (m_scause m)
      else if number = CSR_STVAL then Some (m_stval m)
      else if number = CSR_SATP then Some (m_satp m)
      else if number = CSR_MCOUNTEREN then Some (m_mcounteren m)
      else if number = CSR_MISA then Some MISA_VALUE
      else if number = CSR_MVENDORID \<or> number = CSR_MARCHID \<or> number = CSR_MIMPID \<or> number = CSR_MHARTID
        then Some 0
      else if number = CSR_PMPCFG0 \<or> number = CSR_PMPCFG1 then Some (pmpcfg_word m (4 * (number - CSR_PMPCFG0)))
      else if number = CSR_MIE then Some (m_mie m)
      else if number = CSR_MIP then Some (mip_now m)
      else if number = CSR_MSCRATCH then Some (m_mscratch m)
      else if number = CSR_MTVEC then Some (m_mtvec m)
      else if number = CSR_MEPC then Some (m_mepc m)
      else if number = CSR_MCAUSE then Some (m_mcause m)
      else if number = CSR_MTVAL then Some (m_mtval m)
      else if number = CSR_CYCLE then Some (ucast (m_steps m))
      else if number = CSR_CYCLEH then Some (ucast (drop_bit 32 (m_steps m)))
      else if number = CSR_TIME then Some (ucast (mtime_now m))
      else if number = CSR_TIMEH then Some (ucast (drop_bit 32 (mtime_now m)))
      else if number = CSR_INSTRET then Some (ucast (m_retired m))
      else if number = CSR_INSTRETH then Some (ucast (drop_bit 32 (m_retired m)))
      else if number \<ge> CSR_PMPADDR0 \<and> number \<le> CSR_PMPADDR7 then Some (m_pmpaddr m (number - CSR_PMPADDR0))
      else None)"

definition csr_read_only :: "u32 \<Rightarrow> bool" where
  "csr_read_only number \<longleftrightarrow> drop_bit 10 number = 3"

text \<open>One byte of a \<open>pmpcfg\<close> write: a locked entry ignores it, and W without R is stored as neither.\<close>

definition pmpcfg_byte :: "u32 \<Rightarrow> u32 \<Rightarrow> nat \<Rightarrow> (u32 \<Rightarrow> u8) \<Rightarrow> (u32 \<Rightarrow> u8)" where
  "pmpcfg_byte number value k cfgs =
     (let i = 4 * (number - CSR_PMPCFG0) + of_nat k; cfg = drop_bit (8 * k) value AND 0x9f in
      if ucast (cfgs i) AND PMP_L \<noteq> 0 then cfgs
      else
        let cfg = (if cfg AND PMP_W \<noteq> 0 \<and> cfg AND PMP_R = 0 then cfg AND NOT PMP_W else cfg)
        in cfgs(i := ucast cfg))"

definition pmpaddr_locked :: "machine \<Rightarrow> u32 \<Rightarrow> bool" where
  "pmpaddr_locked m i \<longleftrightarrow>
     ucast (m_pmpcfg m i) AND PMP_L \<noteq> 0 \<or>
     (i + 1 < PMP_ENTRIES \<and> ucast (m_pmpcfg m (i + 1)) AND (PMP_L OR PMP_A) = PMP_L OR PMP_TOR)"

definition csr_write :: "machine \<Rightarrow> u32 \<Rightarrow> u32 \<Rightarrow> machine" where
  "csr_write m number value =
     (if number = CSR_FFLAGS then
        m\<lparr>m_fcsr := (m_fcsr m AND 0xe0) OR ucast (value AND 31), m_wr_fcsr := True\<rparr>
      else if number = CSR_FRM then
        m\<lparr>m_fcsr := (m_fcsr m AND 31) OR ucast (push_bit 5 (value AND 7)), m_wr_fcsr := True\<rparr>
      else if number = CSR_FCSR then m\<lparr>m_fcsr := ucast (value AND 255), m_wr_fcsr := True\<rparr>
      else if number = CSR_MSTATUS then
        (let mpp = drop_bit 11 (value AND MSTATUS_MPP) in
         m\<lparr>m_mstatus := value AND MSTATUS_WRITABLE, m_mpp := (if mpp = 2 then PRIV_U else ucast mpp)\<rparr>)
      else if number = CSR_SSTATUS then
        m\<lparr>m_mstatus := (m_mstatus m AND NOT SSTATUS_MASK) OR (value AND SSTATUS_MASK AND MSTATUS_WRITABLE)\<rparr>
      else if number = CSR_MEDELEG then m\<lparr>m_medeleg := value AND MEDELEG_MASK\<rparr>
      else if number = CSR_MIDELEG then m\<lparr>m_mideleg := value AND S_INTERRUPTS\<rparr>
      else if number = CSR_SIE then
        m\<lparr>m_mie := (m_mie m AND NOT (m_mideleg m)) OR (value AND m_mideleg m)\<rparr>
      else if number = CSR_SIP then
        (let ssip = m_mideleg m AND push_bit IRQ_SSI 1 in
         m\<lparr>m_mip_soft := (m_mip_soft m AND NOT ssip) OR (value AND ssip)\<rparr>)
      else if number = CSR_STVEC then m\<lparr>m_stvec := value AND NOT 3\<rparr>
      else if number = CSR_SCOUNTEREN then m\<lparr>m_scounteren := value AND 7\<rparr>
      else if number = CSR_SSCRATCH then m\<lparr>m_sscratch := value\<rparr>
      else if number = CSR_SEPC then m\<lparr>m_sepc := value AND NOT 3\<rparr>
      else if number = CSR_SCAUSE then m\<lparr>m_scause := value\<rparr>
      else if number = CSR_STVAL then m\<lparr>m_stval := value\<rparr>
      else if number = CSR_SATP then m\<lparr>m_satp := value AND (SATP_MODE OR SATP_PPN), m_reserved := False\<rparr>
      else if number = CSR_MCOUNTEREN then m\<lparr>m_mcounteren := value AND 7\<rparr>
      else if number = CSR_PMPCFG0 \<or> number = CSR_PMPCFG1 then
        m\<lparr>m_pmpcfg := fold (pmpcfg_byte number value) [0, 1, 2, 3] (m_pmpcfg m)\<rparr>
      else if number = CSR_MIE then m\<lparr>m_mie := value AND MIE_MASK\<rparr>
      else if number = CSR_MIP then m\<lparr>m_mip_soft := value AND S_INTERRUPTS\<rparr>
      else if number = CSR_MSCRATCH then m\<lparr>m_mscratch := value\<rparr>
      else if number = CSR_MTVEC then m\<lparr>m_mtvec := value AND NOT 3\<rparr>
      else if number = CSR_MEPC then m\<lparr>m_mepc := value AND NOT 3\<rparr>
      else if number = CSR_MCAUSE then m\<lparr>m_mcause := value\<rparr>
      else if number = CSR_MTVAL then m\<lparr>m_mtval := value\<rparr>
      else if number = CSR_MISA then m
      else if number \<ge> CSR_PMPADDR0 \<and> number \<le> CSR_PMPADDR7 then
        (let i = number - CSR_PMPADDR0 in
         if \<not> pmpaddr_locked m i then m\<lparr>m_pmpaddr := (m_pmpaddr m)(i := value)\<rparr> else m)
      else m)"

definition supervisor_allows :: "machine \<Rightarrow> u32 \<Rightarrow> bool" where
  "supervisor_allows m trap_bit \<longleftrightarrow>
     m_priv m = PRIV_M \<or> (m_priv m = PRIV_S \<and> m_mstatus m AND trap_bit = 0)"

definition csr_allowed :: "machine \<Rightarrow> u32 \<Rightarrow> bool" where
  "csr_allowed m number =
     (if m_priv m = PRIV_M then True
      else if drop_bit 8 number AND 3 > ucast (m_priv m) then False
      else if number \<ge> CSR_CYCLE \<and> number \<le> CSR_INSTRETH then
        (let bit = push_bit (unat (number AND 3)) 1 in
         m_mcounteren m AND bit \<noteq> 0 \<and> (m_priv m = PRIV_S \<or> m_scounteren m AND bit \<noteq> 0))
      else if number = CSR_SATP \<and> m_mstatus m AND MSTATUS_TVM \<noteq> 0 then False
      else True)"

section \<open>The tick\<close>

lemma snoop_kept: "cpu_kept m m' \<Longrightarrow> cpu_kept m (snoop_device_write m' a)"
  by (simp add: snoop_device_write_def cpu_kept_def)

lemma snoop_frame [simp]:
  "device_inv (snoop_device_write m a) = device_inv m" "arrays_kept m0 (snoop_device_write m a) = arrays_kept m0 m"
  "m_gpu (snoop_device_write m a) = m_gpu m" "m_g3d (snoop_device_write m a) = m_g3d m"
  "m_simd (snoop_device_write m a) = m_simd m"
  by (simp_all add: snoop_device_write_def)

lemma gpu_inv_written [simp]: "gpu_inv ram_size (g\<lparr>gpu_fb_written := b\<rparr>) = gpu_inv ram_size g"
  by (simp add: gpu_inv_def gpu_busy_def gpu_running_def gpu_scan_ok_def gpu_line_ok_def gpu_blit_ok_def)

lemma engine_flags_inv [simp]:
  "device_inv (m\<lparr>m_gpu := (m_gpu m)\<lparr>gpu_fb_written := b\<rparr>\<rparr>) = device_inv m"
  "device_inv (m\<lparr>m_g3d := (m_g3d m)\<lparr>g3d_ram_written := b\<rparr>\<rparr>) = device_inv m"
  "device_inv (m\<lparr>m_g3d := (m_g3d m)\<lparr>g3d_fb_written := b\<rparr>\<rparr>) = device_inv m"
  by (simp_all add: device_inv_def engines_ok_def gpu_busy_def g3d_busy_def)

lemma g3d_tick_not_busy: "\<not> g3d_busy d \<Longrightarrow> \<not> g3d_busy (fst (g3d_tick d ram ram_size fb hold ws we))"
  by (simp add: g3d_tick_def g3d_busy_def)

lemma tick_engines_effect:
  assumes "device_inv m"
  shows "cpu_kept m (tick_engines m) \<and> device_inv (tick_engines m) \<and> arrays_kept m (tick_engines m)"
proof -
  obtain g fb where g: "gpu_tick (m_gpu m) (m_ram m) RAM_SIZE (m_fb m) False (m_dma_start m) (m_dma_end m) = (g, fb)"
    by (rule prod.exhaust)
  obtain d ram fb' where d: "g3d_tick (m_g3d m) (m_ram m) RAM_SIZE fb False (m_dma_start m) (m_dma_end m) = (d, ram, fb')"
    by (rule prod_cases3)
  have t: "tick_engines m = m\<lparr>m_simd := simd_tick (m_simd m) False, m_gpu := g, m_fb := fb', m_g3d := d, m_ram := ram\<rparr>"
    by (simp add: tick_engines_def Let_def g d)
  have inv: "simd_inv (m_simd m)" "gpu_inv RAM_SIZE (m_gpu m)" "g3d_inv RAM_SIZE (m_g3d m)"
    "\<not> (gpu_busy (m_gpu m) \<and> g3d_busy (m_g3d m))"
    using assms by (simp_all add: device_inv_def engines_ok_def)
  have "gpu_inv RAM_SIZE g" "\<not> gpu_busy (m_gpu m) \<Longrightarrow> \<not> gpu_busy g"
    using gpu_tick_inv [OF inv(2), of "m_ram m" "m_fb m" False "m_dma_start m" "m_dma_end m"]
      gpu_tick_not_busy [of "m_gpu m" "m_ram m" RAM_SIZE "m_fb m" False "m_dma_start m" "m_dma_end m"]
    unfolding g by simp_all
  moreover have "g3d_inv RAM_SIZE d" "\<not> g3d_busy (m_g3d m) \<Longrightarrow> \<not> g3d_busy d"
    using g3d_tick_inv [OF inv(3), of "m_ram m" fb False "m_dma_start m" "m_dma_end m"]
      g3d_tick_not_busy [of "m_g3d m" "m_ram m" RAM_SIZE fb False "m_dma_start m" "m_dma_end m"]
    unfolding d by simp_all
  ultimately have "engines_ok (simd_tick (m_simd m) False) g d"
    using inv simd_tick_inv [OF inv(1)] unfolding engines_ok_def by blast
  moreover have "fb a = m_fb m a" if "FB_SIZE \<le> a" for a
    using gpu_tick_safe [OF inv(2), of "m_ram m" "m_ram m" "m_fb m" "m_fb m" False "m_dma_start m" "m_dma_end m" a]
      that unfolding g by (simp add: not_less [symmetric])
  moreover have "ram a = m_ram m a" if "RAM_SIZE \<le> a" for a
    using g3d_tick_safe [OF inv(3) _ _ _ d d, of a] that by (simp add: not_less [symmetric])
  moreover have "fb' a = fb a" if "FB_SIZE \<le> a" for a
    using g3d_tick_safe [OF inv(3) _ _ _ d d, of a] that by (simp add: not_less [symmetric])
  ultimately show ?thesis
    using assms unfolding t by (simp add: device_inv_def arrays_kept_def)
qed

lemma report_effect:
  "cpu_kept m0 m \<Longrightarrow> cpu_kept m0 (report_g3d_ram m)" "cpu_kept m0 m \<Longrightarrow> cpu_kept m0 (report_g3d_fb m)"
  "cpu_kept m0 m \<Longrightarrow> cpu_kept m0 (report_gpu_fb m)"
  "device_inv (report_g3d_ram m) = device_inv m" "device_inv (report_g3d_fb m) = device_inv m"
  "device_inv (report_gpu_fb m) = device_inv m" "arrays_kept m0 (report_g3d_ram m) = arrays_kept m0 m"
  "arrays_kept m0 (report_g3d_fb m) = arrays_kept m0 m" "arrays_kept m0 (report_gpu_fb m) = arrays_kept m0 m"
  by (simp_all add: report_g3d_ram_def report_g3d_fb_def report_gpu_fb_def Let_def snoop_kept
      engine_flags_inv [where m = "snoop_device_write m a" for m a, simplified])

lemma tick_effect:
  assumes "device_inv m"
  shows "cpu_kept m (tick_accelerators m)" "device_inv (tick_accelerators m)" "arrays_kept m (tick_accelerators m)"
  using tick_engines_effect [OF assms] by (simp_all add: tick_accelerators_def report_effect)

end
