(* ===== verification/Fp.thy ===== *)
theory Fp
  imports Prelude
begin

text \<open>
  The arithmetic adapter \<open>tools/rv32_fp.c\<close>. SoftFloat itself is not part of the program: its
  operations are the fields of the parameter record \<open>softfloat\<close>. Each takes the rounding mode in
  \<open>softfloat_roundingMode\<close> where it depends on it and returns its result with the exception
  flags it raises.
\<close>

record softfloat =
  f32_add :: "u32 \<Rightarrow> u32 \<Rightarrow> u32 \<Rightarrow> u32 \<times> u8"
  f32_sub :: "u32 \<Rightarrow> u32 \<Rightarrow> u32 \<Rightarrow> u32 \<times> u8"
  f32_mul :: "u32 \<Rightarrow> u32 \<Rightarrow> u32 \<Rightarrow> u32 \<times> u8"
  f32_mulAdd :: "u32 \<Rightarrow> u32 \<Rightarrow> u32 \<Rightarrow> u32 \<Rightarrow> u32 \<times> u8"
  f32_div :: "u32 \<Rightarrow> u32 \<Rightarrow> u32 \<Rightarrow> u32 \<times> u8"
  f32_sqrt :: "u32 \<Rightarrow> u32 \<Rightarrow> u32 \<times> u8"
  i32_to_f32 :: "u32 \<Rightarrow> int \<Rightarrow> u32 \<times> u8"
  ui32_to_f32 :: "u32 \<Rightarrow> u32 \<Rightarrow> u32 \<times> u8"
  f32_to_i32 :: "u32 \<Rightarrow> u32 \<Rightarrow> int \<times> u8"
  f32_to_ui32 :: "u32 \<Rightarrow> u32 \<Rightarrow> u32 \<times> u8"
  f32_eq :: "u32 \<Rightarrow> u32 \<Rightarrow> bool \<times> u8"
  f32_lt :: "u32 \<Rightarrow> u32 \<Rightarrow> bool \<times> u8"
  f32_le :: "u32 \<Rightarrow> u32 \<Rightarrow> bool \<times> u8"
  f32_lt_quiet :: "u32 \<Rightarrow> u32 \<Rightarrow> bool \<times> u8"

abbreviation (input) OP_ADD :: u32 where "OP_ADD \<equiv> 0"
abbreviation (input) OP_SUB :: u32 where "OP_SUB \<equiv> 1"
abbreviation (input) OP_MUL :: u32 where "OP_MUL \<equiv> 2"
abbreviation (input) OP_FMADD :: u32 where "OP_FMADD \<equiv> 3"
abbreviation (input) OP_FMSUB :: u32 where "OP_FMSUB \<equiv> 4"
abbreviation (input) OP_FNMSUB :: u32 where "OP_FNMSUB \<equiv> 5"
abbreviation (input) OP_FNMADD :: u32 where "OP_FNMADD \<equiv> 6"
abbreviation (input) OP_DIV :: u32 where "OP_DIV \<equiv> 7"
abbreviation (input) OP_SQRT :: u32 where "OP_SQRT \<equiv> 8"
abbreviation (input) OP_I32_TO_F32 :: u32 where "OP_I32_TO_F32 \<equiv> 9"
abbreviation (input) OP_U32_TO_F32 :: u32 where "OP_U32_TO_F32 \<equiv> 10"
abbreviation (input) OP_F32_TO_I32 :: u32 where "OP_F32_TO_I32 \<equiv> 11"
abbreviation (input) OP_F32_TO_U32 :: u32 where "OP_F32_TO_U32 \<equiv> 12"
abbreviation (input) OP_EQ :: u32 where "OP_EQ \<equiv> 13"
abbreviation (input) OP_LT :: u32 where "OP_LT \<equiv> 14"
abbreviation (input) OP_LE :: u32 where "OP_LE \<equiv> 15"
abbreviation (input) OP_MIN :: u32 where "OP_MIN \<equiv> 16"
abbreviation (input) OP_MAX :: u32 where "OP_MAX \<equiv> 17"

abbreviation (input) softfloat_flag_invalid :: u8 where "softfloat_flag_invalid \<equiv> 16"

definition nan32 :: "u32 \<Rightarrow> bool" where
  "nan32 x \<longleftrightarrow> x AND 0x7fffffff > 0x7f800000"

definition snan32 :: "u32 \<Rightarrow> bool" where
  "snan32 x \<longleftrightarrow> nan32 x \<and> x AND 0x00400000 = 0"

text \<open>The value and the accumulated flags, which are zero before.\<close>

definition minmax :: "softfloat \<Rightarrow> u32 \<Rightarrow> u32 \<Rightarrow> bool \<Rightarrow> u32 \<times> u8" where
  "minmax sf a b maximum =
     (let flags = (if snan32 a \<or> snan32 b then softfloat_flag_invalid else 0) in
      if nan32 a then (if nan32 b then 0x7fc00000 else b, flags)
      else if nan32 b then (a, flags)
      else if (a OR b) AND 0x7fffffff = 0 then (if maximum then a AND b else a OR b, flags)
      else case f32_lt_quiet sf a b of (lt, raised) \<Rightarrow>
             (if lt \<noteq> maximum then a else b, flags OR raised))"

definition of_bool_result :: "bool \<times> u8 \<Rightarrow> u32 \<times> u8" where
  "of_bool_result r = (case r of (t, flags) \<Rightarrow> (if t then 1 else 0, flags))"

text \<open>\<open>None\<close> is \<open>abort()\<close>: an operation or rounding mode no caller passes.\<close>

definition rv32_fp :: "softfloat \<Rightarrow> u32 \<Rightarrow> u32 \<Rightarrow> u32 \<Rightarrow> u32 \<Rightarrow> u32 \<Rightarrow> (u32 \<times> u8) option" where
  "rv32_fp sf op rm a b c =
     (if rm > 4 \<or> op > OP_MAX then None
      else if op = OP_ADD then Some (f32_add sf rm a b)
      else if op = OP_SUB then Some (f32_sub sf rm a b)
      else if op = OP_MUL then Some (f32_mul sf rm a b)
      else if op = OP_FMADD then Some (f32_mulAdd sf rm a b c)
      else if op = OP_FMSUB then Some (f32_mulAdd sf rm a b (c XOR 0x80000000))
      else if op = OP_FNMSUB then Some (f32_mulAdd sf rm (a XOR 0x80000000) b c)
      else if op = OP_FNMADD then Some (f32_mulAdd sf rm (a XOR 0x80000000) b (c XOR 0x80000000))
      else if op = OP_DIV then Some (f32_div sf rm a b)
      else if op = OP_SQRT then Some (f32_sqrt sf rm a)
      else if op = OP_I32_TO_F32 then Some (i32_to_f32 sf rm (sint a))
      else if op = OP_U32_TO_F32 then Some (ui32_to_f32 sf rm a)
      else if op = OP_F32_TO_I32 then
        (case f32_to_i32 sf rm a of (value, flags) \<Rightarrow> Some (of_int value, flags))
      else if op = OP_F32_TO_U32 then Some (f32_to_ui32 sf rm a)
      else if op = OP_EQ then Some (of_bool_result (f32_eq sf a b))
      else if op = OP_LT then Some (of_bool_result (f32_lt sf a b))
      else if op = OP_LE then Some (of_bool_result (f32_le sf a b))
      else if op = OP_MIN \<or> op = OP_MAX then Some (minmax sf a b (op = OP_MAX))
      else None)"

lemma rv32_fp_returns: "rm \<le> 4 \<Longrightarrow> op \<le> OP_MAX \<Longrightarrow> \<exists>r. rv32_fp sf op rm a b c = Some r"
proof -
  assume rm: "rm \<le> 4" and op: "op \<le> OP_MAX"
  have "unat op \<le> 17" using op by (simp add: word_le_nat_alt)
  then have "unat op < 18" by simp
  then have "unat op \<in> {0, 1, 2, 3, 4, 5, 6, 7, 8, 9, 10, 11, 12, 13, 14, 15, 16, 17}"
    by (simp add: numeral_eq_Suc less_Suc_eq)
  then have "op \<in> {0, 1, 2, 3, 4, 5, 6, 7, 8, 9, 10, 11, 12, 13, 14, 15, 16, 17}"
    by (auto dest: unat_eq_imp_of_nat)
  then show ?thesis using rm op
    by (auto simp: rv32_fp_def not_less split: prod.splits)
qed

end
