(* ===== verification/Exec.thy ===== *)
theory Exec
  imports Trap Fp
begin

text \<open>
  The instruction step of \<open>tools/rv32emu_core.c\<close>: \<open>step\<close> samples the interrupt lines, takes an
  enabled interrupt or fetches, decodes and executes one instruction, and retires it or delivers
  its trap. The cases of the source's opcode switch are one definition each. A case either traps
  (\<open>E_TRAP\<close> with the cause and value) or falls out of the switch with the machine, \<open>result\<close>,
  \<open>writes_rd\<close>, \<open>writes_fd\<close> and \<open>next\<close> (\<open>E_DONE\<close>). \<open>None\<close> is a call that does not return: the
  source's \<open>abort()\<close>s, or a block device notification that is served without end.
\<close>

datatype exec_outcome =
  E_TRAP machine u32 u32
| E_DONE machine u32 bool bool u32

section \<open>Instruction fields\<close>

definition opcode_of :: "u32 \<Rightarrow> u32" where "opcode_of word = word AND 0x7f"
definition rd_of :: "u32 \<Rightarrow> u32" where "rd_of word = drop_bit 7 word AND 31"
definition funct3_of :: "u32 \<Rightarrow> u32" where "funct3_of word = drop_bit 12 word AND 7"
definition rs1_of :: "u32 \<Rightarrow> u32" where "rs1_of word = drop_bit 15 word AND 31"
definition rs2_of :: "u32 \<Rightarrow> u32" where "rs2_of word = drop_bit 20 word AND 31"
definition funct7_of :: "u32 \<Rightarrow> u32" where "funct7_of word = drop_bit 25 word"

text \<open>The immediates, as the unsigned words the source casts them to.\<close>

definition imm_i :: "u32 \<Rightarrow> u32" where
  "imm_i word = signed_drop_bit 20 word"

definition imm_s :: "u32 \<Rightarrow> u32" where
  "imm_s word = signed_drop_bit 20 (word AND 0xfe000000) OR (drop_bit 7 word AND 0x1f)"

definition imm_b :: "u32 \<Rightarrow> u32" where
  "imm_b word =
     signed_drop_bit 19 (word AND 0x80000000) OR push_bit 4 (word AND 0x80) OR
     (drop_bit 20 word AND 0x7e0) OR (drop_bit 7 word AND 0x1e)"

definition imm_j :: "u32 \<Rightarrow> u32" where
  "imm_j word =
     signed_drop_bit 11 (word AND 0x80000000) OR (word AND 0xff000) OR
     (drop_bit 9 word AND 0x800) OR (drop_bit 20 word AND 0x7fe)"

definition width_of :: "u32 \<Rightarrow> nat" where
  "width_of funct3 = 2 ^ unat (funct3 AND 3)"

definition illegal :: "machine \<Rightarrow> u32 \<Rightarrow> exec_outcome" where
  "illegal m word = E_TRAP m CAUSE_ILLEGAL word"

section \<open>Jumps and branches\<close>

text \<open>\<open>jump\<close> of the source: a misaligned target traps with the target as its value.\<close>

definition jump :: "machine \<Rightarrow> u32 \<Rightarrow> u32 \<Rightarrow> bool \<Rightarrow> exec_outcome" where
  "jump m target result writes_rd =
     (if target AND 3 \<noteq> 0 then E_TRAP m CAUSE_FETCH_MISALIGNED target
      else E_DONE m result writes_rd False target)"

definition exec_jalr :: "machine \<Rightarrow> u32 \<Rightarrow> exec_outcome" where
  "exec_jalr m word =
     (if funct3_of word \<noteq> 0 then illegal m word
      else jump m ((m_x m (rs1_of word) + imm_i word) AND NOT 1) (m_pc m + 4) True)"

definition branch_taken :: "u32 \<Rightarrow> u32 \<Rightarrow> u32 \<Rightarrow> bool option" where
  "branch_taken funct3 a b =
     (if funct3 = 0 then Some (a = b)
      else if funct3 = 1 then Some (a \<noteq> b)
      else if funct3 = 4 then Some (sint a < sint b)
      else if funct3 = 5 then Some (sint a \<ge> sint b)
      else if funct3 = 6 then Some (a < b)
      else if funct3 = 7 then Some (a \<ge> b)
      else None)"

definition exec_branch :: "machine \<Rightarrow> u32 \<Rightarrow> exec_outcome" where
  "exec_branch m word =
     (case branch_taken (funct3_of word) (m_x m (rs1_of word)) (m_x m (rs2_of word)) of
        None \<Rightarrow> illegal m word
      | Some taken \<Rightarrow>
          if taken then jump m (m_pc m + imm_b word) 0 False
          else E_DONE m 0 False False (m_pc m + 4))"

section \<open>Loads and stores\<close>

definition exec_load :: "machine \<Rightarrow> u32 \<Rightarrow> exec_outcome" where
  "exec_load m word =
     (let opcode = opcode_of word; funct3 = funct3_of word in
      if (opcode = 0x07 \<and> funct3 \<noteq> 2) \<or> funct3 = 3 \<or> funct3 > 5 then illegal m word
      else
        let width = width_of funct3; addr = m_x m (rs1_of word) + imm_i word in
        case load m addr width of
          (Inl status, m') \<Rightarrow> E_TRAP m' (load_cause status) addr
        | (Inr (value, _), m') \<Rightarrow>
            let m' = m'\<lparr>m_mem_read := True, m_mem_addr := addr, m_mem_read_value := value,
                        m_mem_width := width\<rparr>;
                extended = (if funct3 = 0 then signed_take_bit 7 value
                            else if funct3 = 1 then signed_take_bit 15 value else value)
            in E_DONE m' extended (opcode = 0x03) (opcode = 0x07) (m_pc m + 4))"

definition exec_store :: "machine \<Rightarrow> u32 \<Rightarrow> exec_outcome option" where
  "exec_store m word =
     (let opcode = opcode_of word; funct3 = funct3_of word in
      if (opcode = 0x27 \<and> funct3 \<noteq> 2) \<or> funct3 > 2 then Some (illegal m word)
      else
        let width = width_of funct3; addr = m_x m (rs1_of word) + imm_s word;
            b = (if opcode = 0x27 then m_f m (rs2_of word) else m_x m (rs2_of word));
            value = (if width = 4 then b else b AND (push_bit (8 * width) 1 - 1))
        in
        case store m addr width value of
          None \<Rightarrow> None
        | Some (Inl status, m') \<Rightarrow> Some (E_TRAP m' (store_cause status) addr)
        | Some (Inr _, m') \<Rightarrow>
            Some (E_DONE (m'\<lparr>m_mem_write := True, m_mem_addr := addr, m_mem_write_value := value,
                             m_mem_width := width\<rparr>) 0 False False (m_pc m + 4)))"

section \<open>The A extension\<close>

definition exec_lr :: "machine \<Rightarrow> u32 \<Rightarrow> exec_outcome" where
  "exec_lr m word =
     (let addr = m_x m (rs1_of word) in
      case load m addr 4 of
        (Inl status, m') \<Rightarrow> E_TRAP m' (load_cause status) addr
      | (Inr (value, physical), m') \<Rightarrow>
          E_DONE (m'\<lparr>m_mem_read := True, m_mem_addr := addr, m_mem_read_value := value, m_mem_width := 4,
                     m_reserved := True, m_reservation := drop_bit 2 addr,
                     m_reservation_pa := drop_bit 2 physical\<rparr>)
            value True False (m_pc m + 4))"

text \<open>The check of SC.W on a held reservation: a fault, or whether the translated word is still the
  one LR.W read.\<close>

definition sc_held :: "machine \<Rightarrow> u32 \<Rightarrow> bool mem_access" where
  "sc_held m addr =
     (if \<not> (m_reserved m \<and> m_reservation m = drop_bit 2 addr) then Inr False
      else case translate m addr WALK_STORE (data_priv m) of
        Inl fault \<Rightarrow> Inl fault
      | Inr physical \<Rightarrow>
          if \<not> pmp_allows (data_priv m) m physical PMP_W then Inl ACC_FAULT
          else Inr (drop_bit 2 physical = m_reservation_pa m))"

definition exec_sc :: "machine \<Rightarrow> u32 \<Rightarrow> exec_outcome option" where
  "exec_sc m word =
     (let addr = m_x m (rs1_of word); b = m_x m (rs2_of word) in
      if addr mod 4 \<noteq> 0 then Some (E_TRAP m CAUSE_STORE_MISALIGNED addr)
      else case sc_held m addr of
        Inl status \<Rightarrow> Some (E_TRAP m (store_cause status) addr)
      | Inr held \<Rightarrow>
          if held then
            (case store m addr 4 b of
               None \<Rightarrow> None
             | Some (Inl status, m') \<Rightarrow> Some (E_TRAP m' (store_cause status) addr)
             | Some (Inr _, m') \<Rightarrow>
                 Some (E_DONE (m'\<lparr>m_mem_write := True, m_mem_addr := addr, m_mem_write_value := b,
                                  m_mem_width := 4, m_reserved := False\<rparr>) 0 True False (m_pc m + 4)))
          else Some (E_DONE (m\<lparr>m_reserved := False\<rparr>) 1 True False (m_pc m + 4)))"

definition exec_amo :: "machine \<Rightarrow> u32 \<Rightarrow> exec_outcome option" where
  "exec_amo m word =
     (let funct5 = drop_bit 2 (funct7_of word); addr = m_x m (rs1_of word); b = m_x m (rs2_of word) in
      if funct3_of word \<noteq> 2 \<or> \<not> amo_valid funct5 (rs2_of word) then Some (illegal m word)
      else if funct5 = AMO_LR then Some (exec_lr m word)
      else if funct5 = AMO_SC then exec_sc m word
      else case amo m addr funct5 b of
        None \<Rightarrow> None
      | Some (Inl status, m') \<Rightarrow> Some (E_TRAP m' (store_cause status) addr)
      | Some (Inr (old, value), m') \<Rightarrow>
          Some (E_DONE (m'\<lparr>m_mem_read := True, m_mem_write := True, m_mem_addr := addr,
                           m_mem_read_value := old, m_mem_write_value := value, m_mem_width := 4\<rparr>)
                  old True False (m_pc m + 4)))"

section \<open>Integer arithmetic\<close>

definition op_imm :: "u32 \<Rightarrow> u32 \<Rightarrow> u32 \<Rightarrow> u32 option" where
  "op_imm word a imm =
     (let funct3 = funct3_of word; funct7 = funct7_of word; shamt = unat (rs2_of word) in
      if funct3 = 0 then Some (a + imm)
      else if funct3 = 1 then (if funct7 \<noteq> 0 then None else Some (push_bit shamt a))
      else if funct3 = 2 then Some (if sint a < sint imm then 1 else 0)
      else if funct3 = 3 then Some (if a < imm then 1 else 0)
      else if funct3 = 4 then Some (a XOR imm)
      else if funct3 = 5 then
        (if funct7 = 0 then Some (drop_bit shamt a)
         else if funct7 = 0x20 then Some (signed_drop_bit shamt a)
         else None)
      else if funct3 = 6 then Some (a OR imm)
      else Some (a AND imm))"

definition exec_op_imm :: "machine \<Rightarrow> u32 \<Rightarrow> exec_outcome" where
  "exec_op_imm m word =
     (case op_imm word (m_x m (rs1_of word)) (imm_i word) of
        None \<Rightarrow> illegal m word
      | Some result \<Rightarrow> E_DONE m result True False (m_pc m + 4))"

text \<open>\<open>muldiv\<close> of the source. The 64-bit products are computed on integers and truncated: none of
  them overflows 64 bits.\<close>

definition muldiv :: "u32 \<Rightarrow> u32 \<Rightarrow> u32 \<Rightarrow> u32" where
  "muldiv funct3 a b =
     (let sa = sint a; sb = sint b; overflow = (a = 0x80000000 \<and> b = 0xffffffff) in
      if funct3 = 0 then a * b
      else if funct3 = 1 then ucast (drop_bit 32 (of_int (sa * sb) :: u64))
      else if funct3 = 2 then ucast (drop_bit 32 (of_int (sa * uint b) :: u64))
      else if funct3 = 3 then ucast (drop_bit 32 (ucast a * ucast b :: u64))
      else if funct3 = 4 then
        (if b = 0 then 0xffffffff else if overflow then a else of_int (sa sdiv sb))
      else if funct3 = 5 then (if b = 0 then 0xffffffff else a div b)
      else if funct3 = 6 then
        (if b = 0 then a else if overflow then 0 else of_int (sa smod sb))
      else if b = 0 then a else a mod b)"

definition op_reg :: "u32 \<Rightarrow> u32 \<Rightarrow> u32 \<Rightarrow> u32 option" where
  "op_reg word a b =
     (let funct3 = funct3_of word; funct7 = funct7_of word; shamt = unat (b AND 31) in
      if funct7 = 1 then Some (muldiv funct3 a b)
      else if funct7 \<noteq> 0 \<and> \<not> (funct7 = 0x20 \<and> (funct3 = 0 \<or> funct3 = 5)) then None
      else if funct3 = 0 then Some (if funct7 \<noteq> 0 then a - b else a + b)
      else if funct3 = 1 then Some (push_bit shamt a)
      else if funct3 = 2 then Some (if sint a < sint b then 1 else 0)
      else if funct3 = 3 then Some (if a < b then 1 else 0)
      else if funct3 = 4 then Some (a XOR b)
      else if funct3 = 5 then Some (if funct7 \<noteq> 0 then signed_drop_bit shamt a else drop_bit shamt a)
      else if funct3 = 6 then Some (a OR b)
      else Some (a AND b))"

definition exec_op :: "machine \<Rightarrow> u32 \<Rightarrow> exec_outcome" where
  "exec_op m word =
     (case op_reg word (m_x m (rs1_of word)) (m_x m (rs2_of word)) of
        None \<Rightarrow> illegal m word
      | Some result \<Rightarrow> E_DONE m result True False (m_pc m + 4))"

section \<open>The F extension\<close>

text \<open>What the decode of an arithmetic opcode settles on: an operation for the adapter with its
  operands (\<open>F_ARITH op rounded fa writes_fd\<close>) or a result of its own (\<open>F_MOVE result writes_fd\<close>).
  \<open>writes_rd\<close> is the negation of \<open>writes_fd\<close>; \<open>None\<close> is an illegal instruction.\<close>

datatype fp_decode = F_ARITH u32 bool u32 bool | F_MOVE u32 bool

definition fclass :: "u32 \<Rightarrow> u32" where
  "fclass fa =
     (let exp' = drop_bit 23 fa AND 255; frac' = fa AND 0x7fffff; sign = (drop_bit 31 fa \<noteq> 0) in
      push_bit
        (if exp' = 255 then (if frac' \<noteq> 0 then (if frac' AND 0x400000 \<noteq> 0 then 9 else 8) else if sign then 0 else 7)
         else if exp' = 0 then (if frac' \<noteq> 0 then (if sign then 2 else 5) else if sign then 3 else 4)
         else if sign then 1 else 6) 1)"

definition fp_decode :: "u32 \<Rightarrow> u32 \<Rightarrow> u32 \<Rightarrow> u32 \<Rightarrow> fp_decode option" where
  "fp_decode word a fa fb =
     (let opcode = opcode_of word; funct3 = funct3_of word; funct7 = funct7_of word; rs2 = rs2_of word in
      if opcode \<noteq> 0x53 then
        (if drop_bit 25 word AND 3 \<noteq> 0 then None
         else Some (F_ARITH (OP_FMADD + drop_bit 2 (opcode - 0x43)) True fa True))
      else if funct7 = 0x00 then Some (F_ARITH OP_ADD True fa True)
      else if funct7 = 0x04 then Some (F_ARITH OP_SUB True fa True)
      else if funct7 = 0x08 then Some (F_ARITH OP_MUL True fa True)
      else if funct7 = 0x0c then Some (F_ARITH OP_DIV True fa True)
      else if funct7 = 0x2c then (if rs2 \<noteq> 0 then None else Some (F_ARITH OP_SQRT True fa True))
      else if funct7 = 0x60 then
        (if rs2 > 1 then None
         else Some (F_ARITH (if rs2 \<noteq> 0 then OP_F32_TO_U32 else OP_F32_TO_I32) True fa False))
      else if funct7 = 0x68 then
        (if rs2 > 1 then None
         else Some (F_ARITH (if rs2 \<noteq> 0 then OP_U32_TO_F32 else OP_I32_TO_F32) True a True))
      else if funct7 = 0x50 then
        (if funct3 > 2 then None
         else Some (F_ARITH (if funct3 = 2 then OP_EQ else if funct3 = 1 then OP_LT else OP_LE) False fa False))
      else if funct7 = 0x14 then
        (if funct3 > 1 then None
         else Some (F_ARITH (if funct3 \<noteq> 0 then OP_MAX else OP_MIN) False fa True))
      else if funct7 = 0x10 then
        (if funct3 > 2 then None
         else Some (F_MOVE ((fa AND 0x7fffffff) OR
                      ((if funct3 = 0 then fb else if funct3 = 1 then NOT fb else fa XOR fb) AND 0x80000000)) True))
      else if funct7 = 0x70 then
        (if rs2 \<noteq> 0 \<or> funct3 > 1 then None
         else Some (F_MOVE (if funct3 \<noteq> 0 then fclass fa else fa) False))
      else if funct7 = 0x78 then
        (if rs2 \<noteq> 0 \<or> funct3 \<noteq> 0 then None else Some (F_MOVE a True))
      else None)"

definition exec_fp :: "softfloat \<Rightarrow> machine \<Rightarrow> u32 \<Rightarrow> exec_outcome option" where
  "exec_fp sf m word =
     (let a = m_x m (rs1_of word); fa = m_f m (rs1_of word); fb = m_f m (rs2_of word);
          fc = m_f m (drop_bit 27 word); funct3 = funct3_of word
      in
      case fp_decode word a fa fb of
        None \<Rightarrow> Some (illegal m word)
      | Some (F_MOVE result writes_fd) \<Rightarrow> Some (E_DONE m result (\<not> writes_fd) writes_fd (m_pc m + 4))
      | Some (F_ARITH op rounded fa' writes_fd) \<Rightarrow>
          let rm = (if rounded then (if funct3 = 7 then ucast (drop_bit 5 (m_fcsr m)) else funct3) else 0) in
          if rm > 4 then Some (illegal m word)
          else (case rv32_fp sf op rm fa' fb fc of
            None \<Rightarrow> None
          | Some (result, flags) \<Rightarrow>
              Some (E_DONE (m\<lparr>m_fcsr := m_fcsr m OR flags, m_wr_fcsr := (flags \<noteq> 0)\<rparr>)
                      result (\<not> writes_fd) writes_fd (m_pc m + 4))))"

section \<open>SYSTEM\<close>

definition exec_mret :: "machine \<Rightarrow> exec_outcome" where
  "exec_mret m =
     (let status = (m_mstatus m AND NOT MSTATUS_MIE) OR MSTATUS_MPIE OR
                   (if m_mstatus m AND MSTATUS_MPIE \<noteq> 0 then MSTATUS_MIE else 0);
          m = m\<lparr>m_mstatus := status, m_reserved := False, m_priv := m_mpp m, m_mpp := PRIV_U\<rparr>;
          m = (if m_priv m \<noteq> PRIV_M then m\<lparr>m_mstatus := m_mstatus m AND NOT MSTATUS_MPRV\<rparr> else m)
      in E_DONE m 0 False False (m_mepc m))"

definition exec_sret :: "machine \<Rightarrow> exec_outcome" where
  "exec_sret m =
     E_DONE (m\<lparr>m_priv := (if m_mstatus m AND MSTATUS_SPP \<noteq> 0 then PRIV_S else PRIV_U), m_reserved := False,
               m_mstatus := (m_mstatus m AND NOT (MSTATUS_SIE OR MSTATUS_SPP OR MSTATUS_MPRV)) OR
                            MSTATUS_SPIE OR (if m_mstatus m AND MSTATUS_SPIE \<noteq> 0 then MSTATUS_SIE else 0)\<rparr>)
       0 False False (m_sepc m)"

definition exec_csr :: "machine \<Rightarrow> u32 \<Rightarrow> exec_outcome" where
  "exec_csr m word =
     (let funct3 = funct3_of word; rs1 = rs1_of word; number = drop_bit 20 word;
          operand = (if funct3 AND 4 \<noteq> 0 then rs1 else m_x m rs1);
          writes = (funct3 AND 3 = 1 \<or> rs1 \<noteq> 0)
      in
      case csr_read m number of
        None \<Rightarrow> illegal m word
      | Some old \<Rightarrow>
          if (writes \<and> csr_read_only number) \<or> \<not> csr_allowed m number then illegal m word
          else
            let m' = (if funct3 AND 3 = 1 then csr_write m number operand
                      else if funct3 AND 3 = 2 then (if rs1 \<noteq> 0 then csr_write m number (old OR operand) else m)
                      else if funct3 AND 3 = 3 then (if rs1 \<noteq> 0 then csr_write m number (old AND NOT operand) else m)
                      else m)
            in E_DONE m' old True False (m_pc m + 4))"

definition exec_system :: "machine \<Rightarrow> u32 \<Rightarrow> exec_outcome" where
  "exec_system m word =
     (if funct3_of word = 0 then
        (if word = 0x00000073 then
           E_TRAP m (if m_priv m = PRIV_U then CAUSE_ECALL_U
                     else if m_priv m = PRIV_S then CAUSE_ECALL_S else CAUSE_ECALL_M) 0
         else if word = 0x00100073 then E_TRAP m CAUSE_BREAKPOINT (m_pc m)
         else if word = 0x30200073 \<and> m_priv m = PRIV_M then exec_mret m
         else if word = 0x10200073 \<and> supervisor_allows m MSTATUS_TSR then exec_sret m
         else if word = 0x10500073 \<and> supervisor_allows m MSTATUS_TW then E_DONE m 0 False False (m_pc m + 4)
         else if word AND 0xfe007fff = 0x12000073 \<and> supervisor_allows m MSTATUS_TVM
           then E_DONE (m\<lparr>m_reserved := False\<rparr>) 0 False False (m_pc m + 4)
         else illegal m word)
      else if funct3_of word = 4 then illegal m word
      else exec_csr m word)"

section \<open>The switch\<close>

definition execute_instruction :: "softfloat \<Rightarrow> machine \<Rightarrow> u32 \<Rightarrow> exec_outcome option" where
  "execute_instruction sf m word =
     (let opcode = opcode_of word; pc = m_pc m in
      if fs_off m \<and> floating_instruction word then Some (illegal m word)
      else if opcode = 0x37 then Some (E_DONE m (word AND 0xfffff000) True False (pc + 4))
      else if opcode = 0x17 then Some (E_DONE m (pc + (word AND 0xfffff000)) True False (pc + 4))
      else if opcode = 0x6f then Some (jump m (pc + imm_j word) (pc + 4) True)
      else if opcode = 0x67 then Some (exec_jalr m word)
      else if opcode = 0x63 then Some (exec_branch m word)
      else if opcode = 0x07 \<or> opcode = 0x03 then Some (exec_load m word)
      else if opcode = 0x27 \<or> opcode = 0x23 then exec_store m word
      else if opcode = 0x2f then exec_amo m word
      else if opcode = 0x13 then Some (exec_op_imm m word)
      else if opcode = 0x33 then Some (exec_op m word)
      else if opcode = 0x0f then
        Some (if funct3_of word > 1 then illegal m word else E_DONE m 0 False False (pc + 4))
      else if opcode = 0x43 \<or> opcode = 0x47 \<or> opcode = 0x4b \<or> opcode = 0x4f \<or> opcode = 0x53
        then exec_fp sf m word
      else if opcode = 0x73 then Some (exec_system m word)
      else Some (illegal m word))"

section \<open>Retirement\<close>

definition trace_effects :: "machine \<Rightarrow> u32 \<Rightarrow> u32 \<Rightarrow> trace_line" where
  "trace_effects m pc word =
     T_RETIRE (m_steps m) pc word
       (if m_wr_reg m > 0 then Some (nat (m_wr_reg m), m_wr_value m) else None)
       (if m_wr_freg m \<ge> 0 then Some (nat (m_wr_freg m), m_f m (of_int (m_wr_freg m))) else None)
       (if m_wr_fcsr m then Some (m_fcsr m) else None)
       (if m_mem_write m then Some (m_mem_addr m, m_mem_write_value m, m_mem_width m) else None)
       (if m_mem_read m then Some (m_mem_addr m, m_mem_read_value m, m_mem_width m) else None)"

definition write_registers :: "machine \<Rightarrow> u32 \<Rightarrow> u32 \<Rightarrow> bool \<Rightarrow> bool \<Rightarrow> machine" where
  "write_registers m rd result writes_rd writes_fd =
     (let m = (if writes_fd then m\<lparr>m_f := (m_f m)(rd := result), m_wr_freg := int (unat rd)\<rparr> else m);
          m = (if writes_fd \<or> m_wr_fcsr m then m\<lparr>m_mstatus := m_mstatus m OR MSTATUS_FS\<rparr> else m)
      in if writes_rd \<and> rd \<noteq> 0
         then m\<lparr>m_x := (m_x m)(rd := result), m_wr_reg := int (unat rd), m_wr_value := result\<rparr>
         else m)"

definition retire :: "machine \<Rightarrow> u32 \<Rightarrow> u32 \<Rightarrow> u32 \<Rightarrow> bool \<Rightarrow> bool \<Rightarrow> u32 \<Rightarrow> machine" where
  "retire m pc word result writes_rd writes_fd next =
     (let m = write_registers m (rd_of word) result writes_rd writes_fd;
          m = tick_accelerators m;
          m = m\<lparr>m_steps := m_steps m + 1, m_retired := m_retired m + 1, m_in_trap := False\<rparr>;
          m = trace_out m (trace_effects m pc word)
      in m\<lparr>m_pc := next\<rparr>)"

section \<open>The step\<close>

definition interrupt_levels :: "machine \<Rightarrow> u32" where
  "interrupt_levels m =
     (let pending = (if m_in_trap m then 0 else mip_now m AND m_mie m);
          m_enabled = (m_priv m < PRIV_M \<or> m_mstatus m AND MSTATUS_MIE \<noteq> 0);
          s_enabled = (m_priv m = PRIV_U \<or> (m_priv m = PRIV_S \<and> m_mstatus m AND MSTATUS_SIE \<noteq> 0));
          machine_level = (if m_enabled then pending AND NOT (m_mideleg m) else 0);
          supervisor_level = (if s_enabled then pending AND m_mideleg m else 0)
      in if machine_level \<noteq> 0 then machine_level else supervisor_level)"

definition interrupt_order :: "nat list" where
  "interrupt_order = [IRQ_MEI, IRQ_MSI, IRQ_MTI, IRQ_SEI, IRQ_SSI, IRQ_STI]"

definition fetch :: "machine \<Rightarrow> u32 mem_access" where
  "fetch m =
     (case translate m (m_pc m) WALK_FETCH (ucast (m_priv m)) of
        Inl ACC_PAGE_FAULT \<Rightarrow> Inl ACC_PAGE_FAULT
      | Inl _ \<Rightarrow> Inl ACC_FAULT
      | Inr at \<Rightarrow>
          if \<not> in_ram at 4 \<or> \<not> pmp_allows (ucast (m_priv m)) m at PMP_X then Inl ACC_FAULT
          else Inr (ram_read m at 4))"

definition start_step :: "machine \<Rightarrow> machine" where
  "start_step m =
     plic_sample (m\<lparr>m_wr_reg := -1, m_wr_freg := -1, m_wr_fcsr := False, m_mem_read := False,
                    m_mem_write := False\<rparr>)"

definition step_instruction :: "softfloat \<Rightarrow> machine \<Rightarrow> machine option" where
  "step_instruction sf m =
     (let pc = m_pc m in
      if pc AND 3 \<noteq> 0 then Some (trap m 0 CAUSE_FETCH_MISALIGNED pc)
      else case fetch m of
        Inl ACC_PAGE_FAULT \<Rightarrow> Some (trap m 0 CAUSE_FETCH_PAGE_FAULT pc)
      | Inl _ \<Rightarrow> Some (trap m 0 CAUSE_FETCH_FAULT pc)
      | Inr word \<Rightarrow>
          (case execute_instruction sf m word of
             None \<Rightarrow> None
           | Some (E_TRAP m' cause tval) \<Rightarrow> Some (trap m' word cause tval)
           | Some (E_DONE m' result writes_rd writes_fd next) \<Rightarrow>
               Some (retire m' pc word result writes_rd writes_fd next)))"

definition step :: "softfloat \<Rightarrow> machine \<Rightarrow> machine option" where
  "step sf m =
     (let m = start_step m; enabled = interrupt_levels m in
      if enabled \<noteq> 0 then
        (case find (\<lambda>code. drop_bit code enabled AND 1 \<noteq> 0) interrupt_order of
           Some code \<Rightarrow> Some (take_interrupt m (of_nat code))
         | None \<Rightarrow> None)
      else step_instruction sf m)"

end
