(* ===== verification/Run.thy ===== *)
theory Run
  imports Exec
begin

text \<open>
  The outer layer of \<open>tools/rv32emu_core.c\<close>: power-on state, image loading, the run loop, the
  outcome of a run, debugger access, and the key names of the input script. Host failures
  (allocation, file access) are arguments of the definitions that meet them.
\<close>

section \<open>Power-on\<close>

definition virtio_zero :: virtio_blk where
  "virtio_zero =
     \<lparr>vb_status = 0, vb_features_sel = False, vb_queue_sel_zero = False, vb_queue_ready = False,
      vb_interrupt = False, vb_queue_num = 0, vb_desc_lo = 0, vb_desc_hi = 0, vb_driver_lo = 0,
      vb_driver_hi = 0, vb_device_lo = 0, vb_device_hi = 0, vb_last_avail = 0, vb_used_idx = 0,
      vb_disk = (\<lambda>_. 0), vb_disk_size = 0, vb_file = None, vb_write_error = False\<rparr>"

definition simd_device_zero :: simd_device where
  "simd_device_zero = \<lparr>simd_program = (\<lambda>_. 0), simd_data = (\<lambda>_. 0), execution = simd_execution_zero\<rparr>"

definition machine_zero :: machine where
  "machine_zero =
     \<lparr>m_simd = simd_device_zero, m_gpu = gpu_device_zero, m_g3d = g3d_device_zero, m_dma_start = 0,
      m_dma_end = 0, m_x = (\<lambda>_. 0), m_f = (\<lambda>_. 0), m_fcsr = 0, m_pc = 0, m_mtvec = 0, m_mepc = 0,
      m_mcause = 0, m_mtval = 0, m_mstatus = 0, m_mie = 0, m_mscratch = 0, m_priv = 0, m_mpp = 0,
      m_medeleg = 0, m_mideleg = 0, m_mip_soft = 0, m_stvec = 0, m_sscratch = 0, m_sepc = 0,
      m_scause = 0, m_stval = 0, m_satp = 0, m_scounteren = 0, m_mcounteren = 0, m_pmpcfg = (\<lambda>_. 0),
      m_pmpaddr = (\<lambda>_. 0), m_plic_priority = (\<lambda>_. 0), m_plic_enable = 0, m_plic_claimed = 0,
      m_plic_pending = 0, m_plic_threshold = 0, m_interrupts = 0, m_virtio = virtio_zero,
      m_ram = (\<lambda>_. 0), m_steps = 0, m_retired = 0, m_traps = 0, m_limit = 0, m_trace = None,
      m_in_trap = False, m_reserved = False, m_reservation = 0, m_reservation_pa = 0, m_halt = RUNNING,
      m_done_word = 0, m_second_cause = 0, m_second_tval = 0, m_mtime_offset = 0, m_mtimecmp = 0,
      m_msip = 0, m_fb = (\<lambda>_. 0), m_palette = (\<lambda>_. 0), m_frames = 0, m_checkpoints = None,
      m_frames_dir = None, m_output_error = False, m_queue = (\<lambda>_. 0), m_head = 0, m_count = 0,
      m_keys = 0, m_script = [], m_next_scripted = 0, m_dropped = 0, m_record = None,
      m_console_in = [], m_console_in_next = 0, m_console_stdin = False, m_console_ier = 0,
      m_console_lcr = 0, m_console_mcr = 0, m_console_scr = 0, m_console_dll = 0, m_console_dlm = 0,
      m_console_latched = 0, m_console_prompt = [], m_console_tail = (\<lambda>_. 0), m_console_tail_len = 0,
      m_console_prompts_seen = 0, m_console_lines_taken = 0, m_wr_reg = 0, m_wr_freg = 0,
      m_wr_fcsr = False, m_wr_value = 0, m_mem_read = False, m_mem_write = False, m_mem_addr = 0,
      m_mem_read_value = 0, m_mem_write_value = 0, m_mem_width = 0, m_stdout = [], m_stdin = [],
      m_ppm_ok = []\<rparr>"

definition emu_init :: machine where
  "emu_init =
     machine_zero\<lparr>m_simd := simd_reset simd_device_zero, m_gpu := gpu_device_reset gpu_device_zero,
       m_g3d := g3d_device_reset g3d_device_zero, m_dma_start := RAM_BASE, m_dma_end := RAM_BASE + RAM_SIZE,
       m_mtimecmp := NOT 0, m_priv := PRIV_M, m_mpp := PRIV_M, m_mstatus := MSTATUS_FS,
       m_x := (\<lambda>_. 0)(10 := BOOT_HART, 11 := RV32_DTB_ROM_BASE), m_limit := 100000000,
       m_palette := (\<lambda>i. if i < 256 then rgb332_word (ucast i) else 0)\<rparr>"

text \<open>\<open>emu_alloc\<close>, when the host grants the memory (\<open>granted\<close>); it reports failure otherwise.\<close>

definition emu_alloc :: "bool \<Rightarrow> machine \<Rightarrow> machine option" where
  "emu_alloc granted m =
     (if granted
      then Some (m\<lparr>m_ram := (\<lambda>_. 0), m_fb := (\<lambda>_. 0),
                   m_virtio := virtio_zero\<lparr>vb_queue_sel_zero := True, vb_disk_size := VIRTIO_DISK_SIZE\<rparr>\<rparr>)
      else None)"

text \<open>Loading the bytes of an image file: refused outside RAM, when the file does not open or read
  (\<open>None\<close>), when it is empty, and when it does not fit.\<close>

definition emu_load_image :: "machine \<Rightarrow> u8 list option \<Rightarrow> u32 \<Rightarrow> (machine \<times> nat) option" where
  "emu_load_image m img base =
     (case img of
        None \<Rightarrow> None
      | Some bytes \<Rightarrow>
          if base < RAM_BASE \<or> base - RAM_BASE \<ge> RAM_SIZE then None
          else if length bytes = 0 \<or> length bytes > unat (RAM_SIZE - (base - RAM_BASE)) then None
          else Some (m\<lparr>m_ram := (\<lambda>a. if a \<ge> base - RAM_BASE \<and> unat (a - (base - RAM_BASE)) < length bytes
                                    then bytes ! unat (a - (base - RAM_BASE)) else m_ram m a)\<rparr>,
                     length bytes))"

text \<open>The options that only fill in fields, with the source's refusals.\<close>

definition emu_set_console_prompt :: "machine \<Rightarrow> u8 list \<Rightarrow> machine option" where
  "emu_set_console_prompt m prompt =
     (if m_console_stdin m then None
      else if length prompt = 0 \<or> length prompt > 64 then None
      else Some (m\<lparr>m_console_prompt := prompt\<rparr>))"

text \<open>\<open>None\<close> for the path is \<open>-\<close>, the host's stdin; otherwise the file's bytes.\<close>

definition emu_read_console_input :: "machine \<Rightarrow> u8 list option \<Rightarrow> machine option" where
  "emu_read_console_input m file =
     (case file of
        None \<Rightarrow> if length (m_console_prompt m) \<noteq> 0 then None else Some (m\<lparr>m_console_stdin := True\<rparr>)
      | Some bytes \<Rightarrow> Some (m\<lparr>m_console_in := m_console_in m @ bytes\<rparr>))"

definition emu_open_disk :: "machine \<Rightarrow> u8 list \<Rightarrow> nat option list \<Rightarrow> machine option" where
  "emu_open_disk m file results =
     (let got = length file in
      if got > unat VIRTIO_DISK_MAX \<or> got = 0 \<or> got mod 512 \<noteq> 0 then None
      else
        let at = (\<lambda>a. if unat a < got then file ! unat a else 0) in
        Some (m\<lparr>m_virtio := (m_virtio m)\<lparr>vb_disk := (\<lambda>a. if unat a < got then file ! unat a
                                                      else vb_disk (m_virtio m) a),
                                         vb_disk_size := of_nat got,
                                         vb_file := Some \<lparr>df_bytes = at, df_results = results\<rparr>\<rparr>\<rparr>))"

section \<open>The run loop\<close>

datatype emu_stop = EMU_STOP_HALTED | EMU_STOP_PRESENTED | EMU_STOP_BUDGET

definition run_end :: "machine \<Rightarrow> u64 \<Rightarrow> u64" where
  "run_end m budget = (if budget > (NOT 0) - m_steps m then NOT 0 else m_steps m + budget)"

partial_function (option) run_loop ::
  "softfloat \<Rightarrow> u32 \<Rightarrow> u64 \<Rightarrow> machine \<Rightarrow> (machine \<times> emu_stop) option" where
  "run_loop sf frames end m =
     (if m_halt m \<noteq> RUNNING then Some (m, EMU_STOP_HALTED)
      else if m_steps m \<ge> m_limit m then Some (m\<lparr>m_halt := HALT_LIMIT\<rparr>, EMU_STOP_HALTED)
      else if m_steps m \<ge> end then Some (m, EMU_STOP_BUDGET)
      else case step sf m of
        None \<Rightarrow> None
      | Some m' \<Rightarrow>
          if m_frames m' \<noteq> frames then Some (m', EMU_STOP_PRESENTED)
          else run_loop sf frames end m')"

definition emu_run_until :: "softfloat \<Rightarrow> machine \<Rightarrow> u64 \<Rightarrow> (machine \<times> emu_stop) option" where
  "emu_run_until sf m budget = run_loop sf (m_frames m) (run_end m budget) m"

section \<open>The outcome of a run\<close>

definition emu_report_halt :: "machine \<Rightarrow> int" where
  "emu_report_halt m =
     (case m_halt m of
        HALT_DONE \<Rightarrow>
          if m_done_word m = DONE_PASS then 0
          else if m_done_word m AND 0xffff = DONE_FAIL \<and> drop_bit 16 (m_done_word m) \<ge> 1 \<and>
                  drop_bit 16 (m_done_word m) \<le> 255
            then int (unat (drop_bit 16 (m_done_word m)))
          else EXIT_EMULATOR_ERROR
      | _ \<Rightarrow> EXIT_EMULATOR_ERROR)"

text \<open>\<open>closed\<close> says whether the host flushed and closed the console and every open output.\<close>

definition emu_finish_outputs :: "machine \<Rightarrow> bool \<Rightarrow> bool \<times> machine" where
  "emu_finish_outputs m closed =
     (closed \<and> \<not> m_output_error m \<and> \<not> vb_write_error (m_virtio m),
      m\<lparr>m_trace := None, m_checkpoints := None, m_record := None\<rparr>)"

definition emu_exit_status :: "machine \<Rightarrow> int \<Rightarrow> bool \<Rightarrow> bool \<Rightarrow> int" where
  "emu_exit_status m status outputs_ok allow_lost_events =
     (if \<not> outputs_ok then EXIT_EMULATOR_ERROR
      else
        let lost = m_dropped m + (length (m_script m) - m_next_scripted m) in
        if lost > 0 \<and> \<not> allow_lost_events \<and> status = 0 then EXIT_EMULATOR_ERROR
        else status)"

section \<open>Debugger access\<close>

text \<open>\<open>debug_bytes\<close> returns a pointer: here which array and the offset in it.\<close>

datatype debug_area = D_RAM u32 | D_FB u32

definition debug_bytes :: "u32 \<Rightarrow> u64 \<Rightarrow> debug_area option" where
  "debug_bytes addr n =
     (let end = ucast addr + n in
      if addr \<ge> RAM_BASE \<and> end \<le> ucast RAM_BASE + ucast RAM_SIZE then Some (D_RAM (addr - RAM_BASE))
      else if addr \<ge> FB_BASE \<and> end \<le> ucast FB_BASE + ucast FB_SIZE then Some (D_FB (addr - FB_BASE))
      else None)"

definition emu_debug_read :: "machine \<Rightarrow> u32 \<Rightarrow> nat \<Rightarrow> u8 list option" where
  "emu_debug_read m addr n =
     (case debug_bytes addr (of_nat n) of
        None \<Rightarrow> None
      | Some (D_RAM at) \<Rightarrow> Some (map (\<lambda>i. m_ram m (at + of_nat i)) [0..<n])
      | Some (D_FB at) \<Rightarrow> Some (map (\<lambda>i. m_fb m (at + of_nat i)) [0..<n]))"

definition put_bytes :: "bytes \<Rightarrow> u32 \<Rightarrow> u8 list \<Rightarrow> bytes" where
  "put_bytes p at xs = fold (\<lambda>i p. p(at + of_nat i := xs ! i)) [0..<length xs] p"

definition emu_debug_write :: "machine \<Rightarrow> u32 \<Rightarrow> u8 list \<Rightarrow> machine option" where
  "emu_debug_write m addr xs =
     (case debug_bytes addr (of_nat (length xs)) of
        None \<Rightarrow> None
      | Some (D_RAM at) \<Rightarrow> Some (m\<lparr>m_ram := put_bytes (m_ram m) at xs\<rparr>)
      | Some (D_FB at) \<Rightarrow> Some (m\<lparr>m_fb := put_bytes (m_fb m) at xs\<rparr>))"

definition emu_csr_read :: "machine \<Rightarrow> u32 \<Rightarrow> u32 option" where
  "emu_csr_read m number = csr_read m number"

definition emu_csr_write :: "machine \<Rightarrow> u32 \<Rightarrow> u32 \<Rightarrow> machine option" where
  "emu_csr_write m number value =
     (if csr_read m number = None \<or> csr_read_only number \<or> number = CSR_MISA then None
      else Some (csr_write m number value))"

section \<open>Key names and the input script\<close>

definition KEY_NAMES :: "(string \<times> int) list" where
  "KEY_NAMES =
     [(''LEFT'', 1), (''RIGHT'', 2), (''UP'', 3), (''DOWN'', 4), (''SPACE'', 5), (''ENTER'', 6), (''ESCAPE'', 7),
      (''A'', 8), (''D'', 9), (''W'', 10), (''S'', 11), (''P'', 12), (''Q'', 13), (''R'', 14),
      (''CTRL'', 15), (''SHIFT'', 16), (''TAB'', 17), (''Y'', 18), (''N'', 19),
      (''DIGIT1'', 20), (''DIGIT2'', 21), (''DIGIT3'', 22), (''DIGIT4'', 23), (''DIGIT5'', 24),
      (''DIGIT6'', 25), (''DIGIT7'', 26)]"

definition emu_key_name :: "int \<Rightarrow> string option" where
  "emu_key_name code = map_option fst (find (\<lambda>k. snd k = code) KEY_NAMES)"

text \<open>\<open>isdigit\<close>, \<open>toupper\<close> and decimal \<open>strtoul\<close> of the C library, on ASCII.\<close>

definition isdigit :: "char \<Rightarrow> bool" where
  "isdigit c \<longleftrightarrow> of_char c \<ge> (48 :: nat) \<and> of_char c \<le> (57 :: nat)"

definition toupper :: "char \<Rightarrow> char" where
  "toupper c = (if of_char c \<ge> (97 :: nat) \<and> of_char c \<le> (122 :: nat) then char_of (of_char c - (32 :: nat)) else c)"

definition strtoul10 :: "string \<Rightarrow> nat" where
  "strtoul10 text = foldl (\<lambda>n c. 10 * n + (of_char c - 48)) 0 (takeWhile isdigit text)"

definition decimal_ok :: "string \<Rightarrow> bool" where
  "decimal_ok text \<longleftrightarrow> length text \<noteq> 0 \<and> length text \<le> 9 \<and> list_all isdigit text"

definition emu_key_code :: "string \<Rightarrow> int" where
  "emu_key_code text =
     (if length text = 0 \<or> length text \<ge> 16 then -1
      else case find (\<lambda>k. fst k = map toupper text) KEY_NAMES of
        Some k \<Rightarrow> snd k
      | None \<Rightarrow>
          if \<not> decimal_ok text then -1
          else if strtoul10 text < 32 then int (strtoul10 text) else -1)"

text \<open>One line of the script, as the five \<open>%15s\<close> conversions of its \<open>sscanf\<close> split it; \<open>Inl\<close> is the refusal that ends the
  program, \<open>Inr None\<close> a blank line or a comment.\<close>

definition script_line :: "string list \<Rightarrow> u32 \<Rightarrow> unit + scripted_event option" where
  "script_line words last_frame =
     (case words of
        [] \<Rightarrow> Inr None
      | keyword # rest \<Rightarrow>
          if keyword \<noteq> [] \<and> hd keyword = CHR ''#'' then Inr None
          else case rest of
            [frame_text, direction, key] \<Rightarrow>
              let frame = (if decimal_ok frame_text then strtoul10 frame_text else 0);
                  code = (if decimal_ok frame_text then emu_key_code key else -1)
              in
              if keyword \<noteq> ''frame'' \<or> (direction \<noteq> ''down'' \<and> direction \<noteq> ''up'') \<or>
                 \<not> decimal_ok frame_text \<or> code < 0 \<or> frame < unat last_frame
              then Inl ()
              else Inr (Some \<lparr>se_frame = of_nat frame,
                              se_event = EVENT_VALID OR (if hd direction = CHR ''d'' then EVENT_PRESS else 0) OR
                                         of_int code\<rparr>)
          | _ \<Rightarrow> Inl ())"

fun emu_read_input_script :: "string list list \<Rightarrow> u32 \<Rightarrow> scripted_event list option" where
  "emu_read_input_script [] last_frame = Some []"
| "emu_read_input_script (line # lines) last_frame =
     (case script_line line last_frame of
        Inl _ \<Rightarrow> None
      | Inr None \<Rightarrow> emu_read_input_script lines last_frame
      | Inr (Some ev) \<Rightarrow> map_option (\<lambda>evs. ev # evs) (emu_read_input_script lines (se_frame ev)))"

definition emu_halt_name :: "halt \<Rightarrow> string" where
  "emu_halt_name h =
     (case h of HALT_DONE \<Rightarrow> ''done'' | HALT_DOUBLE_FAULT \<Rightarrow> ''double-fault'' | HALT_LIMIT \<Rightarrow> ''limit''
      | HALT_STOPPED \<Rightarrow> ''stopped'' | RUNNING \<Rightarrow> ''running'')"

end
