(* ===== verification/Delivery.thy ===== *)
theory Delivery
  imports Run
begin

text \<open>
  What the interrupt path of \<open>tools/rv32emu_core.c\<close> delivers: the ring of input events is a bounded
  first-in first-out queue, and the claim register of the PLIC hands out each request once.
\<close>

section \<open>Bounded queues\<close>


section \<open>The ring of input events\<close>


















section \<open>Properties\<close>



text \<open>
  C19: the PLIC's claim. A read of the claim register returns 0 when no pending and enabled source
  has a priority above the threshold. Otherwise it returns the source with the highest priority,
  the lowest number among equals; that request is no longer pending, and the gateway does not
  raise it again before the source is completed.
\<close>

theorem plic_claim_correct:
  assumes "plic_load m PLIC_CLAIM 4 = (Inr v, m')"
  shows "if v = 0 then
      \<forall>i. 1 \<le> i \<and> i < 32 \<and> bit (m_plic_pending m AND m_plic_enable m) i \<longrightarrow>
          plic_prio m i \<le> ucast (m_plic_threshold m)
    else
      1 \<le> unat v \<and> unat v < 32 \<and> bit (m_plic_pending m AND m_plic_enable m) (unat v) \<and>
      ucast (m_plic_threshold m) < plic_prio m (unat v) \<and>
      (\<forall>i. 1 \<le> i \<and> i < 32 \<and> bit (m_plic_pending m AND m_plic_enable m) i \<longrightarrow>
          plic_prio m i \<le> plic_prio m (unat v) \<and> (plic_prio m i = plic_prio m (unat v) \<longrightarrow> unat v \<le> i)) \<and>
      bit (m_plic_claimed m') (unat v) \<and> \<not> bit (m_plic_pending (plic_sample m')) (unat v)"
proof -
  have v: "v = plic_best m" and m': "m_plic_pending m' = m_plic_pending m AND NOT (push_bit (unat v) 1)"
    "m_plic_claimed m' = m_plic_claimed m OR (push_bit (unat v) 1 AND NOT 1)"
    using assms by (auto simp: plic_load_def Let_def)
  obtain p where p: "plic_chosen m (m_plic_pending m AND m_plic_enable m) (ucast (m_plic_threshold m)) 32 (v, p)"
    using plic_best_chosen [of m] v by blast
  show ?thesis
  proof (cases "v = 0")
    case True then show ?thesis using p by (auto simp: plic_chosen_def)
  next
    case False
    then have u: "1 \<le> unat v" "unat v < 32" using p by (auto simp: plic_chosen_def)
    then have "bit (m_plic_claimed m') (unat v)" "\<not> bit (m_plic_pending (plic_sample m')) (unat v)"
      by (auto simp: plic_sample_def m' bit_simps)
    then show ?thesis using p False u by (auto simp: plic_chosen_def)
  qed
qed

text \<open>Both wired sources pending; the input queue has the higher priority.\<close>

definition plic_example :: machine where
  "plic_example = machine_zero\<lparr>m_plic_pending := 0x1002, m_plic_enable := 0x1002,
     m_plic_priority := (\<lambda>i. if i = 12 then 3 else 2)\<rparr>"

theorem plic_claim_correct_witness:
  "\<exists>m'. plic_load plic_example PLIC_CLAIM 4 = (Inr 12, m') \<and> \<not> bit (m_plic_pending (plic_sample m')) 12"
proof -
  have "plic_best plic_example = 12"
    by (simp add: plic_best_def plic_better_def plic_pending_def plic_example_def machine_zero_def upt_rec)
  then obtain m' where m': "plic_load plic_example PLIC_CLAIM 4 = (Inr 12, m')"
    by (simp add: plic_load_def Let_def)
  then show ?thesis using plic_claim_correct [OF m'] by simp
qed

end
