(* ===== verification/Protect.thy ===== *)
theory Protect
  imports Run
begin

text \<open>
  What memory protection and translation of \<open>tools/rv32emu_core.c\<close> decide, in terms of addresses:
  the PMP entries as intervals of the physical address space, and Sv32 as a function on pages.
\<close>

section \<open>PMP entries as intervals\<close>

function trailing_ones :: "nat \<Rightarrow> nat" where
  "trailing_ones n = (if odd n then Suc (trailing_ones (n div 2)) else 0)"
  by pat_completeness auto
termination trailing_ones
  by (relation "measure id") (auto elim!: oddE)

declare trailing_ones.simps [simp del]

text \<open>The bytes of the 34-bit physical address space that entry \<open>i\<close> names.\<close>

definition pmp_region :: "machine \<Rightarrow> nat \<Rightarrow> nat set" where
  "pmp_region m i =
     (let mode = ucast (m_pmpcfg m (of_nat i)) AND PMP_A; at = unat (m_pmpaddr m (of_nat i)) in
      if mode = PMP_TOR then {(if i = 0 then 0 else 4 * unat (m_pmpaddr m (of_nat (i - 1)))) ..< 4 * at}
      else if mode = PMP_NA4 then {4 * at ..< 4 * at + 4}
      else if mode = PMP_NAPOT then
        (let size = 2 ^ (trailing_ones at + 1); base = at div size * size in {4 * base ..< 4 * (base + size)})
      else {})"

definition pmp_spec :: "u32 \<Rightarrow> machine \<Rightarrow> u32 \<Rightarrow> u32 \<Rightarrow> bool" where
  "pmp_spec priv m addr need =
     (case find (\<lambda>i. unat addr \<in> pmp_region m i) [0..<8] of
        None \<Rightarrow> priv = PRIV_M
      | Some i \<Rightarrow>
          let cfg = ucast (m_pmpcfg m (of_nat i)) in (priv = PRIV_M \<and> cfg AND PMP_L = 0) \<or> cfg AND need = need)"

lemma xor_Suc_trailing: "n XOR Suc n = mask (Suc (trailing_ones n))"
proof (induction n rule: trailing_ones.induct)
  case (1 n)
  show ?case
  proof (cases "odd n")
    case True
    then obtain k where k: "n = 2 * k + 1" by (elim oddE)
    then have "n XOR Suc n = 2 * (k XOR Suc k) + 1"
      by (subst xor_nat_rec) simp
    also have "\<dots> = mask (Suc (trailing_ones n))"
    proof -
      have e: "2 * (2 * p - 1) + 1 = 4 * p - (1 :: nat)" if "0 < p" for p using that by arith
      show ?thesis
        using 1 [OF True] e [of "2 ^ trailing_ones k"] k
        by (simp add: trailing_ones.simps [of "Suc (2 * k)"] mask_eq_exp_minus_1)
    qed
    finally show ?thesis .
  next
    case False
    then obtain k where k: "n = 2 * k" by (auto elim: evenE)
    then have "n XOR Suc n = 1" by (subst xor_nat_rec) simp
    then show ?thesis using False by (simp add: trailing_ones.simps [of n] mask_Suc_0)
  qed
qed

lemma xor_succ_trailing: "at XOR (at + 1) = mask (Suc (trailing_ones (unat at)))" for at :: u32
proof -
  have "at XOR (at + 1) = of_nat (unat at) XOR of_nat (Suc (unat at))" by (simp add: add.commute)
  also have "\<dots> = of_nat (unat at XOR Suc (unat at))" by (simp only: of_nat_xor_eq)
  finally show ?thesis by (simp only: xor_Suc_trailing of_nat_mask_eq)
qed

lemma unat_drop: "unat (drop_bit s v) = unat v div 2 ^ s" for v :: u32
  by (simp only: unat_drop_bit_eq drop_bit_nat_def)

lemma xor_above_mask: "(v XOR w) AND NOT (mask s) = 0 \<longleftrightarrow> unat v div 2 ^ s = unat w div 2 ^ s" for v w :: u32
proof -
  have "(v XOR w) AND NOT (mask s) = 0 \<longleftrightarrow> drop_bit s v = drop_bit s w"
  proof
    assume h: "(v XOR w) AND NOT (mask s) = 0"
    show "drop_bit s v = drop_bit s w"
    proof (rule bit_word_eqI)
      fix n assume "n < LENGTH(32)"
      have "\<not> bit ((v XOR w) AND NOT (mask s)) (s + n)" by (simp add: h)
      then show "bit (drop_bit s v) n = bit (drop_bit s w) n"
        by (auto simp: bit_simps dest: bit_imp_le_length)
    qed
  next
    assume h: "drop_bit s v = drop_bit s w"
    show "(v XOR w) AND NOT (mask s) = 0"
    proof (rule bit_word_eqI)
      fix n assume "n < LENGTH(32)"
      then show "bit ((v XOR w) AND NOT (mask s)) n = bit (0 :: u32) n"
        using arg_cong [OF h, of "\<lambda>x. bit x (n - s)"] by (auto simp: bit_simps)
    qed
  qed
  also have "\<dots> \<longleftrightarrow> unat v div 2 ^ s = unat w div 2 ^ s"
    by (simp only: word_unat_eq_iff unat_drop)
  finally show ?thesis .
qed

lemma div_interval: "0 < (s :: nat) \<Longrightarrow> a div 4 div s = q \<longleftrightarrow> a \<in> {4 * (q * s) ..< 4 * (q * s + s)}"
proof -
  assume s: "0 < s"
  have "a div 4 div s = q \<longleftrightarrow> q * (4 * s) \<le> a \<and> a < (q + 1) * (4 * s)"
  proof
    assume "a div 4 div s = q"
    then have "q = a div (4 * s)" by (simp add: div_mult2_eq)
    then show "q * (4 * s) \<le> a \<and> a < (q + 1) * (4 * s)"
      using s dividend_less_times_div [of "4 * s" a] div_times_less_eq_dividend [of a "4 * s"] by (simp add: algebra_simps)
  next
    assume "q * (4 * s) \<le> a \<and> a < (q + 1) * (4 * s)"
    then have "a div (4 * s) = q" by (intro div_nat_eqI) (simp_all add: algebra_simps)
    then show "a div 4 div s = q" by (simp add: div_mult2_eq)
  qed
  then show ?thesis by (auto simp: algebra_simps)
qed

lemma napot_interval:
  "(drop_bit 2 addr XOR at) AND NOT (at XOR (at + 1)) = 0 \<longleftrightarrow>
     unat addr \<in> {4 * (unat at div 2 ^ (trailing_ones (unat at) + 1) * 2 ^ (trailing_ones (unat at) + 1)) ..<
        4 * (unat at div 2 ^ (trailing_ones (unat at) + 1) * 2 ^ (trailing_ones (unat at) + 1) +
             2 ^ (trailing_ones (unat at) + 1))}" for addr at :: u32
proof -
  define s where "s = (2 :: nat) ^ (trailing_ones (unat at) + 1)"
  have "0 < s" by (simp add: s_def)
  have "(drop_bit 2 addr XOR at) AND NOT (at XOR (at + 1)) = 0 \<longleftrightarrow> unat addr div 4 div s = unat at div s"
    by (simp only: xor_succ_trailing xor_above_mask unat_drop s_def Suc_eq_plus1) simp
  then show ?thesis unfolding s_def [symmetric] by (simp only: div_interval [OF \<open>0 < s\<close>])
qed

lemma na4_interval: "drop_bit 2 addr = at \<longleftrightarrow> unat addr \<in> {4 * unat at ..< 4 * unat at + 4}" for addr at :: u32
proof -
  have "drop_bit 2 addr = at \<longleftrightarrow> unat addr div 4 = unat at" by (simp add: word_unat_eq_iff unat_drop)
  then show ?thesis by auto
qed

lemma tor_interval:
  "drop_bit 2 addr \<ge> lo \<and> drop_bit 2 addr < hi \<longleftrightarrow> unat addr \<in> {4 * unat lo ..< 4 * unat hi}" for addr lo hi :: u32
  unfolding word_le_nat_alt word_less_nat_alt unat_drop by auto

lemma pmp_match_region: "i < 8 \<Longrightarrow> pmp_match m (drop_bit 2 addr) (of_nat i) \<longleftrightarrow> unat addr \<in> pmp_region m i"
proof -
  assume i: "i < 8"
  then have i0: "(of_nat i :: u32) = 0 \<longleftrightarrow> i = 0" by (auto simp: word_unat_eq_iff unat_of_nat)
  have i1: "i \<noteq> 0 \<Longrightarrow> of_nat (i - 1) = (of_nat i :: u32) - 1" by (simp add: of_nat_diff)
  show ?thesis
    unfolding pmp_match_def pmp_region_def Let_def napot_interval na4_interval tor_interval
    using i0 i1 by (cases "i = 0") simp_all
qed

lemma pmp_scan_spec:
  assumes "\<forall>i\<in>set is. i < 8"
  shows "pmp_scan priv m (drop_bit 2 addr) need (map of_nat is) =
     (case find (\<lambda>i. unat addr \<in> pmp_region m i) is of
        None \<Rightarrow> priv = PRIV_M
      | Some i \<Rightarrow>
          let cfg = ucast (m_pmpcfg m (of_nat i)) in (priv = PRIV_M \<and> cfg AND PMP_L = 0) \<or> cfg AND need = need)"
  using assms by (induction "is") (simp_all add: pmp_match_region)

section \<open>Properties of protection\<close>

text \<open>
  C14: physical memory protection. The permission scan is the specification over intervals: the
  first entry whose interval (TOR, NA4 or the naturally aligned power of two) holds the byte
  decides by its R, W and X bits, an unlocked entry does not bind machine mode, and an address no
  entry holds is machine mode's only.
\<close>

theorem pmp_allows_refines: "pmp_allows priv m addr need = pmp_spec priv m addr need"
proof -
  have "[0, 1, 2, 3, 4, 5, 6, 7 :: u32] = map of_nat [0..<8]" by (simp add: upt_rec)
  moreover have "\<forall>i\<in>set [0..<8]. i < (8 :: nat)" by simp
  ultimately show ?thesis
    unfolding pmp_allows_def pmp_spec_def by (simp only: pmp_scan_spec)
qed

section \<open>Sv32 as a function on pages\<close>

text \<open>A page table entry: its frame number and its permissions for an access.\<close>

definition pte_ppn :: "u32 \<Rightarrow> nat" where
  "pte_ppn pte = unat pte div 2 ^ 10"

definition pte_invalid :: "u32 \<Rightarrow> bool" where
  "pte_invalid pte \<longleftrightarrow> \<not> bit pte 0 \<or> (\<not> bit pte 1 \<and> bit pte 2)"

definition pte_leaf :: "u32 \<Rightarrow> bool" where
  "pte_leaf pte \<longleftrightarrow> bit pte 1 \<or> bit pte 3"

definition pte_allows :: "machine \<Rightarrow> walk_kind \<Rightarrow> u32 \<Rightarrow> u32 \<Rightarrow> bool" where
  "pte_allows m kind priv pte \<longleftrightarrow>
     (case kind of
        WALK_FETCH \<Rightarrow> bit pte 3
      | WALK_LOAD \<Rightarrow> bit pte 1 \<or> (bit (m_mstatus m) 19 \<and> bit pte 3)
      | WALK_STORE \<Rightarrow> bit pte 2 \<and> bit pte 7) \<and>
     bit pte 6 \<and>
     (if priv = PRIV_U then bit pte 4 else bit pte 4 \<longrightarrow> kind \<noteq> WALK_FETCH \<and> bit (m_mstatus m) 18)"

text \<open>A physical address of the 34-bit space; only 32-bit ones exist on this bus.\<close>

definition physical :: "nat \<Rightarrow> u32 mem_access" where
  "physical a = (if a < 2 ^ 32 then Inr (of_nat a) else Inl ACC_FAULT)"

definition read_pte :: "machine \<Rightarrow> nat \<Rightarrow> u32 mem_access" where
  "read_pte m a =
     (case physical a of
        Inl f \<Rightarrow> Inl f
      | Inr at \<Rightarrow> if in_ram at 4 \<and> pmp_spec PRIV_S m at PMP_R then Inr (ram_read m at 4) else Inl ACC_FAULT)"

definition sv32 :: "machine \<Rightarrow> u32 \<Rightarrow> walk_kind \<Rightarrow> u32 \<Rightarrow> u32 mem_access" where
  "sv32 m va kind priv =
     (case read_pte m (unat (m_satp m) mod 2 ^ 22 * 2 ^ 12 + 4 * (unat va div 2 ^ 22)) of
        Inl f \<Rightarrow> Inl f
      | Inr pte1 \<Rightarrow>
          if pte_invalid pte1 then Inl ACC_PAGE_FAULT
          else if pte_leaf pte1 then
            (if pte_ppn pte1 mod 2 ^ 10 \<noteq> 0 \<or> \<not> pte_allows m kind priv pte1 then Inl ACC_PAGE_FAULT
             else physical (pte_ppn pte1 * 2 ^ 12 + unat va mod 2 ^ 22))
          else if bit pte1 4 \<or> bit pte1 6 \<or> bit pte1 7 then Inl ACC_PAGE_FAULT
          else
            (case read_pte m (pte_ppn pte1 * 2 ^ 12 + 4 * (unat va div 2 ^ 12 mod 2 ^ 10)) of
               Inl f \<Rightarrow> Inl f
             | Inr pte0 \<Rightarrow>
                 if pte_invalid pte0 \<or> \<not> pte_leaf pte0 \<or> \<not> pte_allows m kind priv pte0 then Inl ACC_PAGE_FAULT
                 else physical (pte_ppn pte0 * 2 ^ 12 + unat va mod 2 ^ 12)))"

lemma unat_push: "s \<le> 22 \<Longrightarrow> unat (push_bit s (ucast v) :: u64) = unat v * 2 ^ s" for v :: u32
proof -
  assume s: "s \<le> 22"
  have "unat v * 2 ^ s < 2 ^ 32 * 2 ^ s" using unat_u32_less [of v] by simp
  also have "\<dots> \<le> 2 ^ 32 * 2 ^ 22" using s by (intro mult_left_mono power_increasing) simp_all
  finally have "unat v * 2 ^ s < 2 ^ 64" by simp
  moreover have "unat (ucast v :: u64) = unat v" using unat_u32_less [of v] by (simp add: unsigned_ucast_eq take_bit_nat_eq_self)
  ultimately show ?thesis
    by (simp only: unsigned_push_bit_eq push_bit_nat_def) (simp add: take_bit_nat_eq_self)
qed

lemma mask_numerals: "(0x3fffff :: u32) = mask 22" "(0xfff :: u32) = mask 12" "(0x3ff :: u32) = mask 10"
  by (simp_all add: mask_eq_exp_minus_1)

lemma unat_and_mask: "unat (v AND mask s) = unat v mod 2 ^ s" for v :: u32
  by (simp only: take_bit_eq_mask [symmetric] unsigned_take_bit_eq take_bit_nat_def)

lemma unat_ucast_u64: "unat (ucast v :: u64) = unat v" for v :: u32
  using unat_u32_less [of v] by (simp add: unsigned_ucast_eq take_bit_nat_eq_self)

lemma unat_frame:
  "s \<le> 22 \<Longrightarrow> unat (push_bit s (ucast q) OR ucast (v AND mask s) :: u64) = unat q * 2 ^ s + unat v mod 2 ^ s" for q v :: u32
proof -
  assume s: "s \<le> 22"
  have "push_bit s (ucast q) OR ucast (v AND mask s) = push_bit s (ucast q) + (ucast (v AND mask s) :: u64)"
    by (rule disjunctive_add [symmetric]) (auto simp: bit_simps)
  moreover have "unat q * 2 ^ s + unat v mod 2 ^ s < 2 ^ 64"
  proof -
    have "unat v mod 2 ^ s < 2 ^ s" by simp
    then have "unat q * 2 ^ s + unat v mod 2 ^ s < (unat q + 1) * 2 ^ s" by simp
    also have "\<dots> \<le> 2 ^ 32 * 2 ^ 22"
      using unat_u32_less [of q] s by (intro mult_mono power_increasing) simp_all
    finally show ?thesis by simp
  qed
  ultimately show ?thesis by (simp add: unat_word_ariths unat_push [OF s] unat_ucast_u64 unat_and_mask)
qed

lemma unat_slot:
  fixes va :: u32
  assumes "unat table < 2 ^ 50"
  shows "unat (table + ucast (4 * (drop_bit s va AND 0x3ff)) :: u64) = unat table + 4 * (unat va div 2 ^ s mod 2 ^ 10)"
proof -
  have "unat (drop_bit s va AND 0x3ff) = unat va div 2 ^ s mod 2 ^ 10"
    by (simp only: mask_numerals unat_and_mask unat_drop)
  then have "unat (4 * (drop_bit s va AND 0x3ff)) = 4 * (unat va div 2 ^ s mod 2 ^ 10)"
    by (simp add: unat_word_ariths)
  then show ?thesis
    using assms by (simp add: unat_word_ariths unat_ucast_u64)
qed

lemma physical_eq: "(if drop_bit 32 a \<noteq> 0 then Inl ACC_FAULT else Inr (ucast a)) = physical (unat a)" for a :: u64
proof -
  have "drop_bit 32 a = 0 \<longleftrightarrow> unat a div 2 ^ 32 = 0"
    by (simp add: word_unat_eq_iff unat_drop_bit_eq drop_bit_nat_def)
  then have "drop_bit 32 a \<noteq> 0 \<longleftrightarrow> \<not> unat a < 2 ^ 32" by (simp add: div_eq_0_iff)
  moreover have "ucast a = (of_nat (unat a) :: u32)" by (simp add: of_nat_unat)
  ultimately show ?thesis by (simp add: physical_def)
qed

lemma flag_tests:
  fixes v :: u32
  shows "v AND 0x01 = 0 \<longleftrightarrow> \<not> bit v 0" "v AND 0x02 = 0 \<longleftrightarrow> \<not> bit v 1" "v AND 0x04 = 0 \<longleftrightarrow> \<not> bit v 2"
    "v AND 0x08 = 0 \<longleftrightarrow> \<not> bit v 3" "v AND 0x10 = 0 \<longleftrightarrow> \<not> bit v 4" "v AND 0x40 = 0 \<longleftrightarrow> \<not> bit v 6"
    "v AND 0x80 = 0 \<longleftrightarrow> \<not> bit v 7" "v AND 0x40000 = 0 \<longleftrightarrow> \<not> bit v 18" "v AND 0x80000 = 0 \<longleftrightarrow> \<not> bit v 19"
  using and_exp_eq_0_iff_not_bit [of v 0] and_exp_eq_0_iff_not_bit [of v 1] and_exp_eq_0_iff_not_bit [of v 2]
    and_exp_eq_0_iff_not_bit [of v 3] and_exp_eq_0_iff_not_bit [of v 4] and_exp_eq_0_iff_not_bit [of v 6]
    and_exp_eq_0_iff_not_bit [of v 7] and_exp_eq_0_iff_not_bit [of v 18] and_exp_eq_0_iff_not_bit [of v 19]
  by simp_all

lemma walk_leaf_checks:
  "walk_leaf m va kind priv level pte =
     (if level \<and> drop_bit 10 pte AND 0x3ff \<noteq> 0 \<or> \<not> pte_allows m kind priv pte then Inl ACC_PAGE_FAULT
      else physical (unat (if level then push_bit 22 (ucast (drop_bit 10 (drop_bit 10 pte))) OR ucast (va AND 0x3fffff)
                           else push_bit 12 (ucast (drop_bit 10 pte)) OR ucast (va AND 0xfff) :: u64)))"
proof -
  define a where "a = (if level then push_bit 22 (ucast (drop_bit 10 (drop_bit 10 pte))) OR ucast (va AND 0x3fffff)
    else push_bit 12 (ucast (drop_bit 10 pte)) OR ucast (va AND 0xfff) :: u64)"
  define r where "r = (if drop_bit 32 a \<noteq> 0 then Inl ACC_FAULT else Inr (ucast a) :: u32 mem_access)"
  have "physical (unat a) = r" by (simp only: r_def physical_eq)
  moreover have "walk_leaf m va kind priv level pte =
     (if level \<and> drop_bit 10 pte AND 0x3ff \<noteq> 0 \<or> \<not> pte_allows m kind priv pte then Inl ACC_PAGE_FAULT else r)"
    unfolding walk_leaf_def Let_def pte_allows_def flag_tests a_def [symmetric] r_def [symmetric]
    by (cases kind) auto
  ultimately show ?thesis by (simp only: a_def)
qed

lemma ppn_low: "drop_bit 10 pte AND 0x3ff \<noteq> 0 \<longleftrightarrow> pte_ppn pte mod 2 ^ 10 \<noteq> 0"
proof -
  have "unat (drop_bit 10 pte AND 0x3ff) = pte_ppn pte mod 2 ^ 10"
    by (simp only: mask_numerals unat_and_mask unat_drop pte_ppn_def)
  then show ?thesis by (metis unat_eq_0)
qed

lemma walk_leaf_page:
  "walk_leaf m va kind priv False pte =
     (if \<not> pte_allows m kind priv pte then Inl ACC_PAGE_FAULT else physical (pte_ppn pte * 2 ^ 12 + unat va mod 2 ^ 12))"
  unfolding walk_leaf_checks mask_numerals
  by (simp only: unat_frame unat_drop pte_ppn_def HOL.simp_thms if_False)

lemma walk_leaf_superpage:
  "walk_leaf m va kind priv True pte =
     (if pte_ppn pte mod 2 ^ 10 \<noteq> 0 \<or> \<not> pte_allows m kind priv pte then Inl ACC_PAGE_FAULT
      else physical (pte_ppn pte * 2 ^ 12 + unat va mod 2 ^ 22))"
proof -
  have "pte_ppn pte mod 2 ^ 10 = 0 \<Longrightarrow> pte_ppn pte div 2 ^ 10 * 2 ^ 22 = pte_ppn pte * 2 ^ 12"
    by (auto elim!: dvdE simp: mod_eq_0_iff_dvd)
  moreover have "unat (push_bit 22 (ucast (drop_bit 10 (drop_bit 10 pte))) OR ucast (va AND mask 22) :: u64) =
      pte_ppn pte div 2 ^ 10 * 2 ^ 22 + unat va mod 2 ^ 22"
    by (simp only: unat_frame [OF order_refl] unat_drop pte_ppn_def)
  ultimately show ?thesis
    unfolding walk_leaf_checks ppn_low mask_numerals(1)
    by (cases "pte_ppn pte mod 2 ^ 10 = 0") (simp_all only: simp_thms if_True if_False)
qed

lemma read_pte_eq:
  "read_pte m (unat at) =
     (if drop_bit 32 at \<noteq> 0 \<or> \<not> in_ram (ucast at) 4 \<or> \<not> pmp_allows PRIV_S m (ucast at) PMP_R then Inl ACC_FAULT
      else Inr (ram_read m (ucast at) 4))" for at :: u64
  unfolding read_pte_def physical_eq [symmetric] pmp_allows_refines by simp

lemma and_or_zero: "v AND (a OR b) = 0 \<longleftrightarrow> v AND a = 0 \<and> v AND b = 0" for v :: u32
  by (auto simp: bit_eq_iff bit_simps)

lemma pte_tests:
  "pte AND PTE_V = 0 \<or> (pte AND PTE_R = 0 \<and> pte AND PTE_W \<noteq> 0) \<longleftrightarrow> pte_invalid pte"
  "pte AND (PTE_R OR PTE_X) = 0 \<longleftrightarrow> \<not> pte_leaf pte"
  "pte AND (PTE_D OR PTE_A OR PTE_U) \<noteq> 0 \<longleftrightarrow> bit pte 4 \<or> bit pte 6 \<or> bit pte 7"
  unfolding and_or_zero flag_tests pte_invalid_def pte_leaf_def by auto

lemma walk_low:
  assumes "unat table < 2 ^ 50"
  shows "walk m va kind priv False table =
     (case read_pte m (unat table + 4 * (unat va div 2 ^ 12 mod 2 ^ 10)) of
        Inl f \<Rightarrow> Inl f
      | Inr pte \<Rightarrow>
          if pte_invalid pte \<or> \<not> pte_leaf pte \<or> \<not> pte_allows m kind priv pte then Inl ACC_PAGE_FAULT
          else physical (pte_ppn pte * 2 ^ 12 + unat va mod 2 ^ 12))"
  unfolding walk.simps [of m va kind priv False table] Let_def unat_slot [OF assms, symmetric] read_pte_eq pte_tests
    walk_leaf_page by simp

lemma walk_high:
  assumes "unat table < 2 ^ 50"
  shows "walk m va kind priv True table =
     (case read_pte m (unat table + 4 * (unat va div 2 ^ 22 mod 2 ^ 10)) of
        Inl f \<Rightarrow> Inl f
      | Inr pte \<Rightarrow>
          if pte_invalid pte then Inl ACC_PAGE_FAULT
          else if pte_leaf pte then
            (if pte_ppn pte mod 2 ^ 10 \<noteq> 0 \<or> \<not> pte_allows m kind priv pte then Inl ACC_PAGE_FAULT
             else physical (pte_ppn pte * 2 ^ 12 + unat va mod 2 ^ 22))
          else if bit pte 4 \<or> bit pte 6 \<or> bit pte 7 then Inl ACC_PAGE_FAULT
          else walk m va kind priv False (push_bit 12 (ucast (drop_bit 10 pte))))"
  unfolding walk.simps [of m va kind priv True table] Let_def unat_slot [OF assms, symmetric] read_pte_eq pte_tests
    walk_leaf_superpage by simp

text \<open>
  C13: Sv32 translation. The two-level walk is the specification over page numbers: the entry of
  each level is found by the corresponding ten bits of the page number in the table named by
  \<open>satp\<close> or the entry above, each entry read is subject to PMP, superpages are aligned, the
  permission, user, accessed and dirty rules decide between a page fault and a leaf, and a leaf
  gives its frame with the offset of the virtual address, an access fault above 4 GiB.
\<close>

theorem translate_refines:
  "translate m va kind priv = (if bit (m_satp m) 31 \<and> priv \<noteq> PRIV_M then sv32 m va kind priv else Inr va)"
proof (cases "bit (m_satp m) 31 \<and> priv \<noteq> PRIV_M")
  case False
  then show ?thesis using and_exp_eq_0_iff_not_bit [of "m_satp m" 31] by (auto simp: translate_def)
next
  case True
  have ppn: "(0x3fffff :: u32) = mask 22" by (rule mask_numerals)
  have root: "unat (push_bit 12 (ucast (m_satp m AND SATP_PPN)) :: u64) = unat (m_satp m) mod 2 ^ 22 * 2 ^ 12"
    unfolding ppn by (simp add: unat_push unat_and_mask)
  have next_table: "unat (push_bit 12 (ucast (drop_bit 10 pte)) :: u64) = pte_ppn pte * 2 ^ 12" for pte
    by (simp add: unat_push unat_drop pte_ppn_def)
  have small: "unat (push_bit 12 (ucast v) :: u64) < 2 ^ 50" for v :: u32
    using unat_u32_less [of v] by (simp add: unat_push)
  have high: "unat va div 2 ^ 22 mod 2 ^ 10 = unat va div 2 ^ 22"
    using unat_u32_less [of va] by simp
  have "translate m va kind priv = walk m va kind priv True (push_bit 12 (ucast (m_satp m AND SATP_PPN)))"
    using True and_exp_eq_0_iff_not_bit [of "m_satp m" 31] by (simp add: translate_def)
  also have "\<dots> = sv32 m va kind priv"
    unfolding walk_high [OF small] walk_low [OF small] root next_table high sv32_def ..
  finally show ?thesis using True by simp
qed

end
