(* ===== verification/Invariant.thy ===== *)
theory Invariant
  imports Exec
begin

text \<open>
  The invariant of the machine, and that every instruction keeps it: the CPU's own registers stay
  legal values (\<open>cpu_inv\<close>), the devices keep theirs (\<open>device_inv\<close>), no C array is written
  outside its extent, and every step is counted once. A trapping instruction changes nothing the
  CPU owns.
\<close>

section \<open>The CPU's registers\<close>

definition priv_ok :: "u8 \<Rightarrow> bool" where
  "priv_ok p \<longleftrightarrow> p = PRIV_U \<or> p = PRIV_S \<or> p = PRIV_M"

definition aligned :: "u32 \<Rightarrow> bool" where
  "aligned a \<longleftrightarrow> a AND 3 = 0"

definition pmpcfg_ok :: "(u32 \<Rightarrow> u8) \<Rightarrow> bool" where
  "pmpcfg_ok cfgs \<longleftrightarrow> (\<forall>i. within (cfgs i) 0x9f \<and> (bit (cfgs i) 1 \<longrightarrow> bit (cfgs i) 0))"

definition cpu_inv :: "machine \<Rightarrow> bool" where
  "cpu_inv m \<longleftrightarrow>
     m_x m 0 = 0 \<and> priv_ok (m_priv m) \<and> priv_ok (m_mpp m) \<and> within (m_mstatus m) MSTATUS_WRITABLE \<and>
     within (m_mie m) MIE_MASK \<and> within (m_mideleg m) S_INTERRUPTS \<and> within (m_medeleg m) MEDELEG_MASK \<and>
     within (m_mip_soft m) S_INTERRUPTS \<and> within (m_satp m) (SATP_MODE OR SATP_PPN) \<and>
     within (m_scounteren m) 7 \<and> within (m_mcounteren m) 7 \<and>
     aligned (m_pc m) \<and> aligned (m_mtvec m) \<and> aligned (m_stvec m) \<and> aligned (m_mepc m) \<and> aligned (m_sepc m) \<and>
     pmpcfg_ok (m_pmpcfg m)"

definition machine_inv :: "machine \<Rightarrow> bool" where
  "machine_inv m \<longleftrightarrow> device_inv m \<and> cpu_inv m"

text \<open>Every step is an instruction retired, an exception or an interrupt; a double fault is a step
  that is none of them.\<close>

definition counts_ok :: "machine \<Rightarrow> bool" where
  "counts_ok m \<longleftrightarrow>
     m_steps m = m_retired m + m_traps m + m_interrupts m + (if m_halt m = HALT_DOUBLE_FAULT then 1 else 0)"

lemma cpu_inv_kept: "cpu_kept m m' \<Longrightarrow> cpu_inv m' = cpu_inv m"
  by (simp add: cpu_kept_def cpu_inv_def)

lemma aligned_mask [simp]: "aligned (a AND NOT 3)"
  by (simp add: aligned_def and.assoc)

lemma aligned_mod: "aligned a \<longleftrightarrow> unat a mod 4 = 0"
proof -
  have "a AND 3 = take_bit 2 a" by (simp add: take_bit_eq_mask mask_eq_exp_minus_1)
  then have "unat (a AND 3) = unat a mod 4" by (simp add: unsigned_take_bit_eq take_bit_eq_mod unat_mod)
  then show ?thesis by (auto simp: aligned_def simp flip: unat_eq_0)
qed

lemma aligned_plus_4 [simp]: "aligned a \<Longrightarrow> aligned (a + 4)"
proof -
  assume "aligned a"
  then have "(unat a + 4) mod 4 = 0" by (simp add: aligned_mod)
  then show ?thesis by (simp add: aligned_mod unat_word_ariths mod_mod_cancel)
qed

section \<open>What an instruction may change\<close>

text \<open>A PMP entry with its lock bit set keeps its configuration and its address, and a locked TOR
  entry the address below it, which is its other bound.\<close>

definition locks_kept :: "machine \<Rightarrow> machine \<Rightarrow> bool" where
  "locks_kept m m' \<longleftrightarrow>
     (\<forall>i < PMP_ENTRIES. bit (m_pmpcfg m i) 7 \<longrightarrow>
        m_pmpcfg m' i = m_pmpcfg m i \<and> m_pmpaddr m' i = m_pmpaddr m i \<and>
        (i \<noteq> 0 \<and> ucast (m_pmpcfg m i) AND PMP_A = PMP_TOR \<longrightarrow> m_pmpaddr m' (i - 1) = m_pmpaddr m (i - 1)))"

lemma locks_kept_same: "m_pmpcfg m' = m_pmpcfg m \<Longrightarrow> m_pmpaddr m' = m_pmpaddr m \<Longrightarrow> locks_kept m m'"
  by (simp add: locks_kept_def)

lemma locks_kept_update [simp]:
  "locks_kept m0 (m\<lparr>m_simd := v0\<rparr>) = locks_kept m0 m"
  "locks_kept m0 (m\<lparr>m_gpu := v1\<rparr>) = locks_kept m0 m"
  "locks_kept m0 (m\<lparr>m_g3d := v2\<rparr>) = locks_kept m0 m"
  "locks_kept m0 (m\<lparr>m_dma_start := v3\<rparr>) = locks_kept m0 m"
  "locks_kept m0 (m\<lparr>m_dma_end := v4\<rparr>) = locks_kept m0 m"
  "locks_kept m0 (m\<lparr>m_x := v5\<rparr>) = locks_kept m0 m"
  "locks_kept m0 (m\<lparr>m_f := v6\<rparr>) = locks_kept m0 m"
  "locks_kept m0 (m\<lparr>m_fcsr := v7\<rparr>) = locks_kept m0 m"
  "locks_kept m0 (m\<lparr>m_pc := v8\<rparr>) = locks_kept m0 m"
  "locks_kept m0 (m\<lparr>m_mtvec := v9\<rparr>) = locks_kept m0 m"
  "locks_kept m0 (m\<lparr>m_mepc := v10\<rparr>) = locks_kept m0 m"
  "locks_kept m0 (m\<lparr>m_mcause := v11\<rparr>) = locks_kept m0 m"
  "locks_kept m0 (m\<lparr>m_mtval := v12\<rparr>) = locks_kept m0 m"
  "locks_kept m0 (m\<lparr>m_mstatus := v13\<rparr>) = locks_kept m0 m"
  "locks_kept m0 (m\<lparr>m_mie := v14\<rparr>) = locks_kept m0 m"
  "locks_kept m0 (m\<lparr>m_mscratch := v15\<rparr>) = locks_kept m0 m"
  "locks_kept m0 (m\<lparr>m_priv := v16\<rparr>) = locks_kept m0 m"
  "locks_kept m0 (m\<lparr>m_mpp := v17\<rparr>) = locks_kept m0 m"
  "locks_kept m0 (m\<lparr>m_medeleg := v18\<rparr>) = locks_kept m0 m"
  "locks_kept m0 (m\<lparr>m_mideleg := v19\<rparr>) = locks_kept m0 m"
  "locks_kept m0 (m\<lparr>m_mip_soft := v20\<rparr>) = locks_kept m0 m"
  "locks_kept m0 (m\<lparr>m_stvec := v21\<rparr>) = locks_kept m0 m"
  "locks_kept m0 (m\<lparr>m_sscratch := v22\<rparr>) = locks_kept m0 m"
  "locks_kept m0 (m\<lparr>m_sepc := v23\<rparr>) = locks_kept m0 m"
  "locks_kept m0 (m\<lparr>m_scause := v24\<rparr>) = locks_kept m0 m"
  "locks_kept m0 (m\<lparr>m_stval := v25\<rparr>) = locks_kept m0 m"
  "locks_kept m0 (m\<lparr>m_satp := v26\<rparr>) = locks_kept m0 m"
  "locks_kept m0 (m\<lparr>m_scounteren := v27\<rparr>) = locks_kept m0 m"
  "locks_kept m0 (m\<lparr>m_mcounteren := v28\<rparr>) = locks_kept m0 m"
  "locks_kept m0 (m\<lparr>m_plic_priority := v29\<rparr>) = locks_kept m0 m"
  "locks_kept m0 (m\<lparr>m_plic_enable := v30\<rparr>) = locks_kept m0 m"
  "locks_kept m0 (m\<lparr>m_plic_claimed := v31\<rparr>) = locks_kept m0 m"
  "locks_kept m0 (m\<lparr>m_plic_pending := v32\<rparr>) = locks_kept m0 m"
  "locks_kept m0 (m\<lparr>m_plic_threshold := v33\<rparr>) = locks_kept m0 m"
  "locks_kept m0 (m\<lparr>m_interrupts := v34\<rparr>) = locks_kept m0 m"
  "locks_kept m0 (m\<lparr>m_virtio := v35\<rparr>) = locks_kept m0 m"
  "locks_kept m0 (m\<lparr>m_ram := v36\<rparr>) = locks_kept m0 m"
  "locks_kept m0 (m\<lparr>m_steps := v37\<rparr>) = locks_kept m0 m"
  "locks_kept m0 (m\<lparr>m_retired := v38\<rparr>) = locks_kept m0 m"
  "locks_kept m0 (m\<lparr>m_traps := v39\<rparr>) = locks_kept m0 m"
  "locks_kept m0 (m\<lparr>m_limit := v40\<rparr>) = locks_kept m0 m"
  "locks_kept m0 (m\<lparr>m_trace := v41\<rparr>) = locks_kept m0 m"
  "locks_kept m0 (m\<lparr>m_in_trap := v42\<rparr>) = locks_kept m0 m"
  "locks_kept m0 (m\<lparr>m_reserved := v43\<rparr>) = locks_kept m0 m"
  "locks_kept m0 (m\<lparr>m_reservation := v44\<rparr>) = locks_kept m0 m"
  "locks_kept m0 (m\<lparr>m_reservation_pa := v45\<rparr>) = locks_kept m0 m"
  "locks_kept m0 (m\<lparr>m_halt := v46\<rparr>) = locks_kept m0 m"
  "locks_kept m0 (m\<lparr>m_done_word := v47\<rparr>) = locks_kept m0 m"
  "locks_kept m0 (m\<lparr>m_second_cause := v48\<rparr>) = locks_kept m0 m"
  "locks_kept m0 (m\<lparr>m_second_tval := v49\<rparr>) = locks_kept m0 m"
  "locks_kept m0 (m\<lparr>m_mtime_offset := v50\<rparr>) = locks_kept m0 m"
  "locks_kept m0 (m\<lparr>m_mtimecmp := v51\<rparr>) = locks_kept m0 m"
  "locks_kept m0 (m\<lparr>m_msip := v52\<rparr>) = locks_kept m0 m"
  "locks_kept m0 (m\<lparr>m_fb := v53\<rparr>) = locks_kept m0 m"
  "locks_kept m0 (m\<lparr>m_palette := v54\<rparr>) = locks_kept m0 m"
  "locks_kept m0 (m\<lparr>m_frames := v55\<rparr>) = locks_kept m0 m"
  "locks_kept m0 (m\<lparr>m_checkpoints := v56\<rparr>) = locks_kept m0 m"
  "locks_kept m0 (m\<lparr>m_frames_dir := v57\<rparr>) = locks_kept m0 m"
  "locks_kept m0 (m\<lparr>m_output_error := v58\<rparr>) = locks_kept m0 m"
  "locks_kept m0 (m\<lparr>m_queue := v59\<rparr>) = locks_kept m0 m"
  "locks_kept m0 (m\<lparr>m_head := v60\<rparr>) = locks_kept m0 m"
  "locks_kept m0 (m\<lparr>m_count := v61\<rparr>) = locks_kept m0 m"
  "locks_kept m0 (m\<lparr>m_keys := v62\<rparr>) = locks_kept m0 m"
  "locks_kept m0 (m\<lparr>m_script := v63\<rparr>) = locks_kept m0 m"
  "locks_kept m0 (m\<lparr>m_next_scripted := v64\<rparr>) = locks_kept m0 m"
  "locks_kept m0 (m\<lparr>m_dropped := v65\<rparr>) = locks_kept m0 m"
  "locks_kept m0 (m\<lparr>m_record := v66\<rparr>) = locks_kept m0 m"
  "locks_kept m0 (m\<lparr>m_console_in := v67\<rparr>) = locks_kept m0 m"
  "locks_kept m0 (m\<lparr>m_console_in_next := v68\<rparr>) = locks_kept m0 m"
  "locks_kept m0 (m\<lparr>m_console_stdin := v69\<rparr>) = locks_kept m0 m"
  "locks_kept m0 (m\<lparr>m_console_ier := v70\<rparr>) = locks_kept m0 m"
  "locks_kept m0 (m\<lparr>m_console_lcr := v71\<rparr>) = locks_kept m0 m"
  "locks_kept m0 (m\<lparr>m_console_mcr := v72\<rparr>) = locks_kept m0 m"
  "locks_kept m0 (m\<lparr>m_console_scr := v73\<rparr>) = locks_kept m0 m"
  "locks_kept m0 (m\<lparr>m_console_dll := v74\<rparr>) = locks_kept m0 m"
  "locks_kept m0 (m\<lparr>m_console_dlm := v75\<rparr>) = locks_kept m0 m"
  "locks_kept m0 (m\<lparr>m_console_latched := v76\<rparr>) = locks_kept m0 m"
  "locks_kept m0 (m\<lparr>m_console_prompt := v77\<rparr>) = locks_kept m0 m"
  "locks_kept m0 (m\<lparr>m_console_tail := v78\<rparr>) = locks_kept m0 m"
  "locks_kept m0 (m\<lparr>m_console_tail_len := v79\<rparr>) = locks_kept m0 m"
  "locks_kept m0 (m\<lparr>m_console_prompts_seen := v80\<rparr>) = locks_kept m0 m"
  "locks_kept m0 (m\<lparr>m_console_lines_taken := v81\<rparr>) = locks_kept m0 m"
  "locks_kept m0 (m\<lparr>m_wr_reg := v82\<rparr>) = locks_kept m0 m"
  "locks_kept m0 (m\<lparr>m_wr_freg := v83\<rparr>) = locks_kept m0 m"
  "locks_kept m0 (m\<lparr>m_wr_fcsr := v84\<rparr>) = locks_kept m0 m"
  "locks_kept m0 (m\<lparr>m_wr_value := v85\<rparr>) = locks_kept m0 m"
  "locks_kept m0 (m\<lparr>m_mem_read := v86\<rparr>) = locks_kept m0 m"
  "locks_kept m0 (m\<lparr>m_mem_write := v87\<rparr>) = locks_kept m0 m"
  "locks_kept m0 (m\<lparr>m_mem_addr := v88\<rparr>) = locks_kept m0 m"
  "locks_kept m0 (m\<lparr>m_mem_read_value := v89\<rparr>) = locks_kept m0 m"
  "locks_kept m0 (m\<lparr>m_mem_write_value := v90\<rparr>) = locks_kept m0 m"
  "locks_kept m0 (m\<lparr>m_mem_width := v91\<rparr>) = locks_kept m0 m"
  "locks_kept m0 (m\<lparr>m_stdout := v92\<rparr>) = locks_kept m0 m"
  "locks_kept m0 (m\<lparr>m_stdin := v93\<rparr>) = locks_kept m0 m"
  "locks_kept m0 (m\<lparr>m_ppm_ok := v94\<rparr>) = locks_kept m0 m"
  by (simp_all add: locks_kept_def)

lemma locks_kept_trans: "locks_kept a b \<Longrightarrow> locks_kept b c \<Longrightarrow> locks_kept a c"
  by (simp add: locks_kept_def)

definition worked :: "machine \<Rightarrow> machine \<Rightarrow> bool" where
  "worked m m' \<longleftrightarrow>
     m_steps m' = m_steps m \<and> m_retired m' = m_retired m \<and> m_traps m' = m_traps m \<and>
     m_interrupts m' = m_interrupts m \<and> m_in_trap m' = m_in_trap m \<and> m_limit m' = m_limit m \<and>
     (m_halt m' = m_halt m \<or> m_halt m' = HALT_DONE) \<and> arrays_kept m m' \<and> locks_kept m m'"

definition outcome_ok :: "machine \<Rightarrow> exec_outcome \<Rightarrow> bool" where
  "outcome_ok m out \<longleftrightarrow>
     (case out of
        E_TRAP m' cause tval \<Rightarrow> device_inv m' \<and> cpu_kept m m' \<and> arrays_kept m m'
      | E_DONE m' result writes_rd writes_fd next' \<Rightarrow> machine_inv m' \<and> worked m m' \<and> aligned next')"

lemma worked_refl [simp]: "worked m m"
  by (simp add: worked_def locks_kept_same)

lemma worked_kept: "cpu_kept m m' \<Longrightarrow> arrays_kept m m' \<Longrightarrow> worked m m'"
  by (simp add: cpu_kept_def worked_def locks_kept_same)

lemma outcome_ok_trap [simp]: "machine_inv m \<Longrightarrow> outcome_ok m (E_TRAP m cause tval)"
  by (simp add: outcome_ok_def machine_inv_def)

lemma outcome_ok_done [simp]: "machine_inv m \<Longrightarrow> outcome_ok m (E_DONE m r a b n) = aligned n"
  by (simp add: outcome_ok_def)

lemma outcome_ok_illegal [simp]: "machine_inv m \<Longrightarrow> outcome_ok m (illegal m word)"
  by (simp add: illegal_def)

lemma machine_invD: "machine_inv m \<Longrightarrow> aligned (m_pc m)" "machine_inv m \<Longrightarrow> aligned (m_mepc m)"
  "machine_inv m \<Longrightarrow> aligned (m_sepc m)" "machine_inv m \<Longrightarrow> device_inv m"
  by (simp_all add: machine_inv_def cpu_inv_def)

text \<open>The fields no invariant reads: what an instruction reports for the trace, and the reservation.\<close>

lemma machine_inv_update [simp]:
  "machine_inv (m\<lparr>m_mem_read := b1\<rparr>) = machine_inv m" "machine_inv (m\<lparr>m_mem_write := b2\<rparr>) = machine_inv m"
  "machine_inv (m\<lparr>m_mem_addr := w1\<rparr>) = machine_inv m" "machine_inv (m\<lparr>m_mem_read_value := w2\<rparr>) = machine_inv m"
  "machine_inv (m\<lparr>m_mem_write_value := w3\<rparr>) = machine_inv m" "machine_inv (m\<lparr>m_mem_width := n\<rparr>) = machine_inv m"
  "machine_inv (m\<lparr>m_reserved := b3\<rparr>) = machine_inv m" "machine_inv (m\<lparr>m_reservation := w4\<rparr>) = machine_inv m"
  "machine_inv (m\<lparr>m_reservation_pa := w5\<rparr>) = machine_inv m" "machine_inv (m\<lparr>m_fcsr := f\<rparr>) = machine_inv m"
  "machine_inv (m\<lparr>m_wr_fcsr := b4\<rparr>) = machine_inv m" "machine_inv (m\<lparr>m_wr_reg := i1\<rparr>) = machine_inv m"
  "machine_inv (m\<lparr>m_wr_freg := i2\<rparr>) = machine_inv m" "machine_inv (m\<lparr>m_wr_value := w6\<rparr>) = machine_inv m"
  "machine_inv (m\<lparr>m_f := g\<rparr>) = machine_inv m" "machine_inv (m\<lparr>m_steps := c1\<rparr>) = machine_inv m"
  "machine_inv (m\<lparr>m_retired := c2\<rparr>) = machine_inv m" "machine_inv (m\<lparr>m_traps := c3\<rparr>) = machine_inv m"
  "machine_inv (m\<lparr>m_interrupts := c4\<rparr>) = machine_inv m" "machine_inv (m\<lparr>m_in_trap := b5\<rparr>) = machine_inv m"
  "machine_inv (m\<lparr>m_trace := l\<rparr>) = machine_inv m" "machine_inv (m\<lparr>m_halt := h\<rparr>) = machine_inv m"
  "machine_inv (m\<lparr>m_second_cause := w7\<rparr>) = machine_inv m" "machine_inv (m\<lparr>m_second_tval := w8\<rparr>) = machine_inv m"
  by (simp_all add: machine_inv_def cpu_inv_def)

lemma worked_update [simp]:
  "worked m0 (m\<lparr>m_mem_read := b1\<rparr>) = worked m0 m" "worked m0 (m\<lparr>m_mem_write := b2\<rparr>) = worked m0 m"
  "worked m0 (m\<lparr>m_mem_addr := w1\<rparr>) = worked m0 m" "worked m0 (m\<lparr>m_mem_read_value := w2\<rparr>) = worked m0 m"
  "worked m0 (m\<lparr>m_mem_write_value := w3\<rparr>) = worked m0 m" "worked m0 (m\<lparr>m_mem_width := n\<rparr>) = worked m0 m"
  "worked m0 (m\<lparr>m_reserved := b3\<rparr>) = worked m0 m" "worked m0 (m\<lparr>m_reservation := w4\<rparr>) = worked m0 m"
  "worked m0 (m\<lparr>m_reservation_pa := w5\<rparr>) = worked m0 m" "worked m0 (m\<lparr>m_fcsr := f\<rparr>) = worked m0 m"
  "worked m0 (m\<lparr>m_wr_fcsr := b4\<rparr>) = worked m0 m"
  by (simp_all add: worked_def locks_kept_def)

section \<open>Memory instructions\<close>

lemma width_of_le: "f \<le> 5 \<Longrightarrow> f \<noteq> 3 \<Longrightarrow> width_of f \<le> 4"
proof -
  assume "f \<le> 5" "f \<noteq> 3"
  then have "f = 0 \<or> f = 1 \<or> f = 2 \<or> f = 4 \<or> f = 5" by unat_arith
  then show ?thesis by (auto simp: width_of_def)
qed

lemma access_outcome:
  assumes "machine_inv m" "cpu_kept m m'" "device_inv m'" "arrays_kept m m'"
  shows "machine_inv m'" "worked m m'" "outcome_ok m (E_TRAP m' cause tval)"
  using assms cpu_inv_kept [OF assms(2)] worked_kept by (simp_all add: machine_inv_def outcome_ok_def)

lemma exec_load_ok:
  assumes "machine_inv m"
  shows "outcome_ok m (exec_load m word)"
proof (cases "(opcode_of word = 0x07 \<and> funct3_of word \<noteq> 2) \<or> funct3_of word = 3 \<or> funct3_of word > 5")
  case True
  then show ?thesis using assms by (simp add: exec_load_def)
next
  case False
  obtain r m' where l: "load m (m_x m (rs1_of word) + imm_i word) (width_of (funct3_of word)) = (r, m')"
    by (rule prod.exhaust)
  have "cpu_kept m m'" "device_inv m'" "arrays_kept m m'"
    using load_effect [OF l width_of_le] False assms by (auto simp: machine_invD)
  note ok = access_outcome [OF assms this]
  show ?thesis
    using ok assms unfolding exec_load_def Let_def l
    by (simp add: False outcome_ok_def [of m "E_DONE m' r a b n" for m' r a b n] machine_invD split: sum.split prod.split)
qed

lemma exec_lr_ok:
  assumes "machine_inv m"
  shows "outcome_ok m (exec_lr m word)"
proof -
  obtain r m' where l: "load m (m_x m (rs1_of word)) 4 = (r, m')" by (rule prod.exhaust)
  have "cpu_kept m m'" "device_inv m'" "arrays_kept m m'"
    using load_effect [OF l] assms by (auto simp: machine_invD)
  note ok = access_outcome [OF assms this]
  show ?thesis
    using ok assms unfolding exec_lr_def Let_def l
    by (simp add: outcome_ok_def [of m "E_DONE m' r a b n" for m' r a b n] machine_invD split: sum.split prod.split)
qed

text \<open>A store that returns, by its result.\<close>

lemma store_outcome:
  assumes "store m addr w v = Some (r, m')" "machine_inv m" "w \<le> 4"
  shows "machine_inv m'" "worked m m'" "outcome_ok m (E_TRAP m' cause tval)"
  using access_outcome [OF assms(2), of m'] store_effect [OF assms(1,3)] machine_invD(4) [OF assms(2)] by blast+

lemma exec_store_ok:
  assumes "machine_inv m" "exec_store m word = Some out"
  shows "outcome_ok m out"
proof (cases "(opcode_of word = 0x27 \<and> funct3_of word \<noteq> 2) \<or> funct3_of word > 2")
  case True
  then show ?thesis using assms by (auto simp: exec_store_def)
next
  case False
  then have "funct3_of word \<le> 5" "funct3_of word \<noteq> 3" by unat_arith+
  then have w: "width_of (funct3_of word) \<le> 4" by (rule width_of_le)
  show ?thesis
    using assms(2) False machine_invD(1) [OF assms(1)] unfolding exec_store_def Let_def
    by (auto simp: outcome_ok_def [of m "E_DONE m' r a b n" for m' r a b n] split: option.splits sum.splits)
      (erule store_outcome [OF _ assms(1)], use w in simp)+
qed

lemma exec_sc_ok:
  assumes "machine_inv m" "exec_sc m word = Some out"
  shows "outcome_ok m out"
  using assms machine_invD(1) [OF assms(1)] unfolding exec_sc_def Let_def
  by (auto simp: outcome_ok_def [of m "E_DONE m' r a b n" for m' r a b n]
      split: option.splits sum.splits if_splits)
    (erule store_outcome [OF _ assms(1) order_refl])+

lemma amo_outcome:
  assumes "amo m addr funct5 b = Some (r, m')" "machine_inv m"
  shows "machine_inv m'" "worked m m'" "outcome_ok m (E_TRAP m' cause tval)"
  using access_outcome [OF assms(2), of m'] amo_effect [OF assms(1)] machine_invD(4) [OF assms(2)] by blast+

lemma exec_amo_ok:
  assumes "machine_inv m" "exec_amo m word = Some out"
  shows "outcome_ok m out"
  using assms machine_invD(1) [OF assms(1)] unfolding exec_amo_def Let_def
  by (auto simp: outcome_ok_def [of m "E_DONE m' r a b n" for m' r a b n] exec_lr_ok exec_sc_ok
      split: option.splits sum.splits if_splits)
    (erule amo_outcome, rule assms(1))+

section \<open>Jumps, branches and arithmetic\<close>

lemma jump_ok: "machine_inv m \<Longrightarrow> outcome_ok m (jump m target result writes_rd)"
  by (simp add: jump_def aligned_def)

lemma exec_branch_ok: "machine_inv m \<Longrightarrow> outcome_ok m (exec_branch m word)"
  by (simp add: exec_branch_def jump_ok machine_invD split: option.split)

lemma exec_arith_ok:
  "machine_inv m \<Longrightarrow> outcome_ok m (exec_op_imm m word)" "machine_inv m \<Longrightarrow> outcome_ok m (exec_op m word)"
  "machine_inv m \<Longrightarrow> outcome_ok m (exec_jalr m word)"
  by (simp_all add: exec_op_imm_def exec_op_def exec_jalr_def jump_ok machine_invD split: option.split)

lemma exec_fp_ok:
  assumes "machine_inv m" "exec_fp sf m word = Some out"
  shows "outcome_ok m out"
  using assms machine_invD(1) [OF assms(1)] unfolding exec_fp_def Let_def
  by (auto simp: outcome_ok_def [of m "E_DONE m' r a b n" for m' r a b n]
      split: option.splits fp_decode.splits if_splits)

section \<open>The CSRs\<close>

lemma pmpcfg_byte_ok: "pmpcfg_ok cfgs \<Longrightarrow> pmpcfg_ok (pmpcfg_byte number v k cfgs)"
proof -
  have "within (ucast (c AND 0x9f) :: u8) 0x9f" "within (ucast ((c AND 0x9f) AND NOT PMP_W) :: u8) 0x9f" for c :: u32
    by (simp_all add: within_def unsigned_and_eq and.assoc)
  moreover have "(w AND PMP_W \<noteq> 0) = bit w 1" "(w AND PMP_R = 0) = (\<not> bit w 0)" for w :: u32
    by (simp_all add: and_exp_eq_0_iff_not_bit [of w 1, simplified] and_exp_eq_0_iff_not_bit [of w 0, simplified])
  ultimately show "pmpcfg_ok cfgs \<Longrightarrow> pmpcfg_ok (pmpcfg_byte number v k cfgs)"
    by (auto simp: pmpcfg_ok_def pmpcfg_byte_def Let_def bit_simps)
qed

lemma pmpcfg_fold_ok: "pmpcfg_ok cfgs \<Longrightarrow> pmpcfg_ok (fold (pmpcfg_byte number v) ks cfgs)"
  by (induction ks arbitrary: cfgs) (simp_all add: pmpcfg_byte_ok)

lemma pmpcfg_byte_beyond:
  assumes "number = CSR_PMPCFG0 \<or> number = CSR_PMPCFG1" "k < 4" "8 \<le> i"
  shows "pmpcfg_byte number v k cfgs i = cfgs i"
proof -
  have "unat (4 * (number - CSR_PMPCFG0) + of_nat k) < 8" 
    using assms(1,2) by (auto simp: unat_word_ariths unat_of_nat)
  then show ?thesis using assms(3) by (auto simp: pmpcfg_byte_def Let_def word_le_nat_alt)
qed

text \<open>The writes of one register that keep the invariant.\<close>

lemma cpu_inv_set [inv_intros]:
  assumes "machine_inv m"
  shows "within a MSTATUS_WRITABLE \<Longrightarrow> machine_inv (m\<lparr>m_mstatus := a\<rparr>)"
    "within a MSTATUS_WRITABLE \<Longrightarrow> priv_ok p \<Longrightarrow> machine_inv (m\<lparr>m_mstatus := a, m_mpp := p\<rparr>)"
    "within a MEDELEG_MASK \<Longrightarrow> machine_inv (m\<lparr>m_medeleg := a\<rparr>)"
    "within a S_INTERRUPTS \<Longrightarrow> machine_inv (m\<lparr>m_mideleg := a\<rparr>)"
    "within a MIE_MASK \<Longrightarrow> machine_inv (m\<lparr>m_mie := a\<rparr>)"
    "within a S_INTERRUPTS \<Longrightarrow> machine_inv (m\<lparr>m_mip_soft := a\<rparr>)"
    "within a (SATP_MODE OR SATP_PPN) \<Longrightarrow> machine_inv (m\<lparr>m_satp := a, m_reserved := False\<rparr>)"
    "within a 7 \<Longrightarrow> machine_inv (m\<lparr>m_scounteren := a\<rparr>)" "within a 7 \<Longrightarrow> machine_inv (m\<lparr>m_mcounteren := a\<rparr>)"
    "aligned a \<Longrightarrow> machine_inv (m\<lparr>m_stvec := a\<rparr>)" "aligned a \<Longrightarrow> machine_inv (m\<lparr>m_mtvec := a\<rparr>)"
    "aligned a \<Longrightarrow> machine_inv (m\<lparr>m_sepc := a\<rparr>)" "aligned a \<Longrightarrow> machine_inv (m\<lparr>m_mepc := a\<rparr>)"
    "machine_inv (m\<lparr>m_sscratch := a\<rparr>)" "machine_inv (m\<lparr>m_scause := a\<rparr>)" "machine_inv (m\<lparr>m_stval := a\<rparr>)"
    "machine_inv (m\<lparr>m_mscratch := a\<rparr>)" "machine_inv (m\<lparr>m_mcause := a\<rparr>)" "machine_inv (m\<lparr>m_mtval := a\<rparr>)"
    "machine_inv (m\<lparr>m_pmpaddr := f\<rparr>)" "pmpcfg_ok c \<Longrightarrow> machine_inv (m\<lparr>m_pmpcfg := c\<rparr>)"
    "aligned a \<Longrightarrow> machine_inv (m\<lparr>m_pc := a\<rparr>)"
    "machine_inv (m\<lparr>m_fcsr := fl, m_wr_fcsr := True\<rparr>)"
  using assms by (simp_all add: machine_inv_def cpu_inv_def)

lemma machine_inv_if [inv_intros]:
  "(b \<Longrightarrow> machine_inv m) \<Longrightarrow> (\<not> b \<Longrightarrow> machine_inv m') \<Longrightarrow> machine_inv (if b then m else m')"
  by simp

lemma machine_inv_masks:
  assumes "machine_inv m"
  shows "within (m_mstatus m) MSTATUS_WRITABLE" "within (m_mie m) MIE_MASK" "within (m_mideleg m) MIE_MASK"
    "within (m_mip_soft m) S_INTERRUPTS" "within (m_mideleg m) S_INTERRUPTS" "pmpcfg_ok (m_pmpcfg m)"
    "priv_ok (m_priv m)" "priv_ok (m_mpp m)"
  using assms within_trans [of "m_mideleg m" S_INTERRUPTS MIE_MASK] 
  by (simp_all add: machine_inv_def cpu_inv_def within_def)

lemma mpp_legal: "priv_ok (if drop_bit 11 (v AND MSTATUS_MPP) = 2 then PRIV_U else ucast (drop_bit 11 (v AND MSTATUS_MPP :: u32)))"
proof -
  have "drop_bit 11 (v AND MSTATUS_MPP) = drop_bit 11 v AND 3" by (simp add: drop_bit_and)
  moreover have "drop_bit 11 v AND 3 \<le> 3" by (rule word_and_le1)
  then have "drop_bit 11 v AND 3 \<in> {0, 1, 2, 3}" by (simp, unat_arith)
  ultimately show ?thesis by (auto simp: priv_ok_def)
qed

lemma csr_masks:
  assumes "machine_inv m"
  shows "within ((m_mstatus m AND NOT SSTATUS_MASK) OR (v AND SSTATUS_MASK AND MSTATUS_WRITABLE)) MSTATUS_WRITABLE"
    "within ((m_mie m AND NOT (m_mideleg m)) OR (v AND m_mideleg m)) MIE_MASK"
    "within ((m_mip_soft m AND NOT (m_mideleg m AND b)) OR (v AND m_mideleg m AND b)) S_INTERRUPTS"
proof -
  have "within (v AND SSTATUS_MASK AND MSTATUS_WRITABLE) MSTATUS_WRITABLE" by (simp add: within_def and.assoc)
  then show "within ((m_mstatus m AND NOT SSTATUS_MASK) OR (v AND SSTATUS_MASK AND MSTATUS_WRITABLE)) MSTATUS_WRITABLE"
    using within_and [OF machine_inv_masks(1) [OF assms]] by (intro within_or)
qed (use machine_inv_masks [OF assms] in \<open>auto intro!: within_or intro: within_and within_and2\<close>)

lemma csr_write_inv:
  assumes "machine_inv m"
  shows "machine_inv (csr_write m number v)"
  unfolding csr_write_def Let_def
  by (intro inv_intros assms aligned_mask mpp_legal pmpcfg_fold_ok machine_inv_masks;
      (rule csr_masks [OF assms] within_and_right)?)

lemma pmp_lock_bit: "(ucast (c :: u8) AND (PMP_L :: u32) \<noteq> 0) = bit c 7"
  using and_exp_eq_0_iff_not_bit [of "ucast c :: u32" 7] by (simp add: bit_simps)

lemma pmpcfg_byte_locked: "bit (cfgs i) 7 \<Longrightarrow> pmpcfg_byte number v k cfgs i = cfgs i"
  using pmp_lock_bit [of "cfgs i"] by (auto simp: pmpcfg_byte_def Let_def)

lemma pmpcfg_fold_locked: "bit (cfgs i) 7 \<Longrightarrow> fold (pmpcfg_byte number v) ks cfgs i = cfgs i"
  by (induction ks arbitrary: cfgs) (simp_all add: pmpcfg_byte_locked)

lemma pmpaddr_write_locks:
  assumes "\<not> pmpaddr_locked m j"
  shows "locks_kept m (m\<lparr>m_pmpaddr := (m_pmpaddr m)(j := v)\<rparr>)"
proof -
  have "\<not> bit (m_pmpcfg m j) 7" using assms pmp_lock_bit [of "m_pmpcfg m j"] by (simp add: pmpaddr_locked_def)
  moreover have "\<not> (j = i - 1 \<and> i \<noteq> 0 \<and> i < PMP_ENTRIES \<and> bit (m_pmpcfg m i) 7 \<and> ucast (m_pmpcfg m i) AND PMP_A = PMP_TOR)" for i
  proof
    assume h: "j = i - 1 \<and> i \<noteq> 0 \<and> i < PMP_ENTRIES \<and> bit (m_pmpcfg m i) 7 \<and> ucast (m_pmpcfg m i) AND PMP_A = PMP_TOR"
    have "ucast (m_pmpcfg m i) AND (PMP_L :: u32) = PMP_L"
      using h by (intro bit_eqI) (auto simp: bit_simps bit_numeral_rec numeral_eq_Suc split: nat.splits)
    then have "ucast (m_pmpcfg m i) AND (PMP_L OR PMP_A) = (PMP_L OR PMP_TOR :: u32)"
      using h by (simp only: bit.conj_disj_distrib)
    then show False using assms h by (simp add: pmpaddr_locked_def)
  qed
  ultimately show ?thesis by (auto simp: locks_kept_def)
qed

lemma csr_write_worked: "worked m (csr_write m number v)"
proof -
  have "arrays_kept m (m\<lparr>m_pmpcfg := fold (pmpcfg_byte number v) [0, 1, 2, 3] (m_pmpcfg m)\<rparr>)"
    if "number = CSR_PMPCFG0 \<or> number = CSR_PMPCFG1"
    using that by (simp add: arrays_kept_def pmpcfg_byte_beyond)
  moreover have "locks_kept m (m\<lparr>m_pmpcfg := fold (pmpcfg_byte number v) [0, 1, 2, 3] (m_pmpcfg m)\<rparr>)"
    by (simp add: locks_kept_def pmpcfg_byte_locked)
  moreover have "arrays_kept m (m\<lparr>m_pmpaddr := (m_pmpaddr m)(number - CSR_PMPADDR0 := v)\<rparr>)"
    if "CSR_PMPADDR0 \<le> number" "number \<le> CSR_PMPADDR7"
  proof -
    have "number - CSR_PMPADDR0 < 8" using that by unat_arith
    then show ?thesis by (auto simp: arrays_kept_def)
  qed
  ultimately show ?thesis
    by (simp add: csr_write_def Let_def worked_def pmpaddr_write_locks locks_kept_same)
qed

section \<open>SYSTEM\<close>

lemma exec_csr_ok: "machine_inv m \<Longrightarrow> outcome_ok m (exec_csr m word)"
  by (simp add: exec_csr_def Let_def outcome_ok_def [of m "E_DONE m' r a b n" for m' r a b n] csr_write_inv
      csr_write_worked machine_invD split: option.split)

lemma exec_mret_ok:
  assumes "machine_inv m"
  shows "outcome_ok m (exec_mret m)"
proof -
  have "within ((m_mstatus m AND NOT MSTATUS_MIE) OR MSTATUS_MPIE OR
      (if m_mstatus m AND MSTATUS_MPIE \<noteq> 0 then MSTATUS_MIE else 0)) MSTATUS_WRITABLE"
    using machine_inv_masks(1) [OF assms] by (intro mask_intros) (simp_all add: within_def)
  then show ?thesis
    using assms machine_invD(2) [OF assms]
    by (simp add: exec_mret_def Let_def outcome_ok_def worked_def locks_kept_same machine_inv_def cpu_inv_def priv_ok_def [of 0] priv_ok_def [of 3] within_and)
qed

lemma exec_sret_ok:
  assumes "machine_inv m"
  shows "outcome_ok m (exec_sret m)"
proof -
  have "within ((m_mstatus m AND NOT (MSTATUS_SIE OR MSTATUS_SPP OR MSTATUS_MPRV)) OR
      MSTATUS_SPIE OR (if m_mstatus m AND MSTATUS_SPIE \<noteq> 0 then MSTATUS_SIE else 0)) MSTATUS_WRITABLE"
    using machine_inv_masks(1) [OF assms] by (intro mask_intros) (simp_all add: within_def)
  then show ?thesis
    using assms machine_invD(3) [OF assms]
    by (simp add: exec_sret_def Let_def outcome_ok_def worked_def locks_kept_same machine_inv_def cpu_inv_def priv_ok_def [of 0] priv_ok_def [of 1])
qed

lemma exec_system_ok: "machine_inv m \<Longrightarrow> outcome_ok m (exec_system m word)"
  by (simp add: exec_system_def exec_mret_ok exec_sret_ok exec_csr_ok machine_invD
      outcome_ok_def [of m "E_DONE (m\<lparr>m_reserved := b'\<rparr>) r a b n" for b' r a b n])

lemma execute_instruction_ok:
  assumes "machine_inv m" "execute_instruction sf m word = Some out"
  shows "outcome_ok m out"
  using assms machine_invD(1) [OF assms(1)] unfolding execute_instruction_def Let_def
  by (auto simp: jump_ok exec_arith_ok exec_branch_ok exec_load_ok exec_store_ok exec_amo_ok exec_fp_ok exec_system_ok
      split: if_split_asm)

section \<open>The step\<close>

text \<open>What a step does to the counters, whichever way it ends.\<close>

definition stepped :: "machine \<Rightarrow> machine \<Rightarrow> bool" where
  "stepped m m' \<longleftrightarrow>
     m_steps m' = m_steps m + 1 \<and> m_limit m' = m_limit m \<and> arrays_kept m m' \<and> locks_kept m m' \<and>
     m_halt m' \<in> {m_halt m, HALT_DONE, HALT_DOUBLE_FAULT} \<and>
     (m_halt m \<noteq> HALT_DOUBLE_FAULT \<longrightarrow>
        m_retired m' + m_traps m' + m_interrupts m' + (if m_halt m' = HALT_DOUBLE_FAULT then 1 else 0) =
          m_retired m + m_traps m + m_interrupts m + 1 \<and>
        (m_halt m' = HALT_DOUBLE_FAULT \<longrightarrow> m_in_trap m))"

lemma trace_out_frame [simp]:
  "machine_inv (trace_out m l) = machine_inv m" "arrays_kept m0 (trace_out m l) = arrays_kept m0 m"
  "m_steps (trace_out m l) = m_steps m" "m_retired (trace_out m l) = m_retired m"
  "m_traps (trace_out m l) = m_traps m" "m_interrupts (trace_out m l) = m_interrupts m"
  "locks_kept m0 (trace_out m l) = locks_kept m0 m" "m_in_trap (trace_out m l) = m_in_trap m" "m_halt (trace_out m l) = m_halt m" "m_limit (trace_out m l) = m_limit m"
  by (simp_all add: trace_out_def split: option.split)

lemma enter_handler_inv:
  assumes "machine_inv m"
  shows "machine_inv (enter_handler m cause tval)"
proof -
  have "within ((m_mstatus m AND NOT (MSTATUS_SIE OR MSTATUS_SPIE OR MSTATUS_SPP)) OR
      (if m_mstatus m AND MSTATUS_SIE \<noteq> 0 then MSTATUS_SPIE else 0) OR
      (if p then MSTATUS_SPP else 0)) MSTATUS_WRITABLE" for p
    using machine_inv_masks(1) [OF assms] by (intro mask_intros) (simp_all add: within_def)
  moreover have "within ((m_mstatus m AND NOT (MSTATUS_MIE OR MSTATUS_MPIE)) OR
      (if m_mstatus m AND MSTATUS_MIE \<noteq> 0 then MSTATUS_MPIE else 0)) MSTATUS_WRITABLE"
    using machine_inv_masks(1) [OF assms] by (intro mask_intros) (simp_all add: within_def)
  ultimately show ?thesis
    using assms
    by (simp add: enter_handler_def Let_def machine_inv_def cpu_inv_def priv_ok_def [of 1] priv_ok_def [of 3])
qed

lemma enter_handler_frame [simp]:
  "arrays_kept m0 (enter_handler m c t) = arrays_kept m0 m" "m_steps (enter_handler m c t) = m_steps m"
  "m_retired (enter_handler m c t) = m_retired m" "m_traps (enter_handler m c t) = m_traps m"
  "m_interrupts (enter_handler m c t) = m_interrupts m" "m_halt (enter_handler m c t) = m_halt m"
  "m_limit (enter_handler m c t) = m_limit m" "locks_kept m0 (enter_handler m c t) = locks_kept m0 m"
  by (simp_all add: enter_handler_def Let_def)

lemma tick_ok:
  assumes "machine_inv m"
  shows "machine_inv (tick_accelerators m)" "worked m (tick_accelerators m)"
  using tick_effect [OF machine_invD(4) [OF assms]] assms cpu_inv_kept worked_kept by (auto simp: machine_inv_def)

lemma trap_ok:
  assumes "machine_inv m"
  shows "machine_inv (trap m word cause tval)" "stepped m (trap m word cause tval)"
  using tick_ok [OF assms]
  by (simp_all add: trap_def Let_def enter_handler_inv stepped_def worked_def algebra_simps) auto

lemma take_interrupt_ok:
  assumes "machine_inv m"
  shows "machine_inv (take_interrupt m code)" "stepped m (take_interrupt m code)"
  using tick_ok [OF assms]
  by (simp_all add: take_interrupt_def Let_def enter_handler_inv stepped_def worked_def algebra_simps) auto

lemma write_registers_ok:
  assumes "machine_inv m" "rd < 32"
  shows "machine_inv (write_registers m rd result writes_rd writes_fd)"
    "worked m (write_registers m rd result writes_rd writes_fd)"
proof -
  have "within (m_mstatus m OR MSTATUS_FS) MSTATUS_WRITABLE"
    using machine_inv_masks(1) [OF assms(1)] by (intro mask_intros) (simp_all add: within_def)
  then show "machine_inv (write_registers m rd result writes_rd writes_fd)"
    using assms by (simp add: write_registers_def Let_def machine_inv_def cpu_inv_def)
  show "worked m (write_registers m rd result writes_rd writes_fd)"
    using assms by (auto simp: write_registers_def Let_def worked_def arrays_kept_def locks_kept_same)
qed

lemma rd_of_less: "rd_of word < 32"
proof -
  have "rd_of word \<le> 31" unfolding rd_of_def by (rule word_and_le1)
  then show ?thesis by unat_arith
qed

lemma retire_ok:
  assumes "machine_inv m" "aligned next'"
  shows "machine_inv (retire m pc word result writes_rd writes_fd next')"
    "stepped m (retire m pc word result writes_rd writes_fd next')"
proof -
  define m1 where "m1 = write_registers m (rd_of word) result writes_rd writes_fd"
  have m1: "machine_inv m1" "worked m m1"
    unfolding m1_def using write_registers_ok [OF assms(1) rd_of_less] by simp_all
  note m2 = tick_ok [OF m1(1)]
  have "arrays_kept m (tick_accelerators m1)" 
    using m1(2) m2(2) arrays_kept_trans unfolding worked_def by blast
  moreover have "locks_kept m (tick_accelerators m1)"
    using m1(2) m2(2) locks_kept_trans unfolding worked_def by blast
  ultimately show "machine_inv (retire m pc word result writes_rd writes_fd next')"
    "stepped m (retire m pc word result writes_rd writes_fd next')"
    using m1 m2 assms(2) unfolding retire_def Let_def m1_def [symmetric]
    by (auto simp: inv_intros stepped_def worked_def algebra_simps)
qed

lemma start_step_ok:
  assumes "machine_inv m"
  shows "machine_inv (start_step m)" "worked m (start_step m)"
proof -
  have "device_inv (start_step m)"
    unfolding start_step_def using machine_invD(4) [OF assms] by (intro plic_sample_inv) simp
  then show "machine_inv (start_step m)"
    using assms by (simp add: machine_inv_def cpu_inv_def start_step_def plic_sample_def)
  show "worked m (start_step m)" by (simp add: start_step_def plic_sample_def worked_def locks_kept_same)
qed

lemma stepped_trans: "worked m m1 \<Longrightarrow> stepped m1 m2 \<Longrightarrow> stepped m m2"
  unfolding worked_def stepped_def by (auto intro: arrays_kept_trans locks_kept_trans)

lemma step_instruction_ok:
  assumes "machine_inv m" "step_instruction sf m = Some m'"
  shows "machine_inv m' \<and> stepped m m'"
proof -
  have trap': "machine_inv (trap m1 w c t) \<and> stepped m (trap m1 w c t)" if "outcome_ok m (E_TRAP m1 c t)" for m1 w c t
  proof -
    have m1: "machine_inv m1" "worked m m1"
      using that assms(1) cpu_inv_kept [of m m1] worked_kept [of m m1] by (auto simp: outcome_ok_def machine_inv_def)
    then show ?thesis using trap_ok [OF m1(1)] stepped_trans [OF m1(2)] by blast
  qed
  have done': "machine_inv (retire m1 pc w r a b n) \<and> stepped m (retire m1 pc w r a b n)"
    if "outcome_ok m (E_DONE m1 r a b n)" for m1 pc w r a b n
    using that retire_ok [of m1 n] stepped_trans [of m m1] by (auto simp: outcome_ok_def)
  show ?thesis
  proof (cases "m_pc m AND 3 \<noteq> 0 \<or> (\<exists>f. fetch m = Inl f)")
    case True
    then show ?thesis
      using assms trap_ok [OF assms(1)] by (auto simp: step_instruction_def Let_def split: if_splits mem_fault.splits)
  next
    case False
    then obtain word where w: "m_pc m AND 3 = 0" "fetch m = Inr word" by (cases "fetch m") auto
    then obtain out where out: "execute_instruction sf m word = Some out"
      using assms(2) by (auto simp: step_instruction_def Let_def split: option.splits)
    note ok = execute_instruction_ok [OF assms(1) out]
    show ?thesis
    proof (cases out)
      case (E_TRAP m1 c t)
      then show ?thesis using assms(2) w out ok trap' by (auto simp: step_instruction_def)
    next
      case (E_DONE m1 r a b n)
      then show ?thesis using assms(2) w out ok done' by (auto simp: step_instruction_def)
    qed
  qed
qed

lemma step_ok:
  assumes "machine_inv m" "step sf m = Some m'"
  shows "machine_inv m' \<and> stepped m m'"
proof -
  note start = start_step_ok [OF assms(1)]
  consider (interrupt) code where "m' = take_interrupt (start_step m) code"
    | (instruction) "step_instruction sf (start_step m) = Some m'"
    using assms(2) by (auto simp: step_def Let_def split: if_splits option.splits)
  then have "machine_inv m' \<and> stepped (start_step m) m'"
    using take_interrupt_ok [OF start(1)] step_instruction_ok [OF start(1)] by cases auto
  then show ?thesis using stepped_trans [OF start(2)] by blast
qed

end
