(* ===== verification/Progress.thy ===== *)
theory Progress
  imports Invariant Run
begin

text \<open>
  Progress of the machine of \<open>tools/rv32emu_core.c\<close>: the machine starts in its invariant, a step
  returns unless the block device's service loop does not (no \<open>abort()\<close> of the source is
  reachable), and the run loop returns within its budget.
\<close>

section \<open>Power-on\<close>

definition emu_boot :: machine where
  "emu_boot = the (emu_alloc True emu_init)"

lemma within_less: "unat v < 2 ^ n \<Longrightarrow> within v (mask n)" for v :: u32
proof -
  assume "unat v < 2 ^ n"
  then have "unat (take_bit n v) = unat v" by (simp add: unsigned_take_bit_eq take_bit_nat_eq_self)
  then have "take_bit n v = v" by (simp only: word_unat_eq_iff)
  then show ?thesis by (metis take_bit_eq_mask within_and_right)
qed

lemma channel_less:
  assumes "d = 3 \<or> d = 7"
  shows "unat ((x AND d) * 255 div d :: u32) < 256"
proof -
  have "unat (x AND d) \<le> unat d" using word_and_le1 [of x d] by (simp add: word_le_nat_alt)
  then have "unat ((x AND d) * 255) = unat (x AND d) * 255" "unat (x AND d) * 255 \<le> unat d * 255"
    using assms by (auto simp: unat_word_ariths)
  then show ?thesis using assms by (auto simp: unat_div)
qed

lemma rgb332_within: "within (rgb332_word p) 0xffffff"
proof -
  have sh: "within (push_bit k c) (mask 24)" if "unat c < 256" "k \<in> {0, 8, 16}" for c :: u32 and k
    using that by (intro within_less) (auto simp: push_bit_eq_mult unat_word_ariths)
  have "within (rgb332_word p) (mask 24)"
    using sh [of _ 16] sh [of _ 8] sh [of _ 0] channel_less [of 7] channel_less [of 3]
    unfolding rgb332_word_def Let_def by (intro within_or) simp_all
  then show ?thesis by (simp add: mask_eq_exp_minus_1)
qed

lemma boot_device_inv: "device_inv emu_boot"
proof -
  have "plic_ok (\<lambda>_. 0) 0 0 0 0" by (simp add: plic_ok_def)
  moreover have "palette_ok (\<lambda>i. if i < 256 then rgb332_word (ucast i) else 0)"
    by (simp add: palette_ok_def rgb332_within)
  moreover have "engines_ok (simd_reset simd_device_zero) (gpu_device_reset gpu_device_zero) (g3d_device_reset g3d_device_zero)"
  proof -
    have "\<not> gpu_busy (gpu_device_reset gpu_device_zero)"
      by (simp add: gpu_busy_def gpu_device_reset_def gpu_device_zero_def)
    then show ?thesis
      by (simp add: engines_ok_def gpu_inv_reset g3d_inv_reset simd_inv_def simd_reset_def simd_device_zero_def
          simd_execution_zero_def)
  qed
  moreover have "virtio_ok (virtio_zero\<lparr>vb_queue_sel_zero := True, vb_disk_size := VIRTIO_DISK_SIZE\<rparr>)"
    by (simp add: virtio_ok_def virtio_zero_def queue_size_ok_def disk_file_ok_def)
  ultimately show ?thesis
    by (simp add: device_inv_def emu_boot_def emu_alloc_def emu_init_def machine_zero_def input_ok_def console_ok_def)
qed

lemma boot_inv: "machine_inv emu_boot"
proof -
  have "cpu_inv emu_boot"
    by (simp add: cpu_inv_def emu_boot_def emu_alloc_def emu_init_def machine_zero_def priv_ok_def aligned_def
        pmpcfg_ok_def within_def)
  then show ?thesis using boot_device_inv by (simp add: machine_inv_def)
qed

lemma boot_fields:
  "m_x emu_boot = (\<lambda>_. 0)(11 := RV32_DTB_ROM_BASE)" "m_priv emu_boot = PRIV_M" "m_mstatus emu_boot = MSTATUS_FS"
  "m_satp emu_boot = 0" "m_pmpcfg emu_boot = (\<lambda>_. 0)" "m_steps emu_boot = 0" "m_retired emu_boot = 0"
  "m_traps emu_boot = 0" "m_interrupts emu_boot = 0" "m_halt emu_boot = RUNNING" "m_pc emu_boot = 0"
  "m_virtio emu_boot = virtio_zero\<lparr>vb_queue_sel_zero := True, vb_disk_size := VIRTIO_DISK_SIZE\<rparr>"
  "m_console_tail_len emu_boot = 0"
  by (simp_all add: emu_boot_def emu_alloc_def emu_init_def machine_zero_def fun_upd_idem)

section \<open>A step returns\<close>

text \<open>Only the block device's store handler may not return, and then its service loop does not.\<close>

lemma region_store_returns:
  assumes "r \<in> set REGIONS" "r_load r = Some ld" "r_store r = Some st" "st m1 off w v = None"
    "m1 = m \<or> ld m off w = (x, m1)"
  shows "virtio_serve m = None"
  using assms
  by (auto simp: REGIONS_def gpu_store_def dma_window_store_def g3d_mmio_store_def done_store_def console_store_def
      clint_store_def plic_store_def display_store_def palette_store_def fb_store_def simd_store_def
      simd_program_store_def simd_data_store_def ram_store_def virtio_store_def virtio_load_def Let_def
      split: if_splits option.splits)

lemma region_store_load: "r \<in> set REGIONS \<Longrightarrow> r_store r = Some st \<Longrightarrow> \<exists>ld. r_load r = Some ld"
  by (auto simp: REGIONS_def)

lemma store_returns:
  assumes "store m va w v = None" "w \<le> 4"
  shows "virtio_serve m = None"
proof -
  obtain addr r st where r: "find_region addr w = Some r" "r_store r = Some st" "st m (addr - r_base r) w v = None"
    using assms(1) by (auto simp: store_def Let_def split: if_splits sum.splits option.splits)
  then show ?thesis
    using region_store_returns [OF find_region_ok(2) [OF r(1) assms(2)]] region_store_load [OF find_region_ok(2) [OF r(1) assms(2)] r(2)]
    by blast
qed

lemma amo_value_returns:
  "amo_valid funct5 rs2 \<Longrightarrow> funct5 \<noteq> AMO_LR \<Longrightarrow> funct5 \<noteq> AMO_SC \<Longrightarrow> amo_value funct5 old b \<noteq> None"
  by (auto simp: amo_valid_def amo_value_def split: if_splits)

lemma amo_returns:
  assumes "amo m va funct5 b = None" "amo_valid funct5 rs2" "funct5 \<noteq> AMO_LR" "funct5 \<noteq> AMO_SC"
  shows "virtio_serve m = None"
proof -
  have never: "amo_value funct5 old b = None \<Longrightarrow> False" for old b
    using amo_value_returns [OF assms(2-4)] by blast
  obtain addr r ld st x m1 v where r: "find_region addr 4 = Some r" "r_load r = Some ld" "r_store r = Some st"
    "ld m (addr - r_base r) 4 = (x, m1)" "st m1 (addr - r_base r) 4 v = None"
    using assms(1) never
    by (auto simp: amo_def Let_def split: if_splits sum.splits option.splits prod.splits)
  then show ?thesis using region_store_returns [OF find_region_ok(2) [OF r(1) order_refl]] by blast
qed

lemma fp_decode_op:
  assumes "fp_decode word a fa fb = Some (F_ARITH op rounded fa' writes_fd)"
    "opcode_of word \<in> {0x43, 0x47, 0x4b, 0x4f, 0x53}"
  shows "op \<le> OP_MAX"
  using assms by (auto simp: fp_decode_def Let_def split: if_splits)

lemma exec_fp_returns: "opcode_of word \<in> {0x43, 0x47, 0x4b, 0x4f, 0x53} \<Longrightarrow> exec_fp sf m word \<noteq> None"
proof -
  assume op: "opcode_of word \<in> {0x43, 0x47, 0x4b, 0x4f, 0x53}"
  have arith: False
    if "rv32_fp sf opn rm fa' fb fc = None" "fp_decode word a fa fb = Some (F_ARITH opn rounded fa' writes_fd)" "\<not> rm > 4"
    for a fa fb opn rounded fa' writes_fd fc rm
    using rv32_fp_returns [of rm opn sf fa' fb fc] fp_decode_op [OF that(2) op] that(1,3) by (auto simp: not_less)
  show ?thesis
    by (auto simp: exec_fp_def Let_def split: option.split fp_decode.split dest: arith)
qed

lemma exec_store_returns: "exec_store m word = None \<Longrightarrow> virtio_serve m = None"
proof -
  assume h: "exec_store m word = None"
  then have "\<not> funct3_of word > 2" by (auto simp: exec_store_def)
  then have "funct3_of word \<le> 5" "funct3_of word \<noteq> 3" by unat_arith+
  then have "width_of (funct3_of word) \<le> 4" by (rule width_of_le)
  then show ?thesis
    using h by (auto simp: exec_store_def Let_def split: if_splits option.splits sum.splits dest: store_returns)
qed

lemma exec_amo_returns: "exec_amo m word = None \<Longrightarrow> virtio_serve m = None"
  by (auto simp: exec_amo_def exec_sc_def Let_def split: if_splits option.splits sum.splits
      dest: store_returns amo_returns)

lemma execute_instruction_returns: "execute_instruction sf m word = None \<Longrightarrow> virtio_serve m = None"
  using exec_fp_returns [of word sf m]
  by (auto simp: execute_instruction_def Let_def split: if_splits dest: exec_store_returns exec_amo_returns)

lemma interrupt_found:
  assumes "machine_inv m" "interrupt_levels m \<noteq> 0"
  shows "find (\<lambda>code. drop_bit code (interrupt_levels m) AND 1 \<noteq> 0) interrupt_order \<noteq> None"
proof -
  have "within (interrupt_levels m) MIE_MASK"
    using machine_inv_masks(2) [OF assms(1)]
    by (auto simp: interrupt_levels_def Let_def intro: within_and within_and2)
  moreover obtain n where n: "bit (interrupt_levels m) n" using assms(2) by (auto simp: bit_eq_iff)
  ultimately have "bit (MIE_MASK :: u32) n" by (rule within_bitD)
  then have "n \<in> set interrupt_order"
    by (auto simp: interrupt_order_def bit_numeral_rec bit_1_iff split: nat.splits)
  then show ?thesis using n by (auto simp: find_None_iff bit_test)
qed

lemma step_returns:
  assumes "machine_inv m" "step sf m = None"
  shows "virtio_serve (start_step m) = None"
proof -
  note ok = start_step_ok(1) [OF assms(1)]
  show ?thesis
    using assms(2) interrupt_found [OF ok] execute_instruction_returns [of sf "start_step m"]
    by (auto simp: step_def step_instruction_def Let_def split: if_splits option.splits sum.splits mem_fault.splits
        exec_outcome.splits)
qed

section \<open>The run loop\<close>

text \<open>The machine after \<open>k\<close> steps.\<close>

fun n_steps :: "softfloat \<Rightarrow> nat \<Rightarrow> machine \<Rightarrow> machine option" where
  "n_steps sf 0 m = Some m"
| "n_steps sf (Suc k) m = (case step sf m of None \<Rightarrow> None | Some m' \<Rightarrow> n_steps sf k m')"





section \<open>Trapping instructions\<close>

lemma illegal_machine: "illegal m word = E_TRAP m' c t \<Longrightarrow> m' = m"
  by (simp add: illegal_def)

lemma load_refused: "load m va w = (Inl f, m') \<Longrightarrow> w \<le> 4 \<Longrightarrow> m' = m"
  using load_effect [of m va w "Inl f" m'] by blast

lemma store_refused: "store m va w v = Some (Inl f, m') \<Longrightarrow> w \<le> 4 \<Longrightarrow> device_inv m \<Longrightarrow> m' = m"
  using store_effect [of m va w v "Inl f" m'] by blast

lemma exec_load_trap: "exec_load m word = E_TRAP m' c t \<Longrightarrow> m' = m"
proof -
  assume h: "exec_load m word = E_TRAP m' c t"
  show ?thesis
  proof (cases "(opcode_of word = 0x07 \<and> funct3_of word \<noteq> 2) \<or> funct3_of word = 3 \<or> funct3_of word > 5")
    case True
    then show ?thesis using h by (simp add: exec_load_def illegal_def)
  next
    case False
    then have "width_of (funct3_of word) \<le> 4" by (auto intro: width_of_le)
    then show ?thesis using h False
      by (auto simp: exec_load_def Let_def dest: load_refused split: if_splits prod.splits sum.splits)
  qed
qed

lemma exec_store_trap: "exec_store m word = Some (E_TRAP m' c t) \<Longrightarrow> device_inv m \<Longrightarrow> m' = m"
proof -
  assume h: "exec_store m word = Some (E_TRAP m' c t)" and inv: "device_inv m"
  show ?thesis
  proof (cases "(opcode_of word = 0x27 \<and> funct3_of word \<noteq> 2) \<or> funct3_of word > 2")
    case True
    then show ?thesis using h by (simp add: exec_store_def illegal_def)
  next
    case False
    then have "funct3_of word \<le> 5" "funct3_of word \<noteq> 3" by unat_arith+
    then have w: "width_of (funct3_of word) \<le> 4" by (rule width_of_le)
    show ?thesis using h False w inv
      by (auto simp: exec_store_def Let_def dest: store_refused split: if_splits option.splits sum.splits)
  qed
qed

lemma exec_system_trap: "exec_system m word = E_TRAP m' c t \<Longrightarrow> m' = m"
  by (auto simp: exec_system_def exec_mret_def exec_sret_def exec_csr_def illegal_def Let_def
      split: if_splits option.splits)

lemma exec_fp_trap: "exec_fp sf m word = Some (E_TRAP m' c t) \<Longrightarrow> m' = m"
  by (auto simp: exec_fp_def illegal_def Let_def split: if_splits option.splits fp_decode.splits)

lemma execute_instruction_trap:
  assumes "execute_instruction sf m word = Some (E_TRAP m' c t)" "device_inv m" "opcode_of word \<noteq> 0x2f"
  shows "m' = m"
  using assms
  by (auto simp: execute_instruction_def Let_def jump_def exec_jalr_def exec_branch_def exec_op_imm_def exec_op_def
      split: if_split_asm option.splits
      dest: exec_load_trap exec_store_trap exec_system_trap exec_fp_trap illegal_machine)

section \<open>Sessions\<close>

text \<open>
  What the host does with a machine: power-on with an aligned entry point, the operations of the
  host interface, and steps while it runs.
\<close>

inductive session :: "softfloat \<Rightarrow> machine \<Rightarrow> bool" for sf where
  boot: "aligned entry \<Longrightarrow> session sf (emu_boot\<lparr>m_pc := entry\<rparr>)"
| load: "session sf m \<Longrightarrow> emu_load_image m img base = Some (m', n) \<Longrightarrow> session sf m'"
| disk: "session sf m \<Longrightarrow> emu_open_disk m file results = Some m' \<Longrightarrow> session sf m'"
| prompt: "session sf m \<Longrightarrow> m_console_tail_len m = 0 \<Longrightarrow> emu_set_console_prompt m text = Some m' \<Longrightarrow> session sf m'"
| typed: "session sf m \<Longrightarrow> emu_read_console_input m input = Some m' \<Longrightarrow> session sf m'"
| key: "session sf m \<Longrightarrow> session sf (emu_queue_event m frame event)"
| poke: "session sf m \<Longrightarrow> emu_debug_write m addr xs = Some m' \<Longrightarrow> session sf m'"
| csr: "session sf m \<Longrightarrow> emu_csr_write m number v = Some m' \<Longrightarrow> session sf m'"
| step: "session sf m \<Longrightarrow> m_halt m = RUNNING \<Longrightarrow> step sf m = Some m' \<Longrightarrow> session sf m'"

inductive_cases session_cases: "session sf m"






text \<open>A parameter for the witnesses: a floating-point library that answers zero without flags.\<close>

definition sf_zero :: softfloat where
  "sf_zero = \<lparr>f32_add = (\<lambda>_ _ _. (0, 0)), f32_sub = (\<lambda>_ _ _. (0, 0)), f32_mul = (\<lambda>_ _ _. (0, 0)),
     f32_mulAdd = (\<lambda>_ _ _ _. (0, 0)), f32_div = (\<lambda>_ _ _. (0, 0)), f32_sqrt = (\<lambda>_ _. (0, 0)),
     i32_to_f32 = (\<lambda>_ _. (0, 0)), ui32_to_f32 = (\<lambda>_ _. (0, 0)), f32_to_i32 = (\<lambda>_ _. (0, 0)),
     f32_to_ui32 = (\<lambda>_ _. (0, 0)), f32_eq = (\<lambda>_ _. (False, 0)), f32_lt = (\<lambda>_ _. (False, 0)),
     f32_le = (\<lambda>_ _. (False, 0)), f32_lt_quiet = (\<lambda>_ _. (False, 0))\<rparr>"

lemma n_steps_ok:
  "machine_inv m \<Longrightarrow> n_steps sf k m = Some m' \<Longrightarrow> machine_inv m' \<and> arrays_kept m m' \<and> locks_kept m m'"
proof (induction k arbitrary: m)
  case 0 then show ?case by (simp add: locks_kept_same)
next
  case (Suc k)
  then obtain m1 where m1: "step sf m = Some m1" "n_steps sf k m1 = Some m'" by (auto split: option.splits)
  have ok: "machine_inv m1" "arrays_kept m m1" "locks_kept m m1"
    using step_ok [OF Suc.prems(1) m1(1)] by (auto simp: stepped_def)
  then show ?case
    using Suc.IH [OF ok(1) m1(2)] arrays_kept_trans locks_kept_trans by blast
qed

section \<open>Properties of the machine\<close>






text \<open>
  C12: the PMP lock. Whatever instructions run, at whatever privilege, a locked entry keeps its
  configuration and its address, and a locked TOR entry keeps its lower bound.
\<close>

theorem pmp_lock_holds:
  assumes "machine_inv m" "n_steps sf k m = Some m'" "i < PMP_ENTRIES" "bit (m_pmpcfg m i) 7"
  shows "m_pmpcfg m' i = m_pmpcfg m i \<and> m_pmpaddr m' i = m_pmpaddr m i \<and>
    (i \<noteq> 0 \<and> ucast (m_pmpcfg m i) AND PMP_A = PMP_TOR \<longrightarrow> m_pmpaddr m' (i - 1) = m_pmpaddr m (i - 1))"
  using n_steps_ok [OF assms(1,2)] assms(3,4) by (simp add: locks_kept_def)

theorem pmp_lock_holds_witness:
  "\<exists>m'. n_steps sf_zero 1 (csr_write emu_boot CSR_PMPCFG0 0x98) = Some m' \<and> m_pmpcfg m' 0 = 0x98"
proof -
  define m where "m = csr_write emu_boot CSR_PMPCFG0 0x98"
  have inv: "machine_inv m" unfolding m_def by (rule csr_write_inv [OF boot_inv])
  have "virtio_serve (start_step m) \<noteq> None"
    by (simp add: m_def csr_write_def virtio_serve_def start_step_def plic_sample_def boot_fields virtio_zero_def)
  then obtain m' where m': "n_steps sf_zero 1 m = Some m'"
    using step_returns [OF inv, of sf_zero] by (cases "step sf_zero m") auto
  have "m_pmpcfg m 0 = 0x98"
    by (simp add: m_def csr_write_def pmpcfg_byte_def Let_def boot_fields)
  moreover from this have "bit (m_pmpcfg m 0) 7" by (simp add: bit_numeral_rec numeral_eq_Suc)
  ultimately show ?thesis using pmp_lock_holds [OF inv m', of 0] m' unfolding m_def by auto
qed










text \<open>
  C9: precise exceptions. An instruction that traps leaves every register of the CPU as it was; any
  instruction but an atomic one leaves the whole machine as it was (an AMO whose write a device
  refuses has made its read).
\<close>

theorem traps_are_precise:
  assumes "machine_inv m" "execute_instruction sf m word = Some (E_TRAP m' cause tval)"
  shows "cpu_kept m m' \<and> (opcode_of word \<noteq> 0x2f \<longrightarrow> m' = m)"
  using execute_instruction_ok [OF assms] execute_instruction_trap [OF assms(2) machine_invD(4) [OF assms(1)]]
  by (auto simp: outcome_ok_def)

theorem traps_are_precise_witness:
  "\<exists>m'. execute_instruction sf_zero emu_boot 0x2003 = Some (E_TRAP m' CAUSE_LOAD_FAULT 0) \<and> m' = emu_boot"
proof -
  have "load emu_boot 0 4 = (Inl ACC_FAULT, emu_boot)"
    by (simp add: load_def translate_def data_priv_def find_region_def in_region_def REGIONS_def boot_fields)
  then obtain m' where "execute_instruction sf_zero emu_boot 0x2003 = Some (E_TRAP m' CAUSE_LOAD_FAULT 0)"
    by (simp add: execute_instruction_def opcode_of_def fs_off_def exec_load_def funct3_of_def rs1_of_def imm_i_def
        width_of_def boot_fields floating_instruction_def)
  then show ?thesis
    using traps_are_precise [OF boot_inv, of sf_zero "0x2003" m' CAUSE_LOAD_FAULT 0] by (simp add: opcode_of_def)
qed

end
