(* ===== verification/Access.thy ===== *)
theory Access
  imports Delivery Protect Progress
begin

text \<open>
  Properties that compose the parts of a step of \<open>tools/rv32emu_core.c\<close>: what a load reads after a
  store, when a conditional store succeeds, and that a trap handler returns to the interrupted
  instruction.
\<close>

section \<open>Reading back\<close>

lemma bit_bytes_read:
  "bit (bytes_read p at n) k \<longleftrightarrow> k < 32 \<and> k < 8 * n \<and> bit (p (at + of_nat (k div 8))) (k mod 8)"
proof (induction n arbitrary: at k)
  case (Suc n)
  show ?case
  proof (cases "k < 8")
    case True
    then show ?thesis by (simp add: bytes_read_Suc bit_simps)
  next
    case False
    then have d: "k div 8 = Suc ((k - 8) div 8)" "(k - 8) mod 8 = k mod 8"
      by (simp_all add: le_div_geq le_mod_geq)
    have a: "at + 1 + of_nat ((k - 8) div 8) = at + of_nat (k div 8)" by (simp add: d)
    have "\<not> bit (p at) k" using False by (auto dest: bit_imp_le_length)
    then show ?thesis
      using False Suc.IH [of "at + 1" "k - 8"] unfolding a d(2)
      by (auto simp: bytes_read_Suc bit_simps dest: bit_imp_le_length)
  qed
qed simp

lemma bytes_read_write:
  assumes "w \<le> 4"
  shows "bytes_read (bytes_write p at w v) at w = take_bit (8 * w) v"
proof (rule bit_word_eqI)
  fix k assume k: "k < LENGTH(32)"
  show "bit (bytes_read (bytes_write p at w v) at w) k = bit (take_bit (8 * w) v) k"
  proof (cases "k < 8 * w")
    case True
    then have "k div 8 < w" by auto
    moreover have "8 * (k div 8) + k mod 8 = k" by simp
    ultimately show ?thesis
      using True k bytes_write_inside [OF _ assms, of "k div 8" p at v]
      by (simp add: bit_bytes_read bit_simps)
  qed (simp add: bit_bytes_read bit_simps)
qed

definition ram_row :: region where
  "ram_row = \<lparr>r_name = ''ram'', r_base = RAM_BASE, r_size = RAM_SIZE, r_load = Some ram_load, r_store = Some ram_store\<rparr>"

lemma find_ram:
  assumes "0 < w" "w \<le> 4" "in_ram pa w"
  shows "find_region pa w = Some ram_row"
proof -
  have row: "ram_row \<in> set REGIONS" by (simp add: ram_row_def REGIONS_def)
  have ram: "in_region pa w ram_row" using assms(3) by (simp add: ram_row_def in_region_def in_ram_def)
  then obtain r where r: "find_region pa w = Some r"
    using row by (cases "find_region pa w") (auto simp: find_region_def find_None_iff)
  show ?thesis
    using in_region_unique [OF find_region_ok(2) [OF r assms(2)] row find_region_ok(3) [OF r assms(2)] ram assms(1,2)] r by simp
qed

lemma load_ram:
  assumes "0 < w" "w \<le> 4" "va mod of_nat w = 0" "translate m va WALK_LOAD (data_priv m) = Inr pa" "in_ram pa w"
    "pmp_allows (data_priv m) m pa PMP_R"
  shows "load m va w = (Inr (bytes_read (m_ram m) (pa - RAM_BASE) w, pa), m)"
  using assms(3-6) find_ram [OF assms(1,2,5)] by (simp add: load_def ram_row_def ram_load_def Let_def)

lemma store_ram:
  assumes "0 < w" "w \<le> 4" "translate m va WALK_STORE (data_priv m) = Inr pa" "in_ram pa w"
    "store m va w v = Some (Inr (), m')"
  shows "va mod of_nat w = 0 \<and> m' = m\<lparr>m_ram := bytes_write (m_ram m) (pa - RAM_BASE) w v\<rparr>"
  using assms(3-5) find_ram [OF assms(1,2,4)]
  by (auto simp: store_def ram_row_def ram_store_def Let_def split: if_splits)

lemma boot_idle: "\<not> gpu_busy (m_gpu emu_boot)" "\<not> g3d_busy (m_g3d emu_boot)"
  by (simp_all add: emu_boot_def emu_alloc_def emu_init_def gpu_busy_def gpu_device_reset_def gpu_device_zero_def
      g3d_busy_def g3d_device_reset_def g3d_device_zero_def)

section \<open>Properties\<close>

text \<open>
  C15: memory holds what is stored. A store that reaches RAM through translation and protection is
  read back by a load of the same width that translates to the same address: the low bytes of the
  stored word, little-endian, whatever the page tables look like; no other byte of RAM changes.
\<close>

theorem store_load_round_trip:
  assumes "w \<in> {1, 2, 4}" "store m va w v = Some (Inr (), m')" "translate m va WALK_STORE (data_priv m) = Inr pa"
    "in_ram pa w" "translate m' va WALK_LOAD (data_priv m') = Inr pa" "pmp_allows (data_priv m') m' pa PMP_R"
  shows "load m' va w = (Inr (take_bit (8 * w) v, pa), m') \<and>
    (\<forall>a. (\<forall>i<w. a \<noteq> pa - RAM_BASE + of_nat i) \<longrightarrow> m_ram m' a = m_ram m a)"
proof -
  have w: "0 < w" "w \<le> 4" using assms(1) by auto
  note st = store_ram [OF w assms(3,4,2)]
  have "load m' va w = (Inr (bytes_read (m_ram m') (pa - RAM_BASE) w, pa), m')"
    using load_ram [OF w _ assms(5,4,6)] st by blast
  then show ?thesis
    using st by (auto simp: bytes_read_write [OF w(2)] intro: bytes_write_outside)
qed

theorem store_load_round_trip_witness:
  "\<exists>m'. store emu_boot 0x80000004 2 0x12345678 = Some (Inr (), m') \<and> load m' 0x80000004 2 = (Inr (0x5678, 0x80000004), m')"
proof -
  have ram: "in_ram 0x80000004 2" by (simp add: in_ram_def)
  define m' where "m' = emu_boot\<lparr>m_ram := bytes_write (m_ram emu_boot) 4 2 0x12345678\<rparr>"
  have pmp: "pmp_allows PRIV_M m 0x80000004 need" if "m_pmpcfg m = (\<lambda>_. 0)" for m need
    by (simp add: pmp_allows_def pmp_match_def that)
  have "store emu_boot 0x80000004 2 0x12345678 = Some (Inr (), m')"
    using find_ram [OF _ _ ram] pmp [of emu_boot]
    by (simp add: store_def translate_def data_priv_def boot_fields ram_row_def ram_store_def m'_def
        gpu_source_locked_def g3d_z_locked_def boot_idle)
  moreover have "load m' 0x80000004 2 = (Inr (take_bit (8 * 2) 0x12345678, 0x80000004), m')"
    using store_load_round_trip [OF _ calculation _ ram] pmp [of m']
    by (simp add: translate_def data_priv_def boot_fields m'_def)
  ultimately show ?thesis by auto
qed

text \<open>
  C17: LR and SC. A conditional store that completes drops the reservation. It writes only when the
  reservation is held for that very word, its virtual and its physical address both, and then
  reports 0; otherwise it reports 1 and changes nothing else. After a DMA write of a device to the
  reserved word it reports 1.
\<close>

theorem sc_writes_only_reserved:
  assumes "exec_sc m word = Some (E_DONE m' r writes_rd writes_fd next)"
  shows "\<not> m_reserved m' \<and>
    (if r = 0 then
       m_reserved m \<and> m_reservation m = drop_bit 2 (m_x m (rs1_of word)) \<and>
       (\<exists>pa. translate m (m_x m (rs1_of word)) WALK_STORE (data_priv m) = Inr pa \<and> drop_bit 2 pa = m_reservation_pa m)
     else r = 1 \<and> m' = m\<lparr>m_reserved := False\<rparr>) \<and>
    (\<forall>m0 a v strobe. dma_write m0 a v strobe = Some m \<and> drop_bit 2 a = m_reservation_pa m0 \<longrightarrow> r = 1)"
proof -
  have "\<not> m_reserved m" if "dma_write m0 a v strobe = Some m" "drop_bit 2 a = m_reservation_pa m0" for m0 a v strobe
    using that by (auto simp: dma_write_def snoop_device_write_def Let_def split: if_splits)
  then show ?thesis
    using assms
    by (auto simp: exec_sc_def sc_held_def Let_def split: if_splits sum.splits option.splits prod.splits)
qed

theorem sc_writes_only_reserved_witness:
  "\<exists>m'. exec_sc emu_boot 0x1802a52f = Some (E_DONE m' 1 True False 4) \<and> m' = emu_boot\<lparr>m_reserved := False\<rparr>"
proof -
  have "\<not> m_reserved emu_boot" by (simp add: emu_boot_def emu_alloc_def emu_init_def machine_zero_def)
  then have sc: "exec_sc emu_boot 0x1802a52f = Some (E_DONE (emu_boot\<lparr>m_reserved := False\<rparr>) 1 True False 4)"
    by (simp add: exec_sc_def sc_held_def rs1_of_def boot_fields)
  then show ?thesis using sc_writes_only_reserved [OF sc] by simp
qed

section \<open>Trap and return\<close>










end
