(* ===== verification/Userlib.thy ===== *)
theory Userlib
  imports Prelude
begin

text \<open>
  The user library of \<open>programs/rv32/os\<close>: decimal and hexadecimal text (\<open>udecimal.c\<close>, \<open>ulib.c\<close>
  and the kernel's own \<open>kdecimal\<close>), number parsing and comparison of strings. A C string is the list of its
  bytes before the NUL; a character buffer is a function from its index.
\<close>

section \<open>Decimal digits\<close>

text \<open>\<open>u_decimal\<close>'s division by ten without a divide instruction: \<open>while (bit > value) bit >>= 1\<close>,
  then one quotient bit per dividend bit.\<close>

function top_bit :: "u32 \<Rightarrow> u32 \<Rightarrow> u32" where
  "top_bit value b = (if b > value then top_bit value (drop_bit 1 b) else b)"
  by pat_completeness auto
termination top_bit
proof (relation "measure (\<lambda>(value, b). unat b)", goal_cases)
  case (2 v b)
  then have "0 < unat b" by (simp add: word_less_nat_alt)
  then show ?case by (simp add: unat_drop_bit_eq drop_bit_nat_def)
qed simp

declare top_bit.simps [simp del]

function long_division :: "u32 \<Rightarrow> u32 \<Rightarrow> u32 \<Rightarrow> u32 \<Rightarrow> u32 \<times> u32" where
  "long_division value b q r =
     (if b = 0 then (q, r)
      else
        let r = push_bit 1 r OR (if value AND b \<noteq> 0 then 1 else 0); q = push_bit 1 q
        in if r \<ge> 10 then long_division value (drop_bit 1 b) (q OR 1) (r - 10)
           else long_division value (drop_bit 1 b) q r)"
  by pat_completeness auto
termination long_division
proof (relation "measure (\<lambda>(value, b, q, r). unat b)", goal_cases)
  case (2 v b q r)
  then have "0 < unat b" by (simp add: unat_gt_0)
  then show ?case by (simp add: unat_drop_bit_eq drop_bit_nat_def)
next
  case (3 v b q r)
  then have "0 < unat b" by (simp add: unat_gt_0)
  then show ?case by (simp add: unat_drop_bit_eq drop_bit_nat_def)
qed simp

declare long_division.simps [simp del]

definition divide_by_ten :: "u32 \<Rightarrow> u32 \<times> u32" where
  "divide_by_ten value = long_division value (top_bit value 0x80000000) 0 0"

lemma bit_numeral_shift: "unat v div 2 ^ k = 2 * (unat v div 2 ^ Suc k) + of_bool (bit v k)" for v :: u32
proof -
  have "bit v k \<longleftrightarrow> odd (unat v div 2 ^ k)"
    unfolding bit_nat_def [symmetric] by (auto simp: bit_unsigned_iff dest: bit_imp_le_length)
  then have "unat v div 2 ^ k mod 2 = of_bool (bit v k)" by (simp add: mod_2_eq_odd)
  moreover have "unat v div 2 ^ k = 2 * (unat v div 2 ^ k div 2) + unat v div 2 ^ k mod 2" by simp
  moreover have "unat v div 2 ^ k div 2 = unat v div 2 ^ Suc k" by (simp add: div_mult2_eq [symmetric] mult.commute)
  ultimately show ?thesis by simp
qed

lemma shift_in: "unat r < 2 ^ 31 \<Longrightarrow> unat (push_bit 1 r OR (if b then 1 else 0)) = 2 * unat r + of_bool b" for r :: u32
proof -
  assume r: "unat r < 2 ^ 31"
  have "push_bit 1 r OR 1 = push_bit 1 r + 1" by (simp add: or_one_eq push_bit_eq_mult)
  moreover have "unat (push_bit 1 r) = 2 * unat r" using r by (simp add: push_bit_eq_mult unat_word_ariths)
  ultimately show ?thesis using r by (simp add: unat_word_ariths)
qed

lemma ten_step: "n = 2 * d + b \<Longrightarrow> b \<le> 1 \<Longrightarrow>
    n div 10 = 2 * (d div 10) + (if 2 * (d mod 10) + b \<ge> 10 then 1 else 0) \<and>
    n mod 10 = 2 * (d mod 10) + b - (if 2 * (d mod 10) + b \<ge> 10 then 10 else 0)" for n :: nat
proof -
  assume n: "n = 2 * d + b" and b: "b \<le> 1"
  define c where "c = d mod 10"
  define e where "e = (if 2 * c + b \<ge> 10 then 1 else 0 :: nat)"
  have "d = 10 * (d div 10) + c" "c < 10" by (simp_all add: c_def)
  then have eq: "n = (2 * c + b - 10 * e) + 10 * (2 * (d div 10) + e)" "2 * c + b - 10 * e < 10"
    using n b by (auto simp: e_def)
  then have q: "n div 10 = 2 * (d div 10) + e" by (intro div_nat_eqI) simp_all
  moreover have "n mod 10 = 2 * c + b - 10 * e"
    using eq minus_mult_div_eq_mod [of n 10] unfolding q by linarith
  ultimately have "n div 10 = 2 * (d div 10) + e" "n mod 10 = 2 * c + b - 10 * e" by blast+
  then show ?thesis by (auto simp: e_def c_def)
qed

text \<open>The loop with the bits below \<open>k\<close> left: the quotient and remainder of the bits above.\<close>

lemma long_division_correct:
  assumes "k \<le> 32" "unat q = unat v div 2 ^ k div 10" "unat r = unat v div 2 ^ k mod 10"
  shows "long_division v (if k = 0 then 0 else 2 ^ (k - 1)) q r = (v div 10, v mod 10)"
  using assms
proof (induction k arbitrary: q r)
  case 0
  then show ?case by (simp add: long_division.simps word_unat_eq_iff unat_div unat_mod)
next
  case (Suc k)
  define d where "d = unat v div 2 ^ Suc k"
  define r' where "r' = push_bit 1 r OR (if bit v k then 1 else 0)"
  have "d \<le> unat v div 2 ^ 1" unfolding d_def by (intro div_le_mono2) (simp_all add: self_le_power)
  then have d: "d < 2 ^ 31" using unat_u32_less [of v] by simp
  have q: "unat q = d div 10" and r: "unat r = d mod 10" using Suc.prems by (simp_all add: d_def)
  have r': "unat r' = 2 * (d mod 10) + of_bool (bit v k)"
    using r d unfolding r'_def by (subst shift_in) simp_all
  have q': "unat (push_bit 1 q OR (if b then 1 else 0)) = 2 * (d div 10) + of_bool b" for b
    using q d by (subst shift_in) simp_all
  note n = ten_step [OF bit_numeral_shift [of v k, folded d_def]]
  have next_bit: "drop_bit 1 (2 ^ k :: u32) = (if k = 0 then 0 else 2 ^ (k - 1))"
    using Suc.prems(1) by (cases k) (auto intro!: bit_word_eqI simp: bit_drop_bit_eq bit_exp_iff simp del: power_Suc)
  have "long_division v (2 ^ k) q r =
      (if r' \<ge> 10 then long_division v (drop_bit 1 (2 ^ k)) (push_bit 1 q OR 1) (r' - 10)
       else long_division v (drop_bit 1 (2 ^ k)) (push_bit 1 q) r')"
    using Suc.prems(1) by (subst long_division.simps) (simp add: Let_def r'_def and_exp_eq_0_iff_not_bit)
  moreover have "long_division v (drop_bit 1 (2 ^ k)) (push_bit 1 q OR 1) (r' - 10) = (v div 10, v mod 10)" if "r' \<ge> 10"
    using Suc.IH [of "push_bit 1 q OR 1" "r' - 10"] Suc.prems(1) n that q' [of True] r'
    unfolding next_bit by (simp add: word_le_nat_alt unat_sub)
  moreover have "long_division v (drop_bit 1 (2 ^ k)) (push_bit 1 q) r' = (v div 10, v mod 10)" if "\<not> r' \<ge> 10"
    using Suc.IH [of "push_bit 1 q" "r'"] Suc.prems(1) n that q' [of False] r'
    unfolding next_bit by (simp add: word_le_nat_alt)
  ultimately show ?case by simp
qed

lemma unat_exp_u32: "k < 32 \<Longrightarrow> unat (2 ^ k :: u32) = 2 ^ k"
  using unat_of_nat_u32 [of "2 ^ k"] power_strict_increasing [of k 32 "2 :: nat"] by simp

lemma drop_exp: "Suc k < 32 \<Longrightarrow> drop_bit 1 (2 ^ Suc k :: u32) = 2 ^ k"
  by (rule bit_word_eqI) (auto simp: bit_drop_bit_eq bit_exp_iff simp del: power_Suc)

lemma top_bit_exp:
  "k < 32 \<Longrightarrow> unat v < 2 ^ Suc k \<Longrightarrow> v \<noteq> 0 \<Longrightarrow> \<exists>j<32. top_bit v (2 ^ k) = 2 ^ j \<and> unat v < 2 ^ Suc j"
proof (induction k)
  case 0
  then have "unat v \<noteq> 0" "unat v < 2" by (simp_all add: unat_eq_0)
  then have "unat v = 1" by linarith
  then have "top_bit v 1 = 1" by (subst top_bit.simps) (simp add: word_less_nat_alt)
  then show ?case using \<open>unat v = 1\<close> by (intro exI [of _ 0]) simp
next
  case (Suc k)
  show ?case
  proof (cases "unat v < 2 ^ Suc k")
    case True
    then have "top_bit v (2 ^ Suc k) = top_bit v (2 ^ k)"
      using Suc.prems(1) drop_exp [of k] unat_exp_u32 [of "Suc k"]
      by (subst top_bit.simps) (simp add: word_less_nat_alt del: power_Suc)
    then show ?thesis using Suc.IH True Suc.prems by simp
  next
    case False
    then have "top_bit v (2 ^ Suc k) = 2 ^ Suc k"
      using Suc.prems(1) unat_exp_u32 [of "Suc k"]
      by (subst top_bit.simps) (simp add: word_less_nat_alt del: power_Suc)
    then show ?thesis using Suc.prems by blast
  qed
qed

lemma top_bit_zero: "top_bit 0 b = 0"
proof (induction "0 :: u32" b rule: top_bit.induct)
  case (1 b)
  then show ?case by (cases "b = 0") (simp_all add: top_bit.simps [of 0 b] top_bit.simps [of 0 0] word_greater_zero_iff)
qed

lemma divide_by_ten_correct: "divide_by_ten v = (v div 10, v mod 10)"
proof (cases "v = 0")
  case True
  then show ?thesis by (simp add: divide_by_ten_def top_bit_zero long_division.simps)
next
  case False
  obtain j where j: "j < 32" "top_bit v (2 ^ 31) = 2 ^ j" "unat v < 2 ^ Suc j"
    using top_bit_exp [of 31 v] unat_u32_less [of v] False by auto
  then have "long_division v (2 ^ j) 0 0 = (v div 10, v mod 10)"
    using long_division_correct [of "Suc j" 0 v 0] by simp
  then show ?thesis using j(2) by (simp add: divide_by_ten_def)
qed

text \<open>The digits from the last one down; a \<open>do ... while (value)\<close>.\<close>

function u_digits :: "u32 \<Rightarrow> u32 \<Rightarrow> (u32 \<Rightarrow> u8) \<Rightarrow> u32 \<times> (u32 \<Rightarrow> u8)" where
  "u_digits value i digits =
     (case divide_by_ten value of (q, r) \<Rightarrow>
        let i = i - 1; digits = digits(i := ucast (48 + r))
        in if q \<noteq> 0 then u_digits q i digits else (i, digits))"
  by pat_completeness auto
termination u_digits
proof (relation "measure (\<lambda>(value, i, digits). unat value)", goal_cases)
  case (2 v i digits q r j digits')
  then have "unat q = unat v div 10" "q \<noteq> 0" by (simp_all add: divide_by_ten_correct unat_div)
  then show ?case by (simp add: div_less_dividend flip: unat_eq_0)
qed simp

declare u_digits.simps [simp del]

definition u_decimal :: "u32 \<Rightarrow> (u32 \<Rightarrow> u8) \<Rightarrow> u32 \<times> (u32 \<Rightarrow> u8)" where
  "u_decimal value digits = u_digits value 10 (digits(10 := 0))"

text \<open>The kernel's version of the loop, which divides.\<close>

function k_digits :: "u32 \<Rightarrow> u32 \<Rightarrow> (u32 \<Rightarrow> u8) \<Rightarrow> u32 \<times> (u32 \<Rightarrow> u8)" where
  "k_digits value i digits =
     (let i = i - 1; digits = digits(i := ucast (48 + value mod 10)); value = value div 10
      in if value \<noteq> 0 then k_digits value i digits else (i, digits))"
  by pat_completeness auto
termination k_digits
proof (relation "measure (\<lambda>(value, i, digits). unat value)", goal_cases)
  case (2 v i digits j digits' q)
  then have "unat q = unat v div 10" "q \<noteq> 0" by (simp_all add: unat_div)
  then show ?case by (simp add: div_less_dividend flip: unat_eq_0)
qed simp

declare k_digits.simps [simp del]

definition kdecimal :: "u32 \<Rightarrow> (u32 \<Rightarrow> u8) \<Rightarrow> u32 \<times> (u32 \<Rightarrow> u8)" where
  "kdecimal value digits = k_digits value 10 (digits(10 := 0))"

text \<open>The decimal text of a number, and the text of a buffer between two indices.\<close>

fun decimal :: "nat \<Rightarrow> u8 list" where
  "decimal n = (if n < 10 then [of_nat (48 + n)] else decimal (n div 10) @ [of_nat (48 + n mod 10)])"

declare decimal.simps [simp del]

definition buffer_text :: "(u32 \<Rightarrow> u8) \<Rightarrow> nat \<Rightarrow> nat \<Rightarrow> u8 list" where
  "buffer_text d a b = map (\<lambda>k. d (of_nat k)) [a..<b]"

lemma decimal_length: "0 < k \<Longrightarrow> n < 10 ^ k \<Longrightarrow> length (decimal n) \<le> k"
proof (induction k arbitrary: n)
  case (Suc k)
  show ?case
  proof (cases "n < 10")
    case False
    then have "0 < k" "n div 10 < 10 ^ k" using Suc.prems by (cases k; simp add: less_mult_imp_div_less)+
    then show ?thesis using Suc.IH [of "n div 10"] False by (subst decimal.simps) simp
  qed (subst decimal.simps, simp)
qed simp

lemma decimal_nonempty: "0 < length (decimal n)"
  by (subst decimal.simps) simp

lemma buffer_text_snoc: "a \<le> b \<Longrightarrow> buffer_text d a (Suc b) = buffer_text d a b @ [d (of_nat b)]"
  by (simp add: buffer_text_def)

lemma buffer_text_cong: "(\<And>k. a \<le> k \<Longrightarrow> k < b \<Longrightarrow> d (of_nat k) = d' (of_nat k)) \<Longrightarrow> buffer_text d a b = buffer_text d' a b"
  by (simp add: buffer_text_def)

lemma digit_byte: "(ucast (48 + v mod 10 :: u32) :: u8) = of_nat (48 + unat v mod 10)"
proof -
  have "unat (48 + v mod 10) = 48 + unat v mod 10" by (simp add: unat_word_ariths unat_mod)
  then show ?thesis by (metis of_nat_unat)
qed

lemma of_nat_u32_eq: "j < 2 ^ 32 \<Longrightarrow> k < 2 ^ 32 \<Longrightarrow> (of_nat j :: u32) = of_nat k \<longleftrightarrow> j = k"
  using unat_of_nat_u32 [of j] unat_of_nat_u32 [of k] by metis

lemma k_digits_correct:
  assumes "length (decimal (unat v)) \<le> i" "i \<le> 10"
  shows "\<exists>d'. k_digits v (of_nat i) d = (of_nat (i - length (decimal (unat v))), d') \<and>
    buffer_text d' (i - length (decimal (unat v))) i = decimal (unat v) \<and>
    (\<forall>k. k < i - length (decimal (unat v)) \<or> i \<le> k \<and> k < 2 ^ 32 \<longrightarrow> d' (of_nat k) = d (of_nat k))"
  using assms
proof (induction "unat v" arbitrary: v i d rule: less_induct)
  case less
  obtain j where j: "i = Suc j" using less.prems decimal_nonempty [of "unat v"] by (cases i) auto
  define d1 where "d1 = d(of_nat j := of_nat (48 + unat v mod 10))"
  have unfold: "k_digits v (of_nat i) d = (if v div 10 \<noteq> 0 then k_digits (v div 10) (of_nat j) d1 else (of_nat j, d1))"
    by (subst k_digits.simps) (simp only: j Let_def digit_byte d1_def of_nat_Suc add_diff_cancel_left')
  have q: "unat (v div 10) = unat v div 10" by (simp add: unat_div)
  have d1: "d1 (of_nat j) = of_nat (48 + unat v mod 10)" "k < j \<or> i \<le> k \<and> k < 2 ^ 32 \<Longrightarrow> d1 (of_nat k) = d (of_nat k)" for k
    using less.prems(2) j of_nat_u32_eq [of k j] by (auto simp: d1_def)
  show ?case
  proof (cases "unat v < 10")
    case True
    then have "v div 10 = 0" using q by (metis div_less unat_eq_0)
    moreover have "decimal (unat v) = [of_nat (48 + unat v)]" using True by (subst decimal.simps) simp
    ultimately show ?thesis
      using unfold d1 True j by (auto simp: buffer_text_def less.prems)
  next
    case False
    then have ne: "v div 10 \<noteq> 0" using q by (metis div_eq_0_iff unat_eq_0 zero_neq_numeral not_less)
    have dec: "decimal (unat v) = decimal (unat (v div 10)) @ [of_nat (48 + unat v mod 10)]"
      using False by (subst decimal.simps) (simp add: q)
    define l where "l = length (decimal (unat (v div 10)))"
    have l: "l \<le> j" "i - length (decimal (unat v)) = j - l" using less.prems dec j by (simp_all add: l_def)
    obtain d' where d': "k_digits (v div 10) (of_nat j) d1 = (of_nat (j - l), d')"
      "buffer_text d' (j - l) j = decimal (unat (v div 10))"
      "\<And>k. k < j - l \<or> j \<le> k \<and> k < 2 ^ 32 \<Longrightarrow> d' (of_nat k) = d1 (of_nat k)"
      using less.hyps [of "v div 10" j d1] less.prems j l False q unfolding l_def by auto
    have "buffer_text d' (j - l) i = decimal (unat v)"
      using d'(2,3) d1(1) less.prems(2) j by (simp add: buffer_text_snoc dec)
    moreover have "d' (of_nat k) = d (of_nat k)" if "k < j - l \<or> i \<le> k \<and> k < 2 ^ 32" for k
      using that d'(3) [of k] d1(2) [of k] j by (cases "k < j - l") (simp_all add: less_diff_conv)
    ultimately show ?thesis using unfold ne d'(1) l by auto
  qed
qed

lemma u_digits_eq: "u_digits v i d = k_digits v i d"
proof (induction v i d rule: k_digits.induct)
  case (1 v i d)
  show ?case
    unfolding u_digits.simps [of v i d] k_digits.simps [of v i d] divide_by_ten_correct Let_def prod.case
    using 1 [OF refl refl refl] by (cases "v div 10 = 0") (simp_all only: simp_thms if_True if_False not_not)
qed

lemma kdecimal_correct:
  "\<exists>i d. kdecimal v digits = (of_nat i, d) \<and> i = 10 - length (decimal (unat v)) \<and>
     buffer_text d i 10 = decimal (unat v) \<and> d 10 = 0 \<and>
     (\<forall>k. k < i \<or> 10 < k \<and> k < 2 ^ 32 \<longrightarrow> d (of_nat k) = digits (of_nat k))"
proof -
  have len: "length (decimal (unat v)) \<le> 10" using unat_u32_less [of v] by (intro decimal_length) simp_all
  obtain d where d: "k_digits v (of_nat 10) (digits(10 := 0)) = (of_nat (10 - length (decimal (unat v))), d)"
    "buffer_text d (10 - length (decimal (unat v))) 10 = decimal (unat v)"
    "\<And>k. k < 10 - length (decimal (unat v)) \<or> 10 \<le> k \<and> k < 2 ^ 32 \<Longrightarrow> d (of_nat k) = (digits(10 := 0)) (of_nat k)"
    using k_digits_correct [OF len order_refl] by blast
  have "d 10 = 0" using d(3) [of 10] by simp
  moreover have "d (of_nat k) = digits (of_nat k)" if "k < 10 - length (decimal (unat v)) \<or> 10 < k \<and> k < 2 ^ 32" for k
    using that d(3) [of k] of_nat_u32_eq [of k 10] by auto
  ultimately show ?thesis using d(1,2) by (auto simp: kdecimal_def)
qed

section \<open>Parsing\<close>

text \<open>\<open>u_parse\<close>: the value of the digits, modulo the word, and the rest of the string.\<close>

fun u_parse_from :: "u32 \<Rightarrow> u8 list \<Rightarrow> u32 \<times> u8 list" where
  "u_parse_from v [] = (v, [])"
| "u_parse_from v (c # s) =
     (if c \<ge> 48 \<and> c \<le> 57 then u_parse_from (v * 10 + (ucast c - 48)) s else (v, c # s))"

definition u_parse :: "u8 list \<Rightarrow> u32 \<times> u8 list" where
  "u_parse s = u_parse_from 0 s"

lemma parse_digit:
  assumes "k < 10"
  shows "u_parse_from v ((of_nat (48 + k) :: u8) # s) = u_parse_from (v * 10 + of_nat k) s"
proof -
  have u: "unat (of_nat (48 + k) :: u8) = 48 + k" using assms unat_of_nat [of "48 + k", where 'a = 8] by (simp del: of_nat_add)
  have "(ucast (of_nat (48 + k) :: u8) :: u32) = of_nat (48 + k)" by (metis u of_nat_unat)
  then show ?thesis using u assms by (simp add: word_le_nat_alt)
qed

lemma parse_decimal: "u_parse_from 0 (decimal n @ s) = u_parse_from (of_nat n) s"
proof (induction n arbitrary: s rule: decimal.induct)
  case (1 n)
  show ?case
  proof (cases "n < 10")
    case True
    then show ?thesis using parse_digit [of n 0 s] by (subst decimal.simps) simp
  next
    case False
    have "decimal n @ s = decimal (n div 10) @ of_nat (48 + n mod 10) # s" using False by (subst decimal.simps) simp
    also have "u_parse_from 0 \<dots> = u_parse_from (of_nat (n div 10) * 10 + of_nat (n mod 10)) s"
      using 1 [OF False] parse_digit [of "n mod 10"] by simp
    also have "of_nat (n div 10) * 10 + of_nat (n mod 10) = (of_nat n :: u32)"
      by (metis div_mult_mod_eq of_nat_add of_nat_mult of_nat_numeral)
    finally show ?thesis .
  qed
qed

section \<open>Strings\<close>

fun u_strcmp :: "u8 list \<Rightarrow> u8 list \<Rightarrow> int" where
  "u_strcmp [] b = - int (unat (if b = [] then 0 else hd b))"
| "u_strcmp (c # a) b =
     (if b \<noteq> [] \<and> hd b = c then u_strcmp a (tl b) else int (unat c) - int (unat (if b = [] then 0 else hd b)))"

section \<open>Hexadecimal\<close>

definition hex_digit :: "u32 \<Rightarrow> u8" where
  "hex_digit d = ucast (if d < 10 then 48 + d else 97 + d - 10)"

definition kputhex :: "u32 \<Rightarrow> u8 list" where
  "kputhex v = map (\<lambda>shift. hex_digit (drop_bit shift v AND 15)) [28, 24, 20, 16, 12, 8, 4, 0]"

fun short_shift :: "u32 \<Rightarrow> nat \<Rightarrow> nat" where
  "short_shift v shift = (if shift > 0 \<and> drop_bit shift v = 0 then short_shift v (shift - 4) else shift)"

declare short_shift.simps [simp del]

definition kputhex_short :: "u32 \<Rightarrow> u8 list" where
  "kputhex_short v = map (\<lambda>k. hex_digit (drop_bit (4 * k) v AND 15)) (rev [0..<Suc (short_shift v 28 div 4)])"

text \<open>\<open>u_puthex\<close> fills its buffer from the last digit, shifting the value.\<close>

fun u_hex_digits :: "nat \<Rightarrow> u32 \<Rightarrow> u8 list \<Rightarrow> u8 list" where
  "u_hex_digits 0 v t = t"
| "u_hex_digits (Suc n) v t = u_hex_digits n (drop_bit 4 v) (hex_digit (v AND 15) # t)"

definition u_puthex :: "u32 \<Rightarrow> u8 list" where
  "u_puthex v = u_hex_digits 8 v []"

lemma u_hex_digits_eq: "u_hex_digits n v t = map (\<lambda>k. hex_digit (drop_bit (4 * k) v AND 15)) (rev [0..<n]) @ t"
proof (induction n arbitrary: v t)
  case (Suc n)
  have "rev [0..<Suc n] = map Suc (rev [0..<n]) @ [0]" by (simp add: rev_map [symmetric] map_Suc_upt upt_conv_Cons flip: map_Suc_upt del: upt_Suc)
  then show ?case using Suc [of "drop_bit 4 v"] by (simp add: algebra_simps del: upt_Suc)
qed simp

lemma u_puthex_eq: "u_puthex v = kputhex v"
  by (simp add: u_puthex_def u_hex_digits_eq kputhex_def upt_rec)

section \<open>Properties\<close>

text \<open>
  C25: decimal text. \<open>u_decimal\<close>, which divides by ten with shifts and subtractions, fills its buffer of
  eleven bytes exactly as the kernel's \<open>kdecimal\<close> does with a divide: the decimal digits of the value end
  at index 10 with a NUL, they start at the returned index, which is not before the buffer, and no
  other byte is written. Parsing the digits with \<open>u_parse\<close> gives the value back.
\<close>

theorem decimal_text_round_trip:
  "\<exists>i d. u_decimal v digits = (of_nat i, d) \<and> kdecimal v digits = (of_nat i, d) \<and> i < 10 \<and>
     buffer_text d i 10 = decimal (unat v) \<and> d 10 = 0 \<and> u_parse (buffer_text d i 10) = (v, []) \<and>
     (\<forall>k. k \<notin> {i..10} \<and> k < 2 ^ 32 \<longrightarrow> d (of_nat k) = digits (of_nat k))"
proof -
  obtain i d where d: "kdecimal v digits = (of_nat i, d)" "i = 10 - length (decimal (unat v))"
    "buffer_text d i 10 = decimal (unat v)" "d 10 = 0"
    "\<And>k. k < i \<or> 10 < k \<and> k < 2 ^ 32 \<Longrightarrow> d (of_nat k) = digits (of_nat k)"
    using kdecimal_correct [of v digits] by blast
  have "u_parse (decimal (unat v)) = (v, [])" using parse_decimal [of "unat v" "[]"] by (simp add: u_parse_def)
  moreover have "i < 10" using d(2) decimal_nonempty [of "unat v"] by simp
  moreover have "u_decimal v digits = kdecimal v digits" by (simp add: u_decimal_def kdecimal_def u_digits_eq)
  ultimately show ?thesis using d by (intro exI [of _ i] exI [of _ d]) auto
qed

theorem decimal_text_round_trip_witness:
  "\<exists>i d. u_decimal 1234567890 (\<lambda>_. 0) = (of_nat i, d) \<and> buffer_text d i 10 = decimal 1234567890"
  using decimal_text_round_trip [of 1234567890 "\<lambda>_. 0"] by auto

end
