(* ===== verification/Line.thy ===== *)
theory Line
  imports Userlib
begin

text \<open>
  The console line editor of \<open>programs/rv32/os/line.c\<close>, which the shell and the C library share. The
  reads of the console are a list of results, the echo a list of bytes; \<open>None\<close> is an editor still
  waiting for a key.
\<close>

section \<open>The editor\<close>

datatype read_result = READ_ERROR | READ_NONE | READ_BYTE u8

datatype escape = TEXT | AFTER_ESC | SEQUENCE

datatype line_result = LINE_OK | LINE_TOO_LONG | LINE_END | LINE_ERROR

record editor =
  ed_escape :: escape
  ed_n :: u32
  ed_fits :: bool
  ed_line :: "u32 \<Rightarrow> u8"
  ed_previous :: u8
  ed_echo :: "u8 list"

abbreviation (input) CTRL_D :: u8 where "CTRL_D \<equiv> 0x04"
abbreviation (input) CTRL_H :: u8 where "CTRL_H \<equiv> 0x08"
abbreviation (input) CTRL_U :: u8 where "CTRL_U \<equiv> 0x15"
abbreviation (input) ESC :: u8 where "ESC \<equiv> 0x1b"
abbreviation (input) DEL :: u8 where "DEL \<equiv> 0x7f"
abbreviation (input) LINE_EOF :: u32 where "LINE_EOF \<equiv> 1"

definition echo :: "u8 list \<Rightarrow> editor \<Rightarrow> editor" where
  "echo s e = e\<lparr>ed_echo := ed_echo e @ s\<rparr>"

text \<open>\<open>while (count--) echo("\b \b", 3)\<close>\<close>

primrec rub_out :: "nat \<Rightarrow> editor \<Rightarrow> editor" where
  "rub_out 0 e = e"
| "rub_out (Suc n) e = rub_out n (echo [8, 32, 8] e)"

text \<open>What one byte does: the loop goes on, the line is entered, or the input ends.\<close>

datatype line_step = MORE editor | ENTER editor | ENDED editor

definition line_text :: "u32 \<Rightarrow> u32 \<Rightarrow> u8 \<Rightarrow> editor \<Rightarrow> line_step" where
  "line_text room flags c e =
     (let c = (if c = 9 then 32 else c) in
      if c = CTRL_D \<and> flags AND LINE_EOF \<noteq> 0 \<and> ed_n e = 0 \<and> ed_fits e then ENDED e
      else if c = DEL \<or> c = CTRL_H then
        MORE (if ed_n e \<noteq> 0 then rub_out 1 (e\<lparr>ed_n := ed_n e - 1\<rparr>) else e)
      else if c = CTRL_U then MORE ((rub_out (unat (ed_n e)) e)\<lparr>ed_n := 0, ed_fits := True\<rparr>)
      else if c = ESC then MORE (e\<lparr>ed_escape := AFTER_ESC\<rparr>)
      else if c < 0x20 \<or> c > 0x7e then MORE (echo [7] e)
      else if ed_n e < room then
        MORE (echo [c] (e\<lparr>ed_line := (ed_line e)(ed_n e := c), ed_n := ed_n e + 1\<rparr>))
      else MORE (echo [7] (e\<lparr>ed_fits := False\<rparr>)))"

definition line_byte :: "u32 \<Rightarrow> u32 \<Rightarrow> u8 \<Rightarrow> editor \<Rightarrow> line_step" where
  "line_byte room flags c e =
     (let before = ed_previous e; e = e\<lparr>ed_previous := c\<rparr> in
      if c = 10 \<and> before = 13 then MORE e
      else if c = 13 \<or> c = 10 then ENTER e
      else case ed_escape e of
        AFTER_ESC \<Rightarrow>
          MORE (e\<lparr>ed_escape := (if c = 91 \<or> c = 79 then SEQUENCE else if c = ESC then AFTER_ESC else TEXT)\<rparr>)
      | SEQUENCE \<Rightarrow>
          MORE (if c \<ge> 0x40 \<and> c \<le> 0x7e \<and> c \<noteq> 91 then e\<lparr>ed_escape := TEXT\<rparr> else e)
      | TEXT \<Rightarrow> line_text room flags c e)"

text \<open>The loop over the reads. The result carries the value stored through \<open>length\<close>, if it is, and
  what is left to read.\<close>

fun line_loop :: "u32 \<Rightarrow> u32 \<Rightarrow> read_result list \<Rightarrow> editor \<Rightarrow>
    (line_result \<times> u32 option \<times> editor \<times> read_result list) option" where
  "line_loop room flags [] e = None"
| "line_loop room flags (READ_ERROR # rs) e = Some (LINE_ERROR, None, e, rs)"
| "line_loop room flags (READ_NONE # rs) e = line_loop room flags rs e"
| "line_loop room flags (READ_BYTE c # rs) e =
     (case line_byte room flags c e of
        MORE e' \<Rightarrow> line_loop room flags rs e'
      | ENDED e' \<Rightarrow> Some (LINE_END, None, e', rs)
      | ENTER e' \<Rightarrow>
          Some (if ed_fits e' then LINE_OK else LINE_TOO_LONG, Some (if ed_fits e' then ed_n e' else 0),
                echo [10] e', rs))"

text \<open>\<open>previous\<close> is static: it is what the last call left.\<close>

definition line_edit :: "u32 \<Rightarrow> u32 \<Rightarrow> u8 \<Rightarrow> (u32 \<Rightarrow> u8) \<Rightarrow> read_result list \<Rightarrow>
    (line_result \<times> u32 option \<times> editor \<times> read_result list) option" where
  "line_edit room flags previous line rs =
     line_loop room flags rs
       \<lparr>ed_escape = TEXT, ed_n = 0, ed_fits = True, ed_line = line, ed_previous = previous, ed_echo = []\<rparr>"

section \<open>The screen\<close>

text \<open>
  What a terminal shows of the echo on its current line: the cells and the cursor. A bell changes
  nothing, a backspace moves left, any other byte is shown at the cursor.
\<close>

fun show_byte :: "u8 \<Rightarrow> u8 list \<times> nat \<Rightarrow> u8 list \<times> nat" where
  "show_byte c (cells, at) =
     (if c = 7 then (cells, at)
      else if c = 8 then (cells, at - 1)
      else (take at cells @ [c] @ drop (Suc at) cells, Suc at))"

definition screen :: "u8 list \<Rightarrow> u8 list \<times> nat" where
  "screen bytes = fold show_byte bytes ([], 0)"

definition typed :: "editor \<Rightarrow> u8 list" where
  "typed e = map (\<lambda>k. ed_line e (of_nat k)) [0..<unat (ed_n e)]"

text \<open>The editor and the screen agree: the cells before the cursor are the line, those after it are blank.\<close>

definition editor_ok :: "u32 \<Rightarrow> (u32 \<Rightarrow> u8) \<Rightarrow> editor \<Rightarrow> bool" where
  "editor_ok room line e \<longleftrightarrow>
     ed_n e \<le> room \<and> (\<forall>c\<in>set (typed e). 0x20 \<le> c \<and> c \<le> 0x7e) \<and>
     (\<exists>blanks. screen (ed_echo e) = (typed e @ replicate blanks 32, unat (ed_n e))) \<and>
     (\<forall>a. room \<le> a \<longrightarrow> ed_line e a = line a)"

lemma screen_echo: "screen (ed_echo (echo s e)) = fold show_byte s (screen (ed_echo e))"
  by (simp add: echo_def screen_def)

lemma editor_bell: "editor_ok room line e \<Longrightarrow> editor_ok room line (echo [7] e)"
  by (auto simp: editor_ok_def screen_echo typed_def) (auto simp: echo_def)

lemma unat_pred: "n \<noteq> 0 \<Longrightarrow> unat (n - 1) = unat n - 1" for n :: u32
  by unat_arith

lemma editor_rub:
  assumes "editor_ok room line e" "ed_n e \<noteq> 0"
  shows "editor_ok room line (echo [8, 32, 8] (e\<lparr>ed_n := ed_n e - 1\<rparr>))"
proof -
  obtain n where n: "unat (ed_n e) = Suc n" using assms(2) by (cases "unat (ed_n e)") (auto simp: unat_eq_0)
  then have n': "unat (ed_n e - 1) = n" using unat_pred [OF assms(2)] by simp
  let ?t = "map (\<lambda>k. ed_line e (of_nat k)) [0..<n]"
  have t: "typed e = ?t @ [ed_line e (of_nat n)]" by (simp add: typed_def n)
  obtain b where b: "screen (ed_echo e) = (typed e @ replicate b 32, Suc n)"
    using assms(1) n by (auto simp: editor_ok_def)
  have "screen (ed_echo (echo [8, 32, 8] e)) = (?t @ replicate (Suc b) 32, n)"
    unfolding screen_echo b by (simp add: t)
  moreover have "ed_n e - 1 \<le> room" using assms n n' by (simp add: editor_ok_def word_le_nat_alt)
  ultimately show ?thesis
    using assms(1) unfolding editor_ok_def typed_def
    by (auto simp: echo_def n n' t typed_def intro!: exI [of _ "Suc b"])
qed

lemma echo_n: "echo s (e\<lparr>ed_n := n\<rparr>) = (echo s e)\<lparr>ed_n := n\<rparr>"
  by (simp add: echo_def)

lemma rub_out_n: "rub_out k (e\<lparr>ed_n := n\<rparr>) = (rub_out k e)\<lparr>ed_n := n\<rparr>"
  by (induction k arbitrary: e) (simp_all add: echo_n)

lemma editor_rub_out:
  "editor_ok room line e \<Longrightarrow> k \<le> unat (ed_n e) \<Longrightarrow> editor_ok room line ((rub_out k e)\<lparr>ed_n := ed_n e - of_nat k\<rparr>)"
proof (induction k arbitrary: e)
  case (Suc k)
  let ?e = "echo [8, 32, 8] (e\<lparr>ed_n := ed_n e - 1\<rparr>)"
  have ne: "ed_n e \<noteq> 0" using Suc.prems(2) by auto
  have "k \<le> unat (ed_n ?e)" using Suc.prems(2) unat_pred [OF ne] by (simp add: echo_def)
  then have "editor_ok room line ((rub_out k ?e)\<lparr>ed_n := ed_n ?e - of_nat k\<rparr>)"
    using Suc.IH editor_rub [OF Suc.prems(1) ne] by blast
  then show ?case by (simp add: echo_n rub_out_n) (simp add: echo_def algebra_simps)
qed simp

lemma editor_ok_fields [simp]:
  "editor_ok room line (e\<lparr>ed_escape := x\<rparr>) = editor_ok room line e"
  "editor_ok room line (e\<lparr>ed_fits := f\<rparr>) = editor_ok room line e"
  "editor_ok room line (e\<lparr>ed_previous := c\<rparr>) = editor_ok room line e"
  by (simp_all add: editor_ok_def typed_def)

lemma editor_clear:
  "editor_ok room line e \<Longrightarrow> editor_ok room line ((rub_out (unat (ed_n e)) e)\<lparr>ed_n := 0\<rparr>)"
  using editor_rub_out [of room line e "unat (ed_n e)"] by simp

lemma editor_type:
  assumes "editor_ok room line e" "ed_n e < room" "0x20 \<le> c" "c \<le> 0x7e"
  shows "editor_ok room line (echo [c] (e\<lparr>ed_line := (ed_line e)(ed_n e := c), ed_n := ed_n e + 1\<rparr>))"
proof -
  define n where "n = unat (ed_n e)"
  have n1: "unat (ed_n e + 1) = Suc n"
    using assms(2) unfolding n_def by unat_arith
  have other: "(of_nat k :: u32) \<noteq> ed_n e" if "k < n" for k
  proof -
    have "unat (of_nat k :: u32) = k" using that unat_u32_less [of "ed_n e"] by (intro unat_of_nat_u32) (simp add: n_def)
    then show ?thesis using that by (auto simp: n_def)
  qed
  obtain b where b: "screen (ed_echo e) = (typed e @ replicate b 32, n)"
    using assms(1) by (auto simp: editor_ok_def n_def)
  define e' where "e' = e\<lparr>ed_line := (ed_line e)(ed_n e := c), ed_n := ed_n e + 1\<rparr>"
  have t: "typed e' = typed e @ [c]"
    using other n1 by (simp add: typed_def e'_def n_def [symmetric]) (simp add: n_def)
  have len: "length (typed e) = n" by (simp add: typed_def n_def)
  have c: "c \<noteq> 7" "c \<noteq> 8" using assms(3) by (auto simp: word_le_nat_alt)
  have "screen (ed_echo (echo [c] e')) = (typed e' @ replicate (b - 1) 32, Suc n)"
  proof -
    have "drop (Suc n) (typed e @ replicate b 32) = replicate (b - 1) 32" using len by simp
    then show ?thesis unfolding screen_echo using b c t len by (simp add: e'_def)
  qed
  moreover have "ed_n e + 1 \<le> room" using assms(2) n1 by (simp add: word_le_nat_alt word_less_nat_alt n_def)
  moreover have "\<forall>a. room \<le> a \<longrightarrow> ed_line e' a = line a" using assms(1,2) by (auto simp: editor_ok_def e'_def)
  moreover have "typed (echo [c] e') = typed e'" "ed_n (echo [c] e') = ed_n e + 1" "ed_line (echo [c] e') = ed_line e'"
    by (simp_all add: echo_def typed_def e'_def)
  ultimately have "editor_ok room line (echo [c] e')"
    using assms(1,3,4) n1 unfolding editor_ok_def t by auto
  then show ?thesis by (simp add: e'_def)
qed

text \<open>A step keeps the agreement; the input ends only on an empty line.\<close>

fun line_step_ok :: "u32 \<Rightarrow> (u32 \<Rightarrow> u8) \<Rightarrow> line_step \<Rightarrow> bool" where
  "line_step_ok room line (MORE e) = editor_ok room line e"
| "line_step_ok room line (ENTER e) = editor_ok room line e"
| "line_step_ok room line (ENDED e) = (editor_ok room line e \<and> ed_n e = 0)"

lemma line_text_ok:
  assumes "editor_ok room line e"
  shows "line_step_ok room line (line_text room flags c e)"
proof -
  define k where "k = (if c = 9 then 32 else c)"
  have rub: "editor_ok room line (if ed_n e \<noteq> 0 then rub_out 1 (e\<lparr>ed_n := ed_n e - 1\<rparr>) else e)"
    using editor_rub [OF assms] assms by simp
  have clear: "editor_ok room line ((rub_out (unat (ed_n e)) e)\<lparr>ed_n := 0, ed_fits := True\<rparr>)"
    using editor_clear [OF assms] by simp
  show ?thesis
    unfolding line_text_def Let_def k_def [symmetric]
    using assms rub clear editor_type [OF assms, of k] editor_bell [OF assms] editor_bell [of room line "e\<lparr>ed_fits := False\<rparr>"]
    by (simp only: line_step_ok.simps editor_ok_fields not_less not_le de_Morgan_disj simp_thms split: if_split) (simp add: not_less)
qed

lemma line_byte_ok:
  assumes "editor_ok room line e"
  shows "line_step_ok room line (line_byte room flags c e)"
  using assms line_text_ok [where e = "e\<lparr>ed_previous := c\<rparr>" for c]
  by (simp add: line_byte_def Let_def split: escape.split)

lemma line_loop_ok:
  assumes "editor_ok room line e" "line_loop room flags rs e = Some (r, len, e', rest)"
  shows "(r = LINE_OK \<or> r = LINE_TOO_LONG) \<and> (\<exists>e0. editor_ok room line e0 \<and> e' = echo [10] e0 \<and>
      (r = LINE_OK \<longrightarrow> len = Some (ed_n e0)) \<and> (r = LINE_TOO_LONG \<longrightarrow> len = Some 0)) \<or>
    (r = LINE_END \<or> r = LINE_ERROR) \<and> editor_ok room line e' \<and> len = None"
  using assms
proof (induction rs arbitrary: e)
  case (Cons x rs)
  show ?case
  proof (cases x)
    case (READ_BYTE c)
    show ?thesis
    proof (cases "line_byte room flags c e")
      case (MORE e1)
      then show ?thesis using Cons READ_BYTE line_byte_ok [OF Cons.prems(1), of flags c] by simp
    next
      case (ENTER e1)
      then have "editor_ok room line e1" using line_byte_ok [OF Cons.prems(1), of flags c] by simp
      then show ?thesis using Cons.prems ENTER READ_BYTE by (cases "ed_fits e1") auto
    next
      case (ENDED e1)
      then show ?thesis using Cons READ_BYTE line_byte_ok [OF Cons.prems(1), of flags c] by simp
    qed
  qed (use Cons in auto)
qed simp

section \<open>Properties\<close>

text \<open>
  C26: the line editor hands over what the screen shows. Whatever is typed, the line of at most
  \<open>room\<close> bytes that \<open>line_edit\<close> returns consists of printable characters and is, with nothing but blanks
  after it, what a terminal shows of the echo before the final newline; a line that lost a byte has
  length 0, and no byte of the buffer from \<open>room\<close> on is written.
\<close>

theorem line_edit_shows_line:
  assumes "line_edit room flags previous line rs = Some (r, Some n, e, rest)"
  shows "n \<le> room \<and> (\<forall>a. room \<le> a \<longrightarrow> ed_line e a = line a) \<and>
    (if r = LINE_OK then
       \<exists>shown blanks. ed_echo e = shown @ [10] \<and>
         screen shown = (map (\<lambda>k. ed_line e (of_nat k)) [0..<unat n] @ replicate blanks 32, unat n) \<and>
         (\<forall>k<unat n. 0x20 \<le> ed_line e (of_nat k) \<and> ed_line e (of_nat k) \<le> 0x7e)
     else r = LINE_TOO_LONG \<and> n = 0)"
proof -
  have "editor_ok room line \<lparr>ed_escape = TEXT, ed_n = 0, ed_fits = True, ed_line = line, ed_previous = previous, ed_echo = []\<rparr>"
    by (simp add: editor_ok_def typed_def screen_def)
  from line_loop_ok [OF this assms [unfolded line_edit_def]]
  obtain e0 where e0: "editor_ok room line e0" "e = echo [10] e0" "r = LINE_OK \<and> n = ed_n e0 \<or> r = LINE_TOO_LONG \<and> n = 0"
    by auto
  have "n \<le> room" using e0(1,3) by (auto simp: editor_ok_def)
  moreover have "\<forall>a. room \<le> a \<longrightarrow> ed_line e a = line a" using e0(1,2) by (simp add: editor_ok_def echo_def)
  ultimately show ?thesis
    using e0 by (auto simp: editor_ok_def typed_def echo_def)
qed

theorem line_edit_shows_line_witness:
  "\<exists>e shown blanks. line_edit 79 0 0 (\<lambda>_. 0) (map READ_BYTE [108, 120, 127, 115, 13]) = Some (LINE_OK, Some 2, e, []) \<and>
     ed_echo e = shown @ [10] \<and> screen shown = ([108, 115] @ replicate blanks 32, 2)"
proof -
  obtain e where e: "line_edit 79 0 0 (\<lambda>_. 0) (map READ_BYTE [108, 120, 127, 115, 13]) = Some (LINE_OK, Some 2, e, [])"
    "ed_line e 0 = 108" "ed_line e 1 = 115"
    by (simp add: line_edit_def line_byte_def line_text_def Let_def echo_def)
  show ?thesis using line_edit_shows_line [OF e(1)] e by (auto simp: upt_rec)
qed

end
