(* ===== verification/Muldiv.thy ===== *)
theory Muldiv
  imports Prelude
begin

text \<open>
  The software multiply and divide runtime, \<open>programs/rv32/rt/muldiv.c\<close>: shift-and-add
  multiplication, restoring division, and the signed wrappers with the M extension's results for
  division by zero and for the one signed overflow. Every loop is a recursive function; the
  theorems state the routines against the word and integer operations.
\<close>

section \<open>The routines\<close>

function rv32_mul_loop :: "u32 \<Rightarrow> u32 \<Rightarrow> u32 \<Rightarrow> u32" where
  "rv32_mul_loop product a b =
     (if b = 0 then product
      else rv32_mul_loop (if b AND 1 \<noteq> 0 then product + a else product) (push_bit 1 a) (drop_bit 1 b))"
  by pat_completeness auto
termination
  by (relation "measure (\<lambda>(product, a, b). unat b)")
    (auto simp: drop_bit_eq_div unat_div_distrib unat_gt_0)

declare rv32_mul_loop.simps [simp del]

definition rv32_mul :: "u32 \<Rightarrow> u32 \<Rightarrow> u32" where
  "rv32_mul a b = rv32_mul_loop 0 a b"

definition udivmod_step :: "u32 \<Rightarrow> u32 \<Rightarrow> nat \<Rightarrow> u32 \<times> u32 \<Rightarrow> u32 \<times> u32" where
  "udivmod_step n d b = (\<lambda>(quotient, rm).
     let high = drop_bit 31 rm;
         rm' = push_bit 1 rm OR (drop_bit b n AND 1)
     in if high \<noteq> 0 \<or> rm' \<ge> d then (quotient OR push_bit b 1, rm' - d) else (quotient, rm'))"

text \<open>The loop counts \<open>bit\<close> down from 31; \<open>Suc b\<close> is the state before bit \<open>b\<close> is done.\<close>

fun udivmod_loop :: "u32 \<Rightarrow> u32 \<Rightarrow> nat \<Rightarrow> u32 \<times> u32 \<Rightarrow> u32 \<times> u32" where
  "udivmod_loop n d 0 qr = qr"
| "udivmod_loop n d (Suc b) qr = udivmod_loop n d b (udivmod_step n d b qr)"

definition udivmod :: "u32 \<Rightarrow> u32 \<Rightarrow> u32 \<times> u32" where
  "udivmod n d = udivmod_loop n d 32 (0, 0)"

definition rv32_divu :: "u32 \<Rightarrow> u32 \<Rightarrow> u32" where
  "rv32_divu n d = (if d = 0 then 0xFFFFFFFF else fst (udivmod n d))"

definition rv32_remu :: "u32 \<Rightarrow> u32 \<Rightarrow> u32" where
  "rv32_remu n d = (if d = 0 then n else snd (udivmod n d))"

definition magnitude :: "u32 \<Rightarrow> u32" where
  "magnitude value = (if sint value < 0 then 0 - value else value)"

definition rv32_div :: "u32 \<Rightarrow> u32 \<Rightarrow> u32" where
  "rv32_div n d =
     (if d = 0 then - 1
      else let quotient = fst (udivmod (magnitude n) (magnitude d))
           in if (sint n < 0) \<noteq> (sint d < 0) then 0 - quotient else quotient)"

definition rv32_rem :: "u32 \<Rightarrow> u32 \<Rightarrow> u32" where
  "rv32_rem n d =
     (if d = 0 then n
      else let rm = snd (udivmod (magnitude n) (magnitude d))
           in if sint n < 0 then 0 - rm else rm)"

section \<open>Multiplication\<close>

lemma word_split_low: "2 * drop_bit 1 b + (b AND 1) = (b::u32)"
  by (simp add: drop_bit_eq_div and_one_eq mult_div_mod_eq)

lemma rv32_mul_loop_eq: "rv32_mul_loop product a b = product + a * b"
proof (induction product a b rule: rv32_mul_loop.induct)
  case (1 product a b)
  show ?case
  proof (cases "b = 0")
    case True
    then show ?thesis by (simp add: rv32_mul_loop.simps)
  next
    case False
    have low: "b AND 1 = 0 \<or> b AND 1 = 1"
      by (cases "even b") (simp_all add: and_one_eq even_iff_mod_2_eq_zero odd_iff_mod_2_eq_one)
    have "rv32_mul_loop product a b
        = (if b AND 1 \<noteq> 0 then product + a else product) + push_bit 1 a * drop_bit 1 b"
      using "1.IH" [OF False] False by (subst rv32_mul_loop.simps) auto
    also have "\<dots> = product + a * (2 * drop_bit 1 b + (b AND 1))"
      using low by (auto simp: push_bit_Suc algebra_simps)
    finally show ?thesis by (simp only: word_split_low)
  qed
qed

section \<open>Restoring division\<close>

text \<open>
  What the loop keeps before bit \<open>b\<close>: quotient and remainder of the dividend's bits from \<open>b\<close>
  up, the quotient already shifted to its place.
\<close>

definition divmod_inv :: "u32 \<Rightarrow> u32 \<Rightarrow> nat \<Rightarrow> u32 \<times> u32 \<Rightarrow> bool" where
  "divmod_inv n d b = (\<lambda>(quotient, rm).
     unat quotient = (unat n div 2 ^ b div unat d) * 2 ^ b \<and> unat rm = unat n div 2 ^ b mod unat d)"

lemma div_mod_double:
  fixes n d :: nat
  assumes "0 < d"
  shows "n div d = 2 * (n div 2 div d) + (if d \<le> 2 * (n div 2 mod d) + n mod 2 then 1 else 0)"
    and "n mod d = (let r = 2 * (n div 2 mod d) + n mod 2 in if d \<le> r then r - d else r)"
proof -
  let ?r = "2 * (n div 2 mod d) + n mod 2" and ?q = "n div 2 div d"
  have n: "n = (2 * ?q) * d + ?r"
  proof -
    have "2 * (n div 2) + n mod 2 = n" and "?q * d + n div 2 mod d = n div 2" by simp_all
    then show ?thesis by (metis add.assoc distrib_left mult.assoc)
  qed
  have lt: "?r < 2 * d"
  proof -
    have "n div 2 mod d < d" using assms by simp
    then show ?thesis by linarith
  qed
  have split: "\<And>q r. n = q * d + r \<Longrightarrow> r < d \<Longrightarrow> n div d = q \<and> n mod d = r"
    using assms by simp
  have "n div d = 2 * ?q + (if d \<le> ?r then 1 else 0) \<and> n mod d = (if d \<le> ?r then ?r - d else ?r)"
  proof (cases "d \<le> ?r")
    case True
    have "n = (2 * ?q + 1) * d + (?r - d)" using True by (subst n) (simp add: distrib_right)
    from split [OF this] True lt show ?thesis by simp
  next
    case False
    from split [OF n] False show ?thesis by simp
  qed
  then show "n div d = 2 * ?q + (if d \<le> ?r then 1 else 0)"
    and "n mod d = (let r = ?r in if d \<le> r then r - d else r)"
    by (simp_all only: Let_def)
qed

lemma shift_in_eq:
  "push_bit 1 rm OR (drop_bit b n AND 1) = of_nat (2 * unat rm + unat n div 2 ^ b mod 2)"
  for rm n :: u32
proof -
  have bit0: "drop_bit b n AND 1 = of_nat (unat n div 2 ^ b mod 2)"
  proof -
    have "unat (drop_bit b n AND 1) = unat n div 2 ^ b mod 2"
      by (simp add: and_one_eq unat_mod_distrib unat_drop_bit_eq drop_bit_eq_div [where 'a = nat])
    then show ?thesis by (rule unat_eq_imp_of_nat)
  qed
  have "push_bit 1 rm OR (drop_bit b n AND 1) = push_bit 1 rm + (drop_bit b n AND 1)"
    by (rule disjunctive_add [symmetric]) (auto simp: bit_simps bit_0 intro!: gr0I)
  also have "\<dots> = of_nat (2 * unat rm + unat n div 2 ^ b mod 2)"
    by (simp add: bit0 push_bit_eq_mult)
  finally show ?thesis .
qed

lemma quotient_bit:
  fixes q :: u32
  assumes "unat q = k * 2 ^ Suc b" "b < 32" "(2 * k + 1) * 2 ^ b < 2 ^ 32"
  shows "unat (q OR push_bit b 1) = (2 * k + 1) * 2 ^ b"
proof -
  have "\<not> bit q b"
  proof -
    have "bit q b = bit (unat q) b" by (simp add: bit_unsigned_iff)
    also have "\<dots> = bit (push_bit (Suc b) k) b" by (simp only: assms(1) push_bit_eq_mult)
    finally show ?thesis by (simp add: bit_push_bit_iff bit_0)
  qed
  then have "q OR push_bit b 1 = q + push_bit b 1"
    by (intro disjunctive_add [symmetric]) (auto simp: bit_simps)
  also have "\<dots> = of_nat ((2 * k + 1) * 2 ^ b)"
  proof -
    have "q = of_nat (k * 2 ^ Suc b)" by (rule unat_eq_imp_of_nat) (rule assms(1))
    then show ?thesis by (simp add: push_bit_eq_mult algebra_simps)
  qed
  finally show ?thesis using assms(3) by (simp only: unat_of_nat_u32)
qed

lemma div_pow2_Suc: "n div 2 ^ Suc b = n div 2 ^ b div (2::nat)"
  by (metis div_mult2_eq power_Suc2)

lemma udivmod_step_inv:
  assumes "0 < unat d" "b < 32" and inv: "divmod_inv n d (Suc b) (q, rm)"
  shows "divmod_inv n d b (udivmod_step n d b (q, rm))"
proof -
  let ?N = "unat n div 2 ^ b"
  let ?k = "?N div 2 div unat d"
  define R where "R = 2 * (?N div 2 mod unat d) + ?N mod 2"
  define rm' where "rm' = push_bit 1 rm OR (drop_bit b n AND 1)"
  have q: "unat q = ?k * 2 ^ Suc b" and rm: "unat rm = ?N div 2 mod unat d"
    using inv unfolding divmod_inv_def by (simp_all only: prod.case div_pow2_Suc)
  have rm'_eq: "rm' = of_nat R"
    by (simp only: rm'_def shift_in_eq rm R_def)
  have d32: "unat d < 2 ^ 32" using unat_u32_less [of d] by simp
  have cond: "(drop_bit 31 rm \<noteq> 0 \<or> d \<le> rm') = (unat d \<le> R)"
  proof -
    have high: "drop_bit 31 rm = 0 \<longleftrightarrow> unat rm < 2 ^ 31"
      by (simp add: unat_drop_bit_eq drop_bit_eq_div [where 'a = nat] div_eq_0_iff flip: unat_eq_0)
    show ?thesis
    proof (cases "unat rm < 2 ^ 31")
      case True
      then have "R < 2 ^ 32" using rm unfolding R_def by simp
      then have "unat rm' = R" by (simp add: rm'_eq unat_of_nat_u32)
      with True high show ?thesis by (simp add: word_le_nat_alt)
    next
      case False
      then have "unat d \<le> R" using rm d32 unfolding R_def by simp
      with False high show ?thesis by simp
    qed
  qed
  have N: "?N div unat d = 2 * ?k + (if unat d \<le> R then 1 else 0)"
    "?N mod unat d = (if unat d \<le> R then R - unat d else R)"
    using div_mod_double [OF assms(1), of ?N] by (simp_all only: R_def Let_def)
  have small: "?N div unat d * 2 ^ b < 2 ^ 32"
  proof -
    have "?N div unat d * 2 ^ b \<le> ?N * 2 ^ b" by simp
    also have "\<dots> \<le> unat n" by simp
    also have "\<dots> < 2 ^ 32" using unat_u32_less [of n] by simp
    finally show ?thesis .
  qed
  have Rd: "unat d \<le> R \<Longrightarrow> unat (rm' - d) = R - unat d"
  proof -
    assume le: "unat d \<le> R"
    have "rm' - d = of_nat (R - unat d)" using le by (simp add: rm'_eq)
    moreover have "R - unat d < 2 ^ 32"
      using N(2) le assms(1) d32 mod_less_divisor [OF assms(1), of ?N] by simp
    ultimately show ?thesis by (simp add: unat_of_nat_u32)
  qed
  have Rs: "\<not> unat d \<le> R \<Longrightarrow> unat rm' = R"
    using d32 by (simp add: rm'_eq unat_of_nat_u32)
  have step: "udivmod_step n d b (q, rm)
      = (if unat d \<le> R then (q OR push_bit b 1, rm' - d) else (q, rm'))"
    by (simp only: udivmod_step_def prod.case Let_def cond flip: rm'_def)
  show ?thesis
  proof (cases "unat d \<le> R")
    case True
    have "unat (q OR push_bit b 1) = ?N div unat d * 2 ^ b"
      using quotient_bit [OF q assms(2)] small True N(1) by simp
    with True Rd N(2) show ?thesis by (simp add: divmod_inv_def step)
  next
    case False
    have "unat q = ?N div unat d * 2 ^ b" using q N(1) False by simp
    with False Rs N(2) show ?thesis by (simp add: divmod_inv_def step)
  qed
qed

lemma udivmod_loop_inv:
  "0 < unat d \<Longrightarrow> b \<le> 32 \<Longrightarrow> divmod_inv n d b qr \<Longrightarrow> divmod_inv n d 0 (udivmod_loop n d b qr)"
proof (induction b arbitrary: qr)
  case 0
  then show ?case by simp
next
  case (Suc b)
  obtain q rm where "qr = (q, rm)" by (cases qr)
  with Suc udivmod_step_inv show ?case by simp
qed

lemma udivmod_eq:
  assumes "d \<noteq> 0"
  shows "udivmod n d = (n div d, n mod d)"
proof -
  have d: "0 < unat d" using assms by (simp add: unat_gt_0)
  have "unat n < 2 ^ 32" using unat_u32_less [of n] by simp
  then have "divmod_inv n d 32 (0, 0)"
    by (simp add: divmod_inv_def)
  from udivmod_loop_inv [OF d order.refl this] show ?thesis
    by (auto simp: udivmod_def divmod_inv_def word_unat_eq_iff unat_div_distrib unat_mod_distrib
        split: prod.splits)
qed

section \<open>Signed division\<close>

lemma uint_magnitude: "uint (magnitude n) = \<bar>sint n\<bar>"
proof -
  have "uint (- n) = 4294967296 - uint n" if "0 < uint n"
    using that uint_u32_less [of n] by (simp add: uint_word_ariths zmod_zminus1_eq_if)
  then show ?thesis
    using uint_u32_less [of n] by (auto simp: magnitude_def sint_u32)
qed

lemma magnitude_eq_0_iff: "magnitude d = 0 \<longleftrightarrow> d = 0"
  by (simp add: magnitude_def)

lemma of_int_uint: "of_int (uint w) = w" for w :: u32
  by simp

lemma magnitude_div: "magnitude n div magnitude d = of_int (\<bar>sint n\<bar> div \<bar>sint d\<bar>)"
  by (metis of_int_uint uint_div_distrib uint_magnitude)

lemma magnitude_mod: "magnitude n mod magnitude d = of_int (\<bar>sint n\<bar> mod \<bar>sint d\<bar>)"
  by (metis of_int_uint uint_mod_distrib uint_magnitude)

lemma rv32_div_signed: "d \<noteq> 0 \<Longrightarrow> rv32_div n d = of_int (sint n sdiv sint d)"
  by (auto simp: rv32_div_def udivmod_eq magnitude_eq_0_iff magnitude_div signed_divide_int_def
      Let_def sgn_if)

lemma rv32_rem_signed: "d \<noteq> 0 \<Longrightarrow> rv32_rem n d = of_int (sint n smod sint d)"
  by (auto simp: rv32_rem_def udivmod_eq magnitude_eq_0_iff magnitude_mod signed_modulo_int_def
      Let_def sgn_if)

section \<open>Properties\<close>

text \<open>
  C1: the runtime computes the M extension's results for every operand: the low word of the product,
  the unsigned and the truncating signed quotient and remainder, all ones (respectively the
  dividend) for a zero divisor, and no special case for the signed overflow.
\<close>

theorem rv32_runtime_correct:
  "rv32_mul a b = a * b \<and>
   rv32_divu n d = (if d = 0 then 0xFFFFFFFF else n div d) \<and>
   rv32_remu n d = (if d = 0 then n else n mod d) \<and>
   rv32_div n d = (if d = 0 then - 1 else of_int (sint n sdiv sint d)) \<and>
   rv32_rem n d = (if d = 0 then n else of_int (sint n smod sint d))"
  using rv32_div_signed [of d n] rv32_rem_signed [of d n]
  by (simp add: rv32_mul_def rv32_mul_loop_eq rv32_divu_def rv32_remu_def udivmod_eq)
    (simp add: rv32_div_def rv32_rem_def)

end
