(* ===== verification/GpuDraw.thy ===== *)
theory GpuDraw
  imports Gpu
begin

text \<open>What the G1 engine of \<open>tools/rv32_gpu.c\<close> draws: the framebuffer after a FILL job is the
  clipped rectangle of \<open>programs/rv32/gpu.h\<close> painted over the framebuffer before it, and the job
  gets there.\<close>

section \<open>What a job draws\<close>

text \<open>The address of a pixel, and whether the scan of a forward job has passed it: the cursor's row
  and column, and the cursor itself once its pixel is done with.\<close>

definition pixel_x :: "u32 \<Rightarrow> int" where "pixel_x a = uint a mod 320"
definition pixel_y :: "u32 \<Rightarrow> int" where "pixel_y a = uint a div 320"

definition gpu_covers :: "gpu_device \<Rightarrow> u32 \<Rightarrow> bool" where
  "gpu_covers g a \<longleftrightarrow>
     gpu_lo g \<le> pixel_x a \<and> pixel_x a < gpu_hi g \<and> gpu_top g \<le> pixel_y a \<and> pixel_y a < gpu_bottom g \<and>
     gpu_covered (g\<lparr>gpu_x := pixel_x a, gpu_y := pixel_y a\<rparr>)"

definition gpu_passed :: "gpu_device \<Rightarrow> u32 \<Rightarrow> bool" where
  "gpu_passed g a \<longleftrightarrow>
     pixel_y a < gpu_y g \<or> pixel_y a = gpu_y g \<and> (pixel_x a < gpu_x g \<or> pixel_x a = gpu_x g \<and> gpu_phase g = GPH_ADVANCE)"

definition gpu_paint :: "gpu_device \<Rightarrow> (u32 \<Rightarrow> bool) \<Rightarrow> bytes \<Rightarrow> bytes" where
  "gpu_paint g S fb = (\<lambda>a. if gpu_covers g a \<and> S a then ucast (gpu_p g GP_COLOR) else fb a)"

lemma gpu_paint_cong:
  "gpu_covers g' = gpu_covers g \<Longrightarrow> gpu_p g' = gpu_p g \<Longrightarrow> (\<And>a. gpu_covers g a \<Longrightarrow> S' a = S a) \<Longrightarrow>
   gpu_paint g' S' fb = gpu_paint g S fb"
  by (auto simp: gpu_paint_def fun_eq_iff)

lemma pixel_of:
  assumes "0 \<le> x" "x < 320" "0 \<le> y" "y < 240"
  shows "a = of_int (y * 320 + x) \<longleftrightarrow> pixel_x a = x \<and> pixel_y a = y"
proof
  have r: "0 \<le> y * 320 + x" "y * 320 + x < 2 ^ 32" using assms by auto
  assume "a = of_int (y * 320 + x)"
  then have "uint a = y * 320 + x" by (simp only: uint_of_int_u32 [OF r])
  then show "pixel_x a = x \<and> pixel_y a = y" using assms by (simp add: pixel_x_def pixel_y_def)
next
  assume "pixel_x a = x \<and> pixel_y a = y"
  then have "uint a = y * 320 + x"
    using div_mult_mod_eq [of "uint a" 320] by (simp add: pixel_x_def pixel_y_def)
  then show "a = of_int (y * 320 + x)" by (metis word_of_int_uint)
qed

text \<open>A forward scan, without reads: FILL and TRIANGLE.\<close>

definition gpu_forward :: "gpu_device \<Rightarrow> bool" where
  "gpu_forward g \<longleftrightarrow>
     gpu_scan_ok g \<and> gpu_step g = 1 \<and> gpu_p g GP_OP \<noteq> GPU_LINE \<and> gpu_p g GP_OP \<noteq> GPU_BLIT \<and>
     gpu_phase g \<in> {GPH_SCAN, GPH_WRITE, GPH_ADVANCE} \<and>
     (gpu_phase g = GPH_WRITE \<longrightarrow> gpu_covered g \<and> gpu_pixel g = ucast (gpu_p g GP_COLOR)) \<and>
     gpu_busy g \<and> \<not> gpu_command_tick g"

lemma gpu_covers_frame [simp]:
  "gpu_covers (g\<lparr>gpu_cycles := c\<rparr>) = gpu_covers g"
  "gpu_covers (g\<lparr>gpu_x := x\<rparr>) = gpu_covers g"
  "gpu_covers (g\<lparr>gpu_y := y\<rparr>) = gpu_covers g"
  "gpu_covers (g\<lparr>gpu_phase := ph\<rparr>) = gpu_covers g"
  "gpu_covers (g\<lparr>gpu_status := st\<rparr>) = gpu_covers g"
  "gpu_covers (g\<lparr>gpu_pixel := px\<rparr>) = gpu_covers g"
  "gpu_covers (g\<lparr>gpu_writes := n\<rparr>) = gpu_covers g"
  "gpu_covers (g\<lparr>gpu_fb_written := b\<rparr>) = gpu_covers g"
  "gpu_covers (g\<lparr>gpu_fb_written_at := n\<rparr>) = gpu_covers g"
  by (simp_all add: fun_eq_iff gpu_covers_def gpu_covered_def Let_def)

lemma gpu_forward_scan:
  assumes g: "gpu_forward g" "gpu_phase g = GPH_SCAN"
  shows "gpu_forward (gpu_scan g)" "gpu_covers (gpu_scan g) = gpu_covers g" "gpu_p (gpu_scan g) = gpu_p g"
    and "gpu_covers g a \<Longrightarrow> gpu_passed (gpu_scan g) a = gpu_passed g a"
proof -
  show "gpu_forward (gpu_scan g)"
    using g by (auto simp: gpu_forward_def gpu_scan_def gpu_scan_ok_def gpu_covered_def gpu_busy_def Let_def)
  show "gpu_covers (gpu_scan g) = gpu_covers g" "gpu_p (gpu_scan g) = gpu_p g" by (simp_all add: gpu_scan_def)
  have "gpu_covered g" if "gpu_covers g a" "pixel_x a = gpu_x g" "pixel_y a = gpu_y g"
    using that by (simp add: gpu_covers_def)
  then show "gpu_covers g a \<Longrightarrow> gpu_passed (gpu_scan g) a = gpu_passed g a"
    using g by (auto simp: gpu_passed_def gpu_scan_def)
qed

lemma gpu_forward_write:
  assumes g: "gpu_forward g" "gpu_phase g = GPH_WRITE" and fb: "fb = gpu_paint g (gpu_passed g) fb0"
    and r: "gpu_transfer g ram fb False = (g', fb')"
  shows "gpu_forward g'" "gpu_covers g' = gpu_covers g" "gpu_p g' = gpu_p g"
    and "fb' = gpu_paint g' (gpu_passed g') fb0"
proof -
  have xy: "0 \<le> gpu_x g" "gpu_x g < 320" "0 \<le> gpu_y g" "gpu_y g < 240"
    using g by (auto simp: gpu_forward_def gpu_scan_ok_def)
  have g': "g' = g\<lparr>gpu_fb_written := True, gpu_fb_written_at := of_int (gpu_y g * 320 + gpu_x g),
      gpu_writes := gpu_writes g + 1, gpu_phase := GPH_ADVANCE\<rparr>"
    and fb': "fb' = fb(of_int (gpu_y g * 320 + gpu_x g) := gpu_pixel g)"
    using r g(2) by (simp_all add: gpu_transfer_def Let_def)
  show cov: "gpu_covers g' = gpu_covers g" "gpu_p g' = gpu_p g" by (simp_all add: g')
  show "gpu_forward g'"
    using g by (simp add: g' gpu_forward_def gpu_scan_ok_def gpu_busy_def)
  show "fb' = gpu_paint g' (gpu_passed g') fb0"
  proof
    fix a
    have here: "gpu_covers g a" if "pixel_x a = gpu_x g" "pixel_y a = gpu_y g"
      using g that by (auto simp: gpu_covers_def gpu_forward_def gpu_scan_ok_def)
    show "fb' a = gpu_paint g' (gpu_passed g') fb0 a"
    proof (cases "a = of_int (gpu_y g * 320 + gpu_x g)")
      case True
      then have "pixel_x a = gpu_x g" "pixel_y a = gpu_y g" using pixel_of [OF xy] by auto
      with here True g show ?thesis
        unfolding fb' gpu_paint_def cov by (simp add: gpu_passed_def g' gpu_forward_def)
    next
      case False
      then have ne: "\<not> (pixel_x a = gpu_x g \<and> pixel_y a = gpu_y g)" using pixel_of [OF xy] by simp
      have "gpu_passed g' a = gpu_passed g a"
        using ne g(2) by (auto simp: gpu_passed_def g')
      then show ?thesis using False
        unfolding fb' gpu_paint_def cov by (simp add: fb gpu_paint_def)
    qed
  qed
qed

lemma gpu_forward_advance:
  assumes g: "gpu_forward g" "gpu_phase g = GPH_ADVANCE" and a: "gpu_covers g a"
  shows "gpu_busy (gpu_advance g) \<Longrightarrow> gpu_forward (gpu_advance g)"
    and "gpu_covers (gpu_advance g) = gpu_covers g"
    and "gpu_busy (gpu_advance g) \<Longrightarrow> gpu_passed (gpu_advance g) a = gpu_passed g a"
    and "\<not> gpu_busy (gpu_advance g) \<Longrightarrow> gpu_passed g a"
proof -
  note s = gpu_advance_def gpu_busy_def Let_def
  have f: "gpu_scan_ok g" "gpu_step g = 1" "gpu_p g GP_OP \<noteq> GPU_LINE" "gpu_p g GP_OP \<noteq> GPU_BLIT"
    "\<not> gpu_command_tick g" using g by (auto simp: gpu_forward_def)
  have a': "gpu_lo g \<le> pixel_x a" "pixel_x a < gpu_hi g" "pixel_y a < gpu_bottom g"
    using a by (auto simp: gpu_covers_def)
  show "gpu_covers (gpu_advance g) = gpu_covers g"
    by (auto simp: fun_eq_iff gpu_covers_def gpu_covered_def s)
  show "gpu_forward (gpu_advance g)" if b: "gpu_busy (gpu_advance g)"
    using gpu_advance_scan [OF f(3,1) b] b f(2-5) by (simp add: gpu_forward_def) (simp add: s)
  show "gpu_passed (gpu_advance g) a = gpu_passed g a" if b: "gpu_busy (gpu_advance g)"
    using b f a' g(2) by (auto simp: s gpu_passed_def gpu_scan_ok_def split: if_splits)
  show "gpu_passed g a" if "\<not> gpu_busy (gpu_advance g)"
    using that f a' g(2) by (auto simp: s gpu_passed_def split: if_splits)
qed

text \<open>A run of \<open>n\<close> ticks with nothing else touching the memory.\<close>

fun gpu_run :: "bytes \<Rightarrow> u32 \<Rightarrow> u32 \<Rightarrow> u32 \<Rightarrow> nat \<Rightarrow> gpu_device \<times> bytes \<Rightarrow> gpu_device \<times> bytes" where
  "gpu_run ram ram_size ws we 0 (g, fb) = (g, fb)"
| "gpu_run ram ram_size ws we (Suc n) (g, fb) =
     gpu_run ram ram_size ws we n (gpu_tick g ram ram_size fb False ws we)"

lemma gpu_forward_inv: "gpu_forward g \<Longrightarrow> gpu_inv ram_size g"
  by (auto simp: gpu_forward_def gpu_inv_def gpu_running_def gpu_scan_ok_def)

lemma gpu_forward_cycles:
  "gpu_forward (g\<lparr>gpu_cycles := c\<rparr>) = gpu_forward g"
  "gpu_passed (g\<lparr>gpu_cycles := c\<rparr>) = gpu_passed g"
  "gpu_paint (g\<lparr>gpu_cycles := c\<rparr>) S fb = gpu_paint g S fb"
  by (simp_all add: fun_eq_iff gpu_forward_def gpu_scan_ok_def gpu_busy_def gpu_covered_def gpu_passed_def
      gpu_paint_def Let_def)

lemma gpu_forward_tick:
  assumes g: "gpu_forward g" and fb: "fb = gpu_paint g (gpu_passed g) fb0"
    and r: "gpu_tick g ram ram_size fb False ws we = (g', fb')"
  shows "(gpu_forward g' \<and> fb' = gpu_paint g' (gpu_passed g') fb0 \<and> gpu_covers g' = gpu_covers g \<and> gpu_p g' = gpu_p g) \<or>
         (gpu_status g' = GPU_DONE \<and> fb' = gpu_paint g (\<lambda>_. True) fb0)"
proof -
  define h where "h = g\<lparr>gpu_cycles := gpu_cycles g + 1\<rparr>"
  have h: "gpu_forward h" "fb = gpu_paint h (gpu_passed h) fb0" "gpu_covers h = gpu_covers g" "gpu_p h = gpu_p g"
    and ph: "gpu_phase h = gpu_phase g" and nb: "gpu_busy g" "\<not> gpu_command_tick g"
    using g fb by (simp_all add: h_def gpu_forward_cycles) (simp_all add: gpu_forward_def)
  from g consider "gpu_phase g = GPH_SCAN" | "gpu_phase g = GPH_WRITE" | "gpu_phase g = GPH_ADVANCE"
    by (auto simp: gpu_forward_def)
  then show ?thesis
  proof cases
    case 1
    then have "g' = gpu_scan h" "fb' = fb" using r nb ph by (simp_all add: gpu_tick_def Let_def flip: h_def)
    moreover note scan = gpu_forward_scan [OF h(1), unfolded ph, OF 1]
    moreover have "fb = gpu_paint (gpu_scan h) (gpu_passed (gpu_scan h)) fb0"
      using h(2) gpu_paint_cong [where fb = fb0, OF scan(2,3) scan(4)] by simp
    ultimately show ?thesis using h(3,4) by simp
  next
    case 2
    then have w: "gpu_transfer h ram fb False = (g', fb')" and "gpu_phase h = GPH_WRITE"
      using r nb ph by (simp_all add: gpu_tick_def Let_def flip: h_def)
    from gpu_forward_write [OF h(1) this(2) h(2) w] h(3,4) show ?thesis by simp
  next
    case 3
    then have e: "g' = gpu_advance h" "fb' = fb" using r nb ph by (simp_all add: gpu_tick_def Let_def flip: h_def)
    note adv = gpu_forward_advance [OF h(1), unfolded ph, OF 3]
    have cov: "gpu_covers (gpu_advance h) = gpu_covers h"
      by (auto simp: fun_eq_iff gpu_covers_def gpu_covered_def gpu_advance_def Let_def)
    show ?thesis
    proof (cases "gpu_busy (gpu_advance h)")
      case True
      have "gpu_forward (gpu_advance h)"
        using gpu_advance_scan [of h] True h(1) by (simp add: gpu_forward_def) (simp add: gpu_advance_def Let_def)
      moreover have "fb = gpu_paint (gpu_advance h) (gpu_passed (gpu_advance h)) fb0"
        by (subst h(2)) (rule gpu_paint_cong [OF cov _ adv(3) [OF _ True], symmetric], simp_all)
      ultimately show ?thesis using e cov h(3,4) by simp
    next
      case False
      then have "fb = gpu_paint h (\<lambda>_. True) fb0"
        by (subst h(2)) (rule gpu_paint_cong, use adv(4) in simp_all)
      moreover have "gpu_status (gpu_advance h) = GPU_DONE"
        using False by (auto simp: gpu_advance_def gpu_busy_def Let_def split: if_splits)
      moreover have "gpu_paint h (\<lambda>_. True) fb0 = gpu_paint g (\<lambda>_. True) fb0"
        using h(3,4) by (rule gpu_paint_cong) simp
      ultimately show ?thesis using e by simp
    qed
  qed
qed

lemma gpu_forward_run:
  "gpu_forward g \<Longrightarrow> fb = gpu_paint g (gpu_passed g) fb0 \<Longrightarrow>
   \<exists>n g'. gpu_run ram ram_size ws we n (g, fb) = (g', gpu_paint g (\<lambda>_. True) fb0) \<and> gpu_status g' = GPU_DONE"
proof (induction "gpu_work g" arbitrary: g fb rule: less_induct)
  case less
  obtain g' fb' where r: "gpu_tick g ram ram_size fb False ws we = (g', fb')" by (cases "gpu_tick g ram ram_size fb False ws we")
  have "gpu_busy g" using less.prems by (simp add: gpu_forward_def)
  then have w: "gpu_work g' < gpu_work g"
    using gpu_tick_work [OF gpu_forward_inv [OF less.prems(1)], of ram ram_size fb ws we] r by simp
  from gpu_forward_tick [OF less.prems r] show ?case
  proof
    assume a: "gpu_forward g' \<and> fb' = gpu_paint g' (gpu_passed g') fb0 \<and> gpu_covers g' = gpu_covers g \<and> gpu_p g' = gpu_p g"
    then obtain n g'' where n: "gpu_run ram ram_size ws we n (g', fb') = (g'', gpu_paint g' (\<lambda>_. True) fb0)"
      "gpu_status g'' = GPU_DONE"
      using less.hyps [OF w] by blast
    from a have "gpu_covers g' = gpu_covers g" "gpu_p g' = gpu_p g" by simp_all
    then have "gpu_paint g' (\<lambda>_. True) fb0 = gpu_paint g (\<lambda>_. True) fb0" by (rule gpu_paint_cong) simp
    then have "gpu_run ram ram_size ws we (Suc n) (g, fb) = (g'', gpu_paint g (\<lambda>_. True) fb0)"
      using n r by simp
    then show ?thesis using n(2) by blast
  next
    assume "gpu_status g' = GPU_DONE \<and> fb' = gpu_paint g (\<lambda>_. True) fb0"
    then have "gpu_run ram ram_size ws we (Suc 0) (g, fb) = (g', gpu_paint g (\<lambda>_. True) fb0)"
      using r by simp
    then show ?thesis using \<open>gpu_status g' = GPU_DONE \<and> _\<close> by blast
  qed
qed

lemma gpu_start_forward:
  assumes "gpu_rect_ok h" "gpu_step h = 1" "gpu_busy h" "\<not> gpu_command_tick h"
    and "gpu_p h GP_OP \<noteq> GPU_LINE" "gpu_p h GP_OP \<noteq> GPU_BLIT"
  shows "\<exists>n g'. gpu_run ram ram_size ws we n (gpu_start_scan h, fb) = (g', gpu_paint h (\<lambda>_. True) fb) \<and>
           gpu_status g' = GPU_DONE"
proof (cases "gpu_lo h \<ge> gpu_hi h \<or> gpu_top h \<ge> gpu_bottom h")
  case True
  then have "gpu_paint h (\<lambda>_. True) fb = fb" by (auto simp: gpu_paint_def gpu_covers_def fun_eq_iff)
  moreover have "gpu_run ram ram_size ws we 0 (gpu_start_scan h, fb) = (gpu_finish h, fb)"
    using True by (simp add: gpu_start_scan_def)
  moreover have "gpu_status (gpu_finish h) = GPU_DONE" by (simp add: gpu_finish_def)
  ultimately show ?thesis by metis
next
  case False
  let ?s = "gpu_start_scan h"
  have s: "?s = h\<lparr>gpu_x := gpu_lo h, gpu_y := gpu_top h, gpu_phase := GPH_SCAN\<rparr>"
    using False assms(2) by (simp add: gpu_start_scan_def)
  have fwd: "gpu_forward ?s"
    using False assms by (simp add: s gpu_forward_def gpu_scan_ok_def gpu_rect_ok_def gpu_busy_def)
  have cov: "gpu_covers ?s = gpu_covers h" by (simp add: s)
  have "fb = gpu_paint ?s (gpu_passed ?s) fb"
    by (auto simp: fun_eq_iff gpu_paint_def cov) (auto simp: s gpu_passed_def gpu_covers_def)
  from gpu_forward_run [OF fwd this, of ram ram_size ws we]
  show ?thesis using gpu_paint_cong [where fb = fb, OF cov] by simp
qed

definition fill_spec :: "(u32 \<Rightarrow> u32) \<Rightarrow> bytes \<Rightarrow> bytes" where
  "fill_spec p fb = (\<lambda>a.
     if uint a < 76800 \<and> sint (p GP_X0) \<le> pixel_x a \<and> pixel_x a < sint (p GP_X0) + uint (p GP_W) \<and>
        sint (p GP_Y0) \<le> pixel_y a \<and> pixel_y a < sint (p GP_Y0) + uint (p GP_H)
     then ucast (p GP_COLOR) else fb a)"

lemma pixel_xy_bounds: "0 \<le> pixel_x a" "pixel_x a < 320" "0 \<le> pixel_y a" "pixel_y a < 240 \<longleftrightarrow> uint a < 76800"
  by (auto simp: pixel_x_def pixel_y_def pos_imp_zdiv_nonneg_iff)

lemma gpu_fill_run:
  assumes g: "gpu_busy g" "gpu_phase g = GPH_SETUP" "\<not> gpu_command_tick g"
    and op: "gpu_p g GP_OP = GPU_FILL" and valid: "gpu_valid (gpu_p g) ram_size ws we"
  shows "\<exists>n g'. gpu_run ram ram_size ws we n (g, fb) = (g', fill_spec (gpu_p g) fb) \<and> gpu_status g' = GPU_DONE"
proof -
  let ?p = "gpu_p g"
  define h where "h = g\<lparr>gpu_cycles := gpu_cycles g + 1, gpu_ax := sint (?p GP_X0), gpu_ay := sint (?p GP_Y0),
     gpu_bx := sint (?p GP_X1), gpu_by := sint (?p GP_Y1), gpu_cx := sint (?p GP_X2), gpu_cy := sint (?p GP_Y2)\<rparr>"
  define c where "c = gpu_clip_rect h"
  have wh: "sint (?p GP_W) = uint (?p GP_W)" "sint (?p GP_H) = uint (?p GP_H)"
    using valid op by (auto simp: gpu_valid_def Let_def intro: sint_small)
  have c: "gpu_p c = ?p" "gpu_step c = 1" "gpu_busy c" "\<not> gpu_command_tick c"
    "gpu_lo c = max 0 (sint (?p GP_X0))" "gpu_top c = max 0 (sint (?p GP_Y0))"
    "gpu_hi c = min 320 (sint (?p GP_X0) + uint (?p GP_W))" "gpu_bottom c = min 240 (sint (?p GP_Y0) + uint (?p GP_H))"
    using g op by (simp_all add: c_def h_def gpu_clip_rect_def gpu_busy_def wh Let_def)
  have "gpu_rect_ok c" unfolding c_def using op by (intro gpu_clip_rect_ok) (simp add: h_def)
  note run = gpu_start_forward [OF this c(2-4), unfolded c(1), of ram ram_size ws we fb]
  have tick: "gpu_tick g ram ram_size fb False ws we = (gpu_start_scan c, fb)"
    using g op valid
    by (simp add: gpu_tick_def gpu_setup_def gpu_setup_area_def c_def h_def Let_def)
  have "gpu_paint c (\<lambda>_. True) fb = fill_spec ?p fb"
    using op pixel_xy_bounds
    by (auto simp: fun_eq_iff gpu_paint_def fill_spec_def gpu_covers_def gpu_covered_def c Let_def)
  with run op obtain n g' where "gpu_run ram ram_size ws we n (gpu_start_scan c, fb) = (g', fill_spec ?p fb)"
    "gpu_status g' = GPU_DONE" by auto
  then have "gpu_run ram ram_size ws we (Suc n) (g, fb) = (g', fill_spec ?p fb)" using tick by simp
  with \<open>gpu_status g' = GPU_DONE\<close> show ?thesis by blast
qed

section \<open>Properties\<close>

text \<open>
  C5: a FILL job draws exactly the part of its rectangle that is on the screen, in its colour, changes
  no other byte of the framebuffer, and ends DONE. The job is run from the state START leaves, with
  any parameters the validation accepts and without memory stalls.
\<close>

theorem gpu_fill_draws_rectangle:
  assumes "gpu_busy g" "gpu_phase g = GPH_SETUP" "\<not> gpu_command_tick g"
    "gpu_p g GP_OP = GPU_FILL" "gpu_valid (gpu_p g) ram_size ws we"
  shows "\<exists>n g'. gpu_run ram ram_size ws we n (g, fb) = (g', fill_spec (gpu_p g) fb) \<and> gpu_status g' = GPU_DONE"
  using assms by (rule gpu_fill_run)

definition gpu_fill_example :: gpu_device where
  "gpu_fill_example = gpu_device_zero\<lparr>gpu_status := GPU_BUSY, gpu_phase := GPH_SETUP,
     gpu_p := (\<lambda>_. 0)(GP_OP := GPU_FILL, GP_COLOR := 7, GP_X0 := - 1, GP_W := 3, GP_H := 2)\<rparr>"

theorem gpu_fill_draws_rectangle_witness:
  "\<exists>n g'. gpu_run (\<lambda>_. 0) 16 0 0 n (gpu_fill_example, \<lambda>_. 0) =
     (g', fill_spec (gpu_p gpu_fill_example) (\<lambda>_. 0)) \<and> gpu_status g' = GPU_DONE"
  using gpu_fill_draws_rectangle [of gpu_fill_example 16 0 0 "\<lambda>_. 0" "\<lambda>_. 0"]
  by (simp add: gpu_fill_example_def gpu_device_zero_def gpu_busy_def gpu_valid_def gpu_coord_def Let_def)

end
