(* ===== verification/G3dWork.thy ===== *)
theory G3dWork
  imports G3dInv
begin

text \<open>
  Termination of the 3D engine's jobs: a measure of the ticks left that every stall-free tick of a
  busy engine decreases, whatever program the shader holds and whatever the memory contains.
\<close>

section \<open>Work left in a job\<close>

text \<open>
  The ticks a job still needs at most, without memory stalls: a triangle takes two ticks of setup,
  eight divisions of 35 and at most four ticks for each pixel; a vertex one check and three
  divisions; a batch its shader run, which \<open>limit\<close> bounds by 65535 instructions.
\<close>

definition tri_work :: "g3d_device \<Rightarrow> nat" where
  "tri_work d = (unat (g3d_tcount d) - unat (g3d_index d) - 1) * 307482 + 1"

definition pixels_left :: "g3d_device \<Rightarrow> nat" where
  "pixels_left d = nat ((g3d_bottom d - g3d_y d) * (g3d_right d - g3d_left d + 1) + (g3d_right d - g3d_x d) + 1)"

definition vert_work :: "g3d_device \<Rightarrow> nat" where
  "vert_work d = unat (g3d_tcount d) * 307482 + 1 + (7 - unat (g3d_batch d)) * 65961"

definition phase_work :: "g3d_device \<Rightarrow> nat" where
  "phase_work d =
     (case g3d_phase d of
        G3D_PH_IDLE \<Rightarrow> 0
      | G3D_PH_VALIDATE \<Rightarrow> 20206602
      | G3D_PH_INDEX \<Rightarrow> vert_work d + 65961 + (unat (g3d_tcount d) - unat (g3d_index d))
      | G3D_PH_BATCH \<Rightarrow> vert_work d + 65961
      | G3D_PH_EXEC \<Rightarrow> vert_work d + 425 + (unat (g3d_limit d) - unat (g3d_count d))
      | G3D_PH_VCHECK \<Rightarrow> vert_work d + (4 - unat (g3d_lane d)) * 106
      | G3D_PH_DIVIDE \<Rightarrow>
          if g3d_div_setup d then tri_work d + 307200 + (7 - unat (g3d_div_k d)) * 35 + unat (g3d_div_left d)
          else vert_work d + (3 - unat (g3d_lane d)) * 106 + (2 - unat (g3d_div_k d)) * 35 + unat (g3d_div_left d)
      | G3D_PH_FETCH \<Rightarrow> tri_work d + 307482
      | G3D_PH_AREA \<Rightarrow> tri_work d + 307481
      | G3D_PH_TEST \<Rightarrow> tri_work d + 4 * pixels_left d
      | G3D_PH_ZREAD \<Rightarrow> tri_work d + 4 * pixels_left d - 1
      | G3D_PH_ZWRITE \<Rightarrow> tri_work d + 4 * pixels_left d - 2
      | G3D_PH_PWRITE \<Rightarrow> tri_work d + 4 * pixels_left d - 3
      | G3D_PH_FINISH \<Rightarrow> 1
      | G3D_PH_CLEAR \<Rightarrow> 38401 - unat (g3d_index d))"





















lemma phase_work_counters [simp]:
  "phase_work (d\<lparr>g3d_cycles := c\<rparr>) = phase_work d" "phase_work (d\<lparr>g3d_command_tick := b\<rparr>) = phase_work d"
  by (cases "g3d_phase d"; simp add: phase_work_def vert_work_def tri_work_def pixels_left_def)+

lemma command_tick_frame [simp]:
  "g3d_command_tick (next_triangle d) = g3d_command_tick d" "g3d_command_tick (next_vertex d) = g3d_command_tick d"
  "g3d_command_tick (next_pixel d) = g3d_command_tick d" "g3d_command_tick (start_divides d s den) = g3d_command_tick d"
  "g3d_command_tick (g3d_fault d e) = g3d_command_tick d"
  by (simp_all add: next_triangle_def next_vertex_def next_pixel_def start_divides_def g3d_fault_def Let_def)









section \<open>Properties\<close>







end
