(* ===== verification/Spec2Isabelle.thy ===== *)
theory Spec2Isabelle
  imports Access Line Muldiv GpuDraw G3dWork
begin

text \<open>
  \<^bold>\<open>Verification of the RV32 machine of tiny-processors and of the code that runs on it.\<close>

  \<^bold>\<open>The program.\<close> \<open>tools/rv32emu_core.c\<close> emulates an RV32IMAF machine with machine, supervisor and
  user mode: one hart, 16 MiB of RAM, PMP and Sv32, and behind a bus a console, a CLINT, a PLIC, an
  input queue, a virtio block device, a display with palette and framebuffer, a boot ROM and three
  engines, \<open>tools/rv32_simd4.c\<close>, \<open>tools/rv32_gpu.c\<close> and \<open>tools/rv32_g3d.c\<close>. A step of the machine
  samples the interrupt lines, takes an interrupt or executes an instruction, and ticks the engines; a
  run is steps up to a budget. \<open>programs/rv32\<close> is what runs on it: a multiply and divide runtime, an
  operating system (\<open>os\<close>: kernel, drivers, file system, user library, line editor, shell) and programs.

  \<^bold>\<open>How it is modelled.\<close> A C function is a HOL function of the same name with its state as an
  argument and a result; a struct is a record, an enumeration a datatype, a machine integer a word of
  its width. An array is a function of its index; that no index leaves the array is a property of its
  own (\<open>arrays_kept\<close>, \<open>gpu_tick_memory_safe\<close>, \<open>g3d_tick_memory_safe\<close>, \<open>run_memory_safe\<close>). A function
  that may not return gives an option. Errors are values: \<open>Inl\<close> a fault, \<open>Inr\<close> a result. A line of a
  switch is an \<open>if\<close> of the model in the same order. What the host does (standard input, files, memory) is
  a list of results in the state. SoftFloat is a parameter, the record \<open>softfloat\<close>: the theorems hold
  for every such record.

  \<^bold>\<open>The theories.\<close>
  \<^item> \<open>Prelude\<close>: the types, byte arrays and word lemmas.
  \<^item> \<open>Muldiv\<close> (\<open>rt/muldiv.c\<close>): shift-and-add multiplication and restoring division compute the results of
    the M extension; \<open>muldiv_agrees_with_runtime\<close> below relates them to the emulated instructions.
  \<^item> \<open>Simd4\<close>, \<open>Gpu\<close>, \<open>GpuDraw\<close>, \<open>G3d\<close>, \<open>G3dInv\<close>, \<open>G3dWork\<close>: the engines, tick by tick. Their invariants,
    that their memory accesses stay in bounds, that jobs end (a measure that every stall-free tick
    decreases), what a FILL draws and what a SIMD STORE moves, and that the 3D engine's integers do not
    overflow and its RAM writes stay in the depth buffer it locked.
  \<^item> \<open>Machine\<close> (\<open>rv32emu_core.h\<close>): the state. \<open>Window\<close>: the contract of a device behind the bus, the locales
    \<open>load_window\<close> and \<open>device_window\<close>, which every device of the map interprets: \<open>Console\<close>, \<open>Clint\<close>, \<open>Plic\<close>,
    \<open>Input\<close>, \<open>Virtio\<close>, \<open>Display\<close>, \<open>Rom\<close>, and \<open>Bus\<close> with RAM, the engines and the region table.
  \<^item> \<open>Mmu\<close>: PMP, Sv32, loads and stores. \<open>Fp\<close> (\<open>rv32_fp.c\<close>): the floating-point adapter. \<open>Trap\<close>: traps,
    interrupts and CSRs. \<open>Exec\<close>: the instruction step.
  \<^item> \<open>Invariant\<close>, \<open>Run\<close>, \<open>Progress\<close>: the invariant of the machine, the host interface, that every machine
    a session reaches satisfies it, that runs return within their budget, that traps are precise, that
    locked PMP entries stay.
  \<^item> \<open>Delivery\<close>: the input ring as a bounded queue (locale \<open>bounded_queue\<close>), the PLIC's choice. \<open>Protect\<close>:
    PMP and Sv32 against specifications over intervals and page numbers. \<open>Access\<close>: load after store, trap
    and return, LR and SC.
  \<^item> \<open>Userlib\<close> (\<open>os/udecimal.c\<close>, \<open>os/ulib.c\<close>), \<open>Line\<close> (\<open>os/line.c\<close>): decimal text and parsing; the line
    editor hands over what the screen shows.

  \<^bold>\<open>Bounds.\<close> No model is cut off by a fuel argument. \<open>run_loop\<close> recurses on the steps left of the
  budget, as the code's loop does; the engines' measures are computed from the job. \<open>virtio_serve\<close>, whose
  loop ends when an index in guest memory is reached, is a \<open>partial_function\<close>: \<open>None\<close> is a call that does
  not return, and \<open>step_returns_unless_serving\<close> says that it is the only such loop of a step.

  \<^bold>\<open>Not modelled.\<close> The Verilog under \<open>rtl\<close>, the Python tools and the vendored sources of \<open>third_party\<close>
  are other programs. Of the emulator: reading the host's terminal, opening files and printing messages,
  which are results in the state, and the window and option parsing of \<open>rv32emu.c\<close> and \<open>rv32win.c\<close>, which are
  calls of host libraries. The self tests under \<open>programs/rv32\<close> (\<open>mmucheck.c\<close> and the like) are straight
  sequences of device accesses that print results.
\<close>

section \<open>The emulator's multiplier and the runtime's\<close>

lemma sint_min_u32: "sint (0x80000000 :: u32) = - 2147483648"
  by (simp add: sint_u32)

text \<open>
  C2: the instructions and the software runtime agree. MUL, DIV, DIVU, REM and REMU as the emulator
  executes them (\<open>muldiv\<close>) return for every pair of operands what \<open>programs/rv32/rt/muldiv.c\<close>
  computes with shifts, adds and subtractions, the zero divisor and the signed overflow included.
\<close>

theorem muldiv_agrees_with_runtime:
  "muldiv 0 a b = rv32_mul a b \<and> muldiv 4 a b = rv32_div a b \<and> muldiv 5 a b = rv32_divu a b \<and>
   muldiv 6 a b = rv32_rem a b \<and> muldiv 7 a b = rv32_remu a b"
proof -
  have overflow: "muldiv 4 0x80000000 0xffffffff = rv32_div 0x80000000 0xffffffff"
    "muldiv 6 0x80000000 0xffffffff = rv32_rem 0x80000000 0xffffffff"
    by (simp_all add: muldiv_def rv32_div_signed rv32_rem_signed sint_u32 signed_divide_int_def signed_modulo_int_def)
  have zero: "muldiv 4 a 0 = rv32_div a 0" "muldiv 6 a 0 = rv32_rem a 0"
    by (simp_all add: muldiv_def rv32_div_def rv32_rem_def)
  have "muldiv 4 a b = rv32_div a b" "muldiv 6 a b = rv32_rem a b"
    using overflow zero by (cases "b = 0"; cases "a = 0x80000000 \<and> b = 0xffffffff";
        auto simp: muldiv_def rv32_div_signed rv32_rem_signed Let_def)+
  then show ?thesis
    by (simp add: muldiv_def rv32_mul_def rv32_mul_loop_eq rv32_divu_def rv32_remu_def udivmod_eq)
qed

end
